(* ===== verification/Prelude.thy ===== *)
theory Prelude
  imports Main "HOL-Library.Word" "HOL-Library.Code_Target_Nat"
begin

text \<open>
  Shared vocabulary of the librdf node model: bytes and C strings, the
  memory primitives the node code calls (\<open>strlen\<close>, \<open>strncpy\<close>,
  \<open>strcpy\<close>, \<open>memcpy\<close>), the big-endian header byte helpers of the codec
  written with the masks and shifts of \<open>src/src/rdf_node.c\<close>, and the
  outcome type of an operation that takes the world's node mutex.

  Memory convention: a \<open>bytes\<close> value that stands for the memory a
  \<open>char*\<close> points to is followed by zero bytes.  A C string is read up to
  its first NUL byte (\<open>cstr\<close>); a read past the end of the list reads 0
  (\<open>byte_at\<close>).  This makes the string helpers total without hiding the
  cases where the source relies on a terminator.
\<close>

unbundle bit_operations_syntax

named_theorems cstring_simps "facts about the C string helpers"
named_theorems codec_simps "facts used to evaluate the node codec"
named_theorems world_simps "facts used to evaluate the node world operations"

type_synonym byte = "8 word"
type_synonym bytes = "byte list"
type_synonym ptr = nat

section \<open>Byte strings\<close>

definition bstr :: "string \<Rightarrow> bytes" where
  "bstr s = map of_char s"

definition nul_free :: "bytes \<Rightarrow> bool" where
  "nul_free s \<longleftrightarrow> list_all (\<lambda>c. c \<noteq> 0) s"

definition cstr :: "bytes \<Rightarrow> bytes" where
  "cstr s = takeWhile (\<lambda>c. c \<noteq> 0) s"

definition strlen :: "bytes \<Rightarrow> nat" where
  "strlen s = length (cstr s)"

text \<open>\<open>!*s\<close>: the string is empty (its first byte is NUL).\<close>

definition c_empty :: "bytes \<Rightarrow> bool" where
  "c_empty s \<longleftrightarrow> (case s of [] \<Rightarrow> True | c # _ \<Rightarrow> c = 0)"

definition byte_at :: "bytes \<Rightarrow> nat \<Rightarrow> byte" where
  "byte_at s i = (if i < length s then s ! i else 0)"

text \<open>
  \<open>strncpy(dst, src, n)\<close> writes exactly \<open>n\<close> bytes: the source up to its
  first NUL (at most \<open>n\<close> bytes), then NUL padding.
\<close>

definition strncpy :: "bytes \<Rightarrow> nat \<Rightarrow> bytes" where
  "strncpy src n = (let p = take n (cstr src) in p @ replicate (n - length p) 0)"

text \<open>Writing \<open>s\<close> into the buffer \<open>b\<close> at offset \<open>off\<close>.\<close>

definition write_at :: "bytes \<Rightarrow> nat \<Rightarrow> bytes \<Rightarrow> bytes" where
  "write_at b off s = take off b @ s @ drop (off + length s) b"

text \<open>\<open>strcpy(dst + off, src)\<close>: the source up to and with its terminator.\<close>

definition strcpy_at :: "bytes \<Rightarrow> nat \<Rightarrow> bytes \<Rightarrow> bytes" where
  "strcpy_at b off src = write_at b off (cstr src @ [0])"

section \<open>Header bytes\<close>

text \<open>The largest \<open>size_t\<close> (64-bit build).\<close>

definition SIZE_MAX :: nat where
  "SIZE_MAX = 2 ^ 64 - 1"

text \<open>
  \<open>shift_mask k n\<close> is the C expression
  \<open>(n & (0xff << 8k)) >> 8k\<close> on a \<open>size_t\<close>, stored into an
  \<open>unsigned char\<close>: byte \<open>k\<close> (counted from the least significant one)
  of the length \<open>n\<close>.
\<close>

definition shift_mask :: "nat \<Rightarrow> nat \<Rightarrow> byte" where
  "shift_mask k n =
     ucast (drop_bit (8 * k) (word_of_nat n AND push_bit (8 * k) 0xFF :: 64 word))"

text \<open>
  \<open>int_of_bytes2 a b\<close> is the decoder's \<open>(a << 8) | b\<close>: both bytes are
  promoted to (32-bit) \<open>int\<close> before the shift.
\<close>

definition int_of_bytes2 :: "byte \<Rightarrow> byte \<Rightarrow> 32 word" where
  "int_of_bytes2 a b = push_bit 8 (ucast a) OR ucast b"

section \<open>Outcome of an operation on the world\<close>

text \<open>
  An operation that locks the world's node mutex either returns (a value and
  the new state) or finds the mutex already held.  The node mutex is a
  default (non-recursive) pthread mutex, so in a single thread a second lock
  never returns: \<open>Blocked\<close>.  \<open>Undef\<close> is an outcome with undefined
  behaviour in C (a heap buffer written past its allocation).
\<close>

datatype ('a, 's) outcome = Ret 'a 's | Blocked | Undef

text \<open>Sequencing of two operations: the second runs on the state the first returns.\<close>

definition obind :: "('a, 's) outcome \<Rightarrow> ('a \<Rightarrow> 's \<Rightarrow> ('b, 's) outcome) \<Rightarrow> ('b, 's) outcome" where
  "obind m f = (case m of Ret a s \<Rightarrow> f a s | Blocked \<Rightarrow> Blocked | Undef \<Rightarrow> Undef)"

text \<open>
  \<open>strncmp(a, b, n) == 0\<close>: the first \<open>n\<close> bytes agree, where the
  comparison stops at a NUL both strings have at the same place.
\<close>

definition strncmp_eq :: "bytes \<Rightarrow> bytes \<Rightarrow> nat \<Rightarrow> bool" where
  "strncmp_eq a b n \<longleftrightarrow> take n (cstr a @ [0]) = take n (cstr b @ [0])"

section \<open>Lemmas on C strings and buffers\<close>

lemma nul_free_cstr [cstring_simps]: "nul_free s \<Longrightarrow> cstr s = s"
  by (induction s) (auto simp: nul_free_def cstr_def)

lemma nul_free_strlen [cstring_simps]: "nul_free s \<Longrightarrow> strlen s = length s"
  by (simp add: strlen_def nul_free_cstr)

lemma nul_free_append [simp]: "nul_free (s @ t) \<longleftrightarrow> nul_free s \<and> nul_free t"
  by (simp add: nul_free_def)

lemma nul_free_take [intro]: "nul_free s \<Longrightarrow> nul_free (take n s)"
  by (auto simp: nul_free_def list_all_iff dest: in_set_takeD)

lemma cstr_append_nul [cstring_simps]: "nul_free s \<Longrightarrow> cstr (s @ 0 # t) = s"
  by (induction s) (auto simp: nul_free_def cstr_def)

lemma cstr_nul_free [intro]: "nul_free (cstr s)"
  by (induction s) (auto simp: nul_free_def cstr_def)

lemma length_cstr_le: "length (cstr s) \<le> length s"
  by (simp add: cstr_def length_takeWhile_le)

lemma length_strncpy [simp]: "length (strncpy src n) = n"
  by (simp add: strncpy_def Let_def)

lemma strncpy_nul_free [cstring_simps]: "nul_free s \<Longrightarrow> strncpy s (length s) = s"
  by (simp add: strncpy_def nul_free_cstr)

lemma strncpy_nul_free_prefix [cstring_simps]:
  "nul_free s \<Longrightarrow> n \<le> length s \<Longrightarrow> strncpy s n = take n s"
  by (simp add: strncpy_def nul_free_cstr)

lemma length_write_at [simp]:
  "off + length s \<le> length b \<Longrightarrow> length (write_at b off s) = length b"
  by (simp add: write_at_def)

lemma write_at_whole [simp]: "length s = length b \<Longrightarrow> write_at b 0 s = s"
  by (simp add: write_at_def)

lemma take_write_at [simp]:
  "off \<le> length b \<Longrightarrow> take off (write_at b off s) = take off b"
  by (simp add: write_at_def)

lemma drop_write_at:
  "off \<le> length b \<Longrightarrow> drop off (write_at b off s) = s @ drop (off + length s) b"
  by (simp add: write_at_def)

lemma write_at_zero: "write_at b 0 P = P @ drop (length P) b"
  by (simp add: write_at_def)

text \<open>
  A buffer of which a prefix \<open>P\<close> has been written: the next write at
  offset \<open>length P\<close> extends the prefix.
\<close>

lemma write_at_prefix:
  "off = length P \<Longrightarrow> write_at (P @ drop (length P) b) off y = (P @ y) @ drop (length (P @ y)) b"
  by (simp add: write_at_def add.commute)

lemma strcpy_at_prefix:
  "nul_free s \<Longrightarrow> off = length P \<Longrightarrow>
   strcpy_at (P @ drop (length P) b) off s = (P @ s @ [0]) @ drop (length (P @ s @ [0])) b"
  by (simp add: strcpy_at_def nul_free_cstr write_at_prefix)

lemma nul_free_replicate [simp]: "nul_free (replicate n c) \<longleftrightarrow> n = 0 \<or> c \<noteq> 0"
  by (induction n) (auto simp: nul_free_def)

lemma nul_free_Nil [simp]: "nul_free []"
  by (simp add: nul_free_def)

lemma bstr_nul_free [simp]: "nul_free (bstr s) \<longleftrightarrow> (\<forall>c \<in> set s. of_char c \<noteq> (0 :: byte))"
  by (simp add: bstr_def nul_free_def list_all_iff)

section \<open>Lemmas on header bytes\<close>

lemma shift_mask_eq: "k < 8 \<Longrightarrow> shift_mask k n = word_of_nat (drop_bit (8 * k) n)"
  unfolding shift_mask_def
proof (rule bit_word_eqI)
  fix i assume k: "k < 8" and i: "i < LENGTH(8)"
  have "(0xFF :: 64 word) = mask 8" by (simp add: mask_eq_exp_minus_1)
  then have m: "bit (0xFF :: 64 word) j \<longleftrightarrow> j < 8" for j
    unfolding \<open>(0xFF :: 64 word) = mask 8\<close> by (auto simp: bit_mask_iff)
  have "bit (mask 8 :: int) j \<longleftrightarrow> j < 8" "bit (mask 8 :: nat) j \<longleftrightarrow> j < 8" for j
    by (simp_all add: bit_mask_iff)
  then have m2: "bit (255 :: int) j \<longleftrightarrow> j < 8" "bit (255 :: nat) j \<longleftrightarrow> j < 8" for j
    by (simp_all add: mask_eq_exp_minus_1)
  show "bit (ucast (drop_bit (8 * k) (word_of_nat n AND push_bit (8 * k) 0xFF :: 64 word)) :: byte) i
        \<longleftrightarrow> bit (word_of_nat (drop_bit (8 * k) n) :: byte) i"
    using k i by (auto simp: bit_simps m m2 bit_word_ucast_iff)
qed

lemma unat_ucast_byte: "unat (ucast (b :: byte) :: 'a::len word) = unat b" if "8 \<le> LENGTH('a)"
proof -
  have "unat b < 2 ^ 8" using unsigned_less[of b, where ?'a = nat] by simp
  also have "(2::nat) ^ 8 \<le> 2 ^ LENGTH('a)" using that by (rule power_increasing) simp
  finally show ?thesis by (simp add: unsigned_ucast_eq take_bit_nat_eq_self_iff)
qed

lemma unat_int_of_bytes2: "unat (int_of_bytes2 a b) = unat a * 256 + unat b"
proof -
  have "int_of_bytes2 a b = push_bit 8 (ucast a) + ucast b"
    unfolding int_of_bytes2_def
    by (rule disjunctive_add[symmetric]) (auto simp: bit_simps bit_word_ucast_iff dest: bit_imp_le_length)
  moreover have "unat (push_bit 8 (ucast a :: 32 word)) = unat a * 256"
  proof -
    have a: "unat a < 256" using unsigned_less[of a, where ?'a = nat] by simp
    then have "take_bit 32 (unat a) = unat a" by (simp add: take_bit_nat_eq_self_iff)
    with a show ?thesis
      by (simp add: push_bit_eq_mult unat_word_ariths unsigned_ucast_eq)
  qed
  moreover have "unat (ucast b :: 32 word) = unat b" by (rule unat_ucast_byte) simp
  moreover have "unat a * 256 + unat b < 2 ^ 32"
    using unsigned_less[of a, where ?'a = nat] unsigned_less[of b, where ?'a = nat] by simp
  ultimately show ?thesis by (simp add: unat_add_lem[THEN iffD1])
qed

section \<open>Further C string lemmas\<close>

lemma obind_simps [simp]:
  "obind (Ret a s) f = f a s" "obind Blocked f = Blocked" "obind Undef f = Undef"
  by (simp_all add: obind_def)

lemma strncpy_append_nul [cstring_simps]: "nul_free s \<Longrightarrow> strncpy (s @ 0 # t) (length s) = s"
  by (simp add: strncpy_def cstr_append_nul)

lemma unat_byte_of_nat: "n \<le> 255 \<Longrightarrow> unat (word_of_nat n :: byte) = n"
  by (simp add: unat_of_nat)

lemma c_empty_nul_free: "nul_free s \<Longrightarrow> s \<noteq> [] \<Longrightarrow> \<not> c_empty (s @ t)"
  by (cases s) (simp_all add: c_empty_def nul_free_def)

lemma cstr_idem [simp]: "cstr (cstr s) = cstr s"
  by (simp add: cstr_def takeWhile_idem)

end
