(* ===== verification/Node.thy ===== *)
theory Node
  imports Prelude
begin

text \<open>
  The node value of \<open>src/src/rdf_node.c\<close>: the \<open>librdf_node\<close> struct
  (a type tag, a usage count and a union of the three variants) and its
  read-only accessors (\<open>librdf_node_get_uri\<close>, the literal getters,
  \<open>librdf_node_get_li_ordinal\<close>, the blank identifier getters, the type
  predicates, \<open>librdf_node_equals\<close>, \<open>librdf_node_get_digest\<close> and the
  debug writer \<open>librdf_node_write\<close>).

  A URI object is represented by its string: the URI module (not under
  \<open>src/\<close>) interns URIs per world, so two URI objects are the same pointer
  exactly when their strings are equal, which is what the resource table's
  pointer key relies on.  The accessors are modelled for the default build,
  where \<open>LIBRDF_ASSERT_RETURN\<close> is compiled in and returns its value when
  the node has the wrong type.
\<close>

unbundle bit_operations_syntax

section \<open>Data\<close>

type_synonym uri = bytes

text \<open>\<open>librdf_node_type\<close> (redland.h): UNKNOWN = 0, RESOURCE = 1, LITERAL = 2, BLANK = 4.\<close>

datatype librdf_node_type =
    LIBRDF_NODE_TYPE_UNKNOWN
  | LIBRDF_NODE_TYPE_RESOURCE
  | LIBRDF_NODE_TYPE_LITERAL
  | LIBRDF_NODE_TYPE_BLANK

text \<open>
  The literal arm of the union.  \<open>lit_string\<close> holds the \<open>string_len\<close>
  bytes of the allocated string (its terminator is implicit), \<open>lit_key\<close>
  and \<open>lit_size\<close> the cached encoding used as the literal table key.
\<close>

record literal_value =
  lit_string :: bytes
  string_len :: nat
  xml_language :: "bytes option"
  xml_language_len :: nat
  datatype_uri :: "uri option"
  lit_key :: "bytes option"
  lit_size :: nat

text \<open>The union with its type tag.  A blank identifier's \<open>identifier_len\<close> is its length.\<close>

datatype node_value =
    Resource uri
  | Literal literal_value
  | Blank bytes

record librdf_node =
  usage :: int
  node_data :: node_value

definition LIBRDF_RS_XMLLiteral_URI :: uri where
  "LIBRDF_RS_XMLLiteral_URI = bstr ''http://www.w3.org/1999/02/22-rdf-syntax-ns#XMLLiteral''"

section \<open>Accessors\<close>

definition librdf_node_get_type :: "librdf_node \<Rightarrow> librdf_node_type" where
  "librdf_node_get_type n =
     (case node_data n of
        Resource _ \<Rightarrow> LIBRDF_NODE_TYPE_RESOURCE
      | Literal _ \<Rightarrow> LIBRDF_NODE_TYPE_LITERAL
      | Blank _ \<Rightarrow> LIBRDF_NODE_TYPE_BLANK)"

definition librdf_node_is_resource :: "librdf_node \<Rightarrow> bool" where
  "librdf_node_is_resource n \<longleftrightarrow> librdf_node_get_type n = LIBRDF_NODE_TYPE_RESOURCE"

definition librdf_node_is_literal :: "librdf_node \<Rightarrow> bool" where
  "librdf_node_is_literal n \<longleftrightarrow> librdf_node_get_type n = LIBRDF_NODE_TYPE_LITERAL"

definition librdf_node_is_blank :: "librdf_node \<Rightarrow> bool" where
  "librdf_node_is_blank n \<longleftrightarrow> librdf_node_get_type n = LIBRDF_NODE_TYPE_BLANK"

definition librdf_node_get_uri :: "librdf_node \<Rightarrow> uri option" where
  "librdf_node_get_uri n = (case node_data n of Resource u \<Rightarrow> Some u | _ \<Rightarrow> None)"

definition librdf_node_get_literal_value :: "librdf_node \<Rightarrow> bytes option" where
  "librdf_node_get_literal_value n =
     (case node_data n of Literal l \<Rightarrow> Some (lit_string l) | _ \<Rightarrow> None)"

definition librdf_node_get_literal_value_as_counted_string ::
  "librdf_node \<Rightarrow> (bytes \<times> nat) option" where
  "librdf_node_get_literal_value_as_counted_string n =
     (case node_data n of Literal l \<Rightarrow> Some (lit_string l, string_len l) | _ \<Rightarrow> None)"

definition librdf_node_get_literal_value_language :: "librdf_node \<Rightarrow> bytes option" where
  "librdf_node_get_literal_value_language n =
     (case node_data n of Literal l \<Rightarrow> xml_language l | _ \<Rightarrow> None)"

definition librdf_node_get_literal_value_is_wf_xml :: "librdf_node \<Rightarrow> bool" where
  "librdf_node_get_literal_value_is_wf_xml n =
     (case node_data n of
        Literal l \<Rightarrow>
          (case datatype_uri l of
             None \<Rightarrow> False
           | Some u \<Rightarrow> u = LIBRDF_RS_XMLLiteral_URI)
      | _ \<Rightarrow> False)"

definition librdf_node_get_literal_value_datatype_uri :: "librdf_node \<Rightarrow> uri option" where
  "librdf_node_get_literal_value_datatype_uri n =
     (case node_data n of Literal l \<Rightarrow> datatype_uri l | _ \<Rightarrow> None)"

definition librdf_node_get_blank_identifier :: "librdf_node \<Rightarrow> bytes option" where
  "librdf_node_get_blank_identifier n = (case node_data n of Blank i \<Rightarrow> Some i | _ \<Rightarrow> None)"

definition librdf_node_get_counted_blank_identifier ::
  "librdf_node \<Rightarrow> (bytes \<times> nat) option" where
  "librdf_node_get_counted_blank_identifier n =
     (case node_data n of Blank i \<Rightarrow> Some (i, length i) | _ \<Rightarrow> None)"

text \<open>Identity equality on handles (\<open>None\<close> is the NULL pointer).\<close>

definition librdf_node_equals :: "ptr option \<Rightarrow> ptr option \<Rightarrow> bool" where
  "librdf_node_equals a b =
     (case (a, b) of (Some p, Some q) \<Rightarrow> p = q | _ \<Rightarrow> False)"

section \<open>The container-membership ordinal\<close>

text \<open>
  \<open>atoi\<close> of the C library: leading white space, an optional sign, then
  decimal digits up to the first other byte.  Overflow of \<open>int\<close> is
  undefined in C and is not modelled: the value is an unbounded \<open>int\<close>.
\<close>

definition c_isdigit :: "byte \<Rightarrow> bool" where
  "c_isdigit c \<longleftrightarrow> 48 \<le> c \<and> c \<le> 57"

definition c_isspace :: "byte \<Rightarrow> bool" where
  "c_isspace c \<longleftrightarrow> c = 32 \<or> (9 \<le> c \<and> c \<le> 13)"

fun atoi_digits :: "int \<Rightarrow> bytes \<Rightarrow> int" where
  "atoi_digits acc [] = acc"
| "atoi_digits acc (c # cs) =
     (if c_isdigit c then atoi_digits (acc * 10 + (uint c - 48)) cs else acc)"

definition atoi :: "bytes \<Rightarrow> int" where
  "atoi s =
     (let t = dropWhile c_isspace s in
      case t of
        c # r \<Rightarrow> if c = 45 then - atoi_digits 0 r
                 else if c = 43 then atoi_digits 0 r
                 else atoi_digits 0 t
      | [] \<Rightarrow> 0)"

definition rdf_li_prefix :: bytes where
  "rdf_li_prefix = bstr ''http://www.w3.org/1999/02/22-rdf-syntax-ns#_''"

text \<open>
  \<open>strncmp(uri_string, prefix, 44)\<close> is zero exactly when the first 44
  bytes of the URI's C string are the prefix (the prefix has no NUL).  The
  assertion on the node type returns 0 before the \<open>return -1\<close> below it.
\<close>

definition librdf_node_get_li_ordinal :: "librdf_node \<Rightarrow> int" where
  "librdf_node_get_li_ordinal n =
     (case node_data n of
        Resource u \<Rightarrow>
          if take 44 (cstr u) \<noteq> rdf_li_prefix then -1 else atoi (drop 44 u)
      | _ \<Rightarrow> 0)"

section \<open>Digest and debug output\<close>

text \<open>
  The digest algorithm is an external factory; the model returns the bytes
  that are fed to it: the URI string for a resource
  (\<open>librdf_uri_get_digest\<close>), the \<open>string_len\<close> bytes of a literal's
  string, and no digest for a blank node.
\<close>

definition librdf_node_get_digest :: "librdf_node \<Rightarrow> bytes option" where
  "librdf_node_get_digest n =
     (case node_data n of
        Resource u \<Rightarrow> Some u
      | Literal l \<Rightarrow> Some (take (string_len l) (lit_string l))
      | Blank _ \<Rightarrow> None)"

text \<open>
  \<open>librdf_node_write\<close>: \<open>esc s len delim\<close> stands for raptor's
  \<open>raptor_string_ntriples_write\<close> (N-Triples escaping, external).  The
  NULL node is written as \<open>(null)\<close>.
\<close>

definition librdf_node_write ::
  "(bytes \<Rightarrow> nat \<Rightarrow> byte \<Rightarrow> bytes) \<Rightarrow> librdf_node option \<Rightarrow> bytes" where
  "librdf_node_write esc n =
     (case n of
        None \<Rightarrow> bstr ''(null)''
      | Some nd \<Rightarrow>
          (case node_data nd of
             Literal l \<Rightarrow>
               [34] @ esc (lit_string l) (string_len l) 34 @ [34]
               @ (case xml_language l of Some lang \<Rightarrow> 64 # cstr lang | None \<Rightarrow> [])
               @ (case datatype_uri l of
                    Some d \<Rightarrow> bstr ''^^<'' @ esc d (length d) 62 @ [62]
                  | None \<Rightarrow> [])
           | Blank i \<Rightarrow> bstr ''_:'' @ i
           | Resource u \<Rightarrow> 60 # esc u (length u) 62 @ [62]))"

end
