(* ===== verification/Codec.thy ===== *)
theory Codec
  imports Node
begin

text \<open>
  The binary node encoder \<open>librdf_node_encode\<close> of \<open>src/src/rdf_node.c\<close>
  and the byte layout it is meant to produce (the tag table of the codec).
  \<open>librdf_node_encode v buffer len\<close> follows the C function: with no
  buffer (\<open>None\<close>, the NULL pointer) it only computes the size; with a buffer
  it also writes the header bytes and copies the strings with \<open>strcpy\<close>.
  It returns the C return value (0 on failure) and the buffer afterwards.
\<close>

unbundle bit_operations_syntax

section \<open>The encoder\<close>

definition tag_R :: byte where "tag_R = 82"
definition tag_B :: byte where "tag_B = 66"
definition tag_L :: byte where "tag_L = 76"
definition tag_M :: byte where "tag_M = 77"
definition tag_N :: byte where "tag_N = 78"

lemmas tags = tag_R_def tag_B_def tag_L_def tag_M_def tag_N_def

text \<open>Lengths read by the literal branch: language, datatype URI string.\<close>

definition lit_language_length :: "literal_value \<Rightarrow> nat" where
  "lit_language_length l = (if xml_language l \<noteq> None then xml_language_len l else 0)"

definition lit_datatype_string :: "literal_value \<Rightarrow> uri" where
  "lit_datatype_string l = (case datatype_uri l of Some d \<Rightarrow> d | None \<Rightarrow> [])"

definition lit_language_string :: "literal_value \<Rightarrow> bytes" where
  "lit_language_string l = (case xml_language l of Some x \<Rightarrow> x | None \<Rightarrow> [])"

definition literal_total_length :: "literal_value \<Rightarrow> nat" where
  "literal_total_length l =
     (let string_length = string_len l;
          language_length = lit_language_length l;
          datatype_uri_length = length (lit_datatype_string l)
      in 6 + string_length + 1
         + (if string_length > 0xFFFF then 2 else 0)
         + (if language_length \<noteq> 0 then language_length + 1 else 0)
         + (if datatype_uri_length \<noteq> 0 then datatype_uri_length + 1 else 0))"

text \<open>The header of a literal: long form \<open>N\<close> above 0xFFFF bytes, short form \<open>M\<close>.\<close>

definition literal_header :: "nat \<Rightarrow> nat \<Rightarrow> nat \<Rightarrow> bytes" where
  "literal_header string_length datatype_uri_length language_length =
     (if string_length > 0xFFFF then
        [tag_N, shift_mask 3 string_length, shift_mask 2 string_length,
         shift_mask 1 string_length, shift_mask 0 string_length,
         shift_mask 1 datatype_uri_length, shift_mask 0 datatype_uri_length,
         shift_mask 0 language_length]
      else
        [tag_M, shift_mask 1 string_length, shift_mask 0 string_length,
         shift_mask 1 datatype_uri_length, shift_mask 0 datatype_uri_length,
         shift_mask 0 language_length])"

text \<open>The \<open>if(buffer)\<close> block of the literal branch.\<close>

definition literal_fill :: "literal_value \<Rightarrow> bytes \<Rightarrow> bytes" where
  "literal_fill l buffer =
     (let string_length = string_len l;
          language_length = lit_language_length l;
          datatype_uri_length = length (lit_datatype_string l);
          hdr = literal_header string_length datatype_uri_length language_length;
          b1 = strcpy_at (write_at buffer 0 hdr) (length hdr) (lit_string l);
          off2 = length hdr + string_length + 1;
          b2 = (if datatype_uri_length \<noteq> 0
                then strcpy_at b1 off2 (lit_datatype_string l) else b1);
          off3 = (if datatype_uri_length \<noteq> 0 then off2 + datatype_uri_length + 1 else off2)
      in if language_length \<noteq> 0 then strcpy_at b2 off3 (lit_language_string l) else b2)"

text \<open>The resource and blank branches share their shape: tag, 2-byte length, string.\<close>

definition short_fill :: "byte \<Rightarrow> bytes \<Rightarrow> bytes \<Rightarrow> bytes" where
  "short_fill tag s buffer =
     strcpy_at (write_at buffer 0 [tag, shift_mask 1 (length s), shift_mask 0 (length s)]) 3 s"

definition librdf_node_encode ::
  "node_value \<Rightarrow> bytes option \<Rightarrow> nat \<Rightarrow> nat \<times> bytes option" where
  "librdf_node_encode v buffer len =
     (case v of
        Resource u \<Rightarrow>
          (let total_length = 3 + length u + 1 in
           if len \<noteq> 0 \<and> total_length > len then (0, buffer)
           else if length u > 0xFFFF then (0, buffer)
           else (total_length, map_option (short_fill tag_R u) buffer))
      | Literal l \<Rightarrow>
          (let total_length = literal_total_length l in
           if len \<noteq> 0 \<and> total_length > len then (0, buffer)
           else if length (lit_datatype_string l) > 0xFFFF then (0, buffer)
           else if lit_language_length l > 0xFF then (0, buffer)
           else (total_length, map_option (literal_fill l) buffer))
      | Blank i \<Rightarrow>
          (let total_length = 3 + length i + 1 in
           if len \<noteq> 0 \<and> total_length > len then (0, buffer)
           else if length i > 0xFFFF then (0, buffer)
           else (total_length, map_option (short_fill tag_B i) buffer)))"

section \<open>The layout the encoder is meant to produce\<close>

text \<open>
  The tag table: all lengths big-endian, every string length-prefixed and
  NUL-terminated; the literal's datatype URI and language only when their
  length is not zero.
\<close>

definition be16 :: "nat \<Rightarrow> bytes" where
  "be16 n = [word_of_nat (n div 256), word_of_nat n]"

definition be32 :: "nat \<Rightarrow> bytes" where
  "be32 n = [word_of_nat (n div 2 ^ 24), word_of_nat (n div 2 ^ 16),
             word_of_nat (n div 2 ^ 8), word_of_nat n]"

definition opt_field :: "bytes \<Rightarrow> nat \<Rightarrow> bytes" where
  "opt_field s n = (if n \<noteq> 0 then s @ [0] else [])"

definition node_encoding :: "node_value \<Rightarrow> bytes" where
  "node_encoding v =
     (case v of
        Resource u \<Rightarrow> tag_R # be16 (length u) @ u @ [0]
      | Blank i \<Rightarrow> tag_B # be16 (length i) @ i @ [0]
      | Literal l \<Rightarrow>
          (let sl = string_len l; dl = length (lit_datatype_string l);
               ll = lit_language_length l
           in (if sl > 0xFFFF then tag_N # be32 sl else tag_M # be16 sl)
              @ be16 dl @ [word_of_nat ll]
              @ lit_string l @ [0]
              @ opt_field (lit_datatype_string l) dl
              @ opt_field (lit_language_string l) ll))"

text \<open>The fixed field widths of the table.\<close>

definition encodable :: "node_value \<Rightarrow> bool" where
  "encodable v =
     (case v of
        Resource u \<Rightarrow> length u \<le> 0xFFFF
      | Blank i \<Rightarrow> length i \<le> 0xFFFF
      | Literal l \<Rightarrow> length (lit_datatype_string l) \<le> 0xFFFF \<and> lit_language_length l \<le> 0xFF)"

text \<open>
  A literal as the constructor builds it: its counted lengths agree with its
  strings.  \<open>c_strings v\<close>: none of the node's strings has an embedded NUL.
\<close>

definition literal_wf :: "literal_value \<Rightarrow> bool" where
  "literal_wf l \<longleftrightarrow>
     length (lit_string l) = string_len l \<and>
     (case xml_language l of
        Some x \<Rightarrow> length x = xml_language_len l
      | None \<Rightarrow> xml_language_len l = 0)"

definition value_wf :: "node_value \<Rightarrow> bool" where
  "value_wf v = (case v of Literal l \<Rightarrow> literal_wf l | _ \<Rightarrow> True)"

definition c_strings :: "node_value \<Rightarrow> bool" where
  "c_strings v =
     (case v of
        Resource u \<Rightarrow> nul_free u
      | Blank i \<Rightarrow> nul_free i
      | Literal l \<Rightarrow> nul_free (lit_string l) \<and> nul_free (lit_datatype_string l)
                     \<and> nul_free (lit_language_string l))"

section \<open>Header bytes\<close>

lemma length_be16 [simp]: "length (be16 n) = 2"
  by (simp add: be16_def)

lemma length_be32 [simp]: "length (be32 n) = 4"
  by (simp add: be32_def)

lemma shift_mask_be16: "[shift_mask 1 n, shift_mask 0 n] = be16 n"
  by (simp add: shift_mask_eq be16_def drop_bit_eq_div)

lemma shift_mask_be32:
  "[shift_mask 3 n, shift_mask 2 n, shift_mask 1 n, shift_mask 0 n] = be32 n"
  by (simp add: shift_mask_eq be32_def drop_bit_eq_div)

lemma shift_mask_0: "shift_mask 0 n = word_of_nat n"
  by (simp add: shift_mask_eq)

lemma literal_header_eq:
  "literal_header sl dl ll =
     (if sl > 0xFFFF then tag_N # be32 sl else tag_M # be16 sl) @ be16 dl @ [word_of_nat ll]"
  using shift_mask_be16[of sl] shift_mask_be16[of dl] shift_mask_be32[of sl]
  by (simp add: literal_header_def shift_mask_0)

section \<open>The encoder writes the layout\<close>

lemma opt_strcpy_prefix:
  "nul_free s \<Longrightarrow> off = length P \<Longrightarrow>
   (if n \<noteq> 0 then strcpy_at (P @ drop (length P) b) off s else P @ drop (length P) b)
     = (P @ opt_field s n) @ drop (length (P @ opt_field s n)) b"
  by (simp add: opt_field_def strcpy_at_prefix)

lemma length_opt_field: "length (opt_field s n) = (if n \<noteq> 0 then length s + 1 else 0)"
  by (simp add: opt_field_def)

lemma short_fill_eq:
  assumes "nul_free s" "length b = 3 + length s + 1"
  shows "short_fill tag s b = tag # be16 (length s) @ s @ [0]"
proof -
  have "short_fill tag s b = ([tag, shift_mask 1 (length s), shift_mask 0 (length s)] @ s @ [0])
          @ drop (length ([tag, shift_mask 1 (length s), shift_mask 0 (length s)] @ s @ [0])) b"
    unfolding short_fill_def write_at_zero using assms(1) by (rule strcpy_at_prefix) simp
  also have "\<dots> = tag # be16 (length s) @ s @ [0]"
    using assms(2) shift_mask_be16[of "length s"] by simp
  finally show ?thesis .
qed

lemma literal_total_length_eq:
  assumes "literal_wf l"
  shows "literal_total_length l = length (node_encoding (Literal l))"
proof -
  have "lit_language_length l \<noteq> 0 \<Longrightarrow> length (lit_language_string l) = lit_language_length l"
    using assms by (auto simp: lit_language_length_def lit_language_string_def literal_wf_def)
  with assms show ?thesis
    by (simp add: literal_total_length_def node_encoding_def literal_wf_def length_opt_field Let_def)
qed

lemma literal_fill_eq:
  assumes wf: "literal_wf l" and cs: "c_strings (Literal l)"
    and len: "length b = literal_total_length l"
  shows "literal_fill l b = node_encoding (Literal l)"
proof -
  define sl dl ll where "sl = string_len l" and "dl = length (lit_datatype_string l)"
    and "ll = lit_language_length l"
  define hdr where "hdr = literal_header sl dl ll"
  define P1 where "P1 = hdr @ lit_string l @ [0]"
  define P2 where "P2 = P1 @ opt_field (lit_datatype_string l) dl"
  define P3 where "P3 = P2 @ opt_field (lit_language_string l) ll"
  have ns: "nul_free (lit_string l)" "nul_free (lit_datatype_string l)"
    "nul_free (lit_language_string l)"
    using cs by (simp_all add: c_strings_def)
  have lsl: "length (lit_string l) = sl" using wf by (simp add: literal_wf_def sl_def)
  have b1: "strcpy_at (write_at b 0 hdr) (length hdr) (lit_string l) = P1 @ drop (length P1) b"
    unfolding write_at_zero P1_def using ns(1) by (rule strcpy_at_prefix) simp
  have off2: "length hdr + sl + 1 = length P1" by (simp add: P1_def lsl)
  have b2: "(if dl \<noteq> 0 then strcpy_at (P1 @ drop (length P1) b) (length hdr + sl + 1)
               (lit_datatype_string l) else P1 @ drop (length P1) b) = P2 @ drop (length P2) b"
    unfolding P2_def using ns(2) off2 by (rule opt_strcpy_prefix)
  have off3: "(if dl \<noteq> 0 then length hdr + sl + 1 + dl + 1 else length hdr + sl + 1) = length P2"
    using off2 by (simp add: P2_def length_opt_field dl_def)
  have b3: "(if ll \<noteq> 0 then strcpy_at (P2 @ drop (length P2) b) (length P2)
               (lit_language_string l) else P2 @ drop (length P2) b) = P3 @ drop (length P3) b"
    unfolding P3_def using ns(3) by (rule opt_strcpy_prefix) simp
  have enc: "P3 = node_encoding (Literal l)"
    by (simp add: P3_def P2_def P1_def hdr_def literal_header_eq node_encoding_def sl_def dl_def
        ll_def Let_def)
  have "length P3 = length b"
    using len literal_total_length_eq[OF wf] enc by simp
  then have "literal_fill l b = P3"
    unfolding literal_fill_def Let_def sl_def [symmetric] dl_def [symmetric] ll_def [symmetric]
      hdr_def [symmetric]
    by (simp only: b1 b2 off3 b3) simp
  with enc show ?thesis by simp
qed

lemma length_node_encoding_short:
  "length (node_encoding (Resource u)) = 3 + length u + 1"
  "length (node_encoding (Blank i)) = 3 + length i + 1"
  by (simp_all add: node_encoding_def)

lemma encode_fill_layout:
  assumes "value_wf v" "c_strings v" "encodable v" "length b = length (node_encoding v)"
  shows "librdf_node_encode v (Some b) (length b) = (length (node_encoding v), Some (node_encoding v))"
proof (cases v)
  case (Resource u)
  with assms show ?thesis
    by (simp add: librdf_node_encode_def encodable_def c_strings_def short_fill_eq
        length_node_encoding_short node_encoding_def Let_def)
next
  case (Literal l)
  with assms show ?thesis
    by (simp add: librdf_node_encode_def encodable_def value_wf_def literal_fill_eq
        literal_total_length_eq Let_def)
next
  case (Blank i)
  with assms show ?thesis
    by (simp add: librdf_node_encode_def encodable_def c_strings_def short_fill_eq
        length_node_encoding_short node_encoding_def Let_def)
qed

text \<open>
  C6.  Filling a buffer of the announced size writes exactly the byte layout
  of the tag table, whatever the buffer held before, for every node whose
  fields fit their widths and whose strings are C strings.
\<close>

theorem librdf_node_encode_fill:
  assumes "value_wf v" "c_strings v" "encodable v" "length b = length (node_encoding v)"
  shows "librdf_node_encode v (Some b) (length b) = (length (node_encoding v), Some (node_encoding v))"
  using assms by (rule encode_fill_layout)

theorem librdf_node_encode_fill_witness:
  "librdf_node_encode (Resource (bstr ''http://purl.org/net/dajobe/'')) (Some (replicate 31 0xAA)) 31
     = (31, Some ([0x52, 0x00, 0x1b] @ bstr ''http://purl.org/net/dajobe/'' @ [0]))"
proof -
  let ?u = "bstr ''http://purl.org/net/dajobe/''"
  have h: "value_wf (Resource ?u)" "c_strings (Resource ?u)" "encodable (Resource ?u)"
    "length (replicate 31 (0xAA :: byte)) = length (node_encoding (Resource ?u))"
    by (simp_all add: value_wf_def c_strings_def encodable_def node_encoding_def bstr_def
        nul_free_def)
  have "node_encoding (Resource ?u) = [0x52, 0x00, 0x1b] @ ?u @ [0]"
    by (simp add: node_encoding_def be16_def tags bstr_def)
  with librdf_node_encode_fill [OF h] show ?thesis by (simp add: bstr_def)
qed


lemma librdf_node_encode_nonzero: "fst (librdf_node_encode v b len) \<noteq> 0 \<Longrightarrow> encodable v"
  by (cases v) (auto simp: librdf_node_encode_def encodable_def Let_def split: if_splits)

lemma literal_key_fields [simp]:
  "node_encoding (Literal (l\<lparr>lit_key := k, lit_size := s\<rparr>)) = node_encoding (Literal l)"
  "c_strings (Literal (l\<lparr>lit_key := k, lit_size := s\<rparr>)) = c_strings (Literal l)"
  "literal_wf (l\<lparr>lit_key := k, lit_size := s\<rparr>) = literal_wf l"
  by (simp_all add: node_encoding_def c_strings_def literal_wf_def lit_datatype_string_def
      lit_language_length_def lit_language_string_def split: option.splits)

lemma encode_size_layout:
  assumes "value_wf v" "encodable v"
  shows "librdf_node_encode v None 0 = (length (node_encoding v), None)"
  using assms
  by (cases v) (simp_all add: librdf_node_encode_def encodable_def value_wf_def
      length_node_encoding_short literal_total_length_eq Let_def)

text \<open>
  C7.  The size query (\<open>librdf_node_encode(node, NULL, 0)\<close>) returns the
  length of the layout, so a caller's size-then-fill sequence allocates
  exactly the bytes the fill writes.
\<close>

theorem librdf_node_encode_size:
  assumes "value_wf v" "encodable v"
  shows "librdf_node_encode v None 0 = (length (node_encoding v), None)"
  using assms by (rule encode_size_layout)

theorem librdf_node_encode_size_witness:
  "librdf_node_encode
     (Literal \<lparr>lit_string = bstr ''Datatyped literal value'', string_len = 23,
               xml_language = None, xml_language_len = 0,
               datatype_uri = Some (bstr ''http://example.org/datatypeURI''),
               lit_key = None, lit_size = 0\<rparr>) None 0 = (61, None)"
proof -
  let ?l = "\<lparr>lit_string = bstr ''Datatyped literal value'', string_len = 23,
               xml_language = None, xml_language_len = 0,
               datatype_uri = Some (bstr ''http://example.org/datatypeURI''),
               lit_key = None, lit_size = 0\<rparr>"
  have h: "value_wf (Literal ?l)" "encodable (Literal ?l)"
    by (simp_all add: value_wf_def literal_wf_def encodable_def lit_datatype_string_def
        lit_language_length_def bstr_def)
  have "length (node_encoding (Literal ?l)) = 61"
    by (simp add: node_encoding_def lit_datatype_string_def lit_language_length_def
        lit_language_string_def opt_field_def bstr_def)
  with librdf_node_encode_size [OF h] show ?thesis by simp
qed

lemma encode_zero_not_encodable: "\<not> encodable v \<Longrightarrow> fst (librdf_node_encode v buf len) = 0"
  by (cases v) (auto simp: librdf_node_encode_def encodable_def Let_def)

text \<open>
  C8.  A field wider than its table entry (a URI or blank identifier over
  0xFFFF bytes, a datatype URI over 0xFFFF bytes, a language over 0xFF
  bytes) makes the encoder fail with 0, whatever buffer it is given.
\<close>

theorem librdf_node_encode_too_large:
  "\<not> encodable v \<Longrightarrow> fst (librdf_node_encode v buf len) = 0"
  by (rule encode_zero_not_encodable)

theorem librdf_node_encode_too_large_witness:
  "fst (librdf_node_encode
     (Literal \<lparr>lit_string = bstr ''x'', string_len = 1, xml_language = Some (replicate 256 65),
               xml_language_len = 256, datatype_uri = None, lit_key = None, lit_size = 0\<rparr>)
     None 0) = 0"
  using librdf_node_encode_too_large
    [of "Literal \<lparr>lit_string = bstr ''x'', string_len = 1, xml_language = Some (replicate 256 65),
               xml_language_len = 256, datatype_uri = None, lit_key = None, lit_size = 0\<rparr>"
        None 0]
  by (simp add: encodable_def lit_language_length_def)

text \<open>
  C9.  The literal form is chosen by the string length alone: short form
  \<open>M\<close> up to 0xFFFF bytes, long form \<open>N\<close> from 0x10000 bytes on.
\<close>

theorem librdf_node_encode_literal_tag:
  assumes "value_wf (Literal l)" "c_strings (Literal l)" "encodable (Literal l)"
    "length b = length (node_encoding (Literal l))"
  shows "map_option hd (snd (librdf_node_encode (Literal l) (Some b) (length b)))
           = Some (if string_len l \<le> 0xFFFF then tag_M else tag_N)"
  using encode_fill_layout [OF assms] by (simp add: node_encoding_def Let_def)

theorem librdf_node_encode_literal_tag_witness:
  "map_option hd (snd (librdf_node_encode
      (Literal \<lparr>lit_string = replicate 0xFFFF 88, string_len = 0xFFFF, xml_language = None,
                xml_language_len = 0, datatype_uri = None, lit_key = None, lit_size = 0\<rparr>)
      (Some (replicate 0x10006 0)) 0x10006)) = Some tag_M \<and>
   map_option hd (snd (librdf_node_encode
      (Literal \<lparr>lit_string = replicate 0x10000 88, string_len = 0x10000, xml_language = None,
                xml_language_len = 0, datatype_uri = None, lit_key = None, lit_size = 0\<rparr>)
      (Some (replicate 0x10009 0)) 0x10009)) = Some tag_N"
proof -
  let ?l1 = "\<lparr>lit_string = replicate 0xFFFF (88::byte), string_len = 0xFFFF, xml_language = None,
                xml_language_len = 0, datatype_uri = None, lit_key = None, lit_size = 0\<rparr>"
  let ?l2 = "\<lparr>lit_string = replicate 0x10000 (88::byte), string_len = 0x10000, xml_language = None,
                xml_language_len = 0, datatype_uri = None, lit_key = None, lit_size = 0\<rparr>"
  have h1: "value_wf (Literal ?l1)" "c_strings (Literal ?l1)" "encodable (Literal ?l1)"
    "length (replicate 0x10006 (0::byte)) = length (node_encoding (Literal ?l1))"
    by (simp_all add: value_wf_def literal_wf_def c_strings_def encodable_def node_encoding_def
        lit_datatype_string_def lit_language_length_def lit_language_string_def opt_field_def)
  have h2: "value_wf (Literal ?l2)" "c_strings (Literal ?l2)" "encodable (Literal ?l2)"
    "length (replicate 0x10009 (0::byte)) = length (node_encoding (Literal ?l2))"
    by (simp_all add: value_wf_def literal_wf_def c_strings_def encodable_def node_encoding_def
        lit_datatype_string_def lit_language_length_def lit_language_string_def opt_field_def)
  show ?thesis
    using librdf_node_encode_literal_tag [OF h1] librdf_node_encode_literal_tag [OF h2] by simp
qed

end
