(* ===== verification/World.thy ===== *)
theory World
  imports Codec
begin

text \<open>
  The intern tables and the lifecycle of nodes (\<open>src/src/rdf_node.c\<close>,
  lines 47--858): the three node hashes of a world, the node mutex, the
  constructors that find or create a node, the copy constructor and
  \<open>librdf_free_node\<close>.

  State: \<open>librdf_world\<close> holds the node objects (a heap from addresses to
  \<open>librdf_node\<close> records), the three hashes \<open>nodes_hash[H_RESOURCE]\<close>,
  \<open>nodes_hash[H_LITERAL]\<close>, \<open>nodes_hash[H_BLANK]\<close> as maps from keys to
  node addresses, the next fresh address, whether \<open>nodes_mutex\<close> is held,
  and the blank identifier generator of the world.  The model is the
  \<open>WITH_THREADS\<close> build.

  Allocation: every \<open>malloc\<close>/\<open>calloc\<close>, every \<open>librdf_hash_put\<close> and
  every URI or identifier the node code asks the world for may fail.  An
  \<open>alloc_env\<close> says which allocation sites fail in one call and what bytes a
  fresh \<open>malloc\<close> buffer holds, so the model is deterministic and every
  failure branch of the source is a branch of the model.
\<close>

section \<open>State\<close>

record librdf_world =
  nodes :: "ptr \<rightharpoonup> librdf_node"
  hash_resource :: "uri \<rightharpoonup> ptr"
  hash_literal :: "bytes \<rightharpoonup> ptr"
  hash_blank :: "bytes \<rightharpoonup> ptr"
  next_ptr :: ptr
  nodes_mutex :: bool
  genid_counter :: nat
  genid :: "nat \<Rightarrow> bytes"

datatype alloc_site =
    A_uri | A_node | A_value | A_language | A_key | A_hash_put | A_identifier | A_genid
  | A_triple | A_statement | A_list | A_context | A_sequence | A_stream | A_iostream
  | A_hash | A_www

record alloc_env =
  fails :: "alloc_site \<Rightarrow> bool"
  junk :: "nat \<Rightarrow> byte"

definition no_faults :: "(nat \<Rightarrow> byte) \<Rightarrow> alloc_env" where
  "no_faults j = \<lparr>fails = (\<lambda>_. False), junk = j\<rparr>"

text \<open>The contents of a fresh \<open>malloc(n)\<close> buffer.\<close>

definition malloc_bytes :: "alloc_env \<Rightarrow> nat \<Rightarrow> bytes" where
  "malloc_bytes e n = map (junk e) [0..<n]"

text \<open>\<open>memcpy\<close> of \<open>n\<close> bytes from memory \<open>s\<close> (the memory convention of the prelude).\<close>

definition mem_read :: "bytes \<Rightarrow> nat \<Rightarrow> bytes" where
  "mem_read s n = map (byte_at s) [0..<n]"

section \<open>Module set-up and teardown\<close>

text \<open>\<open>librdf_init_node\<close>: three fresh, empty hashes (a failure is fatal).\<close>

definition librdf_init_node :: "librdf_world \<Rightarrow> librdf_world" where
  "librdf_init_node w =
     w\<lparr>hash_resource := Map.empty, hash_literal := Map.empty, hash_blank := Map.empty\<rparr>"

text \<open>
  \<open>librdf_finish_node\<close>: the hashes are closed and freed; the nodes they
  pointed to are not visited.
\<close>

definition librdf_finish_node :: "librdf_world \<Rightarrow> librdf_world" where
  "librdf_finish_node w =
     w\<lparr>hash_resource := Map.empty, hash_literal := Map.empty, hash_blank := Map.empty\<rparr>"

definition new_world :: "(nat \<Rightarrow> bytes) \<Rightarrow> librdf_world" where
  "new_world g = librdf_init_node
     \<lparr>nodes = Map.empty, hash_resource = Map.empty, hash_literal = Map.empty,
      hash_blank = Map.empty, next_ptr = 1, nodes_mutex = False, genid_counter = 0,
      genid = g\<rparr>"

section \<open>Helpers shared by the constructors\<close>

definition unlock :: "librdf_world \<Rightarrow> librdf_world" where
  "unlock w = w\<lparr>nodes_mutex := False\<rparr>"

text \<open>\<open>new_node->usage++\<close> on a node found in a hash.\<close>

definition node_incr :: "ptr \<Rightarrow> librdf_world \<Rightarrow> librdf_world" where
  "node_incr p w =
     w\<lparr>nodes := (nodes w)(p := map_option (\<lambda>n. n\<lparr>usage := usage n + 1\<rparr>) (nodes w p))\<rparr>"

text \<open>A new node object at the next fresh address, with \<open>usage = 1\<close>.\<close>

definition node_alloc :: "node_value \<Rightarrow> librdf_world \<Rightarrow> ptr \<times> librdf_world" where
  "node_alloc v w =
     (next_ptr w,
      w\<lparr>nodes := (nodes w)(next_ptr w \<mapsto> \<lparr>usage = 1, node_data = v\<rparr>),
        next_ptr := Suc (next_ptr w)\<rparr>)"

text \<open>
  The URI module (not under \<open>src/\<close>): \<open>librdf_new_uri\<close> reads a C string and
  may fail; \<open>librdf_new_uri_from_uri_local_name\<close> appends a local name.
\<close>

definition librdf_new_uri :: "alloc_env \<Rightarrow> bytes \<Rightarrow> uri option" where
  "librdf_new_uri e s = (if fails e A_uri then None else Some (cstr s))"

definition librdf_new_uri_from_uri_local_name :: "alloc_env \<Rightarrow> uri \<Rightarrow> bytes \<Rightarrow> uri option" where
  "librdf_new_uri_from_uri_local_name e u local =
     (if fails e A_uri then None else Some (u @ cstr local))"

text \<open>\<open>librdf_world_get_genid\<close>: the world's next generated identifier.\<close>

definition librdf_world_get_genid :: "alloc_env \<Rightarrow> librdf_world \<Rightarrow> (bytes \<times> librdf_world) option" where
  "librdf_world_get_genid e w =
     (if fails e A_genid then None
      else Some (genid w (genid_counter w), w\<lparr>genid_counter := Suc (genid_counter w)\<rparr>))"

section \<open>Resource constructors\<close>

definition librdf_new_node_from_uri_string_or_uri ::
  "alloc_env \<Rightarrow> bytes option \<Rightarrow> uri option \<Rightarrow> librdf_world \<Rightarrow> (ptr option, librdf_world) outcome" where
  "librdf_new_node_from_uri_string_or_uri e uri_string uri w =
     (if uri_string = None \<and> uri = None then Ret None w
      else if uri_string \<noteq> None \<and> uri \<noteq> None then Ret None w
      else
        (let new_uri = (case uri_string of Some s \<Rightarrow> librdf_new_uri e s | None \<Rightarrow> uri) in
         case new_uri of
           None \<Rightarrow> Ret None w
         | Some u \<Rightarrow>
             if nodes_mutex w then Blocked
             else
               (let w1 = w\<lparr>nodes_mutex := True\<rparr> in
                case hash_resource w1 u of
                  Some p \<Rightarrow> Ret (Some p) (unlock (node_incr p w1))
                | None \<Rightarrow>
                    if fails e A_node then Ret None (unlock w1)
                    else if fails e A_hash_put then Ret None (unlock w1)
                    else
                      (let (p, w2) = node_alloc (Resource u) w1 in
                       Ret (Some p) (unlock (w2\<lparr>hash_resource := (hash_resource w2)(u \<mapsto> p)\<rparr>))))))"

text \<open>The counted variant passes its length on, and the callee never reads it.\<close>

definition librdf_new_node_from_uri_string ::
  "alloc_env \<Rightarrow> bytes \<Rightarrow> librdf_world \<Rightarrow> (ptr option, librdf_world) outcome" where
  "librdf_new_node_from_uri_string e s w = librdf_new_node_from_uri_string_or_uri e (Some s) None w"

definition librdf_new_node_from_counted_uri_string ::
  "alloc_env \<Rightarrow> bytes \<Rightarrow> nat \<Rightarrow> librdf_world \<Rightarrow> (ptr option, librdf_world) outcome" where
  "librdf_new_node_from_counted_uri_string e s len w =
     librdf_new_node_from_uri_string_or_uri e (Some s) None w"

definition librdf_new_node_from_uri ::
  "alloc_env \<Rightarrow> uri \<Rightarrow> librdf_world \<Rightarrow> (ptr option, librdf_world) outcome" where
  "librdf_new_node_from_uri e u w = librdf_new_node_from_uri_string_or_uri e None (Some u) w"

definition librdf_new_node_from_uri_local_name ::
  "alloc_env \<Rightarrow> uri \<Rightarrow> bytes \<Rightarrow> librdf_world \<Rightarrow> (ptr option, librdf_world) outcome" where
  "librdf_new_node_from_uri_local_name e u local w =
     (case librdf_new_uri_from_uri_local_name e u local of
        None \<Rightarrow> Ret None w
      | Some new_uri \<Rightarrow> librdf_new_node_from_uri_string_or_uri e None (Some new_uri) w)"

text \<open>\<open>norm\<close> stands for the URI module's \<open>librdf_new_uri_normalised_to_base\<close>.\<close>

definition librdf_new_node_from_normalised_uri_string ::
  "alloc_env \<Rightarrow> (bytes \<Rightarrow> uri \<Rightarrow> uri \<Rightarrow> uri option) \<Rightarrow> bytes \<Rightarrow> uri \<Rightarrow> uri \<Rightarrow> librdf_world
   \<Rightarrow> (ptr option, librdf_world) outcome" where
  "librdf_new_node_from_normalised_uri_string e norm s source_uri base_uri w =
     (case norm s source_uri base_uri of
        None \<Rightarrow> Ret None w
      | Some new_uri \<Rightarrow> librdf_new_node_from_uri_string_or_uri e None (Some new_uri) w)"

section \<open>Literal constructors\<close>

text \<open>
  The literal a constructor builds before it computes the key: the copied
  value (\<open>strncpy\<close>), the copied language and the datatype URI.
\<close>

text \<open>\<open>if(xml_language && !*xml_language) xml_language = NULL;\<close>\<close>

definition norm_lang :: "bytes option \<Rightarrow> bytes option" where
  "norm_lang lang =
     (case lang of Some l \<Rightarrow> if c_empty l then None else Some l | None \<Rightarrow> None)"

definition literal_of ::
  "bytes \<Rightarrow> nat \<Rightarrow> bytes option \<Rightarrow> nat \<Rightarrow> uri option \<Rightarrow> literal_value" where
  "literal_of v value_len lang lang_len dt =
     \<lparr>lit_string = strncpy v value_len, string_len = value_len,
      xml_language = map_option (\<lambda>l. strncpy l lang_len) lang,
      xml_language_len = (if lang \<noteq> None then lang_len else 0),
      datatype_uri = dt, lit_key = None, lit_size = 0\<rparr>"

text \<open>\<open>librdf_node_encode(new_node, buffer, size)\<close> into the fresh key buffer.\<close>

definition literal_key :: "alloc_env \<Rightarrow> literal_value \<Rightarrow> nat \<Rightarrow> bytes" where
  "literal_key e lit sz =
     (case snd (librdf_node_encode (Literal lit) (Some (malloc_bytes e sz)) sz) of
        Some b \<Rightarrow> b
      | None \<Rightarrow> malloc_bytes e sz)"

text \<open>
  \<open>xml_language\<close> is dropped when it is the empty string.  The two
  \<open>malloc(len + 1)\<close> calls take a \<open>size_t\<close>: when \<open>len + 1\<close> wraps to
  0 the allocation succeeds and \<open>strncpy\<close> then writes \<open>len\<close> bytes past
  it (\<open>Undef\<close>).  When the encoder reports size 0 or the key buffer cannot
  be allocated, the function returns at line 533 without releasing the
  mutex.
\<close>

definition librdf_new_node_from_typed_counted_literal ::
  "alloc_env \<Rightarrow> bytes \<Rightarrow> nat \<Rightarrow> bytes option \<Rightarrow> nat \<Rightarrow> uri option \<Rightarrow> librdf_world
   \<Rightarrow> (ptr option, librdf_world) outcome" where
  "librdf_new_node_from_typed_counted_literal e v value_len xml_lang xml_lang_len
     dt_uri w =
     (let lang = norm_lang xml_lang in
      if lang \<noteq> None \<and> dt_uri \<noteq> None then Ret None w
      else if nodes_mutex w then Blocked
      else
        (let w1 = w\<lparr>nodes_mutex := True\<rparr> in
         if fails e A_node then Ret None (unlock w1)
         else if fails e A_value then Ret None (unlock w1)
         else if SIZE_MAX \<le> value_len then Undef
         else if lang \<noteq> None \<and> fails e A_language then Ret None (unlock w1)
         else if lang \<noteq> None \<and> SIZE_MAX \<le> xml_lang_len then Undef
         else
           (let lit = literal_of v value_len lang xml_lang_len dt_uri;
                sz = fst (librdf_node_encode (Literal lit) None 0)
            in
            if sz = 0 then Ret None w1
            else if fails e A_key then Ret None w1
            else
              (let key = literal_key e lit sz in
               case hash_literal w1 key of
                 Some p \<Rightarrow> Ret (Some p) (unlock (node_incr p w1))
               | None \<Rightarrow>
                   if fails e A_hash_put then Ret None (unlock w1)
                   else
                     (let (p, w2) = node_alloc (Literal (lit\<lparr>lit_key := Some key, lit_size := sz\<rparr>)) w1
                      in Ret (Some p) (unlock (w2\<lparr>hash_literal := (hash_literal w2)(key \<mapsto> p)\<rparr>)))))))"

definition librdf_new_node_from_literal ::
  "alloc_env \<Rightarrow> bytes \<Rightarrow> bytes option \<Rightarrow> bool \<Rightarrow> librdf_world \<Rightarrow> (ptr option, librdf_world) outcome" where
  "librdf_new_node_from_literal e s xml_lang is_wf_xml w =
     (let lang = norm_lang xml_lang in
      if lang \<noteq> None \<and> is_wf_xml then Ret None w
      else
        librdf_new_node_from_typed_counted_literal e s (strlen s) lang
          (case lang of Some l \<Rightarrow> strlen l | None \<Rightarrow> 0)
          (if is_wf_xml then Some LIBRDF_RS_XMLLiteral_URI else None) w)"

definition librdf_new_node_from_typed_literal ::
  "alloc_env \<Rightarrow> bytes \<Rightarrow> bytes option \<Rightarrow> uri option \<Rightarrow> librdf_world \<Rightarrow> (ptr option, librdf_world) outcome" where
  "librdf_new_node_from_typed_literal e v xml_lang dt_uri w =
     librdf_new_node_from_typed_counted_literal e v (strlen v) xml_lang
       (case xml_lang of Some l \<Rightarrow> strlen l | None \<Rightarrow> 0) dt_uri w"

section \<open>Blank node constructors\<close>

text \<open>
  With no identifier the world generates one; otherwise \<open>identifier_len + 1\<close>
  bytes are copied and the first \<open>identifier_len\<close> are the key.
\<close>

definition librdf_new_node_from_counted_blank_identifier ::
  "alloc_env \<Rightarrow> bytes option \<Rightarrow> nat \<Rightarrow> librdf_world \<Rightarrow> (ptr option, librdf_world) outcome" where
  "librdf_new_node_from_counted_blank_identifier e identifier identifier_len w =
     (if nodes_mutex w then Blocked
      else
        (let w1 = w\<lparr>nodes_mutex := True\<rparr>;
             r = (case identifier of
                    None \<Rightarrow>
                      (case librdf_world_get_genid e w1 of
                         None \<Rightarrow> None
                       | Some (g, w') \<Rightarrow> Some (g, strlen g, w'))
                  | Some i \<Rightarrow>
                      if fails e A_identifier then None
                      else Some (mem_read i (identifier_len + 1), identifier_len, w1))
         in
         case r of
           None \<Rightarrow> Ret None (unlock w1)
         | Some (new_identifier, len, w2) \<Rightarrow>
             (let key = take len new_identifier in
              case hash_blank w2 key of
                Some p \<Rightarrow> Ret (Some p) (unlock (node_incr p w2))
              | None \<Rightarrow>
                  if fails e A_node then Ret None (unlock w2)
                  else if fails e A_hash_put then Ret None (unlock w2)
                  else
                    (let (p, w3) = node_alloc (Blank key) w2 in
                     Ret (Some p) (unlock (w3\<lparr>hash_blank := (hash_blank w3)(key \<mapsto> p)\<rparr>))))))"

definition librdf_new_node_from_blank_identifier ::
  "alloc_env \<Rightarrow> bytes option \<Rightarrow> librdf_world \<Rightarrow> (ptr option, librdf_world) outcome" where
  "librdf_new_node_from_blank_identifier e identifier w =
     librdf_new_node_from_counted_blank_identifier e identifier
       (case identifier of Some i \<Rightarrow> strlen i | None \<Rightarrow> 0) w"

definition librdf_new_node :: "alloc_env \<Rightarrow> librdf_world \<Rightarrow> (ptr option, librdf_world) outcome" where
  "librdf_new_node e w = librdf_new_node_from_blank_identifier e None w"

section \<open>Copy and release\<close>

text \<open>
  The copy constructor increments the usage count without taking the
  mutex.  A handle that is not a live node is a use after free (\<open>Undef\<close>).
\<close>

definition librdf_new_node_from_node ::
  "ptr option \<Rightarrow> librdf_world \<Rightarrow> (ptr option, librdf_world) outcome" where
  "librdf_new_node_from_node node w =
     (case node of
        None \<Rightarrow> Ret None w
      | Some p \<Rightarrow> (case nodes w p of None \<Rightarrow> Undef | Some _ \<Rightarrow> Ret (Some p) (node_incr p w)))"

text \<open>The hash entry a node is registered under, removed when it is freed.\<close>

definition unregister :: "librdf_node \<Rightarrow> librdf_world \<Rightarrow> librdf_world" where
  "unregister n w =
     (case node_data n of
        Resource u \<Rightarrow> w\<lparr>hash_resource := (hash_resource w)(u := None)\<rparr>
      | Literal l \<Rightarrow>
          (case lit_key l of
             Some k \<Rightarrow> w\<lparr>hash_literal := (hash_literal w)(k := None)\<rparr>
           | None \<Rightarrow> w)
      | Blank i \<Rightarrow> w\<lparr>hash_blank := (hash_blank w)(i := None)\<rparr>)"

definition librdf_free_node :: "ptr option \<Rightarrow> librdf_world \<Rightarrow> (unit, librdf_world) outcome" where
  "librdf_free_node node w =
     (case node of
        None \<Rightarrow> Ret () w
      | Some p \<Rightarrow>
          if nodes_mutex w then Blocked
          else
            (case nodes w p of
               None \<Rightarrow> Undef
             | Some n \<Rightarrow>
                 (let w1 = w\<lparr>nodes_mutex := True\<rparr>;
                      n' = n\<lparr>usage := usage n - 1\<rparr>
                  in
                  if usage n' \<noteq> 0 then Ret () (unlock (w1\<lparr>nodes := (nodes w1)(p \<mapsto> n')\<rparr>))
                  else
                    (let w2 = unregister n w1 in
                     Ret () (unlock (w2\<lparr>nodes := (nodes w2)(p := None)\<rparr>))))))"

end
