(* ===== verification/Lifecycle.thy ===== *)
theory Lifecycle
  imports World
begin

text \<open>
  The consistency of the intern tables with the node heap, and its
  preservation by every operation of \<open>World\<close> that returns.
  \<open>world_inv\<close>: every live node has a usage count of at least 1, lives
  below the allocation frontier and is registered in the hash of its kind
  under its key; every hash entry points to a live node of that kind and key.
  A literal's key is its encoding whenever its strings are C strings.
  \<open>ctor_result\<close> says what any constructor that returns does to the
  tables (NULL and nothing changed, a hit with its usage incremented, or a
  fresh node registered under an absent key); one lemma per constructor
  establishes it, and the invariant and the reference account of
  \<open>Refine\<close> are proved once from it.
  \<open>node_op\<close> names the operations a client can call, \<open>run_op\<close> runs
  one, and \<open>reachable\<close> holds of every world a sequence of returning
  operations leads to from a fresh world.
\<close>

section \<open>The invariant\<close>

definition literal_ok :: "literal_value \<Rightarrow> bool" where
  "literal_ok l \<longleftrightarrow>
     literal_wf l \<and> (xml_language l = None \<or> datatype_uri l = None) \<and>
     (c_strings (Literal l) \<longrightarrow> lit_key l = Some (node_encoding (Literal l)))"

definition node_registered :: "librdf_world \<Rightarrow> ptr \<Rightarrow> librdf_node \<Rightarrow> bool" where
  "node_registered w p n =
     (case node_data n of
        Resource u \<Rightarrow> hash_resource w u = Some p
      | Literal l \<Rightarrow>
          (case lit_key l of
             Some k \<Rightarrow> hash_literal w k = Some p \<and> literal_ok l
           | None \<Rightarrow> False)
      | Blank i \<Rightarrow> hash_blank w i = Some p)"

definition world_inv :: "librdf_world \<Rightarrow> bool" where
  "world_inv w \<longleftrightarrow>
     (\<forall>p n. nodes w p = Some n \<longrightarrow> p < next_ptr w \<and> 1 \<le> usage n \<and> node_registered w p n) \<and>
     (\<forall>u p. hash_resource w u = Some p \<longrightarrow>
        (\<exists>n. nodes w p = Some n \<and> node_data n = Resource u)) \<and>
     (\<forall>k p. hash_literal w k = Some p \<longrightarrow>
        (\<exists>n l. nodes w p = Some n \<and> node_data n = Literal l \<and> lit_key l = Some k)) \<and>
     (\<forall>k p. hash_blank w k = Some p \<longrightarrow>
        (\<exists>n. nodes w p = Some n \<and> node_data n = Blank k))"

definition lookup_key :: "librdf_world \<Rightarrow> node_value \<Rightarrow> ptr option" where
  "lookup_key w v =
     (case v of
        Resource u \<Rightarrow> hash_resource w u
      | Literal l \<Rightarrow> (case lit_key l of Some k \<Rightarrow> hash_literal w k | None \<Rightarrow> None)
      | Blank i \<Rightarrow> hash_blank w i)"

definition insert_key :: "node_value \<Rightarrow> ptr \<Rightarrow> librdf_world \<Rightarrow> librdf_world" where
  "insert_key v p w =
     (case v of
        Resource u \<Rightarrow> w\<lparr>hash_resource := (hash_resource w)(u \<mapsto> p)\<rparr>
      | Literal l \<Rightarrow>
          (case lit_key l of
             Some k \<Rightarrow> w\<lparr>hash_literal := (hash_literal w)(k \<mapsto> p)\<rparr>
           | None \<Rightarrow> w)
      | Blank i \<Rightarrow> w\<lparr>hash_blank := (hash_blank w)(i \<mapsto> p)\<rparr>)"

definition value_ok :: "node_value \<Rightarrow> bool" where
  "value_ok v =
     (case v of
        Literal l \<Rightarrow> lit_key l \<noteq> None \<and> literal_ok l
      | _ \<Rightarrow> True)"

section \<open>What a constructor does\<close>

text \<open>
  Two worlds with the same heap, allocation frontier and tables (they may
  differ in the mutex and the identifier counter).
\<close>

definition same_tables :: "librdf_world \<Rightarrow> librdf_world \<Rightarrow> bool" where
  "same_tables w w' \<longleftrightarrow>
     nodes w' = nodes w \<and> next_ptr w' = next_ptr w \<and> hash_resource w' = hash_resource w \<and>
     hash_literal w' = hash_literal w \<and> hash_blank w' = hash_blank w"

text \<open>
  The three ways a constructor that returns can end: NULL with the tables
  untouched; a node found in its table, its usage incremented; a new node
  at the allocation frontier registered under a key that was absent.
\<close>

definition ctor_result :: "librdf_world \<Rightarrow> ptr option \<Rightarrow> librdf_world \<Rightarrow> bool" where
  "ctor_result w r w' \<longleftrightarrow>
     (r = None \<and> same_tables w w') \<or>
     (\<exists>p. r = Some p \<and> nodes w p \<noteq> None \<and> same_tables (node_incr p w) w') \<or>
     (\<exists>v. r = Some (next_ptr w) \<and> lookup_key w v = None \<and> value_ok v \<and>
          same_tables (insert_key v (next_ptr w) (snd (node_alloc v w))) w')"

section \<open>Operations and reachable worlds\<close>

text \<open>
  The node operations that change the world.  The wrappers
  (\<open>librdf_new_node_from_uri_string\<close>, \<open>librdf_new_node_from_literal\<close>,
  \<open>librdf_new_node\<close>, ...) are these calls with fixed arguments.
\<close>

datatype node_op =
    Op_uri "bytes option" "uri option"
  | Op_literal bytes nat "bytes option" nat "uri option"
  | Op_blank "bytes option" nat
  | Op_copy "ptr option"
  | Op_free "ptr option"

definition run_op :: "alloc_env \<Rightarrow> node_op \<Rightarrow> librdf_world \<Rightarrow> (ptr option, librdf_world) outcome" where
  "run_op e op w =
     (case op of
        Op_uri s u \<Rightarrow> librdf_new_node_from_uri_string_or_uri e s u w
      | Op_literal v n lang ll dt \<Rightarrow> librdf_new_node_from_typed_counted_literal e v n lang ll dt w
      | Op_blank i n \<Rightarrow> librdf_new_node_from_counted_blank_identifier e i n w
      | Op_copy p \<Rightarrow> librdf_new_node_from_node p w
      | Op_free p \<Rightarrow>
          (case librdf_free_node p w of
             Ret _ w' \<Rightarrow> Ret None w'
           | Blocked \<Rightarrow> Blocked
           | Undef \<Rightarrow> Undef))"

inductive reachable :: "librdf_world \<Rightarrow> bool" where
  fresh: "reachable (new_world g)"
| step: "reachable w \<Longrightarrow> run_op e op w = Ret r w' \<Longrightarrow> reachable w'"

section \<open>Lemmas\<close>



lemma node_registered_frame:
  "hash_resource w' = hash_resource w \<Longrightarrow> hash_literal w' = hash_literal w \<Longrightarrow>
   hash_blank w' = hash_blank w \<Longrightarrow> node_registered w' p n = node_registered w p n"
  by (simp add: node_registered_def split: node_value.splits option.splits)

lemma world_inv_frame:
  "nodes w' = nodes w \<Longrightarrow> next_ptr w' = next_ptr w \<Longrightarrow> hash_resource w' = hash_resource w \<Longrightarrow>
   hash_literal w' = hash_literal w \<Longrightarrow> hash_blank w' = hash_blank w \<Longrightarrow>
   world_inv w' = world_inv w"
proof -
  assume a: "nodes w' = nodes w" "next_ptr w' = next_ptr w" "hash_resource w' = hash_resource w"
    "hash_literal w' = hash_literal w" "hash_blank w' = hash_blank w"
  have r: "node_registered w' p n = node_registered w p n" for p n
    using a(3-5) by (rule node_registered_frame)
  show ?thesis unfolding world_inv_def by (simp only: r a)
qed

lemma world_inv_mutex [simp]: "world_inv (w\<lparr>nodes_mutex := b\<rparr>) = world_inv w"
  by (rule world_inv_frame) simp_all

lemma world_inv_unlock [simp]: "world_inv (unlock w) = world_inv w"
  by (simp add: unlock_def)

lemma world_inv_genid [simp]: "world_inv (w\<lparr>genid_counter := c\<rparr>) = world_inv w"
  by (rule world_inv_frame) simp_all

lemma node_registered_usage [simp]:
  "node_registered w p (n\<lparr>usage := x\<rparr>) = node_registered w p n"
  by (simp add: node_registered_def)

lemma world_invD:
  assumes "world_inv w"
  shows "nodes w p = Some n \<Longrightarrow> p < next_ptr w \<and> 1 \<le> usage n \<and> node_registered w p n"
    and "hash_resource w u = Some p \<Longrightarrow> \<exists>n. nodes w p = Some n \<and> node_data n = Resource u"
    and "hash_literal w k = Some p \<Longrightarrow>
           \<exists>n l. nodes w p = Some n \<and> node_data n = Literal l \<and> lit_key l = Some k"
    and "hash_blank w k = Some p \<Longrightarrow> \<exists>n. nodes w p = Some n \<and> node_data n = Blank k"
  using assms unfolding world_inv_def by blast+

lemma world_invI:
  assumes "\<And>p n. nodes w p = Some n \<Longrightarrow> p < next_ptr w \<and> 1 \<le> usage n \<and> node_registered w p n"
    and "\<And>u p. hash_resource w u = Some p \<Longrightarrow> \<exists>n. nodes w p = Some n \<and> node_data n = Resource u"
    and "\<And>k p. hash_literal w k = Some p \<Longrightarrow>
           \<exists>n l. nodes w p = Some n \<and> node_data n = Literal l \<and> lit_key l = Some k"
    and "\<And>k p. hash_blank w k = Some p \<Longrightarrow> \<exists>n. nodes w p = Some n \<and> node_data n = Blank k"
  shows "world_inv w"
  using assms unfolding world_inv_def by blast

lemma node_incr_fields [simp]:
  "next_ptr (node_incr p w) = next_ptr w"
  "hash_resource (node_incr p w) = hash_resource w"
  "hash_literal (node_incr p w) = hash_literal w"
  "hash_blank (node_incr p w) = hash_blank w"
  "nodes_mutex (node_incr p w) = nodes_mutex w"
  "genid_counter (node_incr p w) = genid_counter w"
  by (simp_all add: node_incr_def)

lemma node_incr_exists:
  "(\<exists>n. nodes (node_incr p w) q = Some n \<and> P (node_data n)) \<longleftrightarrow>
   (\<exists>n. nodes w q = Some n \<and> P (node_data n))"
  by (cases "q = p") (auto simp: node_incr_def)

lemma world_inv_node_incr:
  assumes inv: "world_inv w" and p: "nodes w p \<noteq> None"
  shows "world_inv (node_incr p w)"
proof (rule world_invI)
  have reg: "node_registered (node_incr p w) q n = node_registered w q n" for q n
    by (rule node_registered_frame) (simp_all add: node_incr_def)
  fix q n assume qn: "nodes (node_incr p w) q = Some n"
  show "q < next_ptr (node_incr p w) \<and> 1 \<le> usage n \<and> node_registered (node_incr p w) q n"
  proof (cases "q = p")
    case True
    with qn obtain m where m: "nodes w p = Some m" and n: "n = m\<lparr>usage := usage m + 1\<rparr>"
      by (auto simp: node_incr_def)
    from world_invD(1)[OF inv m] show ?thesis
      by (simp add: True n reg)
  next
    case False
    with qn have "nodes w q = Some n" by (simp add: node_incr_def)
    from world_invD(1)[OF inv this] show ?thesis by (simp add: reg)
  qed
next
  fix u q assume "hash_resource (node_incr p w) u = Some q"
  then show "\<exists>n. nodes (node_incr p w) q = Some n \<and> node_data n = Resource u"
    using world_invD(2)[OF inv] node_incr_exists[of p w q "\<lambda>d. d = Resource u"] by simp
next
  fix k q assume "hash_literal (node_incr p w) k = Some q"
  then show "\<exists>n l. nodes (node_incr p w) q = Some n \<and> node_data n = Literal l \<and> lit_key l = Some k"
    using world_invD(3)[OF inv]
      node_incr_exists[of p w q "\<lambda>d. \<exists>l. d = Literal l \<and> lit_key l = Some k"] by simp
next
  fix k q assume "hash_blank (node_incr p w) k = Some q"
  then show "\<exists>n. nodes (node_incr p w) q = Some n \<and> node_data n = Blank k"
    using world_invD(4)[OF inv] node_incr_exists[of p w q "\<lambda>d. d = Blank k"] by simp
qed

lemma insert_key_fields [simp]:
  "nodes (insert_key v p w) = nodes w"
  "next_ptr (insert_key v p w) = next_ptr w"
  "nodes_mutex (insert_key v p w) = nodes_mutex w"
  by (simp_all add: insert_key_def split: node_value.splits option.splits)

lemma node_registered_insert_new:
  "value_ok v \<Longrightarrow> node_registered (insert_key v p w) p \<lparr>usage = 1, node_data = v\<rparr>"
  by (simp add: insert_key_def node_registered_def value_ok_def split: node_value.splits option.splits)

lemma node_registered_insert_old:
  assumes "lookup_key w v = None" "node_registered w q n"
  shows "node_registered (insert_key v p w) q n"
  using assms
  by (auto simp: insert_key_def node_registered_def lookup_key_def
      split: node_value.splits option.splits)

lemma insert_key_lookup:
  assumes "lookup_key w v = None"
  shows "hash_resource (insert_key v p w) u = Some q \<Longrightarrow>
           hash_resource w u = Some q \<or> (q = p \<and> v = Resource u)"
    and "hash_literal (insert_key v p w) k = Some q \<Longrightarrow>
           hash_literal w k = Some q \<or> (q = p \<and> (\<exists>l. v = Literal l \<and> lit_key l = Some k))"
    and "hash_blank (insert_key v p w) k = Some q \<Longrightarrow>
           hash_blank w k = Some q \<or> (q = p \<and> v = Blank k)"
  using assms
  by (auto simp: insert_key_def lookup_key_def split: node_value.splits option.splits if_splits)

lemma world_inv_add:
  assumes inv: "world_inv w" and fresh: "lookup_key w v = None" and ok: "value_ok v"
  shows "world_inv (insert_key v (next_ptr w) (snd (node_alloc v w)))"
    (is "world_inv ?w'")
proof -
  let ?p = "next_ptr w"
  have old: "nodes w q = Some n \<Longrightarrow> q \<noteq> ?p" for q n
    using world_invD(1)[OF inv] by fastforce
  have fresh': "lookup_key (snd (node_alloc v w)) v = None"
    using fresh by (simp add: node_alloc_def lookup_key_def split: node_value.splits option.splits)
  have reg_alloc: "node_registered (snd (node_alloc v w)) q n = node_registered w q n" for q n
    by (rule node_registered_frame) (simp_all add: node_alloc_def)
  show ?thesis
  proof (rule world_invI)
    fix q n assume "nodes ?w' q = Some n"
    then show "q < next_ptr ?w' \<and> 1 \<le> usage n \<and> node_registered ?w' q n"
    proof (cases "q = ?p")
      case True
      with \<open>nodes ?w' q = Some n\<close> have "n = \<lparr>usage = 1, node_data = v\<rparr>" by (simp add: node_alloc_def)
      with True ok show ?thesis by (simp add: node_alloc_def node_registered_insert_new)
    next
      case False
      with \<open>nodes ?w' q = Some n\<close> have qn: "nodes w q = Some n" by (simp add: node_alloc_def)
      from world_invD(1)[OF inv qn] have r: "node_registered (snd (node_alloc v w)) q n"
        by (simp add: reg_alloc)
      have "node_registered ?w' q n" by (rule node_registered_insert_old[OF fresh' r])
      with world_invD(1)[OF inv qn] show ?thesis by (simp add: node_alloc_def)
    qed
  next
    fix u q assume "hash_resource ?w' u = Some q"
    from insert_key_lookup(1)[OF fresh' this] show "\<exists>n. nodes ?w' q = Some n \<and> node_data n = Resource u"
    proof
      assume "hash_resource (snd (node_alloc v w)) u = Some q"
      then have "hash_resource w u = Some q" by (simp add: node_alloc_def)
      from world_invD(2)[OF inv this] old show ?thesis by (auto simp: node_alloc_def)
    qed (auto simp: node_alloc_def)
  next
    fix k q assume "hash_literal ?w' k = Some q"
    from insert_key_lookup(2)[OF fresh' this]
    show "\<exists>n l. nodes ?w' q = Some n \<and> node_data n = Literal l \<and> lit_key l = Some k"
    proof
      assume "hash_literal (snd (node_alloc v w)) k = Some q"
      then have "hash_literal w k = Some q" by (simp add: node_alloc_def)
      from world_invD(3)[OF inv this] old show ?thesis by (auto simp: node_alloc_def)
    qed (auto simp: node_alloc_def)
  next
    fix k q assume "hash_blank ?w' k = Some q"
    from insert_key_lookup(3)[OF fresh' this] show "\<exists>n. nodes ?w' q = Some n \<and> node_data n = Blank k"
    proof
      assume "hash_blank (snd (node_alloc v w)) k = Some q"
      then have "hash_blank w k = Some q" by (simp add: node_alloc_def)
      from world_invD(4)[OF inv this] old show ?thesis by (auto simp: node_alloc_def)
    qed (auto simp: node_alloc_def)
  qed
qed

lemma world_inv_set_usage:
  assumes inv: "world_inv w" and pn: "nodes w p = Some n" and x: "1 \<le> x"
  shows "world_inv (w\<lparr>nodes := (nodes w)(p \<mapsto> n\<lparr>usage := x\<rparr>)\<rparr>)" (is "world_inv ?w'")
proof -
  have reg: "node_registered ?w' q m = node_registered w q m" for q m
    by (rule node_registered_frame) simp_all
  have ex: "(\<exists>m. nodes ?w' q = Some m \<and> P (node_data m)) \<longleftrightarrow> (\<exists>m. nodes w q = Some m \<and> P (node_data m))"
    for q and P :: "node_value \<Rightarrow> bool"
    using pn by (cases "q = p") auto
  show ?thesis
  proof (rule world_invI)
  fix q m assume qm: "nodes ?w' q = Some m"
  show "q < next_ptr ?w' \<and> 1 \<le> usage m \<and> node_registered ?w' q m"
  proof (cases "q = p")
    case True
    with qm have "m = n\<lparr>usage := x\<rparr>" by simp
    with world_invD(1)[OF inv pn] x True show ?thesis by (simp add: reg)
  next
    case False
    with qm have "nodes w q = Some m" by simp
    from world_invD(1)[OF inv this] show ?thesis by (simp add: reg)
  qed
next
  fix u q assume "hash_resource ?w' u = Some q"
  then show "\<exists>m. nodes ?w' q = Some m \<and> node_data m = Resource u"
    using world_invD(2)[OF inv] ex[of q "\<lambda>d. d = Resource u"] by simp
next
  fix k q assume "hash_literal ?w' k = Some q"
  then show "\<exists>m l. nodes ?w' q = Some m \<and> node_data m = Literal l \<and> lit_key l = Some k"
    using world_invD(3)[OF inv] ex[of q "\<lambda>d. \<exists>l. d = Literal l \<and> lit_key l = Some k"] by simp
next
  fix k q assume "hash_blank ?w' k = Some q"
  then show "\<exists>m. nodes ?w' q = Some m \<and> node_data m = Blank k"
    using world_invD(4)[OF inv] ex[of q "\<lambda>d. d = Blank k"] by simp
  qed
qed

lemma unregister_fields [simp]:
  "nodes (unregister n w) = nodes w"
  "next_ptr (unregister n w) = next_ptr w"
  "nodes_mutex (unregister n w) = nodes_mutex w"
  by (simp_all add: unregister_def split: node_value.splits option.splits)

lemma node_registered_unregister:
  assumes inv: "world_inv w" and pn: "nodes w p = Some n" and qm: "nodes w q = Some m" and "q \<noteq> p"
  shows "node_registered (unregister n w) q m"
  using world_invD(1)[OF inv pn] world_invD(1)[OF inv qm] \<open>q \<noteq> p\<close>
  by (auto simp: node_registered_def unregister_def split: node_value.splits option.splits)

lemma unregister_lookup:
  shows "hash_resource (unregister n w) u = Some q \<Longrightarrow> hash_resource w u = Some q \<and> node_data n \<noteq> Resource u"
    and "hash_literal (unregister n w) k = Some q \<Longrightarrow>
           hash_literal w k = Some q \<and> (\<forall>l. node_data n = Literal l \<longrightarrow> lit_key l \<noteq> Some k)"
    and "hash_blank (unregister n w) k = Some q \<Longrightarrow> hash_blank w k = Some q \<and> node_data n \<noteq> Blank k"
  by (auto simp: unregister_def split: node_value.splits option.splits if_splits)

lemma world_inv_remove:
  assumes inv: "world_inv w" and pn: "nodes w p = Some n"
  shows "world_inv ((unregister n w)\<lparr>nodes := (nodes w)(p := None)\<rparr>)" (is "world_inv ?w'")
proof (rule world_invI)
  have reg: "node_registered ?w' q m = node_registered (unregister n w) q m" for q m
    by (rule node_registered_frame) simp_all
  fix q m assume "nodes ?w' q = Some m"
  then have qm: "nodes w q = Some m" and "q \<noteq> p" by (auto split: if_splits)
  with world_invD(1)[OF inv qm] node_registered_unregister[OF inv pn qm]
  show "q < next_ptr ?w' \<and> 1 \<le> usage m \<and> node_registered ?w' q m" by (simp add: reg)
next
  fix u q assume "hash_resource ?w' u = Some q"
  then have "hash_resource (unregister n w) u = Some q" by simp
  from unregister_lookup(1)[OF this] have h: "hash_resource w u = Some q" and d: "node_data n \<noteq> Resource u" by simp_all
  from world_invD(2)[OF inv h] obtain m where "nodes w q = Some m" "node_data m = Resource u" by blast
  with d pn show "\<exists>m. nodes ?w' q = Some m \<and> node_data m = Resource u" by auto
next
  fix k q assume "hash_literal ?w' k = Some q"
  then have "hash_literal (unregister n w) k = Some q" by simp
  from unregister_lookup(2)[OF this] have h: "hash_literal w k = Some q" and d: "\<forall>l. node_data n = Literal l \<longrightarrow> lit_key l \<noteq> Some k" by simp_all
  from world_invD(3)[OF inv h] obtain m l where "nodes w q = Some m" "node_data m = Literal l"
    "lit_key l = Some k" by blast
  with d pn show "\<exists>m l. nodes ?w' q = Some m \<and> node_data m = Literal l \<and> lit_key l = Some k" by auto
next
  fix k q assume "hash_blank ?w' k = Some q"
  then have "hash_blank (unregister n w) k = Some q" by simp
  from unregister_lookup(3)[OF this] have h: "hash_blank w k = Some q" and d: "node_data n \<noteq> Blank k" by simp_all
  from world_invD(4)[OF inv h] obtain m where "nodes w q = Some m" "node_data m = Blank k" by blast
  with d pn show "\<exists>m. nodes ?w' q = Some m \<and> node_data m = Blank k" by auto
qed

lemma world_inv_live:
  "Some p = hash_resource w u \<Longrightarrow> world_inv w \<Longrightarrow> \<exists>n. nodes w p = Some n"
  "Some p = hash_literal w k \<Longrightarrow> world_inv w \<Longrightarrow> \<exists>n. nodes w p = Some n"
  "Some p = hash_blank w k \<Longrightarrow> world_inv w \<Longrightarrow> \<exists>n. nodes w p = Some n"
  using world_invD(2,3,4) by metis+

lemma literal_of_wf: "literal_wf (literal_of v n lang ll dt)"
  by (simp add: literal_of_def literal_wf_def split: option.splits)

lemma literal_key_encoding:
  assumes cs: "c_strings (Literal lit)" and wf: "literal_wf lit"
    and sz: "fst (librdf_node_encode (Literal lit) None 0) = sz" "sz \<noteq> 0"
  shows "literal_key e lit sz = node_encoding (Literal lit)"
proof -
  have enc: "encodable (Literal lit)" using sz by (auto intro: librdf_node_encode_nonzero)
  have vwf: "value_wf (Literal lit)" using wf by (simp add: value_wf_def)
  have len: "sz = length (node_encoding (Literal lit))"
    using sz(1) encode_size_layout[OF vwf enc] by simp
  have "length (malloc_bytes e sz) = length (node_encoding (Literal lit))"
    by (simp add: malloc_bytes_def len)
  from encode_fill_layout[OF vwf cs enc this] show ?thesis
    by (simp add: literal_key_def malloc_bytes_def len)
qed

lemma literal_ok_new:
  assumes "lang = None \<or> dt = None"
    and "fst (librdf_node_encode (Literal (literal_of v n lang ll dt)) None 0) = sz" "sz \<noteq> 0"
  shows "literal_ok ((literal_of v n lang ll dt)\<lparr>lit_key := Some (literal_key e
            (literal_of v n lang ll dt) sz), lit_size := sz\<rparr>)"
proof -
  have "xml_language (literal_of v n lang ll dt) = None \<or> datatype_uri (literal_of v n lang ll dt) = None"
    using assms(1) by (auto simp: literal_of_def)
  then show ?thesis
    using literal_key_encoding[OF _ literal_of_wf assms(2,3)]
    by (simp add: literal_ok_def literal_of_wf)
qed

lemma same_tables_updates [simp]:
  "same_tables w w"
  "same_tables w (w\<lparr>nodes_mutex := b\<rparr>)"
  "same_tables w (w\<lparr>nodes_mutex := b, genid_counter := c\<rparr>)"
  by (simp_all add: same_tables_def)

lemma ctor_none:
  "same_tables w w1 \<Longrightarrow> ctor_result w None w1"
  "same_tables w w1 \<Longrightarrow> ctor_result w None (unlock w1)"
  by (simp_all add: ctor_result_def same_tables_def unlock_def)

lemma ctor_hit:
  "nodes w p \<noteq> None \<Longrightarrow> same_tables w w1 \<Longrightarrow> ctor_result w (Some p) (unlock (node_incr p w1))"
  unfolding ctor_result_def
  by (rule disjI2, rule disjI1) (simp add: same_tables_def unlock_def node_incr_def)

lemma ctor_hits:
  "world_inv w \<Longrightarrow> hash_resource w u = Some p \<Longrightarrow> same_tables w w1 \<Longrightarrow>
   ctor_result w (Some p) (unlock (node_incr p w1))"
  "world_inv w \<Longrightarrow> hash_blank w i = Some p \<Longrightarrow> same_tables w w1 \<Longrightarrow>
   ctor_result w (Some p) (unlock (node_incr p w1))"
  "world_inv w \<Longrightarrow> hash_literal w k = Some p \<Longrightarrow> same_tables w w1 \<Longrightarrow>
   ctor_result w (Some p) (unlock (node_incr p w1))"
  by (rule ctor_hit, use world_invD(2) in force, assumption,
      rule ctor_hit, use world_invD(4) in force, assumption,
      rule ctor_hit, use world_invD(3) in force, assumption)

lemma ctor_new:
  "lookup_key w v = None \<Longrightarrow> value_ok v \<Longrightarrow> same_tables w w1 \<Longrightarrow>
   ctor_result w (Some (next_ptr w)) (unlock (insert_key v (next_ptr w) (snd (node_alloc v w1))))"
  unfolding ctor_result_def
  by (rule disjI2, rule disjI2, rule exI[where x = v])
     (simp add: same_tables_def unlock_def insert_key_def node_alloc_def
      split: node_value.splits option.splits)

lemma node_alloc_simps [simp]:
  "fst (node_alloc v w) = next_ptr w"
  "hash_resource (snd (node_alloc v w)) = hash_resource w"
  "hash_literal (snd (node_alloc v w)) = hash_literal w"
  "hash_blank (snd (node_alloc v w)) = hash_blank w"
  by (simp_all add: node_alloc_def)

lemma ctor_news:
  "hash_resource w u = None \<Longrightarrow> same_tables w w1 \<Longrightarrow> ctor_result w (Some (next_ptr w))
     (unlock ((snd (node_alloc (Resource u) w1))\<lparr>hash_resource := (hash_resource w)(u \<mapsto> next_ptr w)\<rparr>))"
  "hash_blank w i = None \<Longrightarrow> same_tables w w1 \<Longrightarrow> ctor_result w (Some (next_ptr w))
     (unlock ((snd (node_alloc (Blank i) w1))\<lparr>hash_blank := (hash_blank w)(i \<mapsto> next_ptr w)\<rparr>))"
  "hash_literal w k = None \<Longrightarrow> lit_key l = Some k \<Longrightarrow> literal_ok l \<Longrightarrow> same_tables w w1 \<Longrightarrow>
   ctor_result w (Some (next_ptr w))
     (unlock ((snd (node_alloc (Literal l) w1))\<lparr>hash_literal := (hash_literal w)(k \<mapsto> next_ptr w)\<rparr>))"
  using ctor_new[of w "Resource u" w1] ctor_new[of w "Blank i" w1] ctor_new[of w "Literal l" w1]
  by (simp_all add: lookup_key_def insert_key_def value_ok_def same_tables_def)

lemma ctor_uri:
  assumes inv: "world_inv w" and r: "librdf_new_node_from_uri_string_or_uri e s u w = Ret res w'"
  shows "ctor_result w res w'"
  using r
  unfolding librdf_new_node_from_uri_string_or_uri_def Let_def
  by (simp add: split_def split: if_split_asm option.split_asm)
     (auto simp: eq_commute[of "Some _" "hash_resource _ _"]
       intro: ctor_none ctor_hits(1)[OF inv _ same_tables_updates(2)]
         ctor_news(1)[OF _ same_tables_updates(2)])

lemma ctor_literal:
  assumes inv: "world_inv w"
    and r: "librdf_new_node_from_typed_counted_literal e v n lx ll dt w = Ret res w'"
  shows "ctor_result w res w'"
  using r
  unfolding librdf_new_node_from_typed_counted_literal_def Let_def
  by (simp add: split_def split: if_split_asm option.split_asm)
     (auto simp: eq_commute[of "Some _" "hash_literal _ _"]
       intro: ctor_none ctor_hits(3)[OF inv _ same_tables_updates(2)]
         ctor_news(3)[OF _ _ _ same_tables_updates(2)] literal_ok_new)

lemma ctor_blank:
  assumes inv: "world_inv w"
    and r: "librdf_new_node_from_counted_blank_identifier e i n w = Ret res w'"
  shows "ctor_result w res w'"
  using r
  unfolding librdf_new_node_from_counted_blank_identifier_def librdf_world_get_genid_def Let_def
  by (simp add: split_def split: if_split_asm option.split_asm)
     (auto simp: eq_commute[of "Some _" "hash_blank _ _"]
       intro: ctor_none ctor_hits(2)[OF inv _ same_tables_updates(2)]
         ctor_hits(2)[OF inv _ same_tables_updates(3)]
         ctor_news(2)[OF _ same_tables_updates(2)] ctor_news(2)[OF _ same_tables_updates(3)])

lemma ctor_copy:
  assumes "librdf_new_node_from_node q w = Ret res w'"
  shows "ctor_result w res w'"
proof (cases q)
  case (Some p)
  with assms have "nodes w p \<noteq> None" "res = Some p" "w' = node_incr p w"
    by (auto simp: librdf_new_node_from_node_def split: option.splits)
  then show ?thesis by (auto simp: ctor_result_def same_tables_def)
qed (use assms in \<open>simp add: librdf_new_node_from_node_def ctor_result_def same_tables_def\<close>)

lemma world_inv_same_tables:
  "same_tables w w' \<Longrightarrow> world_inv w' = world_inv w"
  unfolding same_tables_def by (rule world_inv_frame) simp_all

lemma world_inv_ctor_result:
  assumes "world_inv w" "ctor_result w r w'"
  shows "world_inv w'"
  using assms world_inv_node_incr[OF assms(1)] world_inv_add[OF assms(1)]
  by (auto simp: ctor_result_def world_inv_same_tables)

lemma world_inv_free:
  assumes "world_inv w" "librdf_free_node q w = Ret r w'"
  shows "world_inv w'"
proof (cases q)
  case None with assms show ?thesis by (simp add: librdf_free_node_def)
next
  case (Some p)
  with assms obtain n where pn: "nodes w p = Some n" and m: "\<not> nodes_mutex w"
    by (auto simp: librdf_free_node_def split: if_splits option.splits)
  have u: "1 \<le> usage n" using world_invD(1)[OF assms(1) pn] by simp
  show ?thesis
  proof (cases "usage n - 1 = 0")
    case True
    let ?w1 = "w\<lparr>nodes_mutex := True\<rparr>"
    have inv1: "world_inv ?w1" and pn1: "nodes ?w1 p = Some n" using assms(1) pn by simp_all
    from True assms(2) Some pn m
    have "w' = unlock ((unregister n ?w1)\<lparr>nodes := (nodes ?w1)(p := None)\<rparr>)"
      by (simp add: librdf_free_node_def Let_def)
    with world_inv_remove[OF inv1 pn1] show ?thesis by simp
  next
    case False
    with assms(2) Some pn m have "w' = unlock (w\<lparr>nodes := (nodes w)(p \<mapsto> n\<lparr>usage := usage n - 1\<rparr>)\<rparr>)"
      by (simp add: librdf_free_node_def Let_def unlock_def)
    with world_inv_set_usage[OF assms(1) pn, of "usage n - 1"] False u show ?thesis by simp
  qed
qed

lemma world_inv_new_world: "world_inv (new_world g)"
  by (simp add: world_inv_def new_world_def librdf_init_node_def)

lemma world_inv_run_op:
  assumes "world_inv w" "run_op e op w = Ret r w'"
  shows "world_inv w'"
proof (cases op)
  case (Op_free q)
  with assms(2) obtain u where "librdf_free_node q w = Ret u w'"
    by (auto simp: run_op_def split: outcome.splits)
  with assms(1) show ?thesis by (rule world_inv_free)
qed (use assms in \<open>auto simp: run_op_def intro: world_inv_ctor_result ctor_uri ctor_literal
      ctor_blank ctor_copy\<close>)

lemma world_inv_unique:
  assumes inv: "world_inv w" and "nodes w p = Some n" "nodes w q = Some m"
    and "node_data n = node_data m"
  shows "p = q"
  using world_invD(1)[OF inv assms(2)] world_invD(1)[OF inv assms(3)] assms(4)
  by (auto simp: node_registered_def split: node_value.splits option.splits)

text \<open>
  C2.  Every world reachable from a fresh world by node operations that
  return keeps its intern tables consistent with its node heap.
\<close>

theorem reachable_world_inv: "reachable w \<Longrightarrow> world_inv w"
  by (induction rule: reachable.induct) (auto intro: world_inv_new_world world_inv_run_op)


theorem reachable_world_inv_witness:
  "world_inv \<lparr>nodes = [1 \<mapsto> \<lparr>usage = 1, node_data = Resource (bstr ''http://purl.org/net/dajobe/'')\<rparr>],
     hash_resource = [bstr ''http://purl.org/net/dajobe/'' \<mapsto> 1], hash_literal = Map.empty,
     hash_blank = Map.empty, next_ptr = 2, nodes_mutex = False, genid_counter = 0,
     genid = \<lambda>_. []\<rparr>"
proof -
  have "run_op (no_faults (\<lambda>_. 0)) (Op_uri (Some (bstr ''http://purl.org/net/dajobe/'')) None)
          (new_world (\<lambda>_. []))
        = Ret (Some 1) \<lparr>nodes = [1 \<mapsto> \<lparr>usage = 1, node_data = Resource (bstr ''http://purl.org/net/dajobe/'')\<rparr>],
     hash_resource = [bstr ''http://purl.org/net/dajobe/'' \<mapsto> 1], hash_literal = Map.empty,
     hash_blank = Map.empty, next_ptr = 2, nodes_mutex = False, genid_counter = 0,
     genid = \<lambda>_. []\<rparr>"
    by (simp add: run_op_def librdf_new_node_from_uri_string_or_uri_def librdf_new_uri_def
        no_faults_def new_world_def librdf_init_node_def node_alloc_def unlock_def
        bstr_def cstr_def)
  from reachable.step[OF reachable.fresh this] show ?thesis by (rule reachable_world_inv)
qed

lemma typed_counted_encode_fail:
  assumes m: "\<not> nodes_mutex w" and e: "fails e = (\<lambda>_. False)"
    and ex: "norm_lang lx = None \<or> dt = None" and n: "n < SIZE_MAX" and ll: "ll < SIZE_MAX"
    and enc: "\<not> encodable (Literal (literal_of v n (norm_lang lx) ll dt))"
  shows "librdf_new_node_from_typed_counted_literal e v n lx ll dt w = Ret None (w\<lparr>nodes_mutex := True\<rparr>)"
proof -
  from ex m e n ll encode_zero_not_encodable[OF enc, of None 0] show ?thesis
    by (cases "norm_lang lx"; cases dt) (simp_all add: librdf_new_node_from_typed_counted_literal_def Let_def)
qed

lemma long_language_not_encodable:
  assumes "nul_free l" "256 \<le> length l"
  shows "norm_lang (Some l) = Some l"
    "\<not> encodable (Literal (literal_of v n (Some l) (strlen l) dt))"
proof -
  have "l \<noteq> []" using assms(2) by auto
  then have "\<not> c_empty l" using c_empty_nul_free[OF assms(1), of "[]"] by simp
  then show "norm_lang (Some l) = Some l" by (simp add: norm_lang_def)
  show "\<not> encodable (Literal (literal_of v n (Some l) (strlen l) dt))"
    using assms by (simp add: encodable_def literal_of_def lit_language_length_def nul_free_strlen)
qed

lemma from_uri_ok:
  assumes "\<not> nodes_mutex w" "\<not> fails e A_node" "\<not> fails e A_hash_put"
  shows "\<exists>p w'. librdf_new_node_from_uri e u w = Ret (Some p) w' \<and> \<not> nodes_mutex w'"
  using assms
  by (cases "hash_resource w u") (auto simp: librdf_new_node_from_uri_def
      librdf_new_node_from_uri_string_or_uri_def unlock_def node_alloc_def Let_def)

lemma free_node_locked: "nodes_mutex w \<Longrightarrow> librdf_free_node (Some q) w = Blocked"
  by (simp add: librdf_free_node_def)

text \<open>
  C12.  When the encoder rejects the literal being built (a language tag
  over 255 bytes, a datatype URI over 0xFFFF bytes), the literal
  constructor returns NULL at line 533 without unlocking the node mutex:
  every later operation that takes the mutex, \<open>librdf_free_node\<close>
  included, blocks for ever.
\<close>

theorem typed_counted_literal_keeps_mutex:
  assumes "\<not> nodes_mutex w" "fails e = (\<lambda>_. False)" "norm_lang lx = None \<or> dt = None"
    "n < SIZE_MAX" "ll < SIZE_MAX" "\<not> encodable (Literal (literal_of v n (norm_lang lx) ll dt))"
  shows "librdf_new_node_from_typed_counted_literal e v n lx ll dt w = Ret None (w\<lparr>nodes_mutex := True\<rparr>)
         \<and> librdf_free_node (Some q) (w\<lparr>nodes_mutex := True\<rparr>) = Blocked"
  using typed_counted_encode_fail[OF assms] free_node_locked by simp

theorem typed_counted_literal_keeps_mutex_witness:
  "librdf_new_node_from_typed_counted_literal (no_faults (\<lambda>_. 0)) (bstr ''x'') 1
      (Some (replicate 256 97)) 256 None (new_world (\<lambda>_. []))
     = Ret None ((new_world (\<lambda>_. []))\<lparr>nodes_mutex := True\<rparr>)
   \<and> librdf_free_node (Some 1) ((new_world (\<lambda>_. []))\<lparr>nodes_mutex := True\<rparr>) = Blocked"
proof -
  have l: "nul_free (replicate 256 (97::byte))" "256 \<le> length (replicate 256 (97::byte))" by simp_all
  have s: "strlen (replicate 256 (97::byte)) = 256" by (simp add: nul_free_strlen)
  note nl = long_language_not_encodable(1)[OF l]
    long_language_not_encodable(2)[OF l, where v = "bstr ''x''" and n = 1 and dt = None]
  show ?thesis
    by (rule typed_counted_literal_keeps_mutex) (use nl s in \<open>simp_all add: new_world_def
        librdf_init_node_def no_faults_def SIZE_MAX_def\<close>)
qed

end
