(* ===== verification/Refine.thy ===== *)
theory Refine
  imports Lifecycle
begin

text \<open>
  The usage counts of the intern tables refine an abstract account of
  references.  The abstract state counts, per intern key (the URI of a
  resource, the encoding of a literal, the identifier of a blank node), the
  references the program holds; a constructor or a copy that returns a node
  acquires one reference to its key, \<open>librdf_free_node\<close> releases one.
  \<open>ref_count\<close> reads the abstract count off a world: the usage of the node
  the table holds under the key, or 0.  Over any sequence of operations from
  a fresh world the count of a key plus the releases of it equals the
  acquisitions of it: the usage of a node is the number of handles to it
  that have not been released.
\<close>

section \<open>The abstract account\<close>

datatype intern_key = KRes uri | KLit bytes | KBlank bytes

definition key_of :: "node_value \<Rightarrow> intern_key option" where
  "key_of v =
     (case v of
        Resource u \<Rightarrow> Some (KRes u)
      | Literal l \<Rightarrow> map_option KLit (lit_key l)
      | Blank i \<Rightarrow> Some (KBlank i))"

definition table_lookup :: "librdf_world \<Rightarrow> intern_key \<Rightarrow> ptr option" where
  "table_lookup w k =
     (case k of
        KRes u \<Rightarrow> hash_resource w u
      | KLit b \<Rightarrow> hash_literal w b
      | KBlank i \<Rightarrow> hash_blank w i)"

definition ref_count :: "librdf_world \<Rightarrow> intern_key \<Rightarrow> nat" where
  "ref_count w k =
     (case table_lookup w k of
        None \<Rightarrow> 0
      | Some p \<Rightarrow> (case nodes w p of None \<Rightarrow> 0 | Some n \<Rightarrow> nat (usage n)))"

text \<open>The key of a handle in a world.\<close>

definition handle_key :: "librdf_world \<Rightarrow> ptr \<Rightarrow> intern_key option" where
  "handle_key w p = (case nodes w p of None \<Rightarrow> None | Some n \<Rightarrow> key_of (node_data n))"

datatype ref_event = Acquire intern_key | Release intern_key | No_ref

text \<open>
  The abstract event of an operation that returned \<open>r\<close> in world \<open>w'\<close>
  from world \<open>w\<close>: a returned handle acquires its key, a freed handle
  releases the key it had before.
\<close>

definition op_event :: "librdf_world \<Rightarrow> node_op \<Rightarrow> ptr option \<Rightarrow> librdf_world \<Rightarrow> ref_event" where
  "op_event w op r w' =
     (case op of
        Op_free (Some p) \<Rightarrow> (case handle_key w p of Some k \<Rightarrow> Release k | None \<Rightarrow> No_ref)
      | Op_free None \<Rightarrow> No_ref
      | _ \<Rightarrow> (case r of
               Some p \<Rightarrow> (case handle_key w' p of Some k \<Rightarrow> Acquire k | None \<Rightarrow> No_ref)
             | None \<Rightarrow> No_ref))"

text \<open>The abstract machine: a count per key, moved by the events.\<close>

definition count_event :: "ref_event \<Rightarrow> (intern_key \<Rightarrow> nat) \<Rightarrow> (intern_key \<Rightarrow> nat)" where
  "count_event ev c =
     (case ev of
        Acquire k \<Rightarrow> c(k := Suc (c k))
      | Release k \<Rightarrow> c(k := c k - 1)
      | No_ref \<Rightarrow> c)"

definition acquires :: "intern_key \<Rightarrow> ref_event list \<Rightarrow> nat" where
  "acquires k evs = length (filter (\<lambda>ev. ev = Acquire k) evs)"

definition releases :: "intern_key \<Rightarrow> ref_event list \<Rightarrow> nat" where
  "releases k evs = length (filter (\<lambda>ev. ev = Release k) evs)"

text \<open>Runs from a world, with the abstract events of their operations.\<close>

inductive run :: "librdf_world \<Rightarrow> ref_event list \<Rightarrow> librdf_world \<Rightarrow> bool" where
  run_nil: "run w [] w"
| run_snoc: "run w evs w1 \<Longrightarrow> run_op e op w1 = Ret r w2 \<Longrightarrow>
             run w (evs @ [op_event w1 op r w2]) w2"

section \<open>Lemmas\<close>

lemma lookup_key_table: "key_of v = Some k \<Longrightarrow> lookup_key w v = table_lookup w k"
  by (auto simp: key_of_def lookup_key_def table_lookup_def split: node_value.splits)

lemma insert_key_table:
  "key_of v = Some k \<Longrightarrow> table_lookup (insert_key v p w) = (table_lookup w)(k \<mapsto> p)"
  by (auto simp: key_of_def insert_key_def table_lookup_def fun_eq_iff
      split: node_value.splits intern_key.splits)

lemma value_ok_key: "value_ok v \<Longrightarrow> \<exists>k. key_of v = Some k"
  by (auto simp: value_ok_def key_of_def split: node_value.splits)

lemma live_key:
  assumes "world_inv w" "nodes w p = Some n"
  shows "\<exists>k. key_of (node_data n) = Some k \<and> table_lookup w k = Some p"
  using world_invD(1)[OF assms]
  by (auto simp: node_registered_def key_of_def table_lookup_def split: node_value.splits option.splits)

lemma table_lookup_live:
  assumes "world_inv w" "table_lookup w k = Some p"
  shows "\<exists>n. nodes w p = Some n \<and> key_of (node_data n) = Some k"
  using assms world_invD(2,3,4)[OF assms(1)]
  by (cases k) (fastforce simp: table_lookup_def key_of_def)+

lemma table_lookup_key:
  assumes "world_inv w" "nodes w p = Some n" "key_of (node_data n) = Some k"
  shows "table_lookup w k' = Some p \<longleftrightarrow> k' = k"
proof
  assume "table_lookup w k' = Some p"
  from table_lookup_live[OF assms(1) this] assms(2,3) show "k' = k" by auto
next
  assume "k' = k"
  with live_key[OF assms(1,2)] assms(3) show "table_lookup w k' = Some p" by auto
qed

lemma ref_count_live:
  assumes "world_inv w" "nodes w p = Some n" "key_of (node_data n) = Some k"
  shows "ref_count w k = nat (usage n)"
  using table_lookup_key[OF assms, of k] assms(2) by (simp add: ref_count_def)

lemma table_lookup_fields [simp]:
  "table_lookup (w\<lparr>nodes := x\<rparr>) = table_lookup w"
  "table_lookup (w\<lparr>nodes_mutex := b\<rparr>) = table_lookup w"
  "table_lookup (w\<lparr>nodes := x, next_ptr := y\<rparr>) = table_lookup w"
  "table_lookup (snd (node_alloc v w)) = table_lookup w"
  by (simp_all add: table_lookup_def node_alloc_def fun_eq_iff split: intern_key.split)

lemma unregister_table:
  "key_of (node_data n) = Some k \<Longrightarrow> table_lookup (unregister n w) = (table_lookup w)(k := None)"
  by (auto simp: key_of_def unregister_def table_lookup_def fun_eq_iff
      split: node_value.splits intern_key.splits)

lemma ref_count_update:
  assumes inv: "world_inv w" and pn: "nodes w p = Some n" and k: "key_of (node_data n) = Some k"
  shows "ref_count (w\<lparr>nodes := (nodes w)(p \<mapsto> m)\<rparr>) = (ref_count w)(k := nat (usage m))"
proof
  fix k'
  show "ref_count (w\<lparr>nodes := (nodes w)(p \<mapsto> m)\<rparr>) k' = ((ref_count w)(k := nat (usage m))) k'"
    using table_lookup_key[OF inv pn k, of k'] by (auto simp: ref_count_def split: option.splits)
qed

lemma ref_count_remove:
  assumes inv: "world_inv w" and pn: "nodes w p = Some n" and k: "key_of (node_data n) = Some k"
  shows "ref_count ((unregister n w)\<lparr>nodes := (nodes w)(p := None)\<rparr>) = (ref_count w)(k := 0)"
proof
  fix k'
  show "ref_count ((unregister n w)\<lparr>nodes := (nodes w)(p := None)\<rparr>) k' = ((ref_count w)(k := 0)) k'"
    using table_lookup_key[OF inv pn k, of k']
    by (auto simp: ref_count_def unregister_table[OF k] split: option.splits)
qed

lemma ref_count_insert:
  assumes inv: "world_inv w" and fresh: "lookup_key w v = None" and k: "key_of v = Some k"
  shows "ref_count (insert_key v (next_ptr w) (snd (node_alloc v w))) = (ref_count w)(k := Suc (ref_count w k))"
proof
  fix k'
  have t: "table_lookup w k = None" using fresh lookup_key_table[OF k] by simp
  have old: "table_lookup w k' = Some q \<Longrightarrow> q \<noteq> next_ptr w" for q
    using table_lookup_live[OF inv] world_invD(1)[OF inv] by fastforce
  show "ref_count (insert_key v (next_ptr w) (snd (node_alloc v w))) k' =
        ((ref_count w)(k := Suc (ref_count w k))) k'"
    using t old by (auto simp: ref_count_def insert_key_table[OF k] node_alloc_def split: option.splits)
qed

lemma same_tables_table:
  "same_tables w w' \<Longrightarrow> table_lookup w' = table_lookup w"
  by (simp add: same_tables_def table_lookup_def fun_eq_iff split: intern_key.split)

lemma same_tables_ref_count:
  assumes "same_tables w w'"
  shows "ref_count w' = ref_count w" "handle_key w' = handle_key w"
proof -
  have n: "nodes w' = nodes w" using assms by (simp add: same_tables_def)
  have t: "table_lookup w' = table_lookup w" by (rule same_tables_table[OF assms])
  show "ref_count w' = ref_count w" by (rule ext, simp add: ref_count_def n t cong: option.case_cong)
  show "handle_key w' = handle_key w" by (rule ext, simp add: handle_key_def n)
qed

lemma ref_count_mutex [simp]:
  "ref_count (w\<lparr>nodes_mutex := b\<rparr>) = ref_count w"
  "ref_count (unlock w) = ref_count w"
  by (simp_all add: ref_count_def unlock_def fun_eq_iff cong: option.case_cong)

lemma node_incr_live:
  "nodes w p = Some n \<Longrightarrow> node_incr p w = w\<lparr>nodes := (nodes w)(p \<mapsto> n\<lparr>usage := usage n + 1\<rparr>)\<rparr>"
  by (simp add: node_incr_def)

lemma ref_count_ctor:
  assumes inv: "world_inv w" and c: "ctor_result w r w'"
  shows "ref_count w' =
           (case r of
              None \<Rightarrow> ref_count w
            | Some p \<Rightarrow>
                (case handle_key w' p of
                   Some k \<Rightarrow> (ref_count w)(k := Suc (ref_count w k))
                 | None \<Rightarrow> ref_count w))"
proof -
  consider (none) "r = None" "same_tables w w'"
    | (hit) p n where "r = Some p" "nodes w p = Some n" "same_tables (node_incr p w) w'"
    | (new) v where "r = Some (next_ptr w)" "lookup_key w v = None" "value_ok v"
        "same_tables (insert_key v (next_ptr w) (snd (node_alloc v w))) w'"
    using c unfolding ctor_result_def by blast
  then show ?thesis
  proof cases
    case none then show ?thesis by (simp add: same_tables_ref_count)
  next
    case (hit p n)
    from live_key[OF inv hit(2)] obtain k where k: "key_of (node_data n) = Some k" by blast
    have u: "1 \<le> usage n" using world_invD(1)[OF inv hit(2)] by simp
    have "handle_key w' p = Some k"
      using same_tables_ref_count(2)[OF hit(3)] hit(2) k by (simp add: handle_key_def node_incr_def)
    with hit u show ?thesis
      by (simp add: same_tables_ref_count node_incr_live ref_count_update[OF inv hit(2) k]
          ref_count_live[OF inv hit(2) k] nat_add_distrib)
  next
    case (new v)
    from value_ok_key[OF new(3)] obtain k where k: "key_of v = Some k" by blast
    have "handle_key w' (next_ptr w) = Some k"
      using same_tables_ref_count(2)[OF new(4)] k by (simp add: handle_key_def node_alloc_def)
    with new show ?thesis
      by (simp add: same_tables_ref_count ref_count_insert[OF inv new(2) k])
  qed
qed

lemma ref_count_free:
  assumes inv: "world_inv w" and r: "librdf_free_node (Some p) w = Ret u w'"
  shows "\<exists>k. handle_key w p = Some k \<and> ref_count w' = (ref_count w)(k := ref_count w k - 1)"
proof -
  from r obtain n where pn: "nodes w p = Some n" and m: "\<not> nodes_mutex w"
    by (auto simp: librdf_free_node_def split: if_splits option.splits)
  from live_key[OF inv pn] obtain k where k: "key_of (node_data n) = Some k" by blast
  have u: "1 \<le> usage n" using world_invD(1)[OF inv pn] by simp
  let ?w1 = "w\<lparr>nodes_mutex := True\<rparr>"
  have inv1: "world_inv ?w1" and pn1: "nodes ?w1 p = Some n" using inv pn by simp_all
  have c: "ref_count w k = nat (usage n)" by (rule ref_count_live[OF inv pn k])
  have "ref_count w' = (ref_count w)(k := ref_count w k - 1)"
  proof (cases "usage n - 1 = 0")
    case True
    with r pn m have "w' = unlock ((unregister n ?w1)\<lparr>nodes := (nodes ?w1)(p := None)\<rparr>)"
      by (simp add: librdf_free_node_def Let_def)
    with ref_count_remove[OF inv1 pn1 k] True c show ?thesis by simp
  next
    case False
    with r pn m have "w' = unlock (?w1\<lparr>nodes := (nodes ?w1)(p \<mapsto> n\<lparr>usage := usage n - 1\<rparr>)\<rparr>)"
      by (simp add: librdf_free_node_def Let_def)
    with ref_count_update[OF inv1 pn1 k] c u show ?thesis by (simp add: nat_diff_distrib)
  qed
  with pn k show ?thesis by (simp add: handle_key_def)
qed

lemma run_op_ctor:
  assumes "world_inv w" "run_op e op w = Ret r w'" "\<And>q. op \<noteq> Op_free q"
  shows "ctor_result w r w'"
  using assms by (cases op) (auto simp: run_op_def intro: ctor_uri ctor_literal ctor_blank ctor_copy)

lemma ref_count_step:
  assumes inv: "world_inv w" and r: "run_op e op w = Ret r w'"
  shows "ref_count w' = count_event (op_event w op r w') (ref_count w)"
proof (cases "\<exists>q. op = Op_free q")
  case True
  then obtain q where op: "op = Op_free q" by blast
  show ?thesis
  proof (cases q)
    case None with r op show ?thesis
      by (simp add: run_op_def librdf_free_node_def op_event_def count_event_def)
  next
    case (Some p)
    with r op obtain u where "librdf_free_node (Some p) w = Ret u w'"
      by (auto simp: run_op_def split: outcome.splits)
    from ref_count_free[OF inv this] Some op show ?thesis
      by (auto simp: op_event_def count_event_def)
  qed
next
  case False
  then have "op \<noteq> Op_free q" for q by blast
  from ref_count_ctor[OF inv run_op_ctor[OF inv r this]] this show ?thesis
    by (cases op) (simp_all add: op_event_def count_event_def split: option.splits)
qed

lemma run_world_inv: "run w0 evs w \<Longrightarrow> world_inv w0 \<Longrightarrow> world_inv w"
  by (induction rule: run.induct) (auto intro: world_inv_run_op)

lemma run_ref_count:
  "run w0 evs w \<Longrightarrow> world_inv w0 \<Longrightarrow> ref_count w = fold count_event evs (ref_count w0)"
proof (induction rule: run.induct)
  case (run_snoc w evs w1 e op r w2)
  then show ?case using ref_count_step[OF run_world_inv[OF run_snoc(1,4)] run_snoc(2)] by simp
qed simp

lemma handle_key_count:
  assumes inv: "world_inv w" and h: "handle_key w p = Some k"
  shows "1 \<le> ref_count w k"
proof -
  from h obtain n where pn: "nodes w p = Some n" and k: "key_of (node_data n) = Some k"
    by (auto simp: handle_key_def split: option.splits)
  with ref_count_live[OF inv pn k] world_invD(1)[OF inv pn] show ?thesis by linarith
qed

lemma release_live:
  assumes "world_inv w" "op_event w op r w' = Release k"
  shows "1 \<le> ref_count w k"
  using assms handle_key_count
  by (auto simp: op_event_def split: node_op.splits option.splits)

lemma run_balance:
  "run w0 evs w \<Longrightarrow> world_inv w0 \<Longrightarrow> ref_count w k + releases k evs = acquires k evs + ref_count w0 k"
proof (induction rule: run.induct)
  case (run_snoc w evs w1 e op r w2)
  have inv1: "world_inv w1" by (rule run_world_inv[OF run_snoc(1,4)])
  have step: "ref_count w2 = count_event (op_event w1 op r w2) (ref_count w1)"
    by (rule ref_count_step[OF inv1 run_snoc(2)])
  show ?case
  proof (cases "op_event w1 op r w2")
    case (Release k')
    with release_live[OF inv1 this] run_snoc(3,4) step show ?thesis
      by (auto simp: count_event_def releases_def acquires_def)
  qed (use run_snoc(3,4) step in \<open>auto simp: count_event_def releases_def acquires_def\<close>)
qed (simp add: releases_def acquires_def)

lemma ref_count_new_world: "ref_count (new_world g) k = 0"
  by (simp add: ref_count_def table_lookup_def new_world_def librdf_init_node_def
      split: intern_key.splits)

text \<open>
  C3.  Refinement of the reference account: in a consistent world, every
  node operation that returns moves the usage counts the tables hold
  exactly as the abstract machine moves its counts on the operation's
  event: a constructor or copy that returns a node adds one to its key, a
  free takes one away, a NULL result changes nothing.
\<close>

theorem ref_count_refines:
  assumes "world_inv w" "run_op e op w = Ret r w'"
  shows "ref_count w' = count_event (op_event w op r w') (ref_count w)"
  using assms by (rule ref_count_step)

theorem ref_count_refines_witness:
  "ref_count (\<lparr>nodes = [1 \<mapsto> \<lparr>usage = 1, node_data = Resource (bstr ''http://purl.org/net/dajobe/'')\<rparr>],
     hash_resource = [bstr ''http://purl.org/net/dajobe/'' \<mapsto> 1], hash_literal = Map.empty,
     hash_blank = Map.empty, next_ptr = 2, nodes_mutex = False, genid_counter = 0,
     genid = \<lambda>_. []\<rparr>) = count_event (Acquire (KRes (bstr ''http://purl.org/net/dajobe/''))) (ref_count (new_world (\<lambda>_. [])))"
proof -
  have r: "run_op (no_faults (\<lambda>_. 0)) (Op_uri (Some (bstr ''http://purl.org/net/dajobe/'')) None)
          (new_world (\<lambda>_. [])) = Ret (Some 1) (\<lparr>nodes = [1 \<mapsto> \<lparr>usage = 1, node_data = Resource (bstr ''http://purl.org/net/dajobe/'')\<rparr>],
     hash_resource = [bstr ''http://purl.org/net/dajobe/'' \<mapsto> 1], hash_literal = Map.empty,
     hash_blank = Map.empty, next_ptr = 2, nodes_mutex = False, genid_counter = 0,
     genid = \<lambda>_. []\<rparr>)"
    by (simp add: run_op_def librdf_new_node_from_uri_string_or_uri_def librdf_new_uri_def
        no_faults_def new_world_def librdf_init_node_def node_alloc_def unlock_def
        bstr_def cstr_def)
  have "op_event (new_world (\<lambda>_. [])) (Op_uri (Some (bstr ''http://purl.org/net/dajobe/'')) None)
          (Some 1) (\<lparr>nodes = [1 \<mapsto> \<lparr>usage = 1, node_data = Resource (bstr ''http://purl.org/net/dajobe/'')\<rparr>],
     hash_resource = [bstr ''http://purl.org/net/dajobe/'' \<mapsto> 1], hash_literal = Map.empty,
     hash_blank = Map.empty, next_ptr = 2, nodes_mutex = False, genid_counter = 0,
     genid = \<lambda>_. []\<rparr>) = Acquire (KRes (bstr ''http://purl.org/net/dajobe/''))"
    by (simp add: op_event_def handle_key_def key_of_def)
  with ref_count_refines[OF world_inv_new_world r] show ?thesis by simp
qed

text \<open>
  C4.  Over any run of node operations from a fresh world, the usage count
  the tables hold for a key plus the number of times it was released equals
  the number of times it was acquired: no reference is lost or invented,
  and a count never goes below zero.
\<close>

theorem ref_count_balance:
  assumes "run (new_world g) evs w"
  shows "ref_count w k + releases k evs = acquires k evs"
  using run_balance[OF assms world_inv_new_world] by (simp add: ref_count_new_world)

theorem ref_count_balance_witness:
  "ref_count (\<lparr>nodes = [1 \<mapsto> \<lparr>usage = 1, node_data = Resource (bstr ''http://purl.org/net/dajobe/'')\<rparr>],
     hash_resource = [bstr ''http://purl.org/net/dajobe/'' \<mapsto> 1], hash_literal = Map.empty,
     hash_blank = Map.empty, next_ptr = 2, nodes_mutex = False, genid_counter = 0,
     genid = \<lambda>_. []\<rparr>) (KRes (bstr ''http://purl.org/net/dajobe/'')) + 1 = 2"
proof -
  let ?K = "KRes (bstr ''http://purl.org/net/dajobe/'')"
  let ?e = "no_faults (\<lambda>_. 0)"
  have r1: "run_op ?e (Op_uri (Some (bstr ''http://purl.org/net/dajobe/'')) None)
          (new_world (\<lambda>_. [])) = Ret (Some 1) (\<lparr>nodes = [1 \<mapsto> \<lparr>usage = 1, node_data = Resource (bstr ''http://purl.org/net/dajobe/'')\<rparr>],
     hash_resource = [bstr ''http://purl.org/net/dajobe/'' \<mapsto> 1], hash_literal = Map.empty,
     hash_blank = Map.empty, next_ptr = 2, nodes_mutex = False, genid_counter = 0,
     genid = \<lambda>_. []\<rparr>)"
    by (simp add: run_op_def librdf_new_node_from_uri_string_or_uri_def librdf_new_uri_def
        no_faults_def new_world_def librdf_init_node_def node_alloc_def unlock_def
        bstr_def cstr_def)
  have r2: "run_op ?e (Op_copy (Some 1)) (\<lparr>nodes = [1 \<mapsto> \<lparr>usage = 1, node_data = Resource (bstr ''http://purl.org/net/dajobe/'')\<rparr>],
     hash_resource = [bstr ''http://purl.org/net/dajobe/'' \<mapsto> 1], hash_literal = Map.empty,
     hash_blank = Map.empty, next_ptr = 2, nodes_mutex = False, genid_counter = 0,
     genid = \<lambda>_. []\<rparr>) = Ret (Some 1) (\<lparr>nodes = [1 \<mapsto> \<lparr>usage = 2, node_data = Resource (bstr ''http://purl.org/net/dajobe/'')\<rparr>],
     hash_resource = [bstr ''http://purl.org/net/dajobe/'' \<mapsto> 1], hash_literal = Map.empty,
     hash_blank = Map.empty, next_ptr = 2, nodes_mutex = False, genid_counter = 0,
     genid = \<lambda>_. []\<rparr>)"
    by (simp add: run_op_def librdf_new_node_from_node_def node_incr_def)
  have r3: "run_op ?e (Op_free (Some 1)) (\<lparr>nodes = [1 \<mapsto> \<lparr>usage = 2, node_data = Resource (bstr ''http://purl.org/net/dajobe/'')\<rparr>],
     hash_resource = [bstr ''http://purl.org/net/dajobe/'' \<mapsto> 1], hash_literal = Map.empty,
     hash_blank = Map.empty, next_ptr = 2, nodes_mutex = False, genid_counter = 0,
     genid = \<lambda>_. []\<rparr>) = Ret None (\<lparr>nodes = [1 \<mapsto> \<lparr>usage = 1, node_data = Resource (bstr ''http://purl.org/net/dajobe/'')\<rparr>],
     hash_resource = [bstr ''http://purl.org/net/dajobe/'' \<mapsto> 1], hash_literal = Map.empty,
     hash_blank = Map.empty, next_ptr = 2, nodes_mutex = False, genid_counter = 0,
     genid = \<lambda>_. []\<rparr>)"
    by (simp add: run_op_def librdf_free_node_def unlock_def fun_eq_iff)
  have e: "op_event (new_world (\<lambda>_. [])) (Op_uri (Some (bstr ''http://purl.org/net/dajobe/'')) None)
             (Some 1) (\<lparr>nodes = [1 \<mapsto> \<lparr>usage = 1, node_data = Resource (bstr ''http://purl.org/net/dajobe/'')\<rparr>],
     hash_resource = [bstr ''http://purl.org/net/dajobe/'' \<mapsto> 1], hash_literal = Map.empty,
     hash_blank = Map.empty, next_ptr = 2, nodes_mutex = False, genid_counter = 0,
     genid = \<lambda>_. []\<rparr>) = Acquire ?K"
    "op_event (\<lparr>nodes = [1 \<mapsto> \<lparr>usage = 1, node_data = Resource (bstr ''http://purl.org/net/dajobe/'')\<rparr>],
     hash_resource = [bstr ''http://purl.org/net/dajobe/'' \<mapsto> 1], hash_literal = Map.empty,
     hash_blank = Map.empty, next_ptr = 2, nodes_mutex = False, genid_counter = 0,
     genid = \<lambda>_. []\<rparr>) (Op_copy (Some 1)) (Some 1) (\<lparr>nodes = [1 \<mapsto> \<lparr>usage = 2, node_data = Resource (bstr ''http://purl.org/net/dajobe/'')\<rparr>],
     hash_resource = [bstr ''http://purl.org/net/dajobe/'' \<mapsto> 1], hash_literal = Map.empty,
     hash_blank = Map.empty, next_ptr = 2, nodes_mutex = False, genid_counter = 0,
     genid = \<lambda>_. []\<rparr>) = Acquire ?K"
    "op_event (\<lparr>nodes = [1 \<mapsto> \<lparr>usage = 2, node_data = Resource (bstr ''http://purl.org/net/dajobe/'')\<rparr>],
     hash_resource = [bstr ''http://purl.org/net/dajobe/'' \<mapsto> 1], hash_literal = Map.empty,
     hash_blank = Map.empty, next_ptr = 2, nodes_mutex = False, genid_counter = 0,
     genid = \<lambda>_. []\<rparr>) (Op_free (Some 1)) None (\<lparr>nodes = [1 \<mapsto> \<lparr>usage = 1, node_data = Resource (bstr ''http://purl.org/net/dajobe/'')\<rparr>],
     hash_resource = [bstr ''http://purl.org/net/dajobe/'' \<mapsto> 1], hash_literal = Map.empty,
     hash_blank = Map.empty, next_ptr = 2, nodes_mutex = False, genid_counter = 0,
     genid = \<lambda>_. []\<rparr>) = Release ?K"
    by (simp_all add: op_event_def handle_key_def key_of_def)
  from run.run_snoc[OF run.run_snoc[OF run.run_snoc[OF run.run_nil r1] r2] r3] e
  have "run (new_world (\<lambda>_. [])) [Acquire ?K, Acquire ?K, Release ?K] (\<lparr>nodes = [1 \<mapsto> \<lparr>usage = 1, node_data = Resource (bstr ''http://purl.org/net/dajobe/'')\<rparr>],
     hash_resource = [bstr ''http://purl.org/net/dajobe/'' \<mapsto> 1], hash_literal = Map.empty,
     hash_blank = Map.empty, next_ptr = 2, nodes_mutex = False, genid_counter = 0,
     genid = \<lambda>_. []\<rparr>)" by simp
  from ref_count_balance[OF this, of ?K] show ?thesis by (simp add: releases_def acquires_def)
qed

end
