(* ===== verification/Typing.thy ===== *)
theory Typing
  imports Refine
begin

text \<open>
  The type discipline of node handles (\<open>src/src/rdf_node.c\<close>).  A handle
  names a node of one of the three kinds; the constructors of a kind
  return a node of that kind, whether they find it in the intern table
  (which holds only nodes of its kind) or build it; the copy constructor
  returns a node of the kind of its argument.  No operation changes the
  value of a node that stays live: values are immutable, only the usage
  count moves (\<open>rdf_node_internal.h\<close>, spec section 3).
\<close>

section \<open>Types of handles\<close>

definition node_type_at :: "librdf_world \<Rightarrow> ptr \<Rightarrow> librdf_node_type option" where
  "node_type_at w p = map_option librdf_node_get_type (nodes w p)"

text \<open>The kind of node an operation returns.\<close>

definition op_type :: "node_op \<Rightarrow> librdf_world \<Rightarrow> librdf_node_type option" where
  "op_type op w =
     (case op of
        Op_uri _ _ \<Rightarrow> Some LIBRDF_NODE_TYPE_RESOURCE
      | Op_literal _ _ _ _ _ \<Rightarrow> Some LIBRDF_NODE_TYPE_LITERAL
      | Op_blank _ _ \<Rightarrow> Some LIBRDF_NODE_TYPE_BLANK
      | Op_copy (Some q) \<Rightarrow> node_type_at w q
      | _ \<Rightarrow> None)"

definition value_type :: "node_value \<Rightarrow> librdf_node_type" where
  "value_type v =
     (case v of
        Resource _ \<Rightarrow> LIBRDF_NODE_TYPE_RESOURCE
      | Literal _ \<Rightarrow> LIBRDF_NODE_TYPE_LITERAL
      | Blank _ \<Rightarrow> LIBRDF_NODE_TYPE_BLANK)"

text \<open>The value a handle names, \<open>None\<close> when it is not live.\<close>

definition value_at :: "librdf_world \<Rightarrow> ptr \<Rightarrow> node_value option" where
  "value_at w p = map_option node_data (nodes w p)"

text \<open>
  A world holding one resource node, \<open>http://purl.org/net/dajobe/\<close> (the
  first scenario of the node self-test), with usage \<open>k\<close>.
\<close>

abbreviation dajobe_world :: "int \<Rightarrow> librdf_world" where
  "dajobe_world k \<equiv>
     \<lparr>nodes = [1 \<mapsto> \<lparr>usage = k, node_data = Resource (bstr ''http://purl.org/net/dajobe/'')\<rparr>],
      hash_resource = [bstr ''http://purl.org/net/dajobe/'' \<mapsto> 1], hash_literal = Map.empty,
      hash_blank = Map.empty, next_ptr = 2, nodes_mutex = False, genid_counter = 0,
      genid = \<lambda>_. []\<rparr>"

abbreviation dajobe_op :: node_op where
  "dajobe_op \<equiv> Op_uri (Some (bstr ''http://purl.org/net/dajobe/'')) None"

section \<open>Lemmas\<close>

lemma get_type_usage [simp]: "librdf_node_get_type (n\<lparr>usage := x\<rparr>) = librdf_node_get_type n"
  by (simp add: librdf_node_get_type_def)

lemma node_type_at_fields [simp]:
  "node_type_at (w\<lparr>nodes_mutex := b\<rparr>) = node_type_at w"
  "node_type_at (w\<lparr>genid_counter := c\<rparr>) = node_type_at w"
  "node_type_at (w\<lparr>hash_resource := hr\<rparr>) = node_type_at w"
  "node_type_at (w\<lparr>hash_literal := hl\<rparr>) = node_type_at w"
  "node_type_at (w\<lparr>hash_blank := hb\<rparr>) = node_type_at w"
  "node_type_at (unlock w) = node_type_at w"
  "node_type_at (node_incr p w) = node_type_at w"
  by (simp_all add: node_type_at_def unlock_def node_incr_def fun_eq_iff option.map_comp o_def)

lemma node_type_at_alloc [simp]:
  "node_type_at (snd (node_alloc v w)) q =
     (if q = next_ptr w then Some (value_type v) else node_type_at w q)"
  by (simp add: node_type_at_def node_alloc_def librdf_node_get_type_def value_type_def
      split: node_value.split)

lemma value_type_simps [simp]:
  "value_type (Resource u) = LIBRDF_NODE_TYPE_RESOURCE"
  "value_type (Literal l) = LIBRDF_NODE_TYPE_LITERAL"
  "value_type (Blank i) = LIBRDF_NODE_TYPE_BLANK"
  by (simp_all add: value_type_def)

text \<open>A consistent world's tables hold nodes of their kind.\<close>

lemma table_types:
  assumes "world_inv w"
  shows "hash_resource w u = Some p \<Longrightarrow> node_type_at w p = Some LIBRDF_NODE_TYPE_RESOURCE"
    and "hash_literal w k = Some p \<Longrightarrow> node_type_at w p = Some LIBRDF_NODE_TYPE_LITERAL"
    and "hash_blank w k = Some p \<Longrightarrow> node_type_at w p = Some LIBRDF_NODE_TYPE_BLANK"
  using world_invD(2,3,4)[OF assms]
  by (fastforce simp: node_type_at_def librdf_node_get_type_def)+

lemma uri_type:
  assumes inv: "world_inv w"
    and r: "librdf_new_node_from_uri_string_or_uri e s u w = Ret (Some p) w'"
  shows "node_type_at w' p = Some LIBRDF_NODE_TYPE_RESOURCE"
  using r
  unfolding librdf_new_node_from_uri_string_or_uri_def Let_def
  by (simp add: split_def split: if_split_asm option.split_asm)
     (auto simp: eq_commute[of "Some _" "hash_resource _ _"] intro: table_types(1)[OF inv])

lemma literal_type:
  assumes inv: "world_inv w"
    and r: "librdf_new_node_from_typed_counted_literal e v n lx ll dt w = Ret (Some p) w'"
  shows "node_type_at w' p = Some LIBRDF_NODE_TYPE_LITERAL"
  using r
  unfolding librdf_new_node_from_typed_counted_literal_def Let_def
  by (simp add: split_def split: if_split_asm option.split_asm)
     (auto simp: eq_commute[of "Some _" "hash_literal _ _"] intro: table_types(2)[OF inv])

lemma blank_type:
  assumes inv: "world_inv w"
    and r: "librdf_new_node_from_counted_blank_identifier e i n w = Ret (Some p) w'"
  shows "node_type_at w' p = Some LIBRDF_NODE_TYPE_BLANK"
  using r
  unfolding librdf_new_node_from_counted_blank_identifier_def librdf_world_get_genid_def Let_def
  by (simp add: split_def split: if_split_asm option.split_asm)
     (auto simp: eq_commute[of "Some _" "hash_blank _ _"] intro: table_types(3)[OF inv])

lemma copy_type:
  assumes "librdf_new_node_from_node q w = Ret (Some p) w'"
  shows "node_type_at w' p = op_type (Op_copy q) w"
  using assms
  by (auto simp: librdf_new_node_from_node_def op_type_def split: option.splits)

lemma ctor_keeps_values:
  assumes inv: "world_inv w" and c: "ctor_result w r w'" and q: "nodes w q = Some n"
  shows "value_at w' q = Some (node_data n)"
proof -
  have "q < next_ptr w" using world_invD(1)[OF inv q] by simp
  with c q show ?thesis
    by (auto simp: ctor_result_def same_tables_def value_at_def node_incr_def node_alloc_def)
qed

lemma free_keeps_values:
  assumes "librdf_free_node q' w = Ret u w'" "nodes w q = Some n"
  shows "value_at w' q = None \<or> value_at w' q = Some (node_data n)"
  using assms
  by (auto simp: librdf_free_node_def value_at_def unlock_def Let_def split: option.splits if_splits)

lemma dajobe_runs:
  "run_op (no_faults (\<lambda>_. 0)) dajobe_op (new_world (\<lambda>_. [])) = Ret (Some 1) (dajobe_world 1)"
  "run_op (no_faults (\<lambda>_. 0)) dajobe_op (dajobe_world 1) = Ret (Some 1) (dajobe_world 2)"
  "run_op (no_faults (\<lambda>_. 0)) (Op_free (Some 1)) (dajobe_world 2) = Ret None (dajobe_world 1)"
  by (simp_all add: run_op_def librdf_new_node_from_uri_string_or_uri_def librdf_new_uri_def
      no_faults_def new_world_def librdf_init_node_def node_alloc_def node_incr_def unlock_def
      librdf_free_node_def bstr_def cstr_def)

lemma dajobe_inv: "world_inv (dajobe_world 1)" "world_inv (dajobe_world 2)"
  by (rule world_inv_run_op[OF world_inv_new_world dajobe_runs(1)],
      rule world_inv_run_op[OF world_inv_run_op[OF world_inv_new_world dajobe_runs(1)] dajobe_runs(2)])

text \<open>
  C26.  In a consistent world every operation that returns a handle returns
  a live node of the kind the operation promises: a resource from the URI
  constructor, a literal from the literal constructor, a blank node from
  the blank constructor (each whether the node was found in its intern
  table or built), and a node of its argument's kind from the copy
  constructor.
\<close>

theorem run_op_type:
  assumes "world_inv w" "run_op e op w = Ret (Some p) w'"
  shows "node_type_at w' p = op_type op w"
proof (cases op)
  case (Op_free q)
  with assms(2) show ?thesis by (simp add: run_op_def split: outcome.splits)
qed (use assms in \<open>simp_all add: run_op_def op_type_def uri_type literal_type blank_type copy_type\<close>)

text \<open>
  C27.  Node values are immutable: in a consistent world no operation
  changes the value of a live node; a constructor or a copy leaves every
  live node live with its value, and \<open>librdf_free_node\<close> either leaves a
  node's value or frees the node.
\<close>

theorem run_op_immutable:
  assumes inv: "world_inv w" and r: "run_op e op w = Ret res w'" and q: "nodes w q = Some n"
  shows "value_at w' q = None \<or> value_at w' q = Some (node_data n)"
proof (cases op)
  case (Op_free q')
  with r obtain u where "librdf_free_node q' w = Ret u w'"
    by (auto simp: run_op_def split: outcome.splits)
  from free_keeps_values[OF this q] show ?thesis .
qed (simp_all add: ctor_keeps_values[OF inv run_op_ctor[OF inv r] q])

text \<open>
  Freeing one of two references to the node of \<open>http://purl.org/net/dajobe/\<close>
  keeps its value.
\<close>

theorem run_op_immutable_witness:
  "run_op (no_faults (\<lambda>_. 0)) (Op_free (Some 1)) (dajobe_world 2) = Ret None (dajobe_world 1) \<and>
   value_at (dajobe_world 1) 1 = Some (Resource (bstr ''http://purl.org/net/dajobe/''))"
  using run_op_immutable[OF dajobe_inv(2) dajobe_runs(3), of 1] dajobe_runs(3)
  by (simp add: value_at_def)

text \<open>
  The URI constructor asked a second time for \<open>http://purl.org/net/dajobe/\<close>
  finds the node in the resource table and returns it, a resource.
\<close>

theorem run_op_type_witness:
  "run_op (no_faults (\<lambda>_. 0)) dajobe_op (dajobe_world 1) = Ret (Some 1) (dajobe_world 2) \<and>
   node_type_at (dajobe_world 2) 1 = Some LIBRDF_NODE_TYPE_RESOURCE"
  using run_op_type[OF dajobe_inv(1) dajobe_runs(2)] dajobe_runs(2) by (simp add: op_type_def)

end
