(* ===== verification/Decode.thy ===== *)
theory Decode
  imports Lifecycle
begin

text \<open>
  The binary node decoder \<open>librdf_node_decode\<close> of \<open>src/src/rdf_node.c\<close>
  (lines 1638--1792).  It reads the tag byte, checks the buffer against the
  minimum header size of the tag, reads the lengths of the header and hands
  the strings to the same constructors a client calls, so a decoded node is
  found in (or added to) the intern tables of the world.  The result is the
  constructor's outcome paired with the value written to \<open>*size_p\<close>
  (\<open>None\<close> when the function returns before writing it).

  The buffer is the memory from \<open>buffer\<close> on (the memory convention of
  the prelude): the decoder checks \<open>length\<close> only against the header size,
  and the strings are read as C strings or counted strings wherever they end.
  The length shifts are C shifts on \<open>int\<close> (\<open>c_int_shl\<close>, undefined past
  \<open>INT_MAX\<close>); the last theorems compose the encoder with the decoder for
  literals of \<open>2^31\<close> bytes and more.
\<close>

unbundle bit_operations_syntax

section \<open>The decoder\<close>

text \<open>
  Shifts on \<open>int\<close> (C99 6.5.7): \<open>E1 << E2\<close> with \<open>E1\<close> non-negative is
  defined only when \<open>E1 * 2^E2\<close> is representable, that is at most
  \<open>INT_MAX\<close> for the 32-bit \<open>int\<close>; otherwise the behaviour is undefined
  (\<open>None\<close>).
\<close>

definition INT_MAX :: int where
  "INT_MAX = 2 ^ 31 - 1"

definition c_int_shl :: "int \<Rightarrow> nat \<Rightarrow> int option" where
  "c_int_shl x k = (if 0 \<le> x \<and> x * 2 ^ k \<le> INT_MAX then Some (x * 2 ^ k) else None)"

text \<open>
  \<open>(buffer[1] << 24) | (buffer[2] << 16) | (buffer[3] << 8) | buffer[4]\<close>:
  each byte is promoted to \<open>int\<close> and shifted; the value is their bitwise
  or, read as the 32 bits of the \<open>size_t\<close> it is stored in.
\<close>

definition int_of_bytes4 :: "byte \<Rightarrow> byte \<Rightarrow> byte \<Rightarrow> byte \<Rightarrow> 32 word option" where
  "int_of_bytes4 a b c d =
     (case (c_int_shl (uint a) 24, c_int_shl (uint b) 16, c_int_shl (uint c) 8) of
        (Some x, Some y, Some z) \<Rightarrow> Some (word_of_int x OR word_of_int y OR word_of_int z OR ucast d)
      | _ \<Rightarrow> None)"

definition with_size :: "nat \<Rightarrow> (ptr option, 's) outcome \<Rightarrow> (ptr option \<times> nat option, 's) outcome" where
  "with_size total_length r =
     (case r of Ret p s \<Rightarrow> Ret (p, Some total_length) s | Blocked \<Rightarrow> Blocked | Undef \<Rightarrow> Undef)"

text \<open>\<open>case 'R'\<close>: the URI is the C string from offset 3 on.\<close>

definition decode_R :: "alloc_env \<Rightarrow> bytes \<Rightarrow> nat \<Rightarrow> librdf_world \<Rightarrow>
    (ptr option \<times> nat option, librdf_world) outcome" where
  "decode_R e buffer len w =
     (if len < 3 then Ret (None, None) w
      else
        (let string_length = unat (int_of_bytes2 (byte_at buffer 1) (byte_at buffer 2));
             total_length = 3 + string_length + 1
         in with_size total_length (librdf_new_node_from_uri_string e (drop 3 buffer) w)))"

text \<open>
  \<open>case 'L'\<close>, the old literal form: \<open>is_wf_xml = (buffer[1] & 0xf0) >> 8\<close>
  (computed on \<open>int\<close>), the string length in bytes 2--3, the language
  length in byte 5.
\<close>

definition decode_L :: "alloc_env \<Rightarrow> bytes \<Rightarrow> nat \<Rightarrow> librdf_world \<Rightarrow>
    (ptr option \<times> nat option, librdf_world) outcome" where
  "decode_L e buffer len w =
     (if len < 6 then Ret (None, None) w
      else
        (let is_wf_xml = drop_bit 8 (ucast (byte_at buffer 1) AND (0xF0 :: 32 word));
             string_length = unat (int_of_bytes2 (byte_at buffer 2) (byte_at buffer 3));
             language_length = unat (byte_at buffer 5);
             total_length = 6 + string_length + 1;
             language = (if language_length \<noteq> 0 then Some (drop total_length buffer) else None);
             total_length = (if language_length \<noteq> 0 then total_length + language_length + 1
                             else total_length)
         in with_size total_length
              (librdf_new_node_from_typed_counted_literal e (drop 6 buffer) string_length
                 language language_length
                 (if is_wf_xml \<noteq> 0 then Some LIBRDF_RS_XMLLiteral_URI else None) w)))"

text \<open>
  The literal forms \<open>M\<close> and \<open>N\<close> share their tail: the datatype URI and
  the language follow the string at \<open>off\<close>, the header size.  The datatype
  URI object is made with \<open>librdf_new_uri\<close>; when that fails the literal is
  constructed without a datatype.  (\<open>librdf_free_uri\<close> of the datatype
  URI only drops a reference.)
\<close>

definition decode_literal_tail :: "alloc_env \<Rightarrow> bytes \<Rightarrow> nat \<Rightarrow> nat \<Rightarrow> nat \<Rightarrow> nat \<Rightarrow>
    librdf_world \<Rightarrow> (ptr option \<times> nat option, librdf_world) outcome" where
  "decode_literal_tail e buffer off string_length datatype_uri_length language_length w =
     (let total_length = off + string_length + 1;
          datatype_uri_string =
            (if datatype_uri_length \<noteq> 0 then Some (drop total_length buffer) else None);
          total_length = (if datatype_uri_length \<noteq> 0 then total_length + datatype_uri_length + 1
                          else total_length);
          language = (if language_length \<noteq> 0 then Some (drop total_length buffer) else None);
          total_length = (if language_length \<noteq> 0 then total_length + language_length + 1
                          else total_length);
          datatype_uri = (case datatype_uri_string of
                            Some s \<Rightarrow> librdf_new_uri e s
                          | None \<Rightarrow> None)
      in with_size total_length
           (librdf_new_node_from_typed_counted_literal e (drop off buffer) string_length
              language language_length datatype_uri w))"

definition decode_M :: "alloc_env \<Rightarrow> bytes \<Rightarrow> nat \<Rightarrow> librdf_world \<Rightarrow>
    (ptr option \<times> nat option, librdf_world) outcome" where
  "decode_M e buffer len w =
     (if len < 6 then Ret (None, None) w
      else decode_literal_tail e buffer 6
             (unat (int_of_bytes2 (byte_at buffer 1) (byte_at buffer 2)))
             (unat (int_of_bytes2 (byte_at buffer 3) (byte_at buffer 4)))
             (unat (byte_at buffer 5)) w)"

definition decode_N :: "alloc_env \<Rightarrow> bytes \<Rightarrow> nat \<Rightarrow> librdf_world \<Rightarrow>
    (ptr option \<times> nat option, librdf_world) outcome" where
  "decode_N e buffer len w =
     (if len < 8 then Ret (None, None) w
      else
        (case int_of_bytes4 (byte_at buffer 1) (byte_at buffer 2) (byte_at buffer 3)
                (byte_at buffer 4) of
           None \<Rightarrow> Undef
         | Some sl \<Rightarrow>
             decode_literal_tail e buffer 8 (unat sl)
               (unat (int_of_bytes2 (byte_at buffer 5) (byte_at buffer 6)))
               (unat (byte_at buffer 7)) w))"

text \<open>\<open>case 'B'\<close>: the identifier is the C string from offset 3 on.\<close>

definition decode_B :: "alloc_env \<Rightarrow> bytes \<Rightarrow> nat \<Rightarrow> librdf_world \<Rightarrow>
    (ptr option \<times> nat option, librdf_world) outcome" where
  "decode_B e buffer len w =
     (if len < 3 then Ret (None, None) w
      else
        (let string_length = unat (int_of_bytes2 (byte_at buffer 1) (byte_at buffer 2));
             total_length = 3 + string_length + 1
         in with_size total_length
              (librdf_new_node_from_blank_identifier e (Some (drop 3 buffer)) w)))"

definition librdf_node_decode :: "alloc_env \<Rightarrow> bytes \<Rightarrow> nat \<Rightarrow> librdf_world \<Rightarrow>
    (ptr option \<times> nat option, librdf_world) outcome" where
  "librdf_node_decode e buffer len w =
     (if len < 1 then Ret (None, None) w
      else if byte_at buffer 0 = tag_R then decode_R e buffer len w
      else if byte_at buffer 0 = tag_L then decode_L e buffer len w
      else if byte_at buffer 0 = tag_M then decode_M e buffer len w
      else if byte_at buffer 0 = tag_N then decode_N e buffer len w
      else if byte_at buffer 0 = tag_B then decode_B e buffer len w
      else Ret (None, None) w)"

text \<open>The minimum buffer length each tag is checked against.\<close>

definition header_size :: "byte \<Rightarrow> nat option" where
  "header_size t =
     (if t = tag_R \<or> t = tag_B then Some 3
      else if t = tag_L \<or> t = tag_M then Some 6
      else if t = tag_N then Some 8
      else None)"

section \<open>Lemmas\<close>


lemma unat_be16:
  assumes "n \<le> 0xFFFF"
  shows "unat (int_of_bytes2 (be16 n ! 0) (be16 n ! 1)) = n"
proof -
  have "unat (word_of_nat (n div 256) :: byte) = n div 256"
    using assms by (simp add: unat_of_nat)
  moreover have "unat (word_of_nat n :: byte) = n mod 256"
    by (simp add: unat_of_nat)
  ultimately show ?thesis by (simp add: unat_int_of_bytes2 be16_def)
qed

lemma be32_bytes:
  "be32 n = [word_of_nat (drop_bit 24 n), word_of_nat (drop_bit 16 n), word_of_nat (drop_bit 8 n),
             word_of_nat n]"
  by (simp add: be32_def drop_bit_eq_div)

lemma c_int_shl_byte:
  fixes a :: byte
  shows "c_int_shl (uint a) 24 = (if 0x80 \<le> a then None else Some (uint a * 2 ^ 24))"
    "c_int_shl (uint a) 16 = Some (uint a * 2 ^ 16)" "c_int_shl (uint a) 8 = Some (uint a * 2 ^ 8)"
proof -
  have u: "uint a \<le> 255" using uint_lt2p[of a] by simp
  have "0x80 \<le> a \<longleftrightarrow> 128 \<le> uint a" by (simp add: word_le_def)
  then show "c_int_shl (uint a) 24 = (if 0x80 \<le> a then None else Some (uint a * 2 ^ 24))"
    by (auto simp: c_int_shl_def INT_MAX_def)
  show "c_int_shl (uint a) 16 = Some (uint a * 2 ^ 16)" "c_int_shl (uint a) 8 = Some (uint a * 2 ^ 8)"
    using u by (simp_all add: c_int_shl_def INT_MAX_def)
qed

lemma int_of_bytes4_eq:
  "int_of_bytes4 a b c d =
     (if 0x80 \<le> a then None
      else Some (push_bit 24 (ucast a) OR push_bit 16 (ucast b) OR push_bit 8 (ucast c) OR ucast d))"
  by (simp add: int_of_bytes4_def c_int_shl_byte push_bit_eq_mult)

lemma int_of_bytes4_be32:
  assumes "n < 2 ^ 31"
  shows "int_of_bytes4 (be32 n ! 0) (be32 n ! 1) (be32 n ! 2) (be32 n ! 3) = Some (word_of_nat n)"
proof -
  have "unat (word_of_nat (n div 2 ^ 24) :: byte) = n div 2 ^ 24"
    using assms by (simp add: unat_of_nat)
  then have lt: "\<not> (0x80 :: byte) \<le> word_of_nat (n div 2 ^ 24)"
    using assms by (simp add: word_le_nat_alt)
  have eq: "push_bit 24 (ucast (word_of_nat (drop_bit 24 n) :: byte)) OR
        push_bit 16 (ucast (word_of_nat (drop_bit 16 n) :: byte)) OR
        push_bit 8 (ucast (word_of_nat (drop_bit 8 n) :: byte)) OR
        ucast (word_of_nat n :: byte) = (word_of_nat n :: 32 word)"
    apply (rule bit_word_eqI)
    apply (auto simp: bit_simps bit_word_ucast_iff)
    subgoal for i by (cases "i < 16") simp_all
    subgoal for i by (cases "i < 16") simp_all
    done
  from lt eq show ?thesis
    unfolding int_of_bytes4_eq be32_bytes by (simp add: drop_bit_eq_div)
qed


lemma unlock_node_incr_lock:
  "\<not> nodes_mutex w \<Longrightarrow> unlock (node_incr p (w\<lparr>nodes_mutex := True\<rparr>)) = node_incr p w"
  by (simp add: unlock_def node_incr_def)

lemma byte_at_be16_header:
  "byte_at (t # be16 n @ s) 0 = t"
  "byte_at (t # be16 n @ s) (Suc 0) = be16 n ! 0"
  "byte_at (t # be16 n @ s) 2 = be16 n ! 1"
  by (simp_all add: byte_at_def be16_def)

lemma tags_distinct [simp]:
  "tag_R \<noteq> tag_L" "tag_R \<noteq> tag_M" "tag_R \<noteq> tag_N" "tag_R \<noteq> tag_B"
  "tag_B \<noteq> tag_L" "tag_B \<noteq> tag_M" "tag_B \<noteq> tag_N" "tag_B \<noteq> tag_R"
  "tag_M \<noteq> tag_R" "tag_M \<noteq> tag_L" "tag_N \<noteq> tag_R" "tag_N \<noteq> tag_L" "tag_N \<noteq> tag_M"
  by (simp_all add: tags)

lemma mem_read_all: "mem_read s (length s) = s"
  by (rule nth_equalityI) (simp_all add: mem_read_def byte_at_def)

lemma decode_resource:
  assumes "hash_resource w u = Some p" "\<not> nodes_mutex w" "\<not> fails e A_uri"
    "nul_free u" "length u \<le> 0xFFFF"
  shows "librdf_node_decode e (node_encoding (Resource u)) (length (node_encoding (Resource u))) w
           = Ret (Some p, Some (length (node_encoding (Resource u)))) (node_incr p w)"
  using assms unat_be16[OF assms(5)]
  by (simp add: librdf_node_decode_def decode_R_def node_encoding_def byte_at_be16_header
      librdf_new_node_from_uri_string_def librdf_new_node_from_uri_string_or_uri_def
      librdf_new_uri_def cstr_append_nul with_size_def unlock_node_incr_lock)

lemma decode_blank:
  assumes "hash_blank w i = Some p" "\<not> nodes_mutex w" "\<not> fails e A_identifier"
    "nul_free i" "length i \<le> 0xFFFF"
  shows "librdf_node_decode e (node_encoding (Blank i)) (length (node_encoding (Blank i))) w
           = Ret (Some p, Some (length (node_encoding (Blank i)))) (node_incr p w)"
proof -
  have "take (length i) (mem_read (i @ [0]) (Suc (length i))) = i"
    using mem_read_all[of "i @ [0]"] by simp
  with assms unat_be16[OF assms(5)] show ?thesis
    by (simp add: librdf_node_decode_def decode_B_def node_encoding_def byte_at_be16_header
        librdf_new_node_from_blank_identifier_def librdf_new_node_from_counted_blank_identifier_def
        strlen_def cstr_append_nul with_size_def unlock_node_incr_lock Let_def)
qed


lemma node_encoding_literal_cong:
  assumes "lit_string l' = lit_string l" "string_len l' = string_len l"
    "lit_datatype_string l' = lit_datatype_string l" "lit_language_length l' = lit_language_length l"
    "lit_language_length l \<noteq> 0 \<Longrightarrow> lit_language_string l' = lit_language_string l"
  shows "node_encoding (Literal l') = node_encoding (Literal l)"
  using assms by (cases "lit_language_length l = 0") (simp_all add: node_encoding_def opt_field_def Let_def)

text \<open>The literal the decoder rebuilds from the payload of an \<open>M\<close> or \<open>N\<close> record.\<close>

lemma decoded_literal:
  fixes s d g t r :: bytes
  assumes ns: "nul_free s" "nul_free d" "nul_free g"
  defines "l' \<equiv> literal_of (s @ 0 # t) (length s)
                  (norm_lang (if length g \<noteq> 0 then Some (g @ 0 # r) else None)) (length g)
                  (if length d \<noteq> 0 then Some d else None)"
  shows "lit_string l' = s" "string_len l' = length s" "lit_datatype_string l' = d"
    "lit_language_length l' = length g" "lit_language_string l' = g"
    "c_strings (Literal l')"
  using ns c_empty_nul_free[of g "0 # r"]
  by (auto simp: l'_def literal_of_def norm_lang_def lit_datatype_string_def lit_language_length_def
      lit_language_string_def strncpy_append_nul c_strings_def)


lemma node_encoding_nonempty: "node_encoding v \<noteq> []"
  by (simp add: node_encoding_def Let_def split: node_value.splits)

lemma typed_counted_hit:
  assumes m: "\<not> nodes_mutex w" and e: "fails e = (\<lambda>_. False)"
    and ex: "norm_lang lx = None \<or> dt = None" and n: "n < SIZE_MAX" and ll: "ll < SIZE_MAX"
    and cs: "c_strings (Literal (literal_of v n (norm_lang lx) ll dt))"
    and enc: "encodable (Literal (literal_of v n (norm_lang lx) ll dt))"
    and hit: "hash_literal w (node_encoding (Literal (literal_of v n (norm_lang lx) ll dt))) = Some p"
  shows "librdf_new_node_from_typed_counted_literal e v n lx ll dt w = Ret (Some p) (node_incr p w)"
proof -
  let ?lit = "literal_of v n (norm_lang lx) ll dt"
  let ?sz = "length (node_encoding (Literal ?lit))"
  have vwf: "value_wf (Literal ?lit)" by (simp add: value_wf_def literal_of_wf)
  have sz: "fst (librdf_node_encode (Literal ?lit) None 0) = ?sz"
    using encode_size_layout[OF vwf enc] by simp
  have nz: "?sz \<noteq> 0" using node_encoding_nonempty[of "Literal ?lit"] by simp
  have key: "literal_key e ?lit ?sz = node_encoding (Literal ?lit)"
    using literal_key_encoding[OF cs literal_of_wf sz nz] .
  from m e ex n ll sz nz key hit show ?thesis
    by (simp add: librdf_new_node_from_typed_counted_literal_def Let_def unlock_node_incr_lock)
qed


text \<open>A literal whose key is not in the table is registered at the allocation frontier.\<close>

lemma typed_counted_fresh:
  assumes m: "\<not> nodes_mutex w" and e: "fails e = (\<lambda>_. False)"
    and ex: "norm_lang lx = None \<or> dt = None" and n: "n < SIZE_MAX" and ll: "ll < SIZE_MAX"
    and cs: "c_strings (Literal (literal_of v n (norm_lang lx) ll dt))"
    and enc: "encodable (Literal (literal_of v n (norm_lang lx) ll dt))"
    and fresh: "hash_literal w (node_encoding (Literal (literal_of v n (norm_lang lx) ll dt))) = None"
  shows "librdf_new_node_from_typed_counted_literal e v n lx ll dt w =
           Ret (Some (next_ptr w))
             (w\<lparr>nodes := (nodes w)(next_ptr w \<mapsto>
                   \<lparr>usage = 1, node_data = Literal ((literal_of v n (norm_lang lx) ll dt)
                      \<lparr>lit_key := Some (node_encoding (Literal (literal_of v n (norm_lang lx) ll dt))),
                       lit_size := length (node_encoding (Literal (literal_of v n (norm_lang lx) ll dt)))\<rparr>)\<rparr>),
                next_ptr := Suc (next_ptr w),
                hash_literal := (hash_literal w)(node_encoding (Literal (literal_of v n (norm_lang lx) ll dt))
                                   \<mapsto> next_ptr w)\<rparr>)"
proof -
  let ?lit = "literal_of v n (norm_lang lx) ll dt"
  let ?sz = "length (node_encoding (Literal ?lit))"
  have vwf: "value_wf (Literal ?lit)" by (simp add: value_wf_def literal_of_wf)
  have sz: "fst (librdf_node_encode (Literal ?lit) None 0) = ?sz"
    using encode_size_layout[OF vwf enc] by simp
  have nz: "?sz \<noteq> 0" using node_encoding_nonempty[of "Literal ?lit"] by simp
  have key: "literal_key e ?lit ?sz = node_encoding (Literal ?lit)"
    using literal_key_encoding[OF cs literal_of_wf sz nz] .
  from m e ex n ll sz nz key fresh show ?thesis
    by (simp add: librdf_new_node_from_typed_counted_literal_def Let_def node_alloc_def unlock_def)
qed


lemma literal_registered:
  assumes inv: "world_inv w" and pn: "nodes w p = Some n" "node_data n = Literal l"
    and cs: "c_strings (Literal l)"
  shows "hash_literal w (node_encoding (Literal l)) = Some p" "literal_ok l"
  using world_invD(1)[OF inv pn(1)] pn(2) cs
  by (auto simp: node_registered_def literal_ok_def split: option.splits)

lemma lit_language_length_eq: "literal_wf l \<Longrightarrow> length (lit_language_string l) = lit_language_length l"
  by (auto simp: literal_wf_def lit_language_string_def lit_language_length_def split: option.splits)

lemma decode_literal_tail_hit:
  assumes inv: "world_inv w" and m: "\<not> nodes_mutex w" and e: "fails e = (\<lambda>_. False)"
    and pn: "nodes w p = Some n" "node_data n = Literal l"
    and cs: "c_strings (Literal l)" and enc: "encodable (Literal l)"
    and sl: "string_len l < SIZE_MAX"
    and buf: "drop off b = lit_string l @ 0 # opt_field (lit_datatype_string l) (length (lit_datatype_string l))
                @ opt_field (lit_language_string l) (lit_language_length l)"
  shows "decode_literal_tail e b off (string_len l) (length (lit_datatype_string l))
           (lit_language_length l) w
         = Ret (Some p, Some (off + length (drop off b))) (node_incr p w)"
proof -
  define s d g where "s = lit_string l" and "d = lit_datatype_string l"
    and "g = lit_language_string l"
  have reg: "hash_literal w (node_encoding (Literal l)) = Some p" and ok: "literal_ok l"
    using literal_registered[OF inv pn cs] by simp_all
  have wf: "literal_wf l" using ok by (simp add: literal_ok_def)
  have ls: "length s = string_len l" using wf by (simp add: s_def literal_wf_def)
  have lg: "length g = lit_language_length l" using lit_language_length_eq[OF wf] by (simp add: g_def)
  have ns: "nul_free s" "nul_free d" "nul_free g" using cs by (simp_all add: s_def d_def g_def c_strings_def)
  have ll: "lit_language_length l < SIZE_MAX" "lit_language_length l \<le> 255"
    using enc by (simp_all add: encodable_def SIZE_MAX_def)
  have excl: "length g \<noteq> 0 \<Longrightarrow> length d \<noteq> 0 \<Longrightarrow> False"
    using ok by (auto simp: literal_ok_def g_def d_def lit_language_string_def lit_datatype_string_def)
  let ?lx = "if length g \<noteq> 0 then Some (g @ 0 # []) else None"
  let ?dt = "if length d \<noteq> 0 then Some d else None"
  let ?l' = "literal_of (s @ 0 # opt_field d (length d) @ opt_field g (length g)) (length s)
               (norm_lang ?lx) (length g) ?dt"
  note dl = decoded_literal[OF ns, of "opt_field d (length d) @ opt_field g (length g)" "[]"]
  have enc': "node_encoding (Literal ?l') = node_encoding (Literal l)"
    by (rule node_encoding_literal_cong; simp only: dl; simp add: ls lg s_def [symmetric] d_def [symmetric] g_def [symmetric])
  have encodable': "encodable (Literal ?l')"
    unfolding encodable_def node_value.case dl using enc by (simp add: encodable_def lg d_def)
  have ex: "norm_lang ?lx = None \<or> ?dt = None"
    using excl by (auto simp: norm_lang_def)
  have hit: "librdf_new_node_from_typed_counted_literal e (s @ 0 # opt_field d (length d) @ opt_field g (length g))
               (length s) ?lx (length g) ?dt w = Ret (Some p) (node_incr p w)"
    by (rule typed_counted_hit[OF m e ex]; (simp only: dl enc' encodable' reg)?; simp add: sl ll ls lg)
  have u: "librdf_new_uri e (d @ 0 # t) = Some d" for t
    using ns e by (simp add: librdf_new_uri_def cstr_append_nul)
  have buf': "drop off b = s @ 0 # opt_field d (length d) @ opt_field g (length g)"
    using buf by (simp add: s_def d_def g_def lit_language_length_eq[OF wf])
  define pre where "pre = take off b"
  have bpre: "b = pre @ s @ 0 # opt_field d (length d) @ opt_field g (length g)" "length pre = off"
  proof -
    show "b = pre @ s @ 0 # opt_field d (length d) @ opt_field g (length g)"
      unfolding pre_def buf' [symmetric] by simp
    have "drop off b \<noteq> []" using buf' by simp
    then show "length pre = off" by (simp add: pre_def)
  qed
  show ?thesis
    using hit unfolding bpre(1)
    by (cases "d = []"; cases "g = []") (simp_all add: u decode_literal_tail_def Let_def with_size_def opt_field_def
        d_def [symmetric] g_def [symmetric] ls [symmetric] lg [symmetric] bpre(2) [symmetric])
qed


lemma decode_literal:
  assumes inv: "world_inv w" and m: "\<not> nodes_mutex w" and e: "fails e = (\<lambda>_. False)"
    and pn: "nodes w p = Some n" "node_data n = Literal l"
    and cs: "c_strings (Literal l)" and enc: "encodable (Literal l)"
    and sl: "string_len l < 2 ^ 31"
  shows "librdf_node_decode e (node_encoding (Literal l)) (length (node_encoding (Literal l))) w
           = Ret (Some p, Some (length (node_encoding (Literal l)))) (node_incr p w)"
proof -
  define rest where "rest = lit_string l @ 0 # opt_field (lit_datatype_string l) (length (lit_datatype_string l))
                @ opt_field (lit_language_string l) (lit_language_length l)"
  have dl: "length (lit_datatype_string l) \<le> 0xFFFF" and ll: "lit_language_length l \<le> 255"
    using enc by (simp_all add: encodable_def)
  have slm: "string_len l < SIZE_MAX" using sl by (simp add: SIZE_MAX_def)
  note tail = decode_literal_tail_hit[OF inv m e pn cs enc slm]
  show ?thesis
  proof (cases "string_len l \<le> 0xFFFF")
    case True
    have "node_encoding (Literal l) = tag_M # be16 (string_len l) @ be16 (length (lit_datatype_string l))
            @ word_of_nat (lit_language_length l) # rest"
      using True by (simp add: node_encoding_def rest_def Let_def)
    with True tail[where off = 6 and b = "node_encoding (Literal l)"] unat_be16[OF True] unat_be16[OF dl] unat_byte_of_nat[OF ll] show ?thesis
      by (simp add: librdf_node_decode_def decode_M_def byte_at_def be16_def rest_def)
  next
    case False
    have "node_encoding (Literal l) = tag_N # be32 (string_len l) @ be16 (length (lit_datatype_string l))
            @ word_of_nat (lit_language_length l) # rest"
      using False by (simp add: node_encoding_def rest_def Let_def)
    moreover have "unat (word_of_nat (string_len l) :: 32 word) = string_len l"
      using sl by (simp add: unat_of_nat)
    ultimately show ?thesis
      using False tail[where off = 8 and b = "node_encoding (Literal l)"] int_of_bytes4_be32[OF sl] unat_be16[OF dl] unat_byte_of_nat[OF ll]
      by (simp add: librdf_node_decode_def decode_N_def byte_at_def be16_def be32_def rest_def)
  qed
qed


lemma value_wf_live:
  assumes "world_inv w" "nodes w p = Some n"
  shows "value_wf (node_data n)"
  using world_invD(1)[OF assms]
  by (auto simp: node_registered_def value_wf_def literal_ok_def split: node_value.splits option.splits)

lemma decode_node_encoding:
  assumes inv: "world_inv w" and m: "\<not> nodes_mutex w" and e: "fails e = (\<lambda>_. False)"
    and pn: "nodes w p = Some n" and cs: "c_strings (node_data n)" and enc: "encodable (node_data n)"
    and sl: "\<forall>l. node_data n = Literal l \<longrightarrow> string_len l < 2 ^ 31"
  shows "librdf_node_decode e (node_encoding (node_data n)) (length (node_encoding (node_data n))) w
           = Ret (Some p, Some (length (node_encoding (node_data n)))) (node_incr p w)"
proof (cases "node_data n")
  case (Resource u)
  have "hash_resource w u = Some p"
    using world_invD(1)[OF inv pn] Resource by (simp add: node_registered_def)
  with Resource m e cs enc show ?thesis
    by (simp add: decode_resource c_strings_def encodable_def)
next
  case (Literal l)
  with sl have "string_len l < 2 ^ 31" by simp
  with Literal cs enc show ?thesis by (simp add: decode_literal[OF inv m e pn])
next
  case (Blank i)
  have "hash_blank w i = Some p"
    using world_invD(1)[OF inv pn] Blank by (simp add: node_registered_def)
  with Blank m e cs enc show ?thesis
    by (simp add: decode_blank c_strings_def encodable_def)
qed

text \<open>
  C1.  Round trip through the code: for a live node of a consistent world
  whose strings are C strings and whose fields fit the table, asking the
  encoder for the size, filling a buffer of that size and decoding it returns
  the same node (its usage count incremented, as for any constructor that
  finds its key) and reports the bytes consumed.  Decoding never bypasses
  the intern tables.
\<close>

theorem librdf_node_decode_encode:
  assumes inv: "world_inv w" and m: "\<not> nodes_mutex w" and e: "fails e = (\<lambda>_. False)"
    and pn: "nodes w p = Some n" and cs: "c_strings (node_data n)" and enc: "encodable (node_data n)"
    and sl: "\<forall>l. node_data n = Literal l \<longrightarrow> string_len l < 2 ^ 31"
    and b: "length b = fst (librdf_node_encode (node_data n) None 0)"
  shows "\<exists>k buf. librdf_node_encode (node_data n) (Some b) (length b) = (k, Some buf) \<and>
           librdf_node_decode e buf k w = Ret (Some p, Some k) (node_incr p w)"
proof -
  have wf: "value_wf (node_data n)" by (rule value_wf_live[OF inv pn])
  have "length b = length (node_encoding (node_data n))"
    using b encode_size_layout[OF wf enc] by simp
  from encode_fill_layout[OF wf cs enc this] decode_node_encoding[OF inv m e pn cs enc sl] this
  show ?thesis by simp
qed


theorem librdf_node_decode_encode_witness:
  "\<exists>k buf. librdf_node_encode
       (Literal \<lparr>lit_string = bstr ''Dave Beckett'', string_len = 12, xml_language = None,
          xml_language_len = 0, datatype_uri = None,
          lit_key = Some ([77, 0, 12, 0, 0, 0] @ bstr ''Dave Beckett'' @ [0]), lit_size = 19\<rparr>)
       (Some (replicate 19 0)) 19 = (k, Some buf) \<and>
     librdf_node_decode (no_faults (\<lambda>_. 0)) buf k
       \<lparr>nodes = [1 \<mapsto> \<lparr>usage = 1, node_data = Literal \<lparr>lit_string = bstr ''Dave Beckett'',
          string_len = 12, xml_language = None, xml_language_len = 0, datatype_uri = None,
          lit_key = Some ([77, 0, 12, 0, 0, 0] @ bstr ''Dave Beckett'' @ [0]), lit_size = 19\<rparr>\<rparr>],
        hash_resource = Map.empty,
        hash_literal = [[77, 0, 12, 0, 0, 0] @ bstr ''Dave Beckett'' @ [0] \<mapsto> 1],
        hash_blank = Map.empty, next_ptr = 2, nodes_mutex = False, genid_counter = 0,
        genid = \<lambda>_. []\<rparr>
     = Ret (Some 1, Some k)
         (node_incr 1
           \<lparr>nodes = [1 \<mapsto> \<lparr>usage = 1, node_data = Literal \<lparr>lit_string = bstr ''Dave Beckett'',
              string_len = 12, xml_language = None, xml_language_len = 0, datatype_uri = None,
              lit_key = Some ([77, 0, 12, 0, 0, 0] @ bstr ''Dave Beckett'' @ [0]), lit_size = 19\<rparr>\<rparr>],
            hash_resource = Map.empty,
            hash_literal = [[77, 0, 12, 0, 0, 0] @ bstr ''Dave Beckett'' @ [0] \<mapsto> 1],
            hash_blank = Map.empty, next_ptr = 2, nodes_mutex = False, genid_counter = 0,
            genid = \<lambda>_. []\<rparr>)"
proof -
  let ?l = "\<lparr>lit_string = bstr ''Dave Beckett'', string_len = 12, xml_language = None,
          xml_language_len = 0, datatype_uri = None,
          lit_key = Some ([77, 0, 12, 0, 0, 0] @ bstr ''Dave Beckett'' @ [0]), lit_size = 19\<rparr>"
  let ?n = "\<lparr>usage = 1, node_data = Literal ?l\<rparr>"
  let ?w = "\<lparr>nodes = [1 \<mapsto> ?n], hash_resource = Map.empty,
        hash_literal = [[77, 0, 12, 0, 0, 0] @ bstr ''Dave Beckett'' @ [0] \<mapsto> 1],
        hash_blank = Map.empty, next_ptr = 2, nodes_mutex = False, genid_counter = 0,
        genid = \<lambda>_. []\<rparr>"
  have encl: "node_encoding (Literal ?l) = [77, 0, 12, 0, 0, 0] @ bstr ''Dave Beckett'' @ [0]"
    by (simp add: node_encoding_def tags be16_def lit_datatype_string_def lit_language_length_def
        lit_language_string_def opt_field_def bstr_def)
  have cs: "c_strings (Literal ?l)"
    by (simp add: c_strings_def lit_datatype_string_def lit_language_string_def bstr_def nul_free_def)
  have inv: "world_inv ?w"
    using encl cs
    by (simp add: world_inv_def node_registered_def literal_ok_def literal_wf_def bstr_def)
  have enc: "encodable (Literal ?l)"
    by (simp add: encodable_def lit_datatype_string_def lit_language_length_def)
  have sz: "fst (librdf_node_encode (Literal ?l) None 0) = 19"
    by (simp add: librdf_node_encode_def literal_total_length_def lit_datatype_string_def
        lit_language_length_def)
  have "fails (no_faults (\<lambda>_. 0)) = (\<lambda>_. False)" by (simp add: no_faults_def)
  from librdf_node_decode_encode[of ?w "no_faults (\<lambda>_. 0)" 1 ?n "replicate 19 0", OF inv _ this]
    cs enc sz
  show ?thesis by simp
qed


lemma wf_xml_flag_zero: "drop_bit 8 (ucast (x :: byte) AND (0xF0 :: 32 word)) = 0"
proof (rule bit_word_eqI)
  fix i
  have "(0xF0 :: 32 word) = push_bit 4 (mask 4)" by (simp add: mask_eq_exp_minus_1)
  then show "bit (drop_bit 8 (ucast x AND (0xF0 :: 32 word))) i \<longleftrightarrow> bit (0 :: 32 word) i"
    by (auto simp: bit_simps bit_word_ucast_iff)
qed

text \<open>
  C19.  The old literal form \<open>L\<close> never yields an XML literal: the flag
  \<open>(buffer[1] & 0xf0) >> 8\<close> is 0 for every byte, so the constructor is
  always called without a datatype, whatever the high nibble of byte 1
  says.
\<close>

theorem librdf_node_decode_L_untyped:
  assumes "byte_at b 0 = tag_L" "6 \<le> len"
  shows "\<exists>t sl lang ll. librdf_node_decode e b len w
           = with_size t (librdf_new_node_from_typed_counted_literal e (drop 6 b) sl lang ll None w)"
  using assms by (simp add: librdf_node_decode_def decode_L_def wf_xml_flag_zero Let_def tags) blast

theorem librdf_node_decode_L_untyped_witness:
  "\<exists>t sl lang ll. librdf_node_decode (no_faults (\<lambda>_. 0)) [tag_L, 0xF0, 0, 1, 0, 0, 65, 0] 8
      (new_world (\<lambda>_. []))
    = with_size t (librdf_new_node_from_typed_counted_literal (no_faults (\<lambda>_. 0)) [65, 0] sl lang ll
        None (new_world (\<lambda>_. [])))"
  using librdf_node_decode_L_untyped[of "[tag_L, 0xF0, 0, 1, 0, 0, 65, 0]" 8 "no_faults (\<lambda>_. 0)"
      "new_world (\<lambda>_. [])"]
  by (simp add: byte_at_def)

lemma byte_of_nat_mod: "(word_of_nat x :: byte) = word_of_nat y \<longleftrightarrow> x mod 256 = y mod 256"
  by (simp add: word_unat_eq_iff unat_of_nat)

lemma be32_mod: "be32 n = be32 (n mod 2 ^ 32)"
proof -
  have k: "n div 2 ^ k mod 256 = n mod 2 ^ 32 div 2 ^ k mod 256" if "k \<le> 24" for k :: nat
  proof -
    have "n mod 2 ^ 32 div 2 ^ k = n div 2 ^ k mod 2 ^ (32 - k)"
      by (metis drop_bit_take_bit take_bit_eq_mod drop_bit_eq_div)
    moreover have "(2 :: nat) ^ 8 dvd 2 ^ (32 - k)"
      using that by (intro le_imp_power_dvd) simp
    ultimately show ?thesis by (simp add: mod_mod_cancel)
  qed
  have "n mod 2 ^ 32 div 2 ^ 24 < 256"
    using less_mult_imp_div_less[of "n mod 2 ^ 32" 256 "2 ^ 24"] by simp
  with k[of 24] k[of 16] k[of 8] k[of 0] show ?thesis
    by (simp add: be32_def byte_of_nat_mod)
qed

lemma encoding_N:
  assumes "0xFFFF < string_len l"
  shows "\<exists>rest. node_encoding (Literal l) = tag_N # be32 (string_len l) @
           be16 (length (lit_datatype_string l)) @ word_of_nat (lit_language_length l) # rest"
  using assms by (simp add: node_encoding_def Let_def)

lemma int_of_bytes4_top:
  assumes "2 ^ 31 \<le> n mod 2 ^ 32"
  shows "int_of_bytes4 (be32 n ! 0) (be32 n ! 1) (be32 n ! 2) (be32 n ! 3) = None"
proof -
  have "be32 n ! 0 = word_of_nat (n mod 2 ^ 32 div 2 ^ 24)" by (subst be32_mod) (simp add: be32_def)
  moreover have "128 \<le> n mod 2 ^ 32 div 2 ^ 24" "n mod 2 ^ 32 div 2 ^ 24 < 256"
    using assms by (simp_all add: le_div_geq less_mult_imp_div_less)
  ultimately have "(0x80 :: byte) \<le> be32 n ! 0"
    by (simp add: word_le_nat_alt unat_of_nat)
  then show ?thesis by (simp add: int_of_bytes4_eq)
qed

text \<open>
  C20.  The encoder and the decoder disagree beyond 2 GiB: the encoder
  fills a buffer for a literal of \<open>2^31\<close> to \<open>2^32 - 1\<close> bytes without
  complaint, and decoding exactly that buffer shifts its first length byte
  (0x80 or more) into the sign bit of an \<open>int\<close>, undefined behaviour by
  the C shift rule.
\<close>

theorem librdf_node_decode_N_overflow:
  assumes "value_wf (Literal l)" "c_strings (Literal l)" "encodable (Literal l)"
    "2 ^ 31 \<le> string_len l" "string_len l < 2 ^ 32" "length b = length (node_encoding (Literal l))"
  shows "\<exists>out. librdf_node_encode (Literal l) (Some b) (length b) = (length out, Some out) \<and>
           librdf_node_decode e out (length out) w = Undef"
proof -
  obtain rest where enc: "node_encoding (Literal l) = tag_N # be32 (string_len l) @
      be16 (length (lit_datatype_string l)) @ word_of_nat (lit_language_length l) # rest"
    using encoding_N[of l] assms(4) by auto
  have none: "int_of_bytes4 (be32 (string_len l) ! 0) (be32 (string_len l) ! 1) (be32 (string_len l) ! 2)
      (be32 (string_len l) ! 3) = None"
    using assms(4,5) by (intro int_of_bytes4_top) simp
  have "librdf_node_decode e (node_encoding (Literal l)) (length (node_encoding (Literal l))) w = Undef"
    using none unfolding enc
    by (simp add: librdf_node_decode_def decode_N_def byte_at_def length_be32 tags nth_append be16_def)
  then show ?thesis
    using encode_fill_layout[OF assms(1-3,6)] by auto
qed

theorem librdf_node_decode_N_overflow_witness:
  "\<exists>out. librdf_node_encode
      (Literal \<lparr>lit_string = replicate (2 ^ 31) 0x58, string_len = 2 ^ 31, xml_language = None,
                xml_language_len = 0, datatype_uri = None, lit_key = None, lit_size = 0\<rparr>)
      (Some (replicate (2 ^ 31 + 9) 0)) (2 ^ 31 + 9) = (length out, Some out) \<and>
    librdf_node_decode (no_faults (\<lambda>_. 0)) out (length out) (new_world (\<lambda>_. [])) = Undef"
  using librdf_node_decode_N_overflow[of "\<lparr>lit_string = replicate (2 ^ 31) 0x58, string_len = 2 ^ 31,
      xml_language = None, xml_language_len = 0, datatype_uri = None, lit_key = None, lit_size = 0\<rparr>"
      "replicate (2 ^ 31 + 9) 0" "no_faults (\<lambda>_. 0)" "new_world (\<lambda>_. [])"]
  by (simp add: value_wf_def literal_wf_def c_strings_def encodable_def lit_datatype_string_def
      lit_language_string_def lit_language_length_def node_encoding_def opt_field_def be16_def be32_def)

text \<open>
  C10.  A literal of \<open>2^32\<close> bytes or more is encoded without complaint,
  but the long form's 32-bit length field keeps only the low 32 bits of
  its length: the decoder's own reading of the field gives the length
  modulo \<open>2^32\<close> (or undefined behaviour when that has its top bit set),
  never the length itself.
\<close>

theorem librdf_node_encode_length_wraps:
  assumes "value_wf (Literal l)" "c_strings (Literal l)" "encodable (Literal l)"
    "2 ^ 32 \<le> string_len l" "length b = length (node_encoding (Literal l))"
  shows "\<exists>out. librdf_node_encode (Literal l) (Some b) (length b) = (length out, Some out) \<and>
           map_option unat (int_of_bytes4 (out ! 1) (out ! 2) (out ! 3) (out ! 4)) =
             (if string_len l mod 2 ^ 32 < 2 ^ 31 then Some (string_len l mod 2 ^ 32) else None)"
proof -
  let ?m = "string_len l mod 2 ^ 32"
  obtain rest where enc: "node_encoding (Literal l) = tag_N # be32 (string_len l) @
      be16 (length (lit_datatype_string l)) @ word_of_nat (lit_language_length l) # rest"
    using encoding_N[of l] assms(4) by auto
  have b4: "be32 (string_len l) = [be32 ?m ! 0, be32 ?m ! 1, be32 ?m ! 2, be32 ?m ! 3]"
    by (subst be32_mod) (simp add: be32_def)
  have "map_option unat (int_of_bytes4 (be32 ?m ! 0) (be32 ?m ! 1) (be32 ?m ! 2) (be32 ?m ! 3)) =
      (if ?m < 2 ^ 31 then Some ?m else None)"
  proof (cases "?m < 2 ^ 31")
    case True
    then show ?thesis using int_of_bytes4_be32[OF True] by (simp add: unat_of_nat)
  next
    case False
    then show ?thesis using int_of_bytes4_top[of ?m] by simp
  qed
  then have "map_option unat (int_of_bytes4 (node_encoding (Literal l) ! 1) (node_encoding (Literal l) ! 2)
      (node_encoding (Literal l) ! 3) (node_encoding (Literal l) ! 4)) = (if ?m < 2 ^ 31 then Some ?m else None)"
    unfolding enc b4 by simp
  then show ?thesis
    using encode_fill_layout[OF assms(1-3,5)] by auto
qed

theorem librdf_node_encode_length_wraps_witness:
  "\<exists>out. librdf_node_encode
      (Literal \<lparr>lit_string = replicate (2 ^ 32 + 5) 0x58, string_len = 2 ^ 32 + 5, xml_language = None,
                xml_language_len = 0, datatype_uri = None, lit_key = None, lit_size = 0\<rparr>)
      (Some (replicate (2 ^ 32 + 14) 0)) (2 ^ 32 + 14) = (length out, Some out) \<and>
    map_option unat (int_of_bytes4 (out ! 1) (out ! 2) (out ! 3) (out ! 4)) = Some 5"
  using librdf_node_encode_length_wraps[of "\<lparr>lit_string = replicate (2 ^ 32 + 5) 0x58,
      string_len = 2 ^ 32 + 5, xml_language = None, xml_language_len = 0, datatype_uri = None,
      lit_key = None, lit_size = 0\<rparr>" "replicate (2 ^ 32 + 14) 0"]
  by (simp add: value_wf_def literal_wf_def c_strings_def encodable_def lit_datatype_string_def
      lit_language_string_def lit_language_length_def node_encoding_def opt_field_def be16_def be32_def)

text \<open>
  C21.  A buffer that is empty, that starts with an unknown tag, or that is
  shorter than the header of its tag is rejected with NULL, no size is
  reported and the world is unchanged.
\<close>

theorem librdf_node_decode_malformed:
  assumes "len < 1 \<or> header_size (byte_at b 0) = None \<or> (\<exists>h. header_size (byte_at b 0) = Some h \<and> len < h)"
  shows "librdf_node_decode e b len w = Ret (None, None) w"
  using assms
  by (auto simp: librdf_node_decode_def header_size_def decode_R_def decode_L_def decode_M_def
      decode_N_def decode_B_def split: if_splits)

theorem librdf_node_decode_malformed_witness:
  "librdf_node_decode (no_faults (\<lambda>_. 0)) [tag_M, 0, 1] 3 (new_world (\<lambda>_. []))
     = Ret (None, None) (new_world (\<lambda>_. [])) \<and>
   librdf_node_decode (no_faults (\<lambda>_. 0)) [0x58, 0, 1] 3 (new_world (\<lambda>_. []))
     = Ret (None, None) (new_world (\<lambda>_. []))"
  using librdf_node_decode_malformed[of 3 "[tag_M, 0, 1]" "no_faults (\<lambda>_. 0)" "new_world (\<lambda>_. [])"]
    librdf_node_decode_malformed[of 3 "[0x58, 0, 1]" "no_faults (\<lambda>_. 0)" "new_world (\<lambda>_. [])"]
  by (simp_all add: header_size_def byte_at_def tags)

end
