(* ===== verification/Tstore.thy ===== *)
theory Tstore
  imports Decode
begin

text \<open>
  The statement conversion of the tstore storage backend
  (\<open>src/librdf/rdf_storage_tstore.c\<close>, lines 194--280): a tstore
  \<open>rs_triple\<close> holds three strings and a literal flag;
  \<open>librdf_storage_tstore_statement_from_rs_triple\<close> turns one into a
  statement by calling the node constructors, and
  \<open>librdf_storage_tstore_statement_as_rs_triple\<close> turns a statement into
  one by reading the nodes' strings.  The database calls of the backend
  (\<open>rs_*\<close> of the tstore library) are external and not modelled.

  A statement is the triple of its node handles (\<open>None\<close> the NULL
  pointer); the statement module is not under \<open>src/\<close>.  Each of the three
  constructor calls of \<open>statement_from_rs_triple\<close> gets its own allocation
  environment.
\<close>

section \<open>Data\<close>

type_synonym librdf_statement = "ptr option \<times> ptr option \<times> ptr option"

record rs_triple =
  rs_subject :: "bytes option"
  rs_predicate :: "bytes option"
  rs_object :: "bytes option"
  rs_literal :: bool

text \<open>\<open>librdf_new_statement_from_nodes\<close> (statement module): the statement owns the three nodes.\<close>

definition librdf_new_statement_from_nodes ::
  "ptr option \<Rightarrow> ptr option \<Rightarrow> ptr option \<Rightarrow> librdf_statement" where
  "librdf_new_statement_from_nodes s p ob = (s, p, ob)"

section \<open>From an rs_triple to a statement\<close>

text \<open>
  The subject: \<open>"_:"\<close> marks a blank node identifier, anything else is a
  URI string.
\<close>

definition tstore_subject_node ::
  "alloc_env \<Rightarrow> bytes \<Rightarrow> librdf_world \<Rightarrow> (ptr option, librdf_world) outcome" where
  "tstore_subject_node e s w =
     (if strncmp_eq s (bstr ''_:'') 2
      then librdf_new_node_from_blank_identifier e (Some (drop 2 s)) w
      else librdf_new_node_from_uri_string e s w)"

text \<open>
  The object: a literal when the flag is set; a blank node when
  \<open>strncmp(triple->object, ":", 2)\<close> is zero (the string \<open>":"\<close> itself),
  its identifier read from two bytes on; a URI string otherwise.
\<close>

definition tstore_object_node ::
  "alloc_env \<Rightarrow> bytes \<Rightarrow> bool \<Rightarrow> librdf_world \<Rightarrow> (ptr option, librdf_world) outcome" where
  "tstore_object_node e ob lit w =
     (if lit then librdf_new_node_from_typed_literal e ob None None w
      else if strncmp_eq ob (bstr '':'') 2
      then librdf_new_node_from_blank_identifier e (Some (drop 2 ob)) w
      else librdf_new_node_from_uri_string e ob w)"

text \<open>
  A field that is NULL gives a NULL node.  When a constructor fails, the
  nodes made before it are freed and the result is NULL.
\<close>

definition librdf_storage_tstore_statement_from_rs_triple ::
  "alloc_env \<Rightarrow> alloc_env \<Rightarrow> alloc_env \<Rightarrow> rs_triple \<Rightarrow> librdf_world
   \<Rightarrow> (librdf_statement option, librdf_world) outcome" where
  "librdf_storage_tstore_statement_from_rs_triple e1 e2 e3 t w =
     obind (case rs_subject t of None \<Rightarrow> Ret None w | Some s \<Rightarrow> tstore_subject_node e1 s w)
       (\<lambda>subject_node w1.
          if rs_subject t \<noteq> None \<and> subject_node = None then Ret None w1
          else
            obind (case rs_predicate t of
                     None \<Rightarrow> Ret None w1
                   | Some pr \<Rightarrow> librdf_new_node_from_uri_string e2 pr w1)
              (\<lambda>predicate_node w2.
                 if rs_predicate t \<noteq> None \<and> predicate_node = None then
                   obind (librdf_free_node subject_node w2) (\<lambda>_ w3. Ret None w3)
                 else
                   obind (case rs_object t of
                            None \<Rightarrow> Ret None w2
                          | Some ob \<Rightarrow> tstore_object_node e3 ob (rs_literal t) w2)
                     (\<lambda>object_node w3.
                        if rs_object t \<noteq> None \<and> object_node = None then
                          obind (librdf_free_node subject_node w3)
                            (\<lambda>_ w4. obind (librdf_free_node predicate_node w4)
                                      (\<lambda>_ w5. Ret None w5))
                        else
                          Ret (Some (librdf_new_statement_from_nodes subject_node predicate_node
                                       object_node)) w3)))"

section \<open>From a statement to an rs_triple\<close>

text \<open>
  The string the triple gets for a node: the blank identifier of a blank
  node, else \<open>librdf_uri_as_string(librdf_node_get_uri(node))\<close>, which is
  NULL for a literal (both calls return NULL on a wrong type).
\<close>

definition node_id_string :: "librdf_node \<Rightarrow> bytes option" where
  "node_id_string n =
     (if librdf_node_is_blank n then librdf_node_get_blank_identifier n
      else librdf_node_get_uri n)"

text \<open>
  The triple is \<open>LIBRDF_MALLOC\<close>ed and written without a NULL check: when
  the allocation fails the writes go through NULL (\<open>Undef\<close>).  A handle that
  is not a live node is a use after free.
\<close>

definition librdf_storage_tstore_statement_as_rs_triple ::
  "alloc_env \<Rightarrow> librdf_statement \<Rightarrow> librdf_world \<Rightarrow> (rs_triple, librdf_world) outcome" where
  "librdf_storage_tstore_statement_as_rs_triple e st w =
     (let (sn, pn, on) = st;
          look = (\<lambda>x. case x of None \<Rightarrow> Some None | Some p \<Rightarrow> map_option Some (nodes w p))
      in
      if fails e A_triple then Undef
      else
        (case (look sn, look pn, look on) of
           (Some s, Some p, Some ob) \<Rightarrow>
             Ret \<lparr>rs_subject = (case s of None \<Rightarrow> None | Some n \<Rightarrow> node_id_string n),
                  rs_predicate = (case p of None \<Rightarrow> None | Some n \<Rightarrow> librdf_node_get_uri n),
                  rs_object =
                    (case ob of
                       None \<Rightarrow> None
                     | Some n \<Rightarrow>
                         if librdf_node_is_literal n then librdf_node_get_literal_value n
                         else node_id_string n),
                  rs_literal = (case ob of None \<Rightarrow> False | Some n \<Rightarrow> librdf_node_is_literal n)\<rparr> w
         | _ \<Rightarrow> Undef))"

text \<open>
  The objects \<open>statement_as_rs_triple\<close> writes in a form that
  \<open>statement_from_rs_triple\<close> reads back: a URI that is not the string
  \<open>":"\<close>, or a literal without language and datatype.
\<close>

definition tstore_plain_object :: "node_value \<Rightarrow> bool" where
  "tstore_plain_object v =
     (case v of
        Resource u \<Rightarrow> nul_free u \<and> \<not> strncmp_eq u (bstr '':'') 2
      | Literal l \<Rightarrow> xml_language l = None \<and> datatype_uri l = None \<and> c_strings (Literal l)
                     \<and> string_len l < SIZE_MAX
      | Blank _ \<Rightarrow> False)"

section \<open>Lemmas\<close>


lemma uri_string_hit:
  assumes "hash_resource w u = Some p" "\<not> nodes_mutex w" "\<not> fails e A_uri" "nul_free u"
  shows "librdf_new_node_from_uri_string e u w = Ret (Some p) (node_incr p w)"
  using assms
  by (simp add: librdf_new_node_from_uri_string_def librdf_new_node_from_uri_string_or_uri_def
      librdf_new_uri_def nul_free_cstr unlock_node_incr_lock)

lemma plain_literal_hit:
  assumes hit: "hash_literal w (node_encoding (Literal l)) = Some p" and m: "\<not> nodes_mutex w"
    and e: "fails e = (\<lambda>_. False)" and cs: "c_strings (Literal l)" and wf: "literal_wf l"
    and plain: "xml_language l = None" "datatype_uri l = None" and sl: "string_len l < SIZE_MAX"
  shows "librdf_new_node_from_typed_literal e (lit_string l) None None w = Ret (Some p) (node_incr p w)"
proof -
  have ns: "nul_free (lit_string l)" using cs by (simp add: c_strings_def)
  have len: "strlen (lit_string l) = string_len l"
    using wf ns by (simp add: literal_wf_def nul_free_strlen)
  have sc: "strncpy (lit_string l) (string_len l) = lit_string l"
    using strncpy_nul_free[OF ns] wf by (simp add: literal_wf_def)
  let ?l' = "literal_of (lit_string l) (string_len l) (norm_lang None) 0 None"
  have f: "lit_string ?l' = lit_string l" "string_len ?l' = string_len l"
    "lit_datatype_string ?l' = []" "lit_language_length ?l' = 0" "lit_language_string ?l' = []"
    using sc
    by (simp_all add: literal_of_def norm_lang_def lit_datatype_string_def
        lit_language_length_def lit_language_string_def)
  have enc: "node_encoding (Literal ?l') = node_encoding (Literal l)"
    by (rule node_encoding_literal_cong) (use plain f in \<open>simp_all add: lit_datatype_string_def
        lit_language_length_def\<close>)
  have cs': "c_strings (Literal ?l')" using ns f by (simp add: c_strings_def)
  have encodable': "encodable (Literal ?l')" using f by (simp add: encodable_def)
  have "librdf_new_node_from_typed_counted_literal e (lit_string l) (string_len l) None 0 None w
          = Ret (Some p) (node_incr p w)"
    by (rule typed_counted_hit[OF m e]) (use sl cs' encodable' enc hit in \<open>simp_all add: SIZE_MAX_def\<close>)
  with len show ?thesis by (simp add: librdf_new_node_from_typed_literal_def)
qed


lemma resource_registered:
  "world_inv w \<Longrightarrow> nodes w p = Some n \<Longrightarrow> node_data n = Resource u \<Longrightarrow> hash_resource w u = Some p"
  using world_invD(1) by (fastforce simp: node_registered_def)

lemma as_rs_triple_live:
  assumes "\<not> fails e A_triple" "nodes w s = Some ns" "nodes w p = Some np" "nodes w ob = Some no"
  shows "librdf_storage_tstore_statement_as_rs_triple e (Some s, Some p, Some ob) w =
           Ret \<lparr>rs_subject = node_id_string ns, rs_predicate = librdf_node_get_uri np,
                rs_object = (if librdf_node_is_literal no then librdf_node_get_literal_value no
                             else node_id_string no),
                rs_literal = librdf_node_is_literal no\<rparr> w"
  using assms by (simp add: librdf_storage_tstore_statement_as_rs_triple_def)

lemma tstore_object_hit:
  assumes inv: "world_inv w" and o: "nodes w ob = Some no" "tstore_plain_object (node_data no)"
    and m: "\<not> nodes_mutex w'" and e: "fails e = (\<lambda>_. False)"
    and h: "hash_resource w' = hash_resource w" "hash_literal w' = hash_literal w"
  shows "tstore_object_node e
           (the (if librdf_node_is_literal no then librdf_node_get_literal_value no else node_id_string no))
           (librdf_node_is_literal no) w' = Ret (Some ob) (node_incr ob w')"
proof (cases "node_data no")
  case (Resource u)
  with resource_registered[OF inv o(1)] o(2) h m e show ?thesis
    by (simp add: tstore_object_node_def tstore_plain_object_def node_id_string_def
        librdf_node_is_literal_def librdf_node_is_blank_def librdf_node_get_type_def
        librdf_node_get_uri_def uri_string_hit)
next
  case (Literal l)
  have cs: "c_strings (Literal l)" and plain: "xml_language l = None" "datatype_uri l = None"
    and sl: "string_len l < SIZE_MAX"
    using o(2) Literal by (simp_all add: tstore_plain_object_def)
  have reg: "hash_literal w (node_encoding (Literal l)) = Some ob" and ok: "literal_ok l"
    using literal_registered[OF inv o(1) Literal cs] by simp_all
  have wf: "literal_wf l" using ok by (simp add: literal_ok_def)
  from plain_literal_hit[OF _ m e cs wf plain sl] reg h Literal show ?thesis
    by (simp add: tstore_object_node_def librdf_node_is_literal_def librdf_node_get_type_def
        librdf_node_get_literal_value_def)
next
  case (Blank i) with o(2) show ?thesis by (simp add: tstore_plain_object_def)
qed

lemma rs_triple_roundtrip:
  assumes inv: "world_inv w" and m: "\<not> nodes_mutex w"
    and e: "fails e0 = (\<lambda>_. False)" "fails e1 = (\<lambda>_. False)" "fails e2 = (\<lambda>_. False)"
      "fails e3 = (\<lambda>_. False)"
    and s: "nodes w s = Some ns" "node_data ns = Resource us" "nul_free us"
      "\<not> strncmp_eq us (bstr ''_:'') 2"
    and p: "nodes w p = Some np" "node_data np = Resource up" "nul_free up"
    and o: "nodes w ob = Some no" "tstore_plain_object (node_data no)"
  shows "obind (librdf_storage_tstore_statement_as_rs_triple e0 (Some s, Some p, Some ob) w)
           (librdf_storage_tstore_statement_from_rs_triple e1 e2 e3)
         = Ret (Some (Some s, Some p, Some ob)) (node_incr ob (node_incr p (node_incr s w)))"
proof -
  let ?w1 = "node_incr s w" and ?w2 = "node_incr p (node_incr s w)"
  have s1: "tstore_subject_node e1 us w = Ret (Some s) ?w1"
    using s e(2) m resource_registered[OF inv s(1,2)]
    by (simp add: tstore_subject_node_def uri_string_hit)
  have p1: "librdf_new_node_from_uri_string e2 up ?w1 = Ret (Some p) ?w2"
    using p e(3) m resource_registered[OF inv p(1,2)] by (simp add: uri_string_hit)
  have some: "\<exists>x. (if librdf_node_is_literal no then librdf_node_get_literal_value no
                  else node_id_string no) = Some x"
    using o(2)
    by (auto simp: tstore_plain_object_def librdf_node_is_literal_def librdf_node_get_type_def
        librdf_node_get_literal_value_def node_id_string_def librdf_node_is_blank_def
        librdf_node_get_uri_def split: node_value.splits)
  have o1: "tstore_object_node e3
           (the (if librdf_node_is_literal no then librdf_node_get_literal_value no else node_id_string no))
           (librdf_node_is_literal no) ?w2 = Ret (Some ob) (node_incr ob ?w2)"
    by (rule tstore_object_hit[OF inv o _ e(4)]) (simp_all add: m)
  have "node_id_string ns = Some us" "librdf_node_get_uri np = Some up"
    using s(2) p(2) by (simp_all add: node_id_string_def librdf_node_is_blank_def
        librdf_node_get_type_def librdf_node_get_uri_def librdf_node_get_blank_identifier_def)
  with as_rs_triple_live[of e0 w s ns p np ob no] e(1) s(1) p(1) o(1) s1 p1 o1 some show ?thesis
    by (auto simp: librdf_storage_tstore_statement_from_rs_triple_def librdf_new_statement_from_nodes_def)
qed

text \<open>
  C16.  A statement of live nodes whose subject and predicate are resources
  and whose object is a resource or a literal without language and datatype
  survives the trip through a tstore triple: converting it to an
  \<open>rs_triple\<close> and back gives the same three nodes, each found in its
  intern table (usage incremented), provided the URIs do not look like the
  backend's blank node markers.
\<close>

theorem tstore_rs_triple_roundtrip:
  assumes inv: "world_inv w" and m: "\<not> nodes_mutex w"
    and e: "fails e0 = (\<lambda>_. False)" "fails e1 = (\<lambda>_. False)" "fails e2 = (\<lambda>_. False)"
      "fails e3 = (\<lambda>_. False)"
    and s: "nodes w s = Some ns" "node_data ns = Resource us" "nul_free us"
      "\<not> strncmp_eq us (bstr ''_:'') 2"
    and p: "nodes w p = Some np" "node_data np = Resource up" "nul_free up"
    and o: "nodes w ob = Some no" "tstore_plain_object (node_data no)"
  shows "obind (librdf_storage_tstore_statement_as_rs_triple e0 (Some s, Some p, Some ob) w)
           (librdf_storage_tstore_statement_from_rs_triple e1 e2 e3)
         = Ret (Some (Some s, Some p, Some ob)) (node_incr ob (node_incr p (node_incr s w)))"
  by (rule rs_triple_roundtrip[OF assms])


text \<open>
  C17.  A blank subject does not survive the trip: \<open>statement_as_rs_triple\<close>
  writes the bare identifier, without the \<open>"_:"\<close> prefix that
  \<open>statement_from_rs_triple\<close> looks for, so the subject comes back as a
  new resource node named by the identifier.
\<close>

theorem tstore_blank_subject_becomes_resource:
  assumes inv: "world_inv w" and m: "\<not> nodes_mutex w"
    and e: "\<not> fails e0 A_triple" "fails e1 = (\<lambda>_. False)"
    and s: "nodes w s = Some ns" "node_data ns = Blank i" "\<not> strncmp_eq i (bstr ''_:'') 2"
    and fresh: "hash_resource w (cstr i) = None"
  shows "\<exists>w'. obind (librdf_storage_tstore_statement_as_rs_triple e0 (Some s, None, None) w)
                 (librdf_storage_tstore_statement_from_rs_triple e1 e2 e3)
               = Ret (Some (Some (next_ptr w), None, None)) w' \<and>
             map_option node_data (nodes w' (next_ptr w)) = Some (Resource (cstr i)) \<and>
             next_ptr w \<noteq> s"
proof -
  have "s < next_ptr w" using world_invD(1)[OF inv s(1)] by simp
  moreover have "librdf_storage_tstore_statement_as_rs_triple e0 (Some s, None, None) w =
      Ret \<lparr>rs_subject = Some i, rs_predicate = None, rs_object = None, rs_literal = False\<rparr> w"
    using e(1) s(1,2)
    by (simp add: librdf_storage_tstore_statement_as_rs_triple_def node_id_string_def
        librdf_node_is_blank_def librdf_node_get_type_def librdf_node_get_blank_identifier_def)
  ultimately show ?thesis
    using m e(2) s(3) fresh
    by (simp add: librdf_storage_tstore_statement_from_rs_triple_def tstore_subject_node_def
        librdf_new_node_from_uri_string_def librdf_new_node_from_uri_string_or_uri_def
        librdf_new_uri_def node_alloc_def unlock_def librdf_new_statement_from_nodes_def)
qed

text \<open>
  C18.  The object branch compares with \<open>":"\<close> instead of \<open>"_:"\<close>: an
  object string that carries the blank node marker of the subject branch is
  made into a URI node, not a blank node.
\<close>

theorem tstore_blank_object_not_recognised:
  "strncmp_eq ob (bstr ''_:'') 2 \<Longrightarrow>
   tstore_object_node e ob False w = librdf_new_node_from_uri_string e ob w"
  by (auto simp: tstore_object_node_def strncmp_eq_def bstr_def cstr_def)


theorem tstore_rs_triple_roundtrip_witness:
  "obind (librdf_storage_tstore_statement_as_rs_triple (no_faults (\<lambda>_. 0)) (Some 1, Some 2, Some 3)
      \<lparr>nodes = [1 \<mapsto> \<lparr>usage = 1, node_data = Resource (bstr ''http://ex/s'')\<rparr>,
                2 \<mapsto> \<lparr>usage = 1, node_data = Resource (bstr ''http://ex/p'')\<rparr>,
                3 \<mapsto> \<lparr>usage = 1, node_data = Literal \<lparr>lit_string = bstr ''Dave Beckett'',
                   string_len = 12, xml_language = None, xml_language_len = 0, datatype_uri = None,
                   lit_key = Some ([77, 0, 12, 0, 0, 0] @ bstr ''Dave Beckett'' @ [0]),
                   lit_size = 19\<rparr>\<rparr>],
       hash_resource = [bstr ''http://ex/s'' \<mapsto> 1, bstr ''http://ex/p'' \<mapsto> 2],
       hash_literal = [[77, 0, 12, 0, 0, 0] @ bstr ''Dave Beckett'' @ [0] \<mapsto> 3],
       hash_blank = Map.empty, next_ptr = 4, nodes_mutex = False, genid_counter = 0,
       genid = \<lambda>_. []\<rparr>)
     (librdf_storage_tstore_statement_from_rs_triple (no_faults (\<lambda>_. 0)) (no_faults (\<lambda>_. 0))
        (no_faults (\<lambda>_. 0)))
   = Ret (Some (Some 1, Some 2, Some 3))
       (node_incr 3 (node_incr 2 (node_incr 1
         \<lparr>nodes = [1 \<mapsto> \<lparr>usage = 1, node_data = Resource (bstr ''http://ex/s'')\<rparr>,
                2 \<mapsto> \<lparr>usage = 1, node_data = Resource (bstr ''http://ex/p'')\<rparr>,
                3 \<mapsto> \<lparr>usage = 1, node_data = Literal \<lparr>lit_string = bstr ''Dave Beckett'',
                   string_len = 12, xml_language = None, xml_language_len = 0, datatype_uri = None,
                   lit_key = Some ([77, 0, 12, 0, 0, 0] @ bstr ''Dave Beckett'' @ [0]),
                   lit_size = 19\<rparr>\<rparr>],
          hash_resource = [bstr ''http://ex/s'' \<mapsto> 1, bstr ''http://ex/p'' \<mapsto> 2],
          hash_literal = [[77, 0, 12, 0, 0, 0] @ bstr ''Dave Beckett'' @ [0] \<mapsto> 3],
          hash_blank = Map.empty, next_ptr = 4, nodes_mutex = False, genid_counter = 0,
          genid = \<lambda>_. []\<rparr>)))"
proof -
  let ?l = "\<lparr>lit_string = bstr ''Dave Beckett'',
                   string_len = 12, xml_language = None, xml_language_len = 0, datatype_uri = None,
                   lit_key = Some ([77, 0, 12, 0, 0, 0] @ bstr ''Dave Beckett'' @ [0]),
                   lit_size = 19\<rparr>"
  let ?w = "\<lparr>nodes = [1 \<mapsto> \<lparr>usage = 1, node_data = Resource (bstr ''http://ex/s'')\<rparr>,
                2 \<mapsto> \<lparr>usage = 1, node_data = Resource (bstr ''http://ex/p'')\<rparr>,
                3 \<mapsto> \<lparr>usage = 1, node_data = Literal ?l\<rparr>],
       hash_resource = [bstr ''http://ex/s'' \<mapsto> 1, bstr ''http://ex/p'' \<mapsto> 2],
       hash_literal = [[77, 0, 12, 0, 0, 0] @ bstr ''Dave Beckett'' @ [0] \<mapsto> 3],
       hash_blank = Map.empty, next_ptr = 4, nodes_mutex = False, genid_counter = 0,
       genid = \<lambda>_. []\<rparr>"
  have encl: "node_encoding (Literal ?l) = [77, 0, 12, 0, 0, 0] @ bstr ''Dave Beckett'' @ [0]"
    by (simp add: node_encoding_def tags be16_def lit_datatype_string_def lit_language_length_def
        lit_language_string_def opt_field_def bstr_def)
  have cs: "c_strings (Literal ?l)"
    by (simp add: c_strings_def lit_datatype_string_def lit_language_string_def bstr_def nul_free_def)
  have inv: "world_inv ?w"
    using encl cs
    by (simp add: world_inv_def node_registered_def literal_ok_def literal_wf_def bstr_def)
  have e: "fails (no_faults (\<lambda>_. 0)) = (\<lambda>_. False)" by (simp add: no_faults_def)
  have plain: "tstore_plain_object (node_data \<lparr>usage = 1, node_data = Literal ?l\<rparr>)"
    using cs by (simp add: tstore_plain_object_def SIZE_MAX_def)
  show ?thesis
    by (rule tstore_rs_triple_roundtrip[where no = "\<lparr>usage = 1, node_data = Literal ?l\<rparr>"
          and us = "bstr ''http://ex/s''" and up = "bstr ''http://ex/p''"
          and ns = "\<lparr>usage = 1, node_data = Resource (bstr ''http://ex/s'')\<rparr>"
          and np = "\<lparr>usage = 1, node_data = Resource (bstr ''http://ex/p'')\<rparr>",
          OF inv _ e e e e _ _ _ _ _ _ _ _ plain])
       (simp_all add: bstr_def nul_free_def strncmp_eq_def cstr_def)
qed

theorem tstore_blank_subject_becomes_resource_witness:
  "\<exists>w'. obind (librdf_storage_tstore_statement_as_rs_triple (no_faults (\<lambda>_. 0)) (Some 1, None, None)
           \<lparr>nodes = [1 \<mapsto> \<lparr>usage = 1, node_data = Blank (bstr ''b1'')\<rparr>],
            hash_resource = Map.empty, hash_literal = Map.empty,
            hash_blank = [bstr ''b1'' \<mapsto> 1], next_ptr = 2, nodes_mutex = False, genid_counter = 0,
            genid = \<lambda>_. []\<rparr>)
         (librdf_storage_tstore_statement_from_rs_triple (no_faults (\<lambda>_. 0)) (no_faults (\<lambda>_. 0))
            (no_faults (\<lambda>_. 0)))
       = Ret (Some (Some 2, None, None)) w' \<and>
     map_option node_data (nodes w' 2) = Some (Resource (bstr ''b1'')) \<and> (2::nat) \<noteq> 1"
proof -
  let ?w = "\<lparr>nodes = [1 \<mapsto> \<lparr>usage = 1, node_data = Blank (bstr ''b1'')\<rparr>],
            hash_resource = Map.empty, hash_literal = Map.empty,
            hash_blank = [bstr ''b1'' \<mapsto> 1], next_ptr = 2, nodes_mutex = False, genid_counter = 0,
            genid = \<lambda>_. []\<rparr>"
  have inv: "world_inv ?w" by (simp add: world_inv_def node_registered_def)
  have c: "cstr (bstr ''b1'') = bstr ''b1''" by (simp add: cstr_def bstr_def)
  have "fails (no_faults (\<lambda>_. 0)) = (\<lambda>_. False)" by (simp add: no_faults_def)
  from tstore_blank_subject_becomes_resource[OF inv _ _ this, of "no_faults (\<lambda>_. 0)" 1 _
      "bstr ''b1''"] c
  show ?thesis by (simp add: no_faults_def strncmp_eq_def bstr_def cstr_def)
qed

theorem tstore_blank_object_not_recognised_witness:
  "tstore_object_node (no_faults (\<lambda>_. 0)) (bstr ''_:b1'') False (new_world (\<lambda>_. []))
     = librdf_new_node_from_uri_string (no_faults (\<lambda>_. 0)) (bstr ''_:b1'') (new_world (\<lambda>_. []))"
  by (rule tstore_blank_object_not_recognised) (simp add: strncmp_eq_def bstr_def cstr_def)

end
