(* ===== verification/Parser.thy ===== *)
theory Parser
  imports Tstore
begin

text \<open>
  The raptor parser integration (\<open>src/src/rdf_parser_raptor.c\<close>): the
  callback \<open>librdf_parser_raptor_new_statement_handler\<close> that turns each
  triple the raptor parser reports into a librdf statement of interned
  nodes, and the blank node identifier mapping
  \<open>librdf_parser_raptor_generate_id_handler\<close>.  The model follows the
  raptor 1 branch of the source (\<open>RAPTOR_V2_AVAILABLE\<close> undefined) and
  a parse into a stream, where the statements are queued on the stream
  context's list (\<open>scontext->model\<close> is NULL).

  A raptor 1 statement gives each of its three terms as an untyped pointer
  with an identifier type.  The model keeps what the pointer points to: the
  URI (a URI object is its string), the blank identifier or the literal
  string, and for an ordinal predicate the \<open>int\<close> it points to.
\<close>

section \<open>Data\<close>

datatype raptor_identifier_type =
    RAPTOR_IDENTIFIER_TYPE_UNKNOWN
  | RAPTOR_IDENTIFIER_TYPE_RESOURCE
  | RAPTOR_IDENTIFIER_TYPE_ANONYMOUS
  | RAPTOR_IDENTIFIER_TYPE_PREDICATE
  | RAPTOR_IDENTIFIER_TYPE_ORDINAL
  | RAPTOR_IDENTIFIER_TYPE_LITERAL
  | RAPTOR_IDENTIFIER_TYPE_XML_LITERAL

record raptor_statement =
  r_subject :: bytes
  subject_type :: raptor_identifier_type
  r_predicate :: bytes
  predicate_ordinal :: int
  predicate_type :: raptor_identifier_type
  r_object :: bytes
  object_type :: raptor_identifier_type
  object_literal_datatype :: "uri option"
  object_literal_language :: "bytes option"

text \<open>
  The stream context's queue of parsed statements, the world, and the
  parser context's map from the document's blank node identifiers to
  generated ones (\<open>pcontext->bnode_hash\<close>).
\<close>

record parser_state =
  pworld :: librdf_world
  statements :: "librdf_statement list"
  bnode_hash :: "bytes \<rightharpoonup> bytes"

text \<open>A world operation run on the world of the parser state.\<close>

definition on_world :: "(librdf_world \<Rightarrow> ('a, librdf_world) outcome) \<Rightarrow> parser_state
    \<Rightarrow> ('a, parser_state) outcome" where
  "on_world f ps =
     (case f (pworld ps) of
        Ret a w \<Rightarrow> Ret a (ps\<lparr>pworld := w\<rparr>)
      | Blocked \<Rightarrow> Blocked
      | Undef \<Rightarrow> Undef)"

text \<open>\<open>librdf_free_statement\<close> (statement module): frees its three nodes in order.\<close>

definition librdf_free_statement :: "librdf_statement \<Rightarrow> librdf_world \<Rightarrow> (unit, librdf_world) outcome" where
  "librdf_free_statement st w =
     (case st of
        (s, p, ob) \<Rightarrow>
          obind (librdf_free_node s w)
            (\<lambda>_ w1. obind (librdf_free_node p w1) (\<lambda>_ w2. librdf_free_node ob w2)))"

section \<open>Ordinal predicates\<close>

text \<open>The decimal digits \<open>sprintf("%d")\<close> writes for a non-negative number.\<close>

definition digit_char :: "nat \<Rightarrow> byte" where
  "digit_char k = word_of_nat (48 + k)"

fun dec_digits :: "nat \<Rightarrow> bytes" where
  "dec_digits n =
     (if n < 10 then [digit_char n]
      else dec_digits (n div 10) @ [digit_char (n mod 10)])"

declare dec_digits.simps [simp del]

definition c_int_decimal :: "int \<Rightarrow> bytes" where
  "c_int_decimal i = (if i < 0 then 45 # dec_digits (nat (- i)) else dec_digits (nat i))"

text \<open>\<open>sprintf(ordinal_buffer, "http://www.w3.org/1999/02/22-rdf-syntax-ns#_%d", ordinal)\<close>.\<close>

definition ordinal_uri_string :: "int \<Rightarrow> bytes" where
  "ordinal_uri_string ordinal = rdf_li_prefix @ c_int_decimal ordinal"

section \<open>The statement handler\<close>

text \<open>The node for each term, by its identifier type; \<open>None\<close> for a type the handler rejects.\<close>

definition raptor_subject_node :: "alloc_env \<Rightarrow> raptor_statement \<Rightarrow> librdf_world
    \<Rightarrow> (ptr option, librdf_world) outcome option" where
  "raptor_subject_node e r w =
     (case subject_type r of
        RAPTOR_IDENTIFIER_TYPE_ANONYMOUS \<Rightarrow>
          Some (librdf_new_node_from_blank_identifier e (Some (r_subject r)) w)
      | RAPTOR_IDENTIFIER_TYPE_RESOURCE \<Rightarrow> Some (librdf_new_node_from_uri e (r_subject r) w)
      | _ \<Rightarrow> None)"

definition raptor_predicate_node :: "alloc_env \<Rightarrow> raptor_statement \<Rightarrow> librdf_world
    \<Rightarrow> (ptr option, librdf_world) outcome option" where
  "raptor_predicate_node e r w =
     (case predicate_type r of
        RAPTOR_IDENTIFIER_TYPE_ORDINAL \<Rightarrow>
          Some (librdf_new_node_from_uri_string e (ordinal_uri_string (predicate_ordinal r)) w)
      | RAPTOR_IDENTIFIER_TYPE_RESOURCE \<Rightarrow> Some (librdf_new_node_from_uri e (r_predicate r) w)
      | RAPTOR_IDENTIFIER_TYPE_PREDICATE \<Rightarrow> Some (librdf_new_node_from_uri e (r_predicate r) w)
      | _ \<Rightarrow> None)"

definition raptor_object_node :: "alloc_env \<Rightarrow> raptor_statement \<Rightarrow> librdf_world
    \<Rightarrow> (ptr option, librdf_world) outcome option" where
  "raptor_object_node e r w =
     (case object_type r of
        RAPTOR_IDENTIFIER_TYPE_LITERAL \<Rightarrow>
          Some (librdf_new_node_from_typed_literal e (r_object r) (object_literal_language r)
                  (object_literal_datatype r) w)
      | RAPTOR_IDENTIFIER_TYPE_XML_LITERAL \<Rightarrow>
          Some (librdf_new_node_from_literal e (r_object r) (object_literal_language r) True w)
      | RAPTOR_IDENTIFIER_TYPE_ANONYMOUS \<Rightarrow>
          Some (librdf_new_node_from_blank_identifier e (Some (r_object r)) w)
      | RAPTOR_IDENTIFIER_TYPE_RESOURCE \<Rightarrow> Some (librdf_new_node_from_uri e (r_object r) w)
      | _ \<Rightarrow> None)"

text \<open>
  One step of the handler: make a term's node; on a rejected type or a
  failed constructor free the statement built so far and stop (\<open>None\<close>),
  else go on with the statement extended by \<open>set_term\<close>.
\<close>

definition handler_term ::
  "(librdf_world \<Rightarrow> (ptr option, librdf_world) outcome option) \<Rightarrow> librdf_statement
   \<Rightarrow> (ptr \<Rightarrow> librdf_statement) \<Rightarrow> librdf_world \<Rightarrow> (librdf_statement option, librdf_world) outcome" where
  "handler_term mk st set_term w =
     (case mk w of
        None \<Rightarrow> obind (librdf_free_statement st w) (\<lambda>_ w'. Ret None w')
      | Some r \<Rightarrow>
          obind r (\<lambda>node w1.
            case node of
              None \<Rightarrow> obind (librdf_free_statement st w1) (\<lambda>_ w'. Ret None w')
            | Some p \<Rightarrow> Ret (Some (set_term p)) w1))"

definition librdf_parser_raptor_new_statement_handler ::
  "alloc_env \<Rightarrow> alloc_env \<Rightarrow> alloc_env \<Rightarrow> alloc_env \<Rightarrow> raptor_statement \<Rightarrow> parser_state
   \<Rightarrow> (unit, parser_state) outcome" where
  "librdf_parser_raptor_new_statement_handler e e1 e2 e3 r ps =
     (if fails e A_statement then Ret () ps
      else
        obind (on_world (handler_term (raptor_subject_node e1 r) (None, None, None)
                           (\<lambda>s. (Some s, None, None))) ps)
          (\<lambda>st1 ps1. case st1 of None \<Rightarrow> Ret () ps1 | Some (s, _, _) \<Rightarrow>
             obind (on_world (handler_term (raptor_predicate_node e2 r) (s, None, None)
                                (\<lambda>p. (s, Some p, None))) ps1)
               (\<lambda>st2 ps2. case st2 of None \<Rightarrow> Ret () ps2 | Some (_, p, _) \<Rightarrow>
                  obind (on_world (handler_term (raptor_object_node e3 r) (s, p, None)
                                     (\<lambda>ob. (s, p, Some ob))) ps2)
                    (\<lambda>st3 ps3. case st3 of None \<Rightarrow> Ret () ps3 | Some st \<Rightarrow>
                       if fails e A_list then
                         obind (on_world (librdf_free_statement st) ps3) (\<lambda>_ ps4. Ret () ps4)
                       else Ret () (ps3\<lparr>statements := statements ps3 @ [st]\<rparr>)))))"

section \<open>Blank node identifiers\<close>

text \<open>
  A document's blank node identifier is mapped to a generated identifier,
  the same one every time; without an identifier a fresh one is generated.
  \<open>librdf_hash_put_strings\<close> may fail, then the generated identifier is
  freed and NULL returned.
\<close>

definition librdf_parser_raptor_generate_id_handler ::
  "alloc_env \<Rightarrow> bytes option \<Rightarrow> parser_state \<Rightarrow> (bytes option, parser_state) outcome" where
  "librdf_parser_raptor_generate_id_handler e user_bnodeid ps =
     (case user_bnodeid of
        Some u \<Rightarrow>
          (case bnode_hash ps (cstr u) of
             Some mapped_id \<Rightarrow> Ret (Some mapped_id) ps
           | None \<Rightarrow>
               (case librdf_world_get_genid e (pworld ps) of
                  None \<Rightarrow> Ret None ps
                | Some (g, w) \<Rightarrow>
                    if fails e A_hash_put then Ret None (ps\<lparr>pworld := w\<rparr>)
                    else Ret (Some g) (ps\<lparr>pworld := w, bnode_hash := (bnode_hash ps)(cstr u \<mapsto> cstr g)\<rparr>)))
      | None \<Rightarrow>
          (case librdf_world_get_genid e (pworld ps) of
             None \<Rightarrow> Ret None ps
           | Some (g, w) \<Rightarrow> Ret (Some g) (ps\<lparr>pworld := w\<rparr>)))"

section \<open>Lemmas\<close>

lemma dec_digit_byte:
  assumes "k < 10"
  shows "c_isdigit (digit_char k) \<and> uint (digit_char k) - 48 = int k"
proof -
  have u: "unat (word_of_nat (48 + k) :: byte) = 48 + k" unfolding unat_of_nat using assms by simp
  have "c_isdigit (word_of_nat (48 + k) :: byte)"
    unfolding c_isdigit_def word_le_nat_alt u using assms by simp
  moreover have "uint (word_of_nat (48 + k) :: byte) = int (48 + k)"
    using u by (metis of_nat_numeral uint_nat)
  ultimately show ?thesis by (simp add: digit_char_def)
qed

lemma dec_digits_digits: "list_all c_isdigit (dec_digits n)"
  by (induction n rule: dec_digits.induct) (subst dec_digits.simps, simp add: dec_digit_byte)

lemma dec_digits_nonempty: "dec_digits n \<noteq> []"
  by (subst dec_digits.simps) simp

lemma atoi_digits_append:
  "list_all c_isdigit xs \<Longrightarrow> atoi_digits acc (xs @ ys) = atoi_digits (atoi_digits acc xs) ys"
  by (induction acc xs rule: atoi_digits.induct) simp_all

lemma atoi_digits_dec: "atoi_digits acc (dec_digits n) = acc * 10 ^ length (dec_digits n) + int n"
proof (induction n arbitrary: acc rule: dec_digits.induct)
  case (1 n)
  show ?case
  proof (cases "n < 10")
    case True
    then show ?thesis using dec_digit_byte[OF True] by (subst (1 2) dec_digits.simps) simp
  next
    case False
    have "n mod 10 < 10" by simp
    note d = dec_digit_byte[OF this]
    have "atoi_digits acc (dec_digits n) =
            atoi_digits (atoi_digits acc (dec_digits (n div 10))) [digit_char (n mod 10)]"
      using False by (subst dec_digits.simps) (simp add: atoi_digits_append dec_digits_digits)
    also have "\<dots> = (acc * 10 ^ length (dec_digits (n div 10)) + int (n div 10)) * 10 + int (n mod 10)"
      using 1[OF False] d by simp
    also have "\<dots> = acc * 10 ^ length (dec_digits n) + int n"
    proof -
      have l: "length (dec_digits n) = Suc (length (dec_digits (n div 10)))"
        using False by (subst dec_digits.simps) simp
      have "n = 10 * (n div 10) + n mod 10" by simp
      then have "int n = 10 * int (n div 10) + int (n mod 10)" by (metis of_nat_add of_nat_mult of_nat_numeral)
      then show ?thesis by (simp add: l algebra_simps)
    qed
    finally show ?thesis .
  qed
qed


lemma digit_not_special: "c_isdigit c \<Longrightarrow> \<not> c_isspace c \<and> c \<noteq> 45 \<and> c \<noteq> 43 \<and> c \<noteq> 0"
  by (auto simp: c_isdigit_def c_isspace_def word_le_nat_alt)

lemma dec_digits_cons: "\<exists>c r. dec_digits n = c # r \<and> c_isdigit c"
  using dec_digits_nonempty[of n] dec_digits_digits[of n] by (cases "dec_digits n") auto

lemma atoi_dec_digits: "atoi (dec_digits n) = int n" "atoi (45 # dec_digits n) = - int n"
proof -
  obtain c r where cr: "dec_digits n = c # r" "c_isdigit c" using dec_digits_cons by blast
  have "\<not> c_isspace 45" by (simp add: c_isspace_def)
  with cr digit_not_special[OF cr(2)] atoi_digits_dec[of 0 n]
  show "atoi (dec_digits n) = int n" "atoi (45 # dec_digits n) = - int n"
    by (simp_all add: atoi_def)
qed

lemma c_int_decimal_nul_free: "nul_free (c_int_decimal i)"
proof -
  have "nul_free (dec_digits n)" for n
    using dec_digits_digits[of n] digit_not_special by (auto simp: nul_free_def list_all_iff)
  then show ?thesis by (simp add: c_int_decimal_def nul_free_def)
qed

lemma atoi_c_int_decimal: "atoi (c_int_decimal i) = i"
  by (simp add: c_int_decimal_def atoi_dec_digits)

text \<open>
  C14.  The URI the handler prints for an ordinal predicate
  (\<open>rdf:_%d\<close>) is read back by \<open>librdf_node_get_li_ordinal\<close> as the
  same ordinal, for every \<open>int\<close>.
\<close>

theorem li_ordinal_ordinal_uri:
  "librdf_node_get_li_ordinal \<lparr>usage = k, node_data = Resource (ordinal_uri_string n)\<rparr> = n"
proof -
  have p: "nul_free rdf_li_prefix" "length rdf_li_prefix = 44"
    by (simp_all add: rdf_li_prefix_def bstr_def nul_free_def)
  then have "cstr (ordinal_uri_string n) = ordinal_uri_string n"
    using c_int_decimal_nul_free by (simp add: ordinal_uri_string_def nul_free_cstr)
  with p show ?thesis
    by (simp add: librdf_node_get_li_ordinal_def ordinal_uri_string_def atoi_c_int_decimal)
qed

text \<open>
  C13.  Parsing a triple whose object is a literal with a language tag of
  256 bytes or more deadlocks: the literal constructor leaves the node
  mutex locked, and the handler's clean-up frees the subject node, which
  waits for the mutex.
\<close>

theorem raptor_handler_long_language_blocks:
  assumes m: "\<not> nodes_mutex (pworld ps)" and e: "\<not> fails e A_statement"
    and e1: "fails e1 = (\<lambda>_. False)" and e2: "fails e2 = (\<lambda>_. False)" and e3: "fails e3 = (\<lambda>_. False)"
    and r: "subject_type r = RAPTOR_IDENTIFIER_TYPE_RESOURCE"
      "predicate_type r = RAPTOR_IDENTIFIER_TYPE_RESOURCE"
      "object_type r = RAPTOR_IDENTIFIER_TYPE_LITERAL" "object_literal_datatype r = None"
      "object_literal_language r = Some l"
    and l: "nul_free l" "256 \<le> length l" "length l < SIZE_MAX" "strlen (r_object r) < SIZE_MAX"
  shows "librdf_parser_raptor_new_statement_handler e e1 e2 e3 r ps = Blocked"
proof -
  have "\<exists>s w1. librdf_new_node_from_uri e1 (r_subject r) (pworld ps) = Ret (Some s) w1 \<and> \<not> nodes_mutex w1"
    using from_uri_ok[OF m, of e1 "r_subject r"] e1 by simp
  then obtain s w1 where s: "librdf_new_node_from_uri e1 (r_subject r) (pworld ps) = Ret (Some s) w1"
    and m1: "\<not> nodes_mutex w1" by blast
  have "\<exists>p w2. librdf_new_node_from_uri e2 (r_predicate r) w1 = Ret (Some p) w2 \<and> \<not> nodes_mutex w2"
    using from_uri_ok[OF m1, of e2 "r_predicate r"] e2 by simp
  then obtain p w2 where p: "librdf_new_node_from_uri e2 (r_predicate r) w1 = Ret (Some p) w2"
    and m2: "\<not> nodes_mutex w2" by blast
  have ll: "strlen l < SIZE_MAX"
    using l by (simp add: nul_free_strlen)
  note nl = long_language_not_encodable(1)[OF l(1,2)]
    long_language_not_encodable(2)[OF l(1,2), where v = "r_object r" and n = "strlen (r_object r)"
      and dt = None]
  have o: "librdf_new_node_from_typed_literal e3 (r_object r) (Some l) None w2
             = Ret None (w2\<lparr>nodes_mutex := True\<rparr>)"
    unfolding librdf_new_node_from_typed_literal_def option.case
    by (rule typed_counted_encode_fail[OF m2 e3]) (use nl l ll in simp_all)
  show ?thesis
    using e r s p o
    by (simp add: librdf_parser_raptor_new_statement_handler_def on_world_def handler_term_def
        raptor_subject_node_def raptor_predicate_node_def raptor_object_node_def
        librdf_free_statement_def free_node_locked)
qed

theorem raptor_handler_long_language_blocks_witness:
  "librdf_parser_raptor_new_statement_handler (no_faults (\<lambda>_. 0)) (no_faults (\<lambda>_. 0))
     (no_faults (\<lambda>_. 0)) (no_faults (\<lambda>_. 0))
     \<lparr>r_subject = bstr ''http://ex/s'', subject_type = RAPTOR_IDENTIFIER_TYPE_RESOURCE,
      r_predicate = bstr ''http://ex/p'', predicate_ordinal = 0,
      predicate_type = RAPTOR_IDENTIFIER_TYPE_RESOURCE,
      r_object = bstr ''x'', object_type = RAPTOR_IDENTIFIER_TYPE_LITERAL,
      object_literal_datatype = None, object_literal_language = Some (replicate 256 97)\<rparr>
     \<lparr>pworld = new_world (\<lambda>_. []), statements = [], bnode_hash = Map.empty\<rparr>
   = Blocked"
  by (rule raptor_handler_long_language_blocks[where l = "replicate 256 97"])
     (simp_all add: new_world_def librdf_init_node_def no_faults_def SIZE_MAX_def
      nul_free_strlen bstr_def strlen_def cstr_def)

text \<open>
  C15.  The blank node identifier map is stable: once a document identifier
  has been given a generated identifier, asking again returns the same
  identifier and changes nothing.
\<close>

theorem generate_id_stable:
  assumes "librdf_parser_raptor_generate_id_handler e (Some u) ps = Ret (Some g) ps1"
  shows "\<exists>g'. librdf_parser_raptor_generate_id_handler e' (Some u) ps1 = Ret (Some g') ps1 \<and>
           cstr g' = cstr g"
  using assms
  by (auto simp: librdf_parser_raptor_generate_id_handler_def split: option.splits if_splits)

theorem generate_id_stable_witness:
  "\<exists>g'. librdf_parser_raptor_generate_id_handler (no_faults (\<lambda>_. 0)) (Some (bstr ''a''))
       \<lparr>pworld = (new_world (\<lambda>_. bstr ''r1r''))\<lparr>genid_counter := 1\<rparr>, statements = [],
        bnode_hash = [bstr ''a'' \<mapsto> bstr ''r1r'']\<rparr>
       = Ret (Some g') \<lparr>pworld = (new_world (\<lambda>_. bstr ''r1r''))\<lparr>genid_counter := 1\<rparr>,
           statements = [], bnode_hash = [bstr ''a'' \<mapsto> bstr ''r1r'']\<rparr>
     \<and> cstr g' = cstr (bstr ''r1r'')"
proof -
  have "librdf_parser_raptor_generate_id_handler (no_faults (\<lambda>_. 0)) (Some (bstr ''a''))
          \<lparr>pworld = new_world (\<lambda>_. bstr ''r1r''), statements = [], bnode_hash = Map.empty\<rparr>
        = Ret (Some (bstr ''r1r'')) \<lparr>pworld = (new_world (\<lambda>_. bstr ''r1r''))\<lparr>genid_counter := 1\<rparr>,
           statements = [], bnode_hash = [bstr ''a'' \<mapsto> bstr ''r1r'']\<rparr>"
    by (simp add: librdf_parser_raptor_generate_id_handler_def librdf_world_get_genid_def no_faults_def
        new_world_def librdf_init_node_def cstr_def bstr_def)
  from generate_id_stable[OF this] show ?thesis .
qed

end
