(* ===== verification/Stream.thy ===== *)
theory Stream
  imports Parser
begin

text \<open>
  The statement stream of a raptor parse (\<open>src/src/rdf_parser_raptor.c\<close>,
  lines 452--491 and 1415--1519): the stream context, the loop
  \<open>librdf_parser_raptor_get_next_statement\<close> that feeds the file to the
  raptor parser chunk by chunk until a statement is queued, and the four
  stream callbacks.

  The file is its unread bytes and its end-of-file flag; \<open>fread\<close> reads up
  to a buffer's length and sets the flag when it reads short.  The raptor
  parser (external) is a parameter \<open>parse\<close>: given its state, a chunk and
  whether the chunk is the last, it returns its new state, the statement
  handler calls it makes while parsing the chunk (each a raptor statement
  with the allocation environments of the handler's four fallible steps)
  and whether it failed.  \<open>librdf_list_pop\<close> (list module, not under
  \<open>src/\<close>) removes the last item of the list, \<open>librdf_list_add\<close>
  appends.
\<close>

section \<open>Files, lists and the external parser\<close>

record c_file =
  f_rest :: bytes
  f_eof :: bool

text \<open>\<open>RAPTOR_IO_BUFFER_LEN\<close> (raptor.h).\<close>

definition RAPTOR_IO_BUFFER_LEN :: nat where
  "RAPTOR_IO_BUFFER_LEN = 1024"

text \<open>\<open>fread(buffer, 1, n, fh)\<close>: a short read reaches the end of the file.\<close>

definition fread :: "nat \<Rightarrow> c_file \<Rightarrow> bytes \<times> c_file" where
  "fread n f =
     (if n \<le> length (f_rest f) then (take n (f_rest f), f\<lparr>f_rest := drop n (f_rest f)\<rparr>)
      else (f_rest f, f\<lparr>f_rest := [], f_eof := True\<rparr>))"

definition librdf_list_pop :: "'a list \<Rightarrow> 'a option \<times> 'a list" where
  "librdf_list_pop xs = (if xs = [] then (None, []) else (Some (last xs), butlast xs))"

type_synonym handler_call = "alloc_env \<times> alloc_env \<times> alloc_env \<times> alloc_env \<times> raptor_statement"

type_synonym 'p chunk_parser = "'p \<Rightarrow> bytes \<Rightarrow> bool \<Rightarrow> 'p \<times> handler_call list \<times> bool"

text \<open>The statement handler calls raptor makes while it parses one chunk, in order.\<close>

fun deliver :: "handler_call list \<Rightarrow> parser_state \<Rightarrow> (unit, parser_state) outcome" where
  "deliver [] ps = Ret () ps"
| "deliver ((e, e1, e2, e3, r) # cs) ps =
     obind (librdf_parser_raptor_new_statement_handler e e1 e2 e3 r ps) (\<lambda>_ ps'. deliver cs ps')"

section \<open>The stream context\<close>

text \<open>
  \<open>librdf_parser_raptor_stream_context\<close>: the parser state of the
  integration (world, queued statements, blank node map), the raptor
  parser's own state, \<open>finished\<close>, the file handle, \<open>close_fh\<close> and the
  current statement.
\<close>

record 'p stream_context =
  sc_ps :: parser_state
  rdf_parser :: 'p
  finished :: bool
  fh :: "c_file option"
  close_fh :: bool
  current :: "librdf_statement option"

text \<open>An operation on the parser state run on the stream context's.\<close>

definition on_ps :: "(parser_state \<Rightarrow> ('a, parser_state) outcome) \<Rightarrow> 'p stream_context
    \<Rightarrow> ('a, 'p stream_context) outcome" where
  "on_ps f sc =
     (case f (sc_ps sc) of
        Ret a ps \<Rightarrow> Ret a (sc\<lparr>sc_ps := ps\<rparr>)
      | Blocked \<Rightarrow> Blocked
      | Undef \<Rightarrow> Undef)"

definition sc_feof :: "'p stream_context \<Rightarrow> bool" where
  "sc_feof sc = (case fh sc of Some f \<Rightarrow> f_eof f | None \<Rightarrow> False)"

text \<open>
  One iteration of the \<open>while(!feof(context->fh))\<close> loop of
  \<open>librdf_parser_raptor_get_next_statement\<close>: read a chunk and parse it
  (the handler queues the statements it builds); \<open>Some status\<close> is a
  \<open>break\<close>: on a parse failure (status -1), on a queued statement
  (popped into \<open>current\<close>, status 1) or after a short read (status 0);
  \<open>None\<close> goes round again.
\<close>

definition get_next_chunk ::
  "'p chunk_parser \<Rightarrow> 'p stream_context \<Rightarrow> (int option, 'p stream_context) outcome" where
  "get_next_chunk parse sc =
     (case fh sc of
        None \<Rightarrow> Undef
      | Some f \<Rightarrow>
          (let (buffer, f') = fread RAPTOR_IO_BUFFER_LEN f;
               len = length buffer;
               (p', calls, failed) = parse (rdf_parser sc) buffer (len < RAPTOR_IO_BUFFER_LEN)
           in
           case deliver calls (sc_ps sc) of
             Ret _ ps \<Rightarrow>
               (let sc1 = sc\<lparr>sc_ps := ps, rdf_parser := p', fh := Some f'\<rparr> in
                if failed then Ret (Some (-1)) sc1
                else if statements ps \<noteq> [] then
                  (let (c, rest) = librdf_list_pop (statements ps) in
                   Ret (Some 1) (sc1\<lparr>sc_ps := ps\<lparr>statements := rest\<rparr>, current := c\<rparr>))
                else if len < RAPTOR_IO_BUFFER_LEN then Ret (Some 0) sc1
                else Ret None sc1)
           | Blocked \<Rightarrow> Blocked
           | Undef \<Rightarrow> Undef))"

text \<open>The loop, until \<open>feof\<close> or a \<open>break\<close>.\<close>

function get_next_loop :: "'p chunk_parser \<Rightarrow> 'p stream_context \<Rightarrow> (int, 'p stream_context) outcome" where
  "get_next_loop parse sc =
     (if sc_feof sc \<or> fh sc = None then Ret 0 sc
      else
        (case get_next_chunk parse sc of
           Ret (Some status) sc1 \<Rightarrow> Ret status sc1
         | Ret None sc1 \<Rightarrow> get_next_loop parse sc1
         | Blocked \<Rightarrow> Blocked
         | Undef \<Rightarrow> Undef))"
  by pat_completeness auto
termination
  by (relation "measure (\<lambda>(parse, sc). case fh sc of None \<Rightarrow> 0 | Some f \<Rightarrow> length (f_rest f))")
     (auto simp: get_next_chunk_def fread_def RAPTOR_IO_BUFFER_LEN_def Let_def split_def
       split: if_splits outcome.splits)

declare get_next_loop.simps [simp del]

text \<open>\<open>librdf_parser_raptor_get_next_statement\<close>: a finished stream or one without a file gives 0.\<close>

definition librdf_parser_raptor_get_next_statement ::
  "'p chunk_parser \<Rightarrow> 'p stream_context \<Rightarrow> (int, 'p stream_context) outcome" where
  "librdf_parser_raptor_get_next_statement parse sc =
     (if finished sc \<or> fh sc = None then Ret 0 sc
      else
        (case get_next_loop parse (sc\<lparr>current := None\<rparr>) of
           Ret status sc' \<Rightarrow> Ret status (if sc_feof sc' \<or> status < 1 then sc'\<lparr>finished := True\<rparr> else sc')
         | Blocked \<Rightarrow> Blocked
         | Undef \<Rightarrow> Undef))"

section \<open>The stream callbacks\<close>

definition librdf_parser_raptor_serialise_end_of_stream :: "'p stream_context \<Rightarrow> bool" where
  "librdf_parser_raptor_serialise_end_of_stream sc \<longleftrightarrow>
     current sc = None \<and> statements (sc_ps sc) = []"

text \<open>\<open>librdf_free_statement(NULL)\<close> returns at its pointer assertion.\<close>

definition free_current :: "librdf_statement option \<Rightarrow> parser_state \<Rightarrow> (unit, parser_state) outcome" where
  "free_current c ps = (case c of None \<Rightarrow> Ret () ps | Some st \<Rightarrow> on_world (librdf_free_statement st) ps)"

text \<open>
  The current statement is freed, then the loop \<open>while(!scontext->current)\<close>
  pops a queued statement or, with none queued, asks the parser for more;
  after a status of 1 the current statement is set and the loop ends.
  The result is non-zero (True) at the end of the stream.
\<close>

definition librdf_parser_raptor_serialise_next_statement ::
  "'p chunk_parser \<Rightarrow> 'p stream_context \<Rightarrow> (bool, 'p stream_context) outcome" where
  "librdf_parser_raptor_serialise_next_statement parse sc =
     obind (on_ps (free_current (current sc)) sc) (\<lambda>_ sc0.
       let sc1 = sc0\<lparr>current := None\<rparr>; ps = sc_ps sc1 in
       case librdf_list_pop (statements ps) of
         (Some st, rest) \<Rightarrow> Ret False (sc1\<lparr>sc_ps := ps\<lparr>statements := rest\<rparr>, current := Some st\<rparr>)
       | (None, _) \<Rightarrow>
           obind (librdf_parser_raptor_get_next_statement parse sc1)
             (\<lambda>status sc2. Ret (current sc2 = None) sc2))"

datatype iterator_get_method =
    LIBRDF_ITERATOR_GET_METHOD_GET_OBJECT
  | LIBRDF_ITERATOR_GET_METHOD_GET_CONTEXT
  | LIBRDF_ITERATOR_GET_METHOD_OTHER int

definition librdf_parser_raptor_serialise_get_statement ::
  "'p stream_context \<Rightarrow> iterator_get_method \<Rightarrow> librdf_statement option" where
  "librdf_parser_raptor_serialise_get_statement sc flags =
     (case flags of
        LIBRDF_ITERATOR_GET_METHOD_GET_OBJECT \<Rightarrow> current sc
      | LIBRDF_ITERATOR_GET_METHOD_GET_CONTEXT \<Rightarrow> None
      | LIBRDF_ITERATOR_GET_METHOD_OTHER _ \<Rightarrow> None)"

text \<open>
  \<open>while((statement = librdf_list_pop(scontext->statements)))
  librdf_free_statement(statement)\<close>: the queued statements are freed from
  the last to the first.
\<close>

function free_queued :: "librdf_statement list \<Rightarrow> librdf_world \<Rightarrow> (unit, librdf_world) outcome" where
  "free_queued xs w =
     (case librdf_list_pop xs of
        (None, _) \<Rightarrow> Ret () w
      | (Some st, rest) \<Rightarrow> obind (librdf_free_statement st w) (\<lambda>_ w'. free_queued rest w'))"
  by pat_completeness auto
termination
  by (relation "measure (\<lambda>(xs, w). length xs)") (auto simp: librdf_list_pop_def split: if_splits)

declare free_queued.simps [simp del]

text \<open>
  \<open>librdf_parser_raptor_serialise_finished\<close>: frees the current statement
  and every queued one, closes the file if the stream owns it; the
  context is freed, so what remains is the parser state and the file.
\<close>

definition librdf_parser_raptor_serialise_finished ::
  "'p stream_context \<Rightarrow> (c_file option, parser_state) outcome" where
  "librdf_parser_raptor_serialise_finished sc =
     obind (free_current (current sc) (sc_ps sc)) (\<lambda>_ ps.
       obind (on_world (free_queued (statements ps)) ps) (\<lambda>_ ps'.
         Ret (if close_fh sc then None else fh sc) (ps'\<lparr>statements := []\<rparr>)))"

section \<open>Creating the stream\<close>

text \<open>The \<open>oom:\<close> label: the context is finished (everything in it freed), NULL returned.\<close>

definition parse_as_stream_oom :: "'p stream_context \<Rightarrow> ('p stream_context option, parser_state) outcome" where
  "parse_as_stream_oom sc = obind (librdf_parser_raptor_serialise_finished sc) (\<lambda>_ ps. Ret None ps)"

text \<open>
  \<open>librdf_parser_raptor_parse_file_handle_as_stream\<close>: a parser that needs
  a base URI gets none: NULL.  The context (\<open>A_context\<close>), its statement
  list (\<open>A_list\<close>) and the two namespace sequences (\<open>A_sequence\<close>) are
  allocated; the parse is started (\<open>start_parse\<close>, raptor, returns its
  new state and whether it failed), the first statement is fetched and the
  stream object allocated (\<open>A_stream\<close>).  Every failure after the
  context exists goes to \<open>oom\<close>, a failed start of the parse included.
  The model returns the stream's context.
\<close>

definition librdf_parser_raptor_parse_file_handle_as_stream ::
  "alloc_env \<Rightarrow> 'p chunk_parser \<Rightarrow> ('p \<Rightarrow> uri option \<Rightarrow> 'p \<times> bool) \<Rightarrow> bool \<Rightarrow> 'p \<Rightarrow> c_file
   \<Rightarrow> bool \<Rightarrow> uri option \<Rightarrow> parser_state \<Rightarrow> ('p stream_context option, parser_state) outcome" where
  "librdf_parser_raptor_parse_file_handle_as_stream e parse start_parse need_base_uri p file
     close base_uri ps =
     (if need_base_uri \<and> base_uri = None then Ret None ps
      else if fails e A_context then Ret None ps
      else
        (let sc0 = \<lparr>sc_ps = ps\<lparr>statements := []\<rparr>, rdf_parser = p, finished = False, fh = None,
                    close_fh = False, current = None\<rparr>
         in
         if fails e A_list \<or> fails e A_sequence then parse_as_stream_oom sc0
         else
           (let (p', rc) = start_parse p base_uri;
                sc = sc0\<lparr>rdf_parser := p', fh := Some file, close_fh := close\<rparr>
            in
            if rc then parse_as_stream_oom sc
            else
              (case librdf_parser_raptor_get_next_statement parse sc of
                 Ret _ sc1 \<Rightarrow>
                   if fails e A_stream then parse_as_stream_oom sc1
                   else Ret (Some sc1) (sc_ps sc1)
               | Blocked \<Rightarrow> Blocked
               | Undef \<Rightarrow> Undef))))"

text \<open>
  Progress of the stream: the file still to be read (0 once finished, 1 at
  its end, more before), then twice the queued statements plus one for a
  current statement.
\<close>

definition stream_measure :: "'p stream_context \<Rightarrow> nat \<times> nat" where
  "stream_measure sc =
     (if finished sc then 0
      else (case fh sc of None \<Rightarrow> 0 | Some f \<Rightarrow> if f_eof f then 1 else 2 + length (f_rest f)),
      2 * length (statements (sc_ps sc)) + (if current sc = None then 0 else 1))"

section \<open>Lemmas\<close>

lemma on_world_statements:
  "on_world f ps = Ret a ps' \<Longrightarrow> statements ps' = statements ps"
  by (auto simp: on_world_def split: outcome.splits)

lemma free_current_statements:
  "free_current c ps = Ret u ps' \<Longrightarrow> statements ps' = statements ps"
  by (auto simp: free_current_def dest: on_world_statements split: option.splits)

lemma on_ps_fields:
  assumes "on_ps f sc = Ret a sc'"
  shows "f (sc_ps sc) = Ret a (sc_ps sc')" "finished sc' = finished sc" "fh sc' = fh sc"
    "current sc' = current sc"
  using assms by (auto simp: on_ps_def split: outcome.splits)

lemma fread_progress:
  assumes "fread n f = (b, f')" "0 < n"
  shows "f_eof f' \<or> length (f_rest f') < length (f_rest f)"
    and "\<not> length b < n \<Longrightarrow> f_eof f' = f_eof f \<and> length (f_rest f') < length (f_rest f)"
  using assms by (auto simp: fread_def split: if_splits)

lemma get_next_chunk_progress:
  assumes c: "get_next_chunk parse sc = Ret r sc1" and f: "fh sc = Some f" "\<not> f_eof f"
  shows "finished sc1 = finished sc \<and>
         (\<exists>f'. fh sc1 = Some f' \<and> (f_eof f' \<or> length (f_rest f') < length (f_rest f)) \<and>
               (r = None \<longrightarrow> \<not> f_eof f' \<and> length (f_rest f') < length (f_rest f)))"
proof -
  obtain b f' where fr: "fread RAPTOR_IO_BUFFER_LEN f = (b, f')" by (cases "fread RAPTOR_IO_BUFFER_LEN f")
  obtain p' calls failed where
    pr: "parse (rdf_parser sc) b (length b < RAPTOR_IO_BUFFER_LEN) = (p', calls, failed)"
    by (cases "parse (rdf_parser sc) b (length b < RAPTOR_IO_BUFFER_LEN)") auto
  have n: "0 < RAPTOR_IO_BUFFER_LEN" by (simp add: RAPTOR_IO_BUFFER_LEN_def)
  from c f fr pr obtain u ps where
    d: "deliver calls (sc_ps sc) = Ret u ps" and
    r: "(r, sc1) \<in> {(Some (-1), sc\<lparr>sc_ps := ps, rdf_parser := p', fh := Some f'\<rparr>),
                   (Some 1, sc\<lparr>sc_ps := ps\<lparr>statements := butlast (statements ps)\<rparr>, rdf_parser := p',
                      fh := Some f', current := Some (last (statements ps))\<rparr>),
                   (Some 0, sc\<lparr>sc_ps := ps, rdf_parser := p', fh := Some f'\<rparr>)} \<or>
         (r = None \<and> \<not> length b < RAPTOR_IO_BUFFER_LEN \<and>
          sc1 = sc\<lparr>sc_ps := ps, rdf_parser := p', fh := Some f'\<rparr>)"
    by (auto simp: get_next_chunk_def Let_def librdf_list_pop_def split: outcome.splits if_splits)
  from r fread_progress[OF fr n] f show ?thesis by auto
qed

lemma get_next_loop_progress:
  "get_next_loop parse sc = Ret st sc' \<Longrightarrow>
   finished sc' = finished sc \<and>
   (\<forall>f. fh sc = Some f \<longrightarrow> \<not> f_eof f \<longrightarrow>
      (\<exists>f'. fh sc' = Some f' \<and> (f_eof f' \<or> length (f_rest f') < length (f_rest f))))"
proof (induction parse sc arbitrary: st sc' rule: get_next_loop.induct)
  case (1 parse sc)
  show ?case
  proof (cases "sc_feof sc \<or> fh sc = None")
    case True
    with "1.prems" show ?thesis by (auto simp: get_next_loop.simps [of parse sc] sc_feof_def)
  next
    case False
    then obtain f where f: "fh sc = Some f" "\<not> f_eof f" by (auto simp: sc_feof_def)
    from "1.prems" False obtain r sc1 where c: "get_next_chunk parse sc = Ret r sc1"
      by (auto simp: get_next_loop.simps [of parse sc] split: outcome.splits)
    from get_next_chunk_progress[OF c f] obtain f1 where
      fin: "finished sc1 = finished sc" and f1: "fh sc1 = Some f1"
      and d: "f_eof f1 \<or> length (f_rest f1) < length (f_rest f)"
      and n: "r = None \<Longrightarrow> \<not> f_eof f1 \<and> length (f_rest f1) < length (f_rest f)" by blast
    show ?thesis
    proof (cases r)
      case (Some status)
      with "1.prems" False c have "sc' = sc1" by (simp add: get_next_loop.simps [of parse sc])
      with fin f1 d f show ?thesis by auto
    next
      case None
      with "1.prems" False c have rec: "get_next_loop parse sc1 = Ret st sc'"
        by (simp add: get_next_loop.simps [of parse sc])
      from "1.IH"[OF False c None rec] f1 n[OF None] fin f show ?thesis
        by fastforce
    qed
  qed
qed

lemma get_next_statement_progress:
  assumes "librdf_parser_raptor_get_next_statement parse sc = Ret st sc'"
  shows "sc' = sc \<or> fst (stream_measure sc') < fst (stream_measure sc)"
proof (cases "finished sc \<or> fh sc = None")
  case True
  with assms show ?thesis by (simp add: librdf_parser_raptor_get_next_statement_def)
next
  case False
  then obtain f where f: "fh sc = Some f" and nf: "\<not> finished sc" by auto
  from assms False obtain sc'' where
    l: "get_next_loop parse (sc\<lparr>current := None\<rparr>) = Ret st sc''" and
    r: "sc' = (if sc_feof sc'' \<or> st < 1 then sc''\<lparr>finished := True\<rparr> else sc'')"
    by (auto simp: librdf_parser_raptor_get_next_statement_def split: outcome.splits)
  from get_next_loop_progress[OF l] f nf
  have fin: "\<not> finished sc''" and
    pr: "\<not> f_eof f \<Longrightarrow> \<exists>f'. fh sc'' = Some f' \<and> (f_eof f' \<or> length (f_rest f') < length (f_rest f))"
    by auto
  show ?thesis
  proof (cases "sc_feof sc'' \<or> st < 1")
    case True
    with r f nf show ?thesis by (simp add: stream_measure_def)
  next
    case False
    have "\<not> f_eof f"
    proof
      assume "f_eof f"
      with l f have "st = 0" by (simp add: get_next_loop.simps sc_feof_def)
      with False show False by simp
    qed
    with pr obtain f' where "fh sc'' = Some f'" "f_eof f' \<or> length (f_rest f') < length (f_rest f)"
      by blast
    with False r f nf fin \<open>\<not> f_eof f\<close> show ?thesis by (auto simp: stream_measure_def sc_feof_def)
  qed
qed

lemma serialise_next_decreases:
  assumes ne: "\<not> librdf_parser_raptor_serialise_end_of_stream sc"
    and r: "librdf_parser_raptor_serialise_next_statement parse sc = Ret b sc'"
  shows "(stream_measure sc', stream_measure sc) \<in> less_than <*lex*> less_than"
proof -
  from r obtain u sc0 where fc: "on_ps (free_current (current sc)) sc = Ret u sc0"
    by (cases "on_ps (free_current (current sc)) sc")
       (auto simp: librdf_parser_raptor_serialise_next_statement_def)
  note f0 = on_ps_fields[OF fc]
  have q: "statements (sc_ps sc0) = statements (sc_ps sc)"
    by (rule free_current_statements[OF f0(1)])
  let ?sc1 = "sc0\<lparr>current := None\<rparr>"
  have m1: "fst (stream_measure ?sc1) = fst (stream_measure sc)"
    using f0 by (simp add: stream_measure_def)
  show ?thesis
  proof (cases "statements (sc_ps sc) = []")
    case False
    with r fc q have "sc' = ?sc1\<lparr>sc_ps := (sc_ps sc0)\<lparr>statements := butlast (statements (sc_ps sc))\<rparr>,
                          current := Some (last (statements (sc_ps sc)))\<rparr>"
      by (simp add: librdf_parser_raptor_serialise_next_statement_def librdf_list_pop_def)
    moreover have "Suc (2 * (length (statements (sc_ps sc)) - Suc 0)) < 2 * length (statements (sc_ps sc))"
      using False by (cases "statements (sc_ps sc)") auto
    ultimately show ?thesis using m1 f0 by (auto simp: stream_measure_def)
  next
    case True
    with ne have c: "current sc \<noteq> None"
      by (simp add: librdf_parser_raptor_serialise_end_of_stream_def)
    from r fc q True obtain st where g: "librdf_parser_raptor_get_next_statement parse ?sc1 = Ret st sc'"
      by (cases "librdf_parser_raptor_get_next_statement parse ?sc1")
         (auto simp: librdf_parser_raptor_serialise_next_statement_def librdf_list_pop_def)
    from get_next_statement_progress[OF g] show ?thesis
    proof
      assume "sc' = ?sc1"
      with m1 q True c show ?thesis by (simp add: stream_measure_def)
    qed (use m1 in \<open>cases "stream_measure sc'"; cases "stream_measure sc"; simp\<close>)
  qed
qed

text \<open>
  C5.  Termination of a stream read: each call of the stream's
  \<open>next\<close> callback on a stream that is not at its end strictly decreases
  the lexicographic measure (bytes of the file not yet read, then queued
  and current statements), so a client that reads the stream until
  \<open>end_of_stream\<close> stops.
\<close>

theorem serialise_next_statement_terminates:
  assumes "\<not> librdf_parser_raptor_serialise_end_of_stream sc"
    "librdf_parser_raptor_serialise_next_statement parse sc = Ret b sc'"
  shows "(stream_measure sc', stream_measure sc) \<in> less_than <*lex*> less_than"
  using assms by (rule serialise_next_decreases)

theorem serialise_next_statement_terminates_witness:
  "(stream_measure (\<lparr>sc_ps = \<lparr>pworld = new_world (\<lambda>_. []), statements = [], bnode_hash = Map.empty\<rparr>,
      rdf_parser = (), finished = True, fh = None, close_fh = False, current = Some (Some 1, Some 2, Some 3)\<rparr>), stream_measure (\<lparr>sc_ps = \<lparr>pworld = new_world (\<lambda>_. []), statements = [(Some 1, Some 2, Some 3)], bnode_hash = Map.empty\<rparr>,
      rdf_parser = (), finished = True, fh = None, close_fh = False, current = None\<rparr>)) \<in> less_than <*lex*> less_than"
proof -
  have e: "\<not> librdf_parser_raptor_serialise_end_of_stream (\<lparr>sc_ps = \<lparr>pworld = new_world (\<lambda>_. []), statements = [(Some 1, Some 2, Some 3)], bnode_hash = Map.empty\<rparr>,
      rdf_parser = (), finished = True, fh = None, close_fh = False, current = None\<rparr>)"
    by (simp add: librdf_parser_raptor_serialise_end_of_stream_def)
  have n: "librdf_parser_raptor_serialise_next_statement (\<lambda>p b f. (p, [], False)) (\<lparr>sc_ps = \<lparr>pworld = new_world (\<lambda>_. []), statements = [(Some 1, Some 2, Some 3)], bnode_hash = Map.empty\<rparr>,
      rdf_parser = (), finished = True, fh = None, close_fh = False, current = None\<rparr>)
           = Ret False (\<lparr>sc_ps = \<lparr>pworld = new_world (\<lambda>_. []), statements = [], bnode_hash = Map.empty\<rparr>,
      rdf_parser = (), finished = True, fh = None, close_fh = False, current = Some (Some 1, Some 2, Some 3)\<rparr>)"
    by (simp add: librdf_parser_raptor_serialise_next_statement_def on_ps_def free_current_def
        librdf_list_pop_def)
  from serialise_next_statement_terminates[OF e n] show ?thesis .
qed

end
