(* ===== verification/TstoreStorage.thy ===== *)
theory TstoreStorage
  imports Stream
begin

text \<open>
  The storage operations of the tstore backend
  (\<open>src/librdf/rdf_storage_tstore.c\<close>): option parsing, connecting, adding
  a statement, and the two statement streams (all statements, and the
  statements matching a pattern) over the result sets of the external
  rdfsql library.  The library (\<open>rs_*\<close>, not under \<open>src/\<close>) is modelled
  from its interface: a connection holds the triples of its model in
  insertion order; a result set is the list of the triples still to be
  fetched, \<open>rs_next_triple\<close> fetches the next one or NULL at the end; a
  broken connection makes \<open>rs_assert_triple\<close> fail and the finds return
  NULL.  The library requires every triple of a result to be fetched
  before the result is freed (the comment at line 377).
\<close>

section \<open>The rdfsql library\<close>

datatype rs_obj_type = ObjURI | ObjLiteral | ObjAny

record RDFSQL =
  rs_stored :: "rs_triple list"
  rs_broken :: bool
  rs_violations :: nat

text \<open>The two ways of connecting, chosen by the backend from its options.\<close>

record rs_lib =
  rs_connect_remote :: "bytes \<Rightarrow> bytes option \<Rightarrow> bytes option \<Rightarrow> bytes option \<Rightarrow> bytes option
                        \<Rightarrow> RDFSQL option"
  rs_connect :: "bytes option \<Rightarrow> bytes option \<Rightarrow> bytes option \<Rightarrow> bytes option \<Rightarrow> RDFSQL option"

definition rs_assert_triple ::
  "RDFSQL \<Rightarrow> bytes option \<Rightarrow> bytes option \<Rightarrow> bytes option \<Rightarrow> rs_obj_type \<Rightarrow> int \<times> RDFSQL" where
  "rs_assert_triple c s p ob ty =
     (if rs_broken c then (1, c)
      else (0, c\<lparr>rs_stored := rs_stored c @
                 [\<lparr>rs_subject = s, rs_predicate = p, rs_object = ob, rs_literal = (ty = ObjLiteral)\<rparr>]\<rparr>))"

definition rs_find_all_resources :: "RDFSQL \<Rightarrow> rs_triple list option" where
  "rs_find_all_resources c = (if rs_broken c then None else Some (rs_stored c))"

text \<open>A NULL part of the pattern matches anything; the object type selects literals or URIs.\<close>

definition rs_matches ::
  "bytes option \<Rightarrow> bytes option \<Rightarrow> bytes option \<Rightarrow> rs_obj_type \<Rightarrow> rs_triple \<Rightarrow> bool" where
  "rs_matches s p ob ty t \<longleftrightarrow>
     (s = None \<or> rs_subject t = s) \<and> (p = None \<or> rs_predicate t = p) \<and>
     (ob = None \<or> rs_object t = ob) \<and>
     (case ty of ObjLiteral \<Rightarrow> rs_literal t | ObjURI \<Rightarrow> \<not> rs_literal t | ObjAny \<Rightarrow> True)"

definition rs_find_triples ::
  "RDFSQL \<Rightarrow> bytes option \<Rightarrow> bytes option \<Rightarrow> bytes option \<Rightarrow> rs_obj_type \<Rightarrow> rs_triple list option" where
  "rs_find_triples c s p ob ty =
     (if rs_broken c then None else Some (filter (rs_matches s p ob ty) (rs_stored c)))"

definition rs_next_triple :: "rs_triple list \<Rightarrow> rs_triple option \<times> rs_triple list" where
  "rs_next_triple r = (case r of [] \<Rightarrow> (None, []) | t # ts \<Rightarrow> (Some t, ts))"

text \<open>
  \<open>rs_next_triple\<close> on a result the backend holds, which is NULL when the
  find returned NULL (then there is nothing to fetch).
\<close>

definition rs_next :: "rs_triple list option \<Rightarrow> rs_triple option \<times> rs_triple list option" where
  "rs_next r = (case r of None \<Rightarrow> (None, None) | Some l \<Rightarrow> map_prod id Some (rs_next_triple l))"

text \<open>
  \<open>rs_free_result\<close>: freeing a result with triples not yet fetched breaks
  the library's protocol; the connection counts such frees.
\<close>

definition rs_free_result :: "RDFSQL \<Rightarrow> rs_triple list \<Rightarrow> RDFSQL" where
  "rs_free_result c r = (if r = [] then c else c\<lparr>rs_violations := Suc (rs_violations c)\<rparr>)"

text \<open>\<open>while(rs_next_triple(scontext->result));\<close>: fetch until NULL.\<close>

function rs_drain :: "rs_triple list \<Rightarrow> rs_triple list" where
  "rs_drain r = (case rs_next_triple r of (None, r') \<Rightarrow> r' | (Some _, r') \<Rightarrow> rs_drain r')"
  by pat_completeness auto
termination
  by (relation "measure length") (auto simp: rs_next_triple_def split: list.splits)

section \<open>The backend context\<close>

record tstore_context =
  host :: "bytes option"
  db :: "bytes option"
  user :: "bytes option"
  password :: "bytes option"
  model :: "bytes option"
  rdfsql :: "RDFSQL option"

text \<open>
  \<open>librdf_hash_get_del\<close> (hash module): the value of a key, removed from
  the hash; NULL from a NULL hash.
\<close>

definition librdf_hash_get_del ::
  "(string \<rightharpoonup> bytes) option \<Rightarrow> string \<Rightarrow> bytes option \<times> (string \<rightharpoonup> bytes) option" where
  "librdf_hash_get_del h k = (case h of None \<Rightarrow> (None, None) | Some m \<Rightarrow> (m k, Some (m(k := None))))"

text \<open>
  \<open>librdf_storage_tstore_init\<close>: the five connection options are taken out
  of the options hash in order, and the hash is freed.
\<close>

definition librdf_storage_tstore_init ::
  "(string \<rightharpoonup> bytes) option \<Rightarrow> tstore_context \<Rightarrow> int \<times> tstore_context" where
  "librdf_storage_tstore_init options context =
     (let (h, o1) = librdf_hash_get_del options ''host'';
          (d, o2) = librdf_hash_get_del o1 ''db'';
          (u, o3) = librdf_hash_get_del o2 ''user'';
          (pw, o4) = librdf_hash_get_del o3 ''password'';
          (m, _) = librdf_hash_get_del o4 ''model''
      in (0, context\<lparr>host := h, db := d, user := u, password := pw, model := m\<rparr>))"

text \<open>\<open>librdf_storage_tstore_open\<close>: a remote connection when a host is given.\<close>

definition librdf_storage_tstore_open :: "rs_lib \<Rightarrow> tstore_context \<Rightarrow> int \<times> tstore_context" where
  "librdf_storage_tstore_open lib context =
     (let r = (case host context of
                 Some h \<Rightarrow> rs_connect_remote lib h (db context) (user context) (password context)
                             (model context)
               | None \<Rightarrow> rs_connect lib (db context) (user context) (password context) (model context))
      in (if r = None then 1 else 0, context\<lparr>rdfsql := r\<rparr>))"

definition librdf_storage_tstore_close :: "tstore_context \<Rightarrow> int" where
  "librdf_storage_tstore_close context = 0"

definition librdf_storage_tstore_size :: "tstore_context \<Rightarrow> int" where
  "librdf_storage_tstore_size context = -1"

definition librdf_storage_tstore_contains_statement :: "tstore_context \<Rightarrow> librdf_statement \<Rightarrow> int" where
  "librdf_storage_tstore_contains_statement context statement = 0"

definition librdf_storage_tstore_context_remove_statement ::
  "tstore_context \<Rightarrow> ptr option \<Rightarrow> librdf_statement \<Rightarrow> int" where
  "librdf_storage_tstore_context_remove_statement context context_node statement = 0"

definition librdf_storage_tstore_remove_statement :: "tstore_context \<Rightarrow> librdf_statement \<Rightarrow> int" where
  "librdf_storage_tstore_remove_statement context statement =
     librdf_storage_tstore_context_remove_statement context None statement"

section \<open>Adding a statement\<close>

text \<open>
  A node handle as the accessors see it: NULL makes every accessor return
  NULL or 0 (their pointer assertion), a handle that is not live is a use
  after free.
\<close>

definition node_ref :: "librdf_world \<Rightarrow> ptr option \<Rightarrow> librdf_node option option" where
  "node_ref w h = (case h of None \<Rightarrow> Some None | Some p \<Rightarrow> map_option Some (nodes w p))"

definition node_string :: "librdf_node option \<Rightarrow> bytes option" where
  "node_string n = (case n of None \<Rightarrow> None | Some n \<Rightarrow> node_id_string n)"

text \<open>The object and its type: a literal's value, else a blank identifier or URI string.\<close>

definition object_field :: "librdf_node option \<Rightarrow> bytes option \<times> rs_obj_type" where
  "object_field n =
     (case n of
        Some m \<Rightarrow> if librdf_node_is_literal m then (librdf_node_get_literal_value m, ObjLiteral)
                  else (node_id_string m, ObjURI)
      | None \<Rightarrow> (None, ObjURI))"

definition librdf_storage_tstore_context_add_statement ::
  "librdf_world \<Rightarrow> tstore_context \<Rightarrow> ptr option \<Rightarrow> librdf_statement \<Rightarrow> (int, tstore_context) outcome" where
  "librdf_storage_tstore_context_add_statement w context context_node statement =
     (let (sn, pn, on) = statement in
      case (node_ref w sn, node_ref w pn, node_ref w on, rdfsql context) of
        (Some s, Some p, Some ob, Some c) \<Rightarrow>
          (let subject = node_string s;
               predicate = (case p of None \<Rightarrow> None | Some n \<Rightarrow> librdf_node_get_uri n);
               (object, type) = object_field ob;
               (r, c') = rs_assert_triple c subject predicate object type
           in Ret (if r \<noteq> 0 then 1 else 0) (context\<lparr>rdfsql := Some c'\<rparr>))
      | _ \<Rightarrow> Undef)"

definition librdf_storage_tstore_add_statement ::
  "librdf_world \<Rightarrow> tstore_context \<Rightarrow> librdf_statement \<Rightarrow> (int, tstore_context) outcome" where
  "librdf_storage_tstore_add_statement w context statement =
     librdf_storage_tstore_context_add_statement w context None statement"

section \<open>The stream of all statements\<close>

record tstore_serialise_stream_context =
  result :: "rs_triple list option"
  triple :: "rs_triple option"

text \<open>
  The clean-up: a result whose last fetch did not yet return NULL is
  drained first, then freed.
\<close>

definition librdf_storage_tstore_serialise_finished ::
  "tstore_context \<Rightarrow> 'a tstore_serialise_stream_context_scheme \<Rightarrow> tstore_context" where
  "librdf_storage_tstore_serialise_finished context sc =
     (let r = (if triple sc \<noteq> None then map_option rs_drain (result sc) else result sc) in
      case r of
        None \<Rightarrow> context
      | Some l \<Rightarrow> context\<lparr>rdfsql := map_option (\<lambda>c. rs_free_result c l) (rdfsql context)\<rparr>)"

text \<open>
  \<open>librdf_storage_tstore_serialise\<close>: the stream context, the result of
  \<open>rs_find_all_resources\<close> and its first triple.  When the stream cannot be
  made the context is cleaned up and NULL returned.
\<close>

definition librdf_storage_tstore_serialise ::
  "alloc_env \<Rightarrow> tstore_context \<Rightarrow> (tstore_serialise_stream_context option, tstore_context) outcome" where
  "librdf_storage_tstore_serialise e context =
     (if fails e A_context then Ret None context
      else
        (case rdfsql context of
           None \<Rightarrow> Undef
         | Some c \<Rightarrow>
             (let (t, r) = rs_next (rs_find_all_resources c);
                  sc = \<lparr>result = r, triple = t\<rparr>
              in if fails e A_stream then Ret None (librdf_storage_tstore_serialise_finished context sc)
                 else Ret (Some sc) context)))"

definition librdf_storage_tstore_serialise_end_of_stream ::
  "'a tstore_serialise_stream_context_scheme \<Rightarrow> bool" where
  "librdf_storage_tstore_serialise_end_of_stream sc \<longleftrightarrow> triple sc = None"

definition librdf_storage_tstore_serialise_next_statement ::
  "'a tstore_serialise_stream_context_scheme \<Rightarrow> int \<times> 'a tstore_serialise_stream_context_scheme" where
  "librdf_storage_tstore_serialise_next_statement sc =
     (if triple sc = None then (1, sc)
      else (let (t, r) = rs_next (result sc) in
            (if t = None then 1 else 0, sc\<lparr>result := r, triple := t\<rparr>)))"

text \<open>A new statement made from the current triple; the triple is read even when it is NULL.\<close>

definition librdf_storage_tstore_serialise_get_statement ::
  "alloc_env \<Rightarrow> alloc_env \<Rightarrow> alloc_env \<Rightarrow> librdf_world \<Rightarrow> 'a tstore_serialise_stream_context_scheme
   \<Rightarrow> iterator_get_method \<Rightarrow> (librdf_statement option, librdf_world) outcome" where
  "librdf_storage_tstore_serialise_get_statement e1 e2 e3 w sc flags =
     (case flags of
        LIBRDF_ITERATOR_GET_METHOD_GET_OBJECT \<Rightarrow>
          (case triple sc of
             None \<Rightarrow> Undef
           | Some t \<Rightarrow> librdf_storage_tstore_statement_from_rs_triple e1 e2 e3 t w)
      | LIBRDF_ITERATOR_GET_METHOD_GET_CONTEXT \<Rightarrow> Ret None w
      | LIBRDF_ITERATOR_GET_METHOD_OTHER _ \<Rightarrow> Ret None w)"

section \<open>The stream of matching statements\<close>

text \<open>The find context: the serialise context and the search triple.\<close>

record tstore_find_stream_context = tstore_serialise_stream_context +
  search_triple :: "rs_triple option"

text \<open>
  \<open>librdf_new_statement_from_statement\<close> (statement module): NULL for
  NULL, else a new statement holding a copy of each node
  (\<open>librdf_new_node_from_node\<close>).
\<close>

definition librdf_new_statement_from_statement ::
  "alloc_env \<Rightarrow> librdf_statement option \<Rightarrow> librdf_world \<Rightarrow> (librdf_statement option, librdf_world) outcome" where
  "librdf_new_statement_from_statement e st w =
     (case st of
        None \<Rightarrow> Ret None w
      | Some (s, p, ob) \<Rightarrow>
          if fails e A_statement then Ret None w
          else obind (librdf_new_node_from_node s w) (\<lambda>s' w1.
                 obind (librdf_new_node_from_node p w1) (\<lambda>p' w2.
                   obind (librdf_new_node_from_node ob w2) (\<lambda>ob' w3.
                     Ret (Some (s', p', ob')) w3))))"

definition librdf_storage_tstore_find_finished ::
  "tstore_context \<Rightarrow> tstore_find_stream_context \<Rightarrow> tstore_context" where
  "librdf_storage_tstore_find_finished context sc =
     (let r = (if triple sc \<noteq> None then map_option rs_drain (result sc) else result sc) in
      case r of
        None \<Rightarrow> context
      | Some l \<Rightarrow> context\<lparr>rdfsql := map_option (\<lambda>c. rs_free_result c l) (rdfsql context)\<rparr>)"

text \<open>
  \<open>librdf_storage_tstore_find_statements\<close>: the statement is copied (and
  the copy never freed), turned into a search triple whose NULL parts are
  wildcards, and the matching triples are fetched through a stream.
\<close>

definition librdf_storage_tstore_find_statements ::
  "alloc_env \<Rightarrow> librdf_world \<Rightarrow> tstore_context \<Rightarrow> librdf_statement option
   \<Rightarrow> (tstore_find_stream_context option \<times> tstore_context, librdf_world) outcome" where
  "librdf_storage_tstore_find_statements e w context statement =
     obind (librdf_new_statement_from_statement e statement w) (\<lambda>st w1.
       case st of
         None \<Rightarrow> Ret (None, context) w1
       | Some st' \<Rightarrow>
           if fails e A_context then Ret (None, context) w1
           else
             obind (librdf_storage_tstore_statement_as_rs_triple e st' w1) (\<lambda>t w2.
               (let type = (if rs_object t \<noteq> None then (if rs_literal t then ObjLiteral else ObjURI)
                            else ObjAny)
                in
                case rdfsql context of
                  None \<Rightarrow> Undef
                | Some c \<Rightarrow>
                    (let (tr, r) = rs_next (rs_find_triples c (rs_subject t) (rs_predicate t)
                                              (rs_object t) type);
                         sc = \<lparr>result = r, triple = tr, search_triple = Some t\<rparr>
                     in if fails e A_stream
                        then Ret (None, librdf_storage_tstore_find_finished context sc) w2
                        else Ret (Some sc, context) w2))))"

definition librdf_storage_tstore_find_end_of_stream :: "tstore_find_stream_context \<Rightarrow> bool" where
  "librdf_storage_tstore_find_end_of_stream sc \<longleftrightarrow> triple sc = None"

definition librdf_storage_tstore_find_next_statement ::
  "tstore_find_stream_context \<Rightarrow> int \<times> tstore_find_stream_context" where
  "librdf_storage_tstore_find_next_statement sc =
     (if triple sc = None then (1, sc)
      else (let (t, r) = rs_next (result sc) in
            (if t = None then 1 else 0, sc\<lparr>result := r, triple := t\<rparr>)))"

definition librdf_storage_tstore_find_get_statement ::
  "alloc_env \<Rightarrow> alloc_env \<Rightarrow> alloc_env \<Rightarrow> librdf_world \<Rightarrow> tstore_find_stream_context
   \<Rightarrow> iterator_get_method \<Rightarrow> (librdf_statement option, librdf_world) outcome" where
  "librdf_storage_tstore_find_get_statement e1 e2 e3 w sc flags =
     (case flags of
        LIBRDF_ITERATOR_GET_METHOD_GET_OBJECT \<Rightarrow>
          (case triple sc of
             None \<Rightarrow> Undef
           | Some t \<Rightarrow> librdf_storage_tstore_statement_from_rs_triple e1 e2 e3 t w)
      | LIBRDF_ITERATOR_GET_METHOD_GET_CONTEXT \<Rightarrow> Ret None w
      | LIBRDF_ITERATOR_GET_METHOD_OTHER _ \<Rightarrow> Ret None w)"

definition librdf_storage_tstore_terminate :: "tstore_context \<Rightarrow> tstore_context" where
  "librdf_storage_tstore_terminate context = context"

text \<open>\<open>librdf_storage_tstore_context_serialise\<close> returns no stream.\<close>

definition librdf_storage_tstore_context_serialise ::
  "tstore_context \<Rightarrow> ptr option \<Rightarrow> tstore_serialise_stream_context option" where
  "librdf_storage_tstore_context_serialise context context_node = None"

section \<open>The storage factory\<close>

text \<open>
  \<open>librdf_storage_tstore_register_factory\<close> fills the storage factory's
  table of methods; a call of the storage module through the table is a
  \<open>tstore_call\<close>, run on the world and the backend context.
\<close>

datatype tstore_call =
    Init "(string \<rightharpoonup> bytes) option" | Terminate | Open | Close | Size
  | Add_statement librdf_statement | Remove_statement librdf_statement
  | Contains_statement librdf_statement | Serialise | Find_statements "librdf_statement option"
  | Context_add_statement "ptr option" librdf_statement
  | Context_remove_statement "ptr option" librdf_statement | Context_serialise "ptr option"

datatype tstore_reply =
    Int_reply int | No_reply
  | Serialise_reply "tstore_serialise_stream_context option"
  | Find_reply "tstore_find_stream_context option"

text \<open>A backend call's outcome as a reply on the world and the context.\<close>

definition reply_on :: "('a \<Rightarrow> tstore_reply) \<Rightarrow> librdf_world \<Rightarrow> ('a, tstore_context) outcome
   \<Rightarrow> (tstore_reply, librdf_world \<times> tstore_context) outcome" where
  "reply_on f w r = (case r of Ret a c \<Rightarrow> Ret (f a) (w, c) | Blocked \<Rightarrow> Blocked | Undef \<Rightarrow> Undef)"

definition librdf_storage_tstore_register_factory ::
  "rs_lib \<Rightarrow> alloc_env \<Rightarrow> tstore_call \<Rightarrow> librdf_world \<times> tstore_context
   \<Rightarrow> (tstore_reply, librdf_world \<times> tstore_context) outcome" where
  "librdf_storage_tstore_register_factory lib e call st =
     (let (w, context) = st in
      case call of
        Init options \<Rightarrow>
          (let (r, c') = librdf_storage_tstore_init options context in Ret (Int_reply r) (w, c'))
      | Terminate \<Rightarrow> Ret No_reply (w, librdf_storage_tstore_terminate context)
      | Open \<Rightarrow> (let (r, c') = librdf_storage_tstore_open lib context in Ret (Int_reply r) (w, c'))
      | Close \<Rightarrow> Ret (Int_reply (librdf_storage_tstore_close context)) (w, context)
      | Size \<Rightarrow> Ret (Int_reply (librdf_storage_tstore_size context)) (w, context)
      | Add_statement s \<Rightarrow>
          reply_on Int_reply w (librdf_storage_tstore_add_statement w context s)
      | Remove_statement s \<Rightarrow>
          Ret (Int_reply (librdf_storage_tstore_remove_statement context s)) (w, context)
      | Contains_statement s \<Rightarrow>
          Ret (Int_reply (librdf_storage_tstore_contains_statement context s)) (w, context)
      | Serialise \<Rightarrow>
          reply_on Serialise_reply w (librdf_storage_tstore_serialise e context)
      | Find_statements s \<Rightarrow>
          (case librdf_storage_tstore_find_statements e w context s of
             Ret (r, c') w' \<Rightarrow> Ret (Find_reply r) (w', c')
           | Blocked \<Rightarrow> Blocked
           | Undef \<Rightarrow> Undef)
      | Context_add_statement n s \<Rightarrow>
          reply_on Int_reply w (librdf_storage_tstore_context_add_statement w context n s)
      | Context_remove_statement n s \<Rightarrow>
          Ret (Int_reply (librdf_storage_tstore_context_remove_statement context n s)) (w, context)
      | Context_serialise n \<Rightarrow>
          Ret (Serialise_reply (librdf_storage_tstore_context_serialise context n)) (w, context))"

section \<open>Stream states\<close>

text \<open>
  The triples a stream still has to deliver, its current one first, and
  the shape every stream keeps: once the current triple is NULL the result
  is NULL or fully fetched.  \<open>stream_after k\<close> is the stream after \<open>k\<close>
  calls of its next method.
\<close>

definition pending :: "'a tstore_serialise_stream_context_scheme \<Rightarrow> rs_triple list" where
  "pending sc =
     (case triple sc of
        None \<Rightarrow> []
      | Some t \<Rightarrow> t # (case result sc of None \<Rightarrow> [] | Some l \<Rightarrow> l))"

definition stream_ok :: "'a tstore_serialise_stream_context_scheme \<Rightarrow> bool" where
  "stream_ok sc \<longleftrightarrow> (triple sc = None \<longrightarrow> result sc = None \<or> result sc = Some [])"

definition stream_after ::
  "nat \<Rightarrow> 'a tstore_serialise_stream_context_scheme \<Rightarrow> 'a tstore_serialise_stream_context_scheme" where
  "stream_after k = (snd \<circ> librdf_storage_tstore_serialise_next_statement) ^^ k"

section \<open>Lemmas\<close>

lemma rs_drain_empty [simp]: "rs_drain r = []"
  by (induction r rule: rs_drain.induct) (simp add: rs_next_triple_def split: list.splits)

lemma rs_free_result_Nil [simp]: "rs_free_result c [] = c"
  by (simp add: rs_free_result_def)

lemma stream_ok_next:
  assumes "stream_ok sc"
  shows "stream_ok (snd (librdf_storage_tstore_serialise_next_statement sc))"
    and "pending (snd (librdf_storage_tstore_serialise_next_statement sc)) = drop 1 (pending sc)"
  using assms
  by (auto simp: stream_ok_def pending_def librdf_storage_tstore_serialise_next_statement_def
      rs_next_def rs_next_triple_def split: option.splits list.splits)

lemma stream_after_Suc:
  "stream_after (Suc k) sc = snd (librdf_storage_tstore_serialise_next_statement (stream_after k sc))"
  by (simp add: stream_after_def)

lemma stream_after_pending:
  assumes "stream_ok sc"
  shows "stream_ok (stream_after k sc) \<and> pending (stream_after k sc) = drop k (pending sc)"
proof (induction k)
  case 0
  with assms show ?case by (simp add: stream_after_def)
next
  case (Suc k)
  then show ?case by (simp add: stream_after_Suc stream_ok_next)
qed

lemma triple_pending:
  "stream_ok sc \<Longrightarrow> triple sc = (case pending sc of [] \<Rightarrow> None | t # _ \<Rightarrow> Some t)"
  by (auto simp: stream_ok_def pending_def split: option.splits)

lemma triple_stream_after:
  assumes "stream_ok sc"
  shows "triple (stream_after k sc) =
           (if k < length (pending sc) then Some (pending sc ! k) else None)"
proof -
  have ok: "stream_ok (stream_after k sc)" and pd: "pending (stream_after k sc) = drop k (pending sc)"
    using stream_after_pending[OF assms] by blast+
  show ?thesis
  proof (cases "k < length (pending sc)")
    case True
    then have "drop k (pending sc) = pending sc ! k # drop (Suc k) (pending sc)"
      by (rule Cons_nth_drop_Suc[symmetric])
    with ok pd True show ?thesis by (simp add: triple_pending)
  next
    case False
    with ok pd show ?thesis by (simp add: triple_pending)
  qed
qed

lemma finished_ok:
  "stream_ok sc \<Longrightarrow> librdf_storage_tstore_serialise_finished context sc = context"
  by (auto simp: stream_ok_def librdf_storage_tstore_serialise_finished_def option.map_ident
      simp del: rs_drain.simps split: option.splits)

lemma serialise_cases:
  assumes "librdf_storage_tstore_serialise e context = Ret r context'"
  shows "context' = context \<and>
         (case r of
            None \<Rightarrow> True
          | Some sc \<Rightarrow> stream_ok sc \<and> (\<exists>c. rdfsql context = Some c \<and>
                         pending sc = (if rs_broken c then [] else rs_stored c)))"
  using assms
  by (auto simp: librdf_storage_tstore_serialise_def rs_next_def rs_next_triple_def
      rs_find_all_resources_def stream_ok_def pending_def Let_def finished_ok
      split: option.splits list.splits if_splits)

lemma as_rs_triple_world:
  "librdf_storage_tstore_statement_as_rs_triple e st w = Ret t w' \<Longrightarrow> w' = w"
  by (cases st) (auto simp: librdf_storage_tstore_statement_as_rs_triple_def Let_def
      split: option.splits if_splits)

lemma statement_copy:
  assumes "librdf_new_statement_from_statement e (Some (Some s, Some p, Some ob)) w = Ret st w1"
    "\<not> fails e A_statement"
  shows "st = Some (Some s, Some p, Some ob) \<and> w1 = node_incr ob (node_incr p (node_incr s w))"
  using assms
  by (auto simp: librdf_new_statement_from_statement_def librdf_new_node_from_node_def obind_def
      split: option.splits outcome.splits)

lemma find_world:
  assumes "librdf_storage_tstore_find_statements e w context statement = Ret x w'"
  obtains st where "librdf_new_statement_from_statement e statement w = Ret st w'"
  using assms
  by (auto simp: librdf_storage_tstore_find_statements_def obind_def Let_def
      dest: as_rs_triple_world split: outcome.splits option.splits prod.splits if_splits)

lemma add_stores:
  assumes "nodes w s = Some ns" "nodes w p = Some np" "nodes w ob = Some no"
    "rdfsql context = Some c" "\<not> rs_broken c" "\<not> fails e A_triple"
  shows "\<exists>t. librdf_storage_tstore_statement_as_rs_triple e (Some s, Some p, Some ob) w = Ret t w \<and>
           librdf_storage_tstore_add_statement w context (Some s, Some p, Some ob) =
             Ret 0 (context\<lparr>rdfsql := Some (c\<lparr>rs_stored := rs_stored c @ [t]\<rparr>)\<rparr>)"
  using assms as_rs_triple_live[OF assms(6,1,2,3)]
  by (simp add: librdf_storage_tstore_add_statement_def librdf_storage_tstore_context_add_statement_def
      node_ref_def node_string_def object_field_def rs_assert_triple_def)

lemma serialise_single:
  assumes "fails e = (\<lambda>_. False)" "rdfsql context = Some c" "\<not> rs_broken c" "rs_stored c = [t]"
  shows "librdf_storage_tstore_serialise e context = Ret (Some \<lparr>result = Some [], triple = Some t\<rparr>) context"
  using assms
  by (simp add: librdf_storage_tstore_serialise_def rs_find_all_resources_def rs_next_def rs_next_triple_def)

text \<open>
  C28.  The stream of all statements keeps the protocol of the rdfsql
  library: making it leaves the backend context as it was (also when the
  stream cannot be made and the context is cleaned up at once), and
  closing it after any number of calls of its next method frees its
  result only after all the result's triples have been fetched, so the
  connection is left as it was.
\<close>

theorem tstore_serialise_protocol:
  assumes "librdf_storage_tstore_serialise e context = Ret r context'"
  shows "context' = context \<and>
         (case r of
            None \<Rightarrow> True
          | Some sc \<Rightarrow> librdf_storage_tstore_serialise_finished context (stream_after k sc) = context)"
  using serialise_cases[OF assms] stream_after_pending finished_ok by (auto split: option.splits)

text \<open>
  C29.  On a working connection the stream of all statements delivers the
  stored triples in the order they were added: after \<open>k\<close> calls of its
  next method its current triple is the \<open>k\<close>-th stored one, and it is at
  its end exactly when all of them have been passed.
\<close>

theorem tstore_serialise_order:
  assumes "librdf_storage_tstore_serialise e context = Ret (Some sc) context'"
    "rdfsql context = Some c" "\<not> rs_broken c"
  shows "triple (stream_after k sc) = (if k < length (rs_stored c) then Some (rs_stored c ! k) else None) \<and>
         (librdf_storage_tstore_serialise_end_of_stream (stream_after k sc) \<longleftrightarrow> length (rs_stored c) \<le> k)"
proof -
  have ok: "stream_ok sc" and pd: "pending sc = rs_stored c"
    using serialise_cases[OF assms(1)] assms(2,3) by auto
  show ?thesis
    using triple_stream_after[OF ok, of k] pd
    by (simp add: librdf_storage_tstore_serialise_end_of_stream_def)
qed

lemma tstore_fixture_serialise:
  "librdf_storage_tstore_serialise (no_faults (\<lambda>_. 0))
     \<lparr>host = None, db = Some (bstr ''db''), user = None, password = None, model = Some (bstr ''m''),
      rdfsql = Some \<lparr>rs_stored = [\<lparr>rs_subject = Some (bstr ''http://ex/s''), rs_predicate = Some (bstr ''http://ex/p''), rs_object = Some (bstr ''Dave Beckett''), rs_literal = True\<rparr>,
        \<lparr>rs_subject = Some (bstr ''http://ex/s''), rs_predicate = Some (bstr ''http://ex/p''), rs_object = Some (bstr ''http://ex/o''), rs_literal = False\<rparr>], rs_broken = False, rs_violations = 0\<rparr>\<rparr>
   = Ret (Some \<lparr>result = Some [\<lparr>rs_subject = Some (bstr ''http://ex/s''), rs_predicate = Some (bstr ''http://ex/p''), rs_object = Some (bstr ''http://ex/o''), rs_literal = False\<rparr>],
                triple = Some (\<lparr>rs_subject = Some (bstr ''http://ex/s''), rs_predicate = Some (bstr ''http://ex/p''), rs_object = Some (bstr ''Dave Beckett''), rs_literal = True\<rparr>)\<rparr>)
     \<lparr>host = None, db = Some (bstr ''db''), user = None, password = None, model = Some (bstr ''m''),
      rdfsql = Some \<lparr>rs_stored = [\<lparr>rs_subject = Some (bstr ''http://ex/s''), rs_predicate = Some (bstr ''http://ex/p''), rs_object = Some (bstr ''Dave Beckett''), rs_literal = True\<rparr>,
        \<lparr>rs_subject = Some (bstr ''http://ex/s''), rs_predicate = Some (bstr ''http://ex/p''), rs_object = Some (bstr ''http://ex/o''), rs_literal = False\<rparr>], rs_broken = False, rs_violations = 0\<rparr>\<rparr>"
  by (simp add: librdf_storage_tstore_serialise_def no_faults_def rs_find_all_resources_def
      rs_next_def rs_next_triple_def)

text \<open>A store of two triples, closed after its first call of next.\<close>

theorem tstore_serialise_protocol_witness:
  "librdf_storage_tstore_serialise_finished
     \<lparr>host = None, db = Some (bstr ''db''), user = None, password = None, model = Some (bstr ''m''),
      rdfsql = Some \<lparr>rs_stored = [\<lparr>rs_subject = Some (bstr ''http://ex/s''), rs_predicate = Some (bstr ''http://ex/p''), rs_object = Some (bstr ''Dave Beckett''), rs_literal = True\<rparr>,
        \<lparr>rs_subject = Some (bstr ''http://ex/s''), rs_predicate = Some (bstr ''http://ex/p''), rs_object = Some (bstr ''http://ex/o''), rs_literal = False\<rparr>], rs_broken = False, rs_violations = 0\<rparr>\<rparr>
     (stream_after 1 \<lparr>result = Some [\<lparr>rs_subject = Some (bstr ''http://ex/s''), rs_predicate = Some (bstr ''http://ex/p''), rs_object = Some (bstr ''http://ex/o''), rs_literal = False\<rparr>],
                triple = Some (\<lparr>rs_subject = Some (bstr ''http://ex/s''), rs_predicate = Some (bstr ''http://ex/p''), rs_object = Some (bstr ''Dave Beckett''), rs_literal = True\<rparr>)\<rparr>)
   = \<lparr>host = None, db = Some (bstr ''db''), user = None, password = None, model = Some (bstr ''m''),
      rdfsql = Some \<lparr>rs_stored = [\<lparr>rs_subject = Some (bstr ''http://ex/s''), rs_predicate = Some (bstr ''http://ex/p''), rs_object = Some (bstr ''Dave Beckett''), rs_literal = True\<rparr>,
        \<lparr>rs_subject = Some (bstr ''http://ex/s''), rs_predicate = Some (bstr ''http://ex/p''), rs_object = Some (bstr ''http://ex/o''), rs_literal = False\<rparr>], rs_broken = False, rs_violations = 0\<rparr>\<rparr>"
  using tstore_serialise_protocol[OF tstore_fixture_serialise, of 1] by simp

text \<open>The same store: after one call of next the stream is at its second triple.\<close>

theorem tstore_serialise_order_witness:
  "triple (stream_after 1 \<lparr>result = Some [\<lparr>rs_subject = Some (bstr ''http://ex/s''), rs_predicate = Some (bstr ''http://ex/p''), rs_object = Some (bstr ''http://ex/o''), rs_literal = False\<rparr>],
                triple = Some (\<lparr>rs_subject = Some (bstr ''http://ex/s''), rs_predicate = Some (bstr ''http://ex/p''), rs_object = Some (bstr ''Dave Beckett''), rs_literal = True\<rparr>)\<rparr>) = Some (\<lparr>rs_subject = Some (bstr ''http://ex/s''), rs_predicate = Some (bstr ''http://ex/p''), rs_object = Some (bstr ''http://ex/o''), rs_literal = False\<rparr>)"
  using tstore_serialise_order[OF tstore_fixture_serialise, of _ 1] by simp

text \<open>
  C30.  \<open>librdf_storage_tstore_find_statements\<close> copies the statement it is
  given and never frees the copy: whatever it returns, a stream or NULL,
  each node of the statement is left with one more usage, and the find
  stream's clean-up has no way to release it.  Every query leaks one
  reference to each of its nodes.
\<close>

theorem tstore_find_statements_leaks:
  assumes "librdf_storage_tstore_find_statements e w context (Some (Some s, Some p, Some ob)) =
             Ret (r, context') w'"
    and "\<not> fails e A_statement"
  shows "w' = node_incr ob (node_incr p (node_incr s w))"
proof -
  obtain st where "librdf_new_statement_from_statement e (Some (Some s, Some p, Some ob)) w = Ret st w'"
    using find_world[OF assms(1)] .
  from statement_copy[OF this assms(2)] show ?thesis by simp
qed

text \<open>A query for a statement of three resources adds one usage to each of them.\<close>

theorem tstore_find_statements_leaks_witness:
  "\<exists>r c'. librdf_storage_tstore_find_statements (no_faults (\<lambda>_. 0))
      \<lparr>nodes = [1 \<mapsto> \<lparr>usage = 1, node_data = Resource (bstr ''http://ex/s'')\<rparr>,
                2 \<mapsto> \<lparr>usage = 1, node_data = Resource (bstr ''http://ex/p'')\<rparr>,
                3 \<mapsto> \<lparr>usage = 1, node_data = Resource (bstr ''http://ex/o'')\<rparr>],
       hash_resource = Map.empty, hash_literal = Map.empty, hash_blank = Map.empty, next_ptr = 4,
       nodes_mutex = False, genid_counter = 0, genid = \<lambda>_. []\<rparr>
      \<lparr>host = None, db = Some (bstr ''db''), user = None, password = None, model = Some (bstr ''m''),
        rdfsql = Some \<lparr>rs_stored = [], rs_broken = False, rs_violations = 0\<rparr>\<rparr>
      (Some (Some 1, Some 2, Some 3)) =
    Ret (r, c') (node_incr 3 (node_incr 2 (node_incr 1
      \<lparr>nodes = [1 \<mapsto> \<lparr>usage = 1, node_data = Resource (bstr ''http://ex/s'')\<rparr>,
                2 \<mapsto> \<lparr>usage = 1, node_data = Resource (bstr ''http://ex/p'')\<rparr>,
                3 \<mapsto> \<lparr>usage = 1, node_data = Resource (bstr ''http://ex/o'')\<rparr>],
       hash_resource = Map.empty, hash_literal = Map.empty, hash_blank = Map.empty, next_ptr = 4,
       nodes_mutex = False, genid_counter = 0, genid = \<lambda>_. []\<rparr>)))"
proof -
  have "\<exists>r c' w'. librdf_storage_tstore_find_statements (no_faults (\<lambda>_. 0))
      \<lparr>nodes = [1 \<mapsto> \<lparr>usage = 1, node_data = Resource (bstr ''http://ex/s'')\<rparr>,
                2 \<mapsto> \<lparr>usage = 1, node_data = Resource (bstr ''http://ex/p'')\<rparr>,
                3 \<mapsto> \<lparr>usage = 1, node_data = Resource (bstr ''http://ex/o'')\<rparr>],
       hash_resource = Map.empty, hash_literal = Map.empty, hash_blank = Map.empty, next_ptr = 4,
       nodes_mutex = False, genid_counter = 0, genid = \<lambda>_. []\<rparr>
      \<lparr>host = None, db = Some (bstr ''db''), user = None, password = None, model = Some (bstr ''m''),
        rdfsql = Some \<lparr>rs_stored = [], rs_broken = False, rs_violations = 0\<rparr>\<rparr>
      (Some (Some 1, Some 2, Some 3)) = Ret (r, c') w'"
    by (simp add: librdf_storage_tstore_find_statements_def librdf_new_statement_from_statement_def
        librdf_new_node_from_node_def librdf_storage_tstore_statement_as_rs_triple_def no_faults_def
        node_incr_def rs_next_def rs_find_triples_def Let_def split: prod.splits)
  then obtain r c' w' where f: "librdf_storage_tstore_find_statements (no_faults (\<lambda>_. 0))
      \<lparr>nodes = [1 \<mapsto> \<lparr>usage = 1, node_data = Resource (bstr ''http://ex/s'')\<rparr>,
                2 \<mapsto> \<lparr>usage = 1, node_data = Resource (bstr ''http://ex/p'')\<rparr>,
                3 \<mapsto> \<lparr>usage = 1, node_data = Resource (bstr ''http://ex/o'')\<rparr>],
       hash_resource = Map.empty, hash_literal = Map.empty, hash_blank = Map.empty, next_ptr = 4,
       nodes_mutex = False, genid_counter = 0, genid = \<lambda>_. []\<rparr>
      \<lparr>host = None, db = Some (bstr ''db''), user = None, password = None, model = Some (bstr ''m''),
        rdfsql = Some \<lparr>rs_stored = [], rs_broken = False, rs_violations = 0\<rparr>\<rparr>
      (Some (Some 1, Some 2, Some 3)) = Ret (r, c') w'" by blast
  have "\<not> fails (no_faults (\<lambda>_. 0)) A_statement" by (simp add: no_faults_def)
  from tstore_find_statements_leaks[OF f this] f show ?thesis by blast
qed

text \<open>
  C31.  Adding a statement to an empty store and reading the store back
  through its stream gives the statement again: the stream's first
  statement is made of the same three nodes, found in their intern tables
  (usage incremented), and the stream ends after it.  This holds for
  statements of resources whose object is a resource or a literal without
  language and datatype, the URIs not looking like blank node markers.
\<close>

theorem tstore_add_then_serialise:
  assumes inv: "world_inv w" and m: "\<not> nodes_mutex w"
    and e: "fails e0 = (\<lambda>_. False)" "fails e1 = (\<lambda>_. False)" "fails e2 = (\<lambda>_. False)"
      "fails e3 = (\<lambda>_. False)"
    and s: "nodes w s = Some ns" "node_data ns = Resource us" "nul_free us"
      "\<not> strncmp_eq us (bstr ''_:'') 2"
    and p: "nodes w p = Some np" "node_data np = Resource up" "nul_free up"
    and o: "nodes w ob = Some no" "tstore_plain_object (node_data no)"
    and c: "rdfsql context = Some c" "\<not> rs_broken c" "rs_stored c = []"
  shows "\<exists>context1 sc.
           librdf_storage_tstore_add_statement w context (Some s, Some p, Some ob) = Ret 0 context1 \<and>
           librdf_storage_tstore_serialise e0 context1 = Ret (Some sc) context1 \<and>
           librdf_storage_tstore_serialise_get_statement e1 e2 e3 w sc
             LIBRDF_ITERATOR_GET_METHOD_GET_OBJECT =
             Ret (Some (Some s, Some p, Some ob)) (node_incr ob (node_incr p (node_incr s w))) \<and>
           librdf_storage_tstore_serialise_end_of_stream (stream_after 1 sc)"
proof -
  have nf: "\<not> fails e0 A_triple" using e(1) by simp
  obtain t where t: "librdf_storage_tstore_statement_as_rs_triple e0 (Some s, Some p, Some ob) w = Ret t w"
    and add: "librdf_storage_tstore_add_statement w context (Some s, Some p, Some ob) =
             Ret 0 (context\<lparr>rdfsql := Some (c\<lparr>rs_stored := [t]\<rparr>)\<rparr>)"
    using add_stores[OF s(1) p(1) o(1) c(1,2) nf] c(3) by auto
  have rt: "librdf_storage_tstore_statement_from_rs_triple e1 e2 e3 t w =
      Ret (Some (Some s, Some p, Some ob)) (node_incr ob (node_incr p (node_incr s w)))"
    using rs_triple_roundtrip[OF inv m e s p o] t by simp
  have ser: "librdf_storage_tstore_serialise e0 (context\<lparr>rdfsql := Some (c\<lparr>rs_stored := [t]\<rparr>)\<rparr>) =
      Ret (Some \<lparr>result = Some [], triple = Some t\<rparr>) (context\<lparr>rdfsql := Some (c\<lparr>rs_stored := [t]\<rparr>)\<rparr>)"
    using serialise_single[OF e(1), of "context\<lparr>rdfsql := Some (c\<lparr>rs_stored := [t]\<rparr>)\<rparr>"
        "c\<lparr>rs_stored := [t]\<rparr>" t] c(2) by simp
  show ?thesis
    using add ser rt
    by (simp add: librdf_storage_tstore_serialise_get_statement_def stream_after_def
        librdf_storage_tstore_serialise_end_of_stream_def librdf_storage_tstore_serialise_next_statement_def
        rs_next_def rs_next_triple_def)
qed

text \<open>
  The statement \<open>(http://ex/s, http://ex/p, http://ex/o)\<close> added to an
  empty store comes back as the same three nodes.
\<close>

theorem tstore_add_then_serialise_witness:
  "\<exists>context1 sc.
     librdf_storage_tstore_add_statement
       \<lparr>nodes = [1 \<mapsto> \<lparr>usage = 1, node_data = Resource (bstr ''http://ex/s'')\<rparr>,
                2 \<mapsto> \<lparr>usage = 1, node_data = Resource (bstr ''http://ex/p'')\<rparr>,
                3 \<mapsto> \<lparr>usage = 1, node_data = Resource (bstr ''http://ex/o'')\<rparr>],
       hash_resource = [bstr ''http://ex/s'' \<mapsto> 1, bstr ''http://ex/p'' \<mapsto> 2, bstr ''http://ex/o'' \<mapsto> 3],
       hash_literal = Map.empty, hash_blank = Map.empty, next_ptr = 4,
       nodes_mutex = False, genid_counter = 0, genid = \<lambda>_. []\<rparr>
       \<lparr>host = None, db = Some (bstr ''db''), user = None, password = None, model = Some (bstr ''m''),
        rdfsql = Some \<lparr>rs_stored = [], rs_broken = False, rs_violations = 0\<rparr>\<rparr>
       (Some 1, Some 2, Some 3) = Ret 0 context1 \<and>
     librdf_storage_tstore_serialise (no_faults (\<lambda>_. 0)) context1 = Ret (Some sc) context1 \<and>
     librdf_storage_tstore_serialise_get_statement (no_faults (\<lambda>_. 0)) (no_faults (\<lambda>_. 0)) (no_faults (\<lambda>_. 0))
       \<lparr>nodes = [1 \<mapsto> \<lparr>usage = 1, node_data = Resource (bstr ''http://ex/s'')\<rparr>,
                2 \<mapsto> \<lparr>usage = 1, node_data = Resource (bstr ''http://ex/p'')\<rparr>,
                3 \<mapsto> \<lparr>usage = 1, node_data = Resource (bstr ''http://ex/o'')\<rparr>],
       hash_resource = [bstr ''http://ex/s'' \<mapsto> 1, bstr ''http://ex/p'' \<mapsto> 2, bstr ''http://ex/o'' \<mapsto> 3],
       hash_literal = Map.empty, hash_blank = Map.empty, next_ptr = 4,
       nodes_mutex = False, genid_counter = 0, genid = \<lambda>_. []\<rparr>
       sc LIBRDF_ITERATOR_GET_METHOD_GET_OBJECT =
       Ret (Some (Some 1, Some 2, Some 3)) (node_incr 3 (node_incr 2 (node_incr 1
         \<lparr>nodes = [1 \<mapsto> \<lparr>usage = 1, node_data = Resource (bstr ''http://ex/s'')\<rparr>,
                2 \<mapsto> \<lparr>usage = 1, node_data = Resource (bstr ''http://ex/p'')\<rparr>,
                3 \<mapsto> \<lparr>usage = 1, node_data = Resource (bstr ''http://ex/o'')\<rparr>],
       hash_resource = [bstr ''http://ex/s'' \<mapsto> 1, bstr ''http://ex/p'' \<mapsto> 2, bstr ''http://ex/o'' \<mapsto> 3],
       hash_literal = Map.empty, hash_blank = Map.empty, next_ptr = 4,
       nodes_mutex = False, genid_counter = 0, genid = \<lambda>_. []\<rparr>))) \<and>
     librdf_storage_tstore_serialise_end_of_stream (stream_after 1 sc)"
proof -
  have inv: "world_inv
       \<lparr>nodes = [1 \<mapsto> \<lparr>usage = 1, node_data = Resource (bstr ''http://ex/s'')\<rparr>,
                2 \<mapsto> \<lparr>usage = 1, node_data = Resource (bstr ''http://ex/p'')\<rparr>,
                3 \<mapsto> \<lparr>usage = 1, node_data = Resource (bstr ''http://ex/o'')\<rparr>],
       hash_resource = [bstr ''http://ex/s'' \<mapsto> 1, bstr ''http://ex/p'' \<mapsto> 2, bstr ''http://ex/o'' \<mapsto> 3],
       hash_literal = Map.empty, hash_blank = Map.empty, next_ptr = 4,
       nodes_mutex = False, genid_counter = 0, genid = \<lambda>_. []\<rparr>"
    by (simp add: world_inv_def node_registered_def bstr_def)
  have e: "fails (no_faults (\<lambda>_. 0)) = (\<lambda>_. False)" by (simp add: no_faults_def)
  show ?thesis
    by (rule tstore_add_then_serialise[OF inv _ e e e e,
          where ns = "\<lparr>usage = 1, node_data = Resource (bstr ''http://ex/s'')\<rparr>"
            and np = "\<lparr>usage = 1, node_data = Resource (bstr ''http://ex/p'')\<rparr>"
            and no = "\<lparr>usage = 1, node_data = Resource (bstr ''http://ex/o'')\<rparr>"
            and us = "bstr ''http://ex/s''" and up = "bstr ''http://ex/p''"
            and c = "\<lparr>rs_stored = [], rs_broken = False, rs_violations = 0\<rparr>"])
       (simp_all add: tstore_plain_object_def bstr_def nul_free_def strncmp_eq_def cstr_def)
qed

end
