(* ===== verification/NodeOutput.thy ===== *)
theory NodeOutput
  imports World
begin

text \<open>
  The text output of nodes (\<open>src/src/rdf_node.c\<close>): the type names of
  \<open>librdf_node_get_type_as_string\<close>, \<open>librdf_node_to_string\<close> and
  \<open>librdf_node_to_counted_string\<close>, which write a node with
  \<open>librdf_node_write\<close> into a string iostream, \<open>librdf_node_print\<close>,
  which writes it to a file, and the Latin-1 conversion of a literal's
  value.  Creating the raptor iostream may fail (\<open>A_iostream\<close>); the
  N-Triples escaper \<open>esc\<close> and the UTF-8 to Latin-1 converter
  \<open>utf8_to_latin1\<close> are the external functions they call.  A NULL node
  pointer returns at the functions' pointer assertion.
\<close>

section \<open>Type names\<close>

text \<open>The values of \<open>librdf_node_type\<close> (redland.h); \<open>LIBRDF_NODE_TYPE_LAST\<close> is BLANK.\<close>

definition librdf_node_type_code :: "librdf_node_type \<Rightarrow> int" where
  "librdf_node_type_code t =
     (case t of
        LIBRDF_NODE_TYPE_UNKNOWN \<Rightarrow> 0
      | LIBRDF_NODE_TYPE_RESOURCE \<Rightarrow> 1
      | LIBRDF_NODE_TYPE_LITERAL \<Rightarrow> 2
      | LIBRDF_NODE_TYPE_BLANK \<Rightarrow> 4)"

definition LIBRDF_NODE_TYPE_LAST :: int where
  "LIBRDF_NODE_TYPE_LAST = 4"

definition librdf_node_type_names :: "string list" where
  "librdf_node_type_names = [''Unknown'', ''Resource'', ''Literal'', ''<Unused1>'', ''Blank'']"

text \<open>An array read \<open>a[i]\<close>: \<open>None\<close> outside the array (undefined behaviour in C).\<close>

definition array_read :: "'a list \<Rightarrow> int \<Rightarrow> 'a option" where
  "array_read a i = (if 0 \<le> i \<and> nat i < length a then Some (a ! nat i) else None)"

definition librdf_node_get_type_as_string :: "int \<Rightarrow> string option option" where
  "librdf_node_get_type_as_string type =
     (if type < 0 \<or> type > LIBRDF_NODE_TYPE_LAST then Some None
      else map_option Some (array_read librdf_node_type_names type))"

section \<open>Strings and files\<close>

definition librdf_node_to_string ::
  "alloc_env \<Rightarrow> (bytes \<Rightarrow> nat \<Rightarrow> byte \<Rightarrow> bytes) \<Rightarrow> librdf_node option \<Rightarrow> bytes option" where
  "librdf_node_to_string e esc node =
     (case node of
        None \<Rightarrow> None
      | Some n \<Rightarrow> if fails e A_iostream then None else Some (librdf_node_write esc (Some n)))"

text \<open>The iostream stores the length it wrote through \<open>len_p\<close>.\<close>

definition librdf_node_to_counted_string ::
  "alloc_env \<Rightarrow> (bytes \<Rightarrow> nat \<Rightarrow> byte \<Rightarrow> bytes) \<Rightarrow> librdf_node option \<Rightarrow> (bytes \<times> nat) option" where
  "librdf_node_to_counted_string e esc node =
     (case node of
        None \<Rightarrow> None
      | Some n \<Rightarrow>
          if fails e A_iostream then None
          else (let s = librdf_node_write esc (Some n) in Some (s, length s)))"

text \<open>\<open>librdf_node_print\<close>: the file is the bytes written to it so far.\<close>

definition librdf_node_print ::
  "alloc_env \<Rightarrow> (bytes \<Rightarrow> nat \<Rightarrow> byte \<Rightarrow> bytes) \<Rightarrow> librdf_node option \<Rightarrow> bytes \<Rightarrow> bytes" where
  "librdf_node_print e esc node out =
     (case node of
        None \<Rightarrow> out
      | Some n \<Rightarrow> if fails e A_iostream then out else out @ librdf_node_write esc (Some n))"

definition librdf_node_get_literal_value_as_latin1 ::
  "(bytes \<Rightarrow> nat \<Rightarrow> bytes option) \<Rightarrow> librdf_node \<Rightarrow> bytes option" where
  "librdf_node_get_literal_value_as_latin1 utf8_to_latin1 n =
     (case node_data n of
        Literal l \<Rightarrow> utf8_to_latin1 (lit_string l) (string_len l)
      | _ \<Rightarrow> None)"

section \<open>Lemmas\<close>

lemma type_names_length: "length librdf_node_type_names = 5"
  by (simp add: librdf_node_type_names_def)

text \<open>
  C22.  \<open>librdf_node_get_type_as_string\<close> never reads outside its
  five-entry table: for every \<open>int\<close> it returns NULL exactly outside
  0..LIBRDF_NODE_TYPE_LAST and a table entry inside; the type of every
  node gets its name.
\<close>

theorem librdf_node_get_type_as_string_bounds:
  "librdf_node_get_type_as_string t \<noteq> None \<and>
   (librdf_node_get_type_as_string t = Some None \<longleftrightarrow> t < 0 \<or> LIBRDF_NODE_TYPE_LAST < t) \<and>
   librdf_node_get_type_as_string (librdf_node_type_code (librdf_node_get_type n)) =
     Some (Some (case node_data n of
                   Resource _ \<Rightarrow> ''Resource'' | Literal _ \<Rightarrow> ''Literal'' | Blank _ \<Rightarrow> ''Blank''))"
proof -
  have "0 \<le> t \<Longrightarrow> t \<le> 4 \<Longrightarrow> nat t < 5" by arith
  then show ?thesis
    by (auto simp: librdf_node_get_type_as_string_def array_read_def type_names_length
        LIBRDF_NODE_TYPE_LAST_def librdf_node_type_code_def librdf_node_get_type_def
        librdf_node_type_names_def split: node_value.splits)
qed

end
