(* ===== verification/Concurrency.thy ===== *)
theory Concurrency
  imports Prelude "HOL-Library.Multiset"
begin

text \<open>
  Threads sharing one node (\<open>src/src/rdf_node.c\<close>, the \<open>WITH_THREADS\<close>
  build).  Every operation on a node's usage count is a sequence of
  atomic steps of the machine: taking and releasing \<open>nodes_mutex\<close>, a
  hash lookup, reading and writing \<open>node->usage\<close>.  The constructors do
  their lookup and update with the mutex held, \<open>librdf_free_node\<close> its
  decrement and test, but \<open>librdf_new_node_from_node\<close> increments the
  count without it.  A configuration holds the node's usage (\<open>None\<close>: no
  node, freed and out of the table), the mutex, whether freed memory was
  touched, and the threads: each its remaining steps and its register.
  The threads form a multiset (any of them may step next); \<open>cstep\<close> is
  one step of one thread.
\<close>

section \<open>The machine\<close>

datatype micro =
    Lock                 \<comment> \<open>\<open>pthread_mutex_lock(world->nodes_mutex)\<close>\<close>
  | Unlock               \<comment> \<open>\<open>pthread_mutex_unlock(world->nodes_mutex)\<close>\<close>
  | Lookup               \<comment> \<open>\<open>librdf_hash_get_one\<close>: the usage of the node found, 0 for none\<close>
  | Intern               \<comment> \<open>\<open>new_node->usage++\<close> on a hit, a new node with usage 1 otherwise\<close>
  | Load                 \<comment> \<open>read \<open>node->usage\<close>\<close>
  | Store_incr           \<comment> \<open>write the value read plus one\<close>
  | Store_decr           \<comment> \<open>write the value read minus one\<close>
  | Test                 \<comment> \<open>\<open>if(node->usage)\<close>; at 0 the node leaves the table and is freed\<close>

record cstate =
  cnt :: "int option"
  locked :: bool
  fault :: bool
  threads :: "(micro list \<times> int) multiset"

text \<open>Thread \<open>t\<close> becomes \<open>t'\<close>.\<close>

definition advance :: "micro list \<times> int \<Rightarrow> micro list \<times> int \<Rightarrow> cstate \<Rightarrow> cstate" where
  "advance t t' s = s\<lparr>threads := add_mset t' (threads s - {#t#})\<rparr>"

definition cval :: "cstate \<Rightarrow> int" where
  "cval s = (case cnt s of None \<Rightarrow> 0 | Some u \<Rightarrow> u)"

inductive cstep :: "cstate \<Rightarrow> cstate \<Rightarrow> bool" where
  lock: "(Lock # c, r) \<in># threads s \<Longrightarrow> \<not> locked s \<Longrightarrow>
         cstep s (advance (Lock # c, r) (c, r) (s\<lparr>locked := True\<rparr>))"
| unlock: "(Unlock # c, r) \<in># threads s \<Longrightarrow>
         cstep s (advance (Unlock # c, r) (c, r) (s\<lparr>locked := False\<rparr>))"
| lookup: "(Lookup # c, r) \<in># threads s \<Longrightarrow>
         cstep s (advance (Lookup # c, r) (c, cval s) s)"
| intern: "(Intern # c, r) \<in># threads s \<Longrightarrow>
         cstep s (advance (Intern # c, r) (c, r) (s\<lparr>cnt := Some (if r = 0 then 1 else r + 1)\<rparr>))"
| load: "(Load # c, r) \<in># threads s \<Longrightarrow>
         cstep s (advance (Load # c, r) (c, cval s) (s\<lparr>fault := (fault s \<or> cnt s = None)\<rparr>))"
| store_incr: "(Store_incr # c, r) \<in># threads s \<Longrightarrow>
         cstep s (advance (Store_incr # c, r) (c, r)
                   (if cnt s = None then s\<lparr>fault := True\<rparr> else s\<lparr>cnt := Some (r + 1)\<rparr>))"
| store_decr: "(Store_decr # c, r) \<in># threads s \<Longrightarrow>
         cstep s (advance (Store_decr # c, r) (c, r)
                   (if cnt s = None then s\<lparr>fault := True\<rparr> else s\<lparr>cnt := Some (r - 1)\<rparr>))"
| test: "(Test # c, r) \<in># threads s \<Longrightarrow>
         cstep s (advance (Test # c, r) (c, r)
                   (if cnt s = None then s\<lparr>fault := True\<rparr>
                    else if cnt s = Some 0 then s\<lparr>cnt := None\<rparr> else s))"

section \<open>The operations\<close>

text \<open>
  A constructor that finds or creates the node
  (\<open>librdf_new_node_from_uri_string_or_uri\<close> and its siblings): lock,
  look up, increment or create, unlock.
\<close>

definition intern_program :: "micro list" where
  "intern_program = [Lock, Lookup, Intern, Unlock]"

text \<open>\<open>librdf_new_node_from_node\<close>: \<open>node->usage++\<close>, no lock.\<close>

definition copy_program :: "micro list" where
  "copy_program = [Load, Store_incr]"

text \<open>
  \<open>librdf_free_node\<close>: lock, \<open>node->usage--\<close>, test the count (at 0
  the node is unregistered and freed), unlock.
\<close>

definition free_program :: "micro list" where
  "free_program = [Lock, Load, Store_decr, Test, Unlock]"

definition cnt_of :: "int \<Rightarrow> int option" where
  "cnt_of k = (if k = 0 then None else Some k)"

definition start :: "int \<Rightarrow> micro list multiset \<Rightarrow> cstate" where
  "start u0 progs = \<lparr>cnt = cnt_of u0, locked = False, fault = False, threads = image_mset (\<lambda>c. (c, 0)) progs\<rparr>"

definition finished_all :: "cstate \<Rightarrow> bool" where
  "finished_all s \<longleftrightarrow> (\<forall>t \<in># threads s. fst t = [])"

section \<open>The invariant of interning threads\<close>

text \<open>
  A thread running \<open>intern_program\<close> is at program point \<open>k\<close> when
  \<open>k\<close> of its steps are done.  With threads that all intern: every thread
  is at one of the five points, none has touched freed memory, the mutex
  is held exactly when one thread is between its lock and its unlock, the
  count is the initial one plus the threads past their \<open>Intern\<close>, and a
  thread about to intern holds the current count in its register.
\<close>

definition at_point :: "nat \<Rightarrow> micro list \<times> int \<Rightarrow> bool" where
  "at_point k t \<longleftrightarrow> fst t = drop k intern_program"

definition count_at :: "nat \<Rightarrow> cstate \<Rightarrow> nat" where
  "count_at k s = size (filter_mset (at_point k) (threads s))"

definition intern_inv :: "int \<Rightarrow> nat \<Rightarrow> cstate \<Rightarrow> bool" where
  "intern_inv u0 n s \<longleftrightarrow>
     0 \<le> u0 \<and> size (threads s) = n \<and> \<not> fault s \<and>
     (\<forall>t \<in># threads s. fst t \<in> set (map (\<lambda>k. drop k intern_program) [0..<5])) \<and>
     count_at 1 s + count_at 2 s + count_at 3 s \<le> 1 \<and>
     (locked s \<longleftrightarrow> count_at 1 s + count_at 2 s + count_at 3 s = 1) \<and>
     cnt s = cnt_of (u0 + int (count_at 3 s + count_at 4 s)) \<and>
     (\<forall>t \<in># threads s. at_point 2 t \<longrightarrow> snd t = cval s)"

section \<open>Lemmas\<close>

lemma count_advance:
  assumes "t \<in># T"
  shows "size (filter_mset P (add_mset t' (T - {#t#}))) + (if P t then 1 else 0) =
         size (filter_mset P T) + (if P t' then 1 else 0)"
proof -
  from assms obtain T' where "T = add_mset t T'" by (blast dest: multi_member_split)
  then show ?thesis by simp
qed

lemma at_point_simps [simp]:
  "at_point k (c, r) \<longleftrightarrow> c = drop k intern_program"
  by (simp add: at_point_def)

lemma count_at_fields [simp]:
  "count_at k (s\<lparr>locked := b\<rparr>) = count_at k s"
  "count_at k (s\<lparr>cnt := x\<rparr>) = count_at k s"
  by (simp_all add: count_at_def)

lemma only_one:
  assumes "t \<in># T" "size (filter_mset P T) \<le> 1" "P t"
  shows "\<forall>x \<in># T - {#t#}. \<not> P x"
proof -
  from assms(1) obtain T' where T: "T = add_mset t T'" by (blast dest: multi_member_split)
  with assms(2,3) have "filter_mset P T' = {#}" by simp
  with T show ?thesis by (auto simp: filter_mset_eq_conv)
qed

lemma advance_threads [simp]:
  "threads (advance t t' s) = add_mset t' (threads s - {#t#})"
  by (simp add: advance_def)

lemma advance_fields [simp]:
  "cnt (advance t t' s) = cnt s" "locked (advance t t' s) = locked s" "fault (advance t t' s) = fault s"
  by (simp_all add: advance_def)

lemma count_at_advance:
  "t \<in># threads s \<Longrightarrow>
   count_at k (advance t t' s) + (if at_point k t then 1 else 0) = count_at k s + (if at_point k t' then 1 else 0)"
  unfolding count_at_def advance_threads by (rule count_advance)

lemma count_at_step:
  "t \<in># threads s \<Longrightarrow>
   count_at k (advance t t' s) = count_at k s + (if at_point k t' then 1 else 0) - (if at_point k t then 1 else 0)"
  using count_at_advance[of t s k t'] by simp

lemma ball_advance:
  "\<forall>x \<in># T. Q x \<Longrightarrow> Q t' \<Longrightarrow> \<forall>x \<in># add_mset t' (T - {#t#}). Q x"
  by (auto dest: in_diffD)

lemma intern_points_eval:
  "set (map (\<lambda>k. drop k intern_program) [0..<5]) =
     {[Lock, Lookup, Intern, Unlock], [Lookup, Intern, Unlock], [Intern, Unlock], [Unlock], []}"
  by (simp add: intern_program_def upt_rec)

lemma intern_invD:
  assumes "intern_inv u0 n s"
  shows "0 \<le> u0" "size (threads s) = n" "\<not> fault s"
    "\<forall>t \<in># threads s. fst t \<in> {[Lock, Lookup, Intern, Unlock], [Lookup, Intern, Unlock],
                                    [Intern, Unlock], [Unlock], []}"
    "count_at 1 s + count_at 2 s + count_at 3 s \<le> 1"
    "locked s \<longleftrightarrow> count_at 1 s + count_at 2 s + count_at 3 s = 1"
    "cnt s = cnt_of (u0 + int (count_at 3 s + count_at 4 s))"
    "\<forall>t \<in># threads s. at_point 2 t \<longrightarrow> snd t = cval s"
  using assms unfolding intern_inv_def intern_points_eval by simp_all

lemma intern_invI:
  assumes "0 \<le> u0" "size (threads s) = n" "\<not> fault s"
    "\<forall>t \<in># threads s. fst t \<in> {[Lock, Lookup, Intern, Unlock], [Lookup, Intern, Unlock],
                                    [Intern, Unlock], [Unlock], []}"
    "count_at 1 s + count_at 2 s + count_at 3 s \<le> 1"
    "locked s \<longleftrightarrow> count_at 1 s + count_at 2 s + count_at 3 s = 1"
    "cnt s = cnt_of (u0 + int (count_at 3 s + count_at 4 s))"
    "\<forall>t \<in># threads s. at_point 2 t \<longrightarrow> snd t = cval s"
  shows "intern_inv u0 n s"
  using assms unfolding intern_inv_def intern_points_eval by simp

lemma size_advance [simp]: "t \<in># T \<Longrightarrow> Suc (size (T - {#t#})) = size T"
  by (metis insert_DiffM size_add_mset)

lemma intern_inv_point:
  "intern_inv u0 n s \<Longrightarrow> (m # c, r) \<in># threads s \<Longrightarrow>
   (m, c) \<in> {(Lock, [Lookup, Intern, Unlock]), (Lookup, [Intern, Unlock]), (Intern, [Unlock]), (Unlock, [])}"
  by (drule intern_invD(4), drule bspec, assumption) auto

lemma count_at_pos:
  assumes "t \<in># threads s" "at_point k t"
  shows "1 \<le> count_at k s"
proof -
  from assms(1) obtain T' where "threads s = add_mset t T'" by (blast dest: multi_member_split)
  with assms(2) show ?thesis by (simp add: count_at_def)
qed

lemma intern_inv_step:
  assumes "cstep s s'" "intern_inv u0 n s"
  shows "intern_inv u0 n s'"
  using assms
proof (induction rule: cstep.induct)
  case (lock c r s)
  note I = intern_invD[OF lock(3)]
  from lock have c: "c = [Lookup, Intern, Unlock]" by (auto dest: intern_inv_point)
  let ?s' = "advance (Lock # c, r) (c, r) (s\<lparr>locked := True\<rparr>)"
  have m: "(Lock # c, r) \<in># threads (s\<lparr>locked := True\<rparr>)" using lock(1) by simp
  have k: "count_at 1 ?s' = count_at 1 s + 1" "count_at 2 ?s' = count_at 2 s"
    "count_at 3 ?s' = count_at 3 s" "count_at 4 ?s' = count_at 4 s"
    using count_at_step[OF m, of _ "(c, r)"] c by (simp_all add: intern_program_def)
  show ?case
  proof (rule intern_invI)
    show "\<forall>t \<in># threads ?s'. at_point 2 t \<longrightarrow> snd t = cval ?s'"
      using I(8) c by (simp add: cval_def intern_program_def) (auto dest: in_diffD)
    show "0 \<le> u0" by (rule I(1))
    show "size (threads ?s') = n" using I(2) lock(1) by simp
    show "\<not> fault ?s'" using I(3) by simp
    show "\<forall>t \<in># threads ?s'. fst t \<in> {[Lock, Lookup, Intern, Unlock], [Lookup, Intern, Unlock],
                                    [Intern, Unlock], [Unlock], []}"
      using I(4) c by (simp only: advance_threads) (rule ball_advance, simp_all)
    show "count_at 1 ?s' + count_at 2 ?s' + count_at 3 ?s' \<le> 1"
      using I(5,6) lock(2) k by simp
    show "locked ?s' \<longleftrightarrow> count_at 1 ?s' + count_at 2 ?s' + count_at 3 ?s' = 1"
      using I(5,6) lock(2) k by simp
    show "cnt ?s' = cnt_of (u0 + int (count_at 3 ?s' + count_at 4 ?s'))"
      using I(7) k by simp
  qed
next
  case (unlock c r s)
  note I = intern_invD[OF unlock(2)]
  from unlock have c: "c = []" by (auto dest: intern_inv_point)
  let ?s' = "advance (Unlock # c, r) (c, r) (s\<lparr>locked := False\<rparr>)"
  have m: "(Unlock # c, r) \<in># threads (s\<lparr>locked := False\<rparr>)" using unlock(1) by simp
  have k: "count_at 1 ?s' = count_at 1 s" "count_at 2 ?s' = count_at 2 s"
    "count_at 3 ?s' = count_at 3 s - 1" "count_at 4 ?s' = count_at 4 s + 1"
    using count_at_step[OF m, of _ "(c, r)"] c by (simp_all add: intern_program_def)
  have pos: "1 \<le> count_at 3 s"
    by (rule count_at_pos[OF unlock(1)]) (simp add: c intern_program_def)
  show ?case
  proof (rule intern_invI)
    show "\<forall>t \<in># threads ?s'. at_point 2 t \<longrightarrow> snd t = cval ?s'"
      using I(8) c by (simp add: cval_def intern_program_def) (auto dest: in_diffD)
    show "0 \<le> u0" by (rule I(1))
    show "size (threads ?s') = n" using I(2) unlock(1) by simp
    show "\<not> fault ?s'" using I(3) by simp
    show "\<forall>t \<in># threads ?s'. fst t \<in> {[Lock, Lookup, Intern, Unlock], [Lookup, Intern, Unlock],
                                    [Intern, Unlock], [Unlock], []}"
      using I(4) c by (simp only: advance_threads) (rule ball_advance, simp_all)
    have sum: "count_at 1 ?s' + count_at 2 ?s' + count_at 3 ?s' = 0" using k pos I(5) by arith
    show "count_at 1 ?s' + count_at 2 ?s' + count_at 3 ?s' \<le> 1" using I(5) sum by simp
    show "locked ?s' \<longleftrightarrow> count_at 1 ?s' + count_at 2 ?s' + count_at 3 ?s' = 1"
      using I(5,6) sum by simp
    show "cnt ?s' = cnt_of (u0 + int (count_at 3 ?s' + count_at 4 ?s'))"
      using I(7) k pos by (simp add: add.commute)
  qed
next
  case (lookup c r s)
  note I = intern_invD[OF lookup(2)]
  from lookup have c: "c = [Intern, Unlock]" by (auto dest: intern_inv_point)
  let ?s' = "advance (Lookup # c, r) (c, cval s) s"
  have k: "count_at 1 ?s' = count_at 1 s - 1" "count_at 2 ?s' = count_at 2 s + 1"
    "count_at 3 ?s' = count_at 3 s" "count_at 4 ?s' = count_at 4 s"
    using count_at_step[OF lookup(1), of _ "(c, cval s)"] c by (simp_all add: intern_program_def)
  have pos: "1 \<le> count_at 1 s"
    by (rule count_at_pos[OF lookup(1)]) (simp add: c intern_program_def)
  show ?case
  proof (rule intern_invI)
    show "\<forall>t \<in># threads ?s'. at_point 2 t \<longrightarrow> snd t = cval ?s'"
      using I(8) by (simp add: cval_def) (auto dest: in_diffD)
    show "0 \<le> u0" by (rule I(1))
    show "size (threads ?s') = n" using I(2) lookup(1) by simp
    show "\<not> fault ?s'" using I(3) by simp
    show "\<forall>t \<in># threads ?s'. fst t \<in> {[Lock, Lookup, Intern, Unlock], [Lookup, Intern, Unlock],
                                    [Intern, Unlock], [Unlock], []}"
      using I(4) c by (simp only: advance_threads) (rule ball_advance, simp_all)
    have sum: "count_at 1 ?s' + count_at 2 ?s' + count_at 3 ?s' = count_at 1 s + count_at 2 s + count_at 3 s" using k pos by arith
    show "count_at 1 ?s' + count_at 2 ?s' + count_at 3 ?s' \<le> 1" using I(5) sum by simp
    show "locked ?s' \<longleftrightarrow> count_at 1 ?s' + count_at 2 ?s' + count_at 3 ?s' = 1"
      using I(6) sum by simp
    show "cnt ?s' = cnt_of (u0 + int (count_at 3 ?s' + count_at 4 ?s'))"
      using I(7) k by simp
  qed
next
  case (intern c r s)
  note I = intern_invD[OF intern(2)]
  from intern have c: "c = [Unlock]" by (auto dest: intern_inv_point)
  let ?x = "Some (if r = 0 then 1 else r + 1)"
  let ?s' = "advance (Intern # c, r) (c, r) (s\<lparr>cnt := ?x\<rparr>)"
  have m: "(Intern # c, r) \<in># threads (s\<lparr>cnt := ?x\<rparr>)" using intern(1) by simp
  have k: "count_at 1 ?s' = count_at 1 s" "count_at 2 ?s' = count_at 2 s - 1"
    "count_at 3 ?s' = count_at 3 s + 1" "count_at 4 ?s' = count_at 4 s"
    using count_at_step[OF m, of _ "(c, r)"] c by (simp_all add: intern_program_def)
  have at2: "at_point 2 (Intern # c, r)" using c by (simp add: intern_program_def)
  have r: "r = u0 + int (count_at 3 s + count_at 4 s)"
    using I(8) intern(1) at2 I(7) I(1) by (auto simp: cval_def cnt_of_def)
  have one: "count_at 2 s \<le> 1" using I(5) by simp
  have none: "\<forall>x \<in># threads s - {#(Intern # c, r)#}. \<not> at_point 2 x"
    using only_one[where P = "at_point 2", OF intern(1) _ at2] one by (simp add: count_at_def)
  have pos: "1 \<le> count_at 2 s" by (rule count_at_pos[OF intern(1) at2])
  show ?case
  proof (rule intern_invI)
    show "\<forall>t \<in># threads ?s'. at_point 2 t \<longrightarrow> snd t = cval ?s'"
      using none c by (simp add: intern_program_def)
    show "0 \<le> u0" by (rule I(1))
    show "size (threads ?s') = n" using I(2) intern(1) by simp
    show "\<not> fault ?s'" using I(3) by simp
    show "\<forall>t \<in># threads ?s'. fst t \<in> {[Lock, Lookup, Intern, Unlock], [Lookup, Intern, Unlock],
                                    [Intern, Unlock], [Unlock], []}"
      using I(4) c by (simp only: advance_threads) (rule ball_advance, simp_all)
    have sum: "count_at 1 ?s' + count_at 2 ?s' + count_at 3 ?s' = count_at 1 s + count_at 2 s + count_at 3 s" using k pos by arith
    show "count_at 1 ?s' + count_at 2 ?s' + count_at 3 ?s' \<le> 1" using I(5) sum by simp
    show "locked ?s' \<longleftrightarrow> count_at 1 ?s' + count_at 2 ?s' + count_at 3 ?s' = 1"
      using I(6) sum by simp
    show "cnt ?s' = cnt_of (u0 + int (count_at 3 ?s' + count_at 4 ?s'))"
      using k r I(1) by (simp add: cnt_of_def)
  qed
next
  case (load c r s) then show ?case by (auto dest: intern_inv_point)
next
  case (store_incr c r s) then show ?case by (auto dest: intern_inv_point)
next
  case (store_decr c r s) then show ?case by (auto dest: intern_inv_point)
next
  case (test c r s) then show ?case by (auto dest: intern_inv_point)
qed

lemma count_at_start:
  assumes "1 \<le> k"
  shows "count_at k (start u0 (replicate_mset n intern_program)) = 0"
proof -
  have "intern_program \<noteq> drop k intern_program"
  proof
    assume "intern_program = drop k intern_program"
    then have "length intern_program = length intern_program - k" by (metis length_drop)
    with assms show False by (simp add: intern_program_def)
  qed
  then show ?thesis by (simp add: count_at_def start_def)
qed

lemma intern_inv_start:
  "0 \<le> u0 \<Longrightarrow> intern_inv u0 n (start u0 (replicate_mset n intern_program))"
  by (rule intern_invI) (simp_all add: count_at_start, auto simp: start_def intern_program_def)

lemma intern_inv_reach:
  "cstep\<^sup>*\<^sup>* s0 s \<Longrightarrow> intern_inv u0 n s0 \<Longrightarrow> intern_inv u0 n s"
  by (induction rule: rtranclp_induct) (auto intro: intern_inv_step)

lemma finished_counts:
  assumes "finished_all s"
  shows "count_at 4 s = size (threads s)" "count_at 1 s = 0" "count_at 2 s = 0" "count_at 3 s = 0"
proof -
  have all: "\<forall>t \<in># threads s. fst t = []" using assms by (simp add: finished_all_def)
  then have "filter_mset (at_point 4) (threads s) = threads s"
    by (auto simp: filter_mset_eq_conv intern_program_def)
  then show "count_at 4 s = size (threads s)" by (simp add: count_at_def)
  show "count_at 1 s = 0" "count_at 2 s = 0" "count_at 3 s = 0"
    using all by (auto simp: count_at_def intern_program_def)
qed

lemma cstep_chain:
  "cstep s1 s2 \<Longrightarrow> cstep\<^sup>*\<^sup>* s2 s3 \<Longrightarrow> cstep\<^sup>*\<^sup>* s1 s3"
  by (rule converse_rtranclp_into_rtranclp)

text \<open>
  C25.  \<open>librdf_new_node_from_node\<close> increments the usage count without the
  node mutex, so it races with \<open>librdf_free_node\<close>: when a node is held by
  two owners and one copies it while the other frees it, two references
  remain, but the interleaving in which the copy reads and writes the
  count between the free's read and its write ends with usage 1, the
  copy's increment overwritten by the free's stale decrement.  The next free of either reference then unregisters
  and frees a node still referenced.
\<close>

theorem copy_free_race:
  "\<exists>s. cstep\<^sup>*\<^sup>* (start 2 {#copy_program, free_program#}) s \<and> finished_all s \<and>
       \<not> fault s \<and> cnt s = Some 1"
proof -
  have l0: "cstep (\<lparr>cnt = Some 2, locked = False, fault = False, threads = {#([Load, Store_incr], 0), ([Lock, Load, Store_decr, Test, Unlock], 0)#}\<rparr>)
      (\<lparr>cnt = Some 2, locked = True, fault = False, threads = {#([Load, Store_incr], 0), ([Load, Store_decr, Test, Unlock], 0)#}\<rparr>)"
    using cstep.lock[of "[Load, Store_decr, Test, Unlock]" 0 "\<lparr>cnt = Some 2, locked = False, fault = False, threads = {#([Load, Store_incr], 0), ([Lock, Load, Store_decr, Test, Unlock], 0)#}\<rparr>"] by (simp add: advance_def cval_def add_mset_commute)
  have l1: "cstep (\<lparr>cnt = Some 2, locked = True, fault = False, threads = {#([Load, Store_incr], 0), ([Load, Store_decr, Test, Unlock], 0)#}\<rparr>)
      (\<lparr>cnt = Some 2, locked = True, fault = False, threads = {#([Load, Store_incr], 0), ([Store_decr, Test, Unlock], 2)#}\<rparr>)"
    using cstep.load[of "[Store_decr, Test, Unlock]" 0 "\<lparr>cnt = Some 2, locked = True, fault = False, threads = {#([Load, Store_incr], 0), ([Load, Store_decr, Test, Unlock], 0)#}\<rparr>"] by (simp add: advance_def cval_def add_mset_commute)
  have l2: "cstep (\<lparr>cnt = Some 2, locked = True, fault = False, threads = {#([Load, Store_incr], 0), ([Store_decr, Test, Unlock], 2)#}\<rparr>)
      (\<lparr>cnt = Some 2, locked = True, fault = False, threads = {#([Store_incr], 2), ([Store_decr, Test, Unlock], 2)#}\<rparr>)"
    using cstep.load[of "[Store_incr]" 0 "\<lparr>cnt = Some 2, locked = True, fault = False, threads = {#([Load, Store_incr], 0), ([Store_decr, Test, Unlock], 2)#}\<rparr>"] by (simp add: advance_def cval_def add_mset_commute)
  have l3: "cstep (\<lparr>cnt = Some 2, locked = True, fault = False, threads = {#([Store_incr], 2), ([Store_decr, Test, Unlock], 2)#}\<rparr>)
      (\<lparr>cnt = Some 3, locked = True, fault = False, threads = {#([], 2), ([Store_decr, Test, Unlock], 2)#}\<rparr>)"
    using cstep.store_incr[of "[]" 2 "\<lparr>cnt = Some 2, locked = True, fault = False, threads = {#([Store_incr], 2), ([Store_decr, Test, Unlock], 2)#}\<rparr>"] by (simp add: advance_def cval_def add_mset_commute)
  have l4: "cstep (\<lparr>cnt = Some 3, locked = True, fault = False, threads = {#([], 2), ([Store_decr, Test, Unlock], 2)#}\<rparr>)
      (\<lparr>cnt = Some 1, locked = True, fault = False, threads = {#([], 2), ([Test, Unlock], 2)#}\<rparr>)"
    using cstep.store_decr[of "[Test, Unlock]" 2 "\<lparr>cnt = Some 3, locked = True, fault = False, threads = {#([], 2), ([Store_decr, Test, Unlock], 2)#}\<rparr>"] by (simp add: advance_def cval_def add_mset_commute)
  have l5: "cstep (\<lparr>cnt = Some 1, locked = True, fault = False, threads = {#([], 2), ([Test, Unlock], 2)#}\<rparr>)
      (\<lparr>cnt = Some 1, locked = True, fault = False, threads = {#([], 2), ([Unlock], 2)#}\<rparr>)"
    using cstep.test[of "[Unlock]" 2 "\<lparr>cnt = Some 1, locked = True, fault = False, threads = {#([], 2), ([Test, Unlock], 2)#}\<rparr>"] by (simp add: advance_def cval_def add_mset_commute)
  have l6: "cstep (\<lparr>cnt = Some 1, locked = True, fault = False, threads = {#([], 2), ([Unlock], 2)#}\<rparr>)
      (\<lparr>cnt = Some 1, locked = False, fault = False, threads = {#([], 2), ([], 2)#}\<rparr>)"
    using cstep.unlock[of "[]" 2 "\<lparr>cnt = Some 1, locked = True, fault = False, threads = {#([], 2), ([Unlock], 2)#}\<rparr>"] by (simp add: advance_def cval_def add_mset_commute)
  have l_start: "start 2 {#copy_program, free_program#} = \<lparr>cnt = Some 2, locked = False, fault = False, threads = {#([Load, Store_incr], 0), ([Lock, Load, Store_decr, Test, Unlock], 0)#}\<rparr>"
    by (simp add: start_def cnt_of_def copy_program_def free_program_def)
  have "cstep\<^sup>*\<^sup>* (start 2 {#copy_program, free_program#}) (\<lparr>cnt = Some 1, locked = False, fault = False, threads = {#([], 2), ([], 2)#}\<rparr>)"
    unfolding l_start by (rule cstep_chain[OF l0 cstep_chain[OF l1 cstep_chain[OF l2 cstep_chain[OF l3 cstep_chain[OF l4 cstep_chain[OF l5 cstep_chain[OF l6 rtranclp.rtrancl_refl]]]]]]])
  then show ?thesis
    by (intro exI[of _ "\<lparr>cnt = Some 1, locked = False, fault = False, threads = {#([], 2), ([], 2)#}\<rparr>"]) (simp add: finished_all_def)
qed

text \<open>
  C24.  The constructors' critical section makes concurrent interning exact:
  when \<open>n\<close> threads find-or-create the same node (held \<open>u0\<close> times
  before), every interleaving of their steps that runs to the end leaves
  one node with usage \<open>u0 + n\<close>, the mutex free, and no freed memory
  touched.
\<close>

theorem intern_threads_exact:
  assumes "0 \<le> u0" "cstep\<^sup>*\<^sup>* (start u0 (replicate_mset n intern_program)) s" "finished_all s"
  shows "cnt s = cnt_of (u0 + int n) \<and> \<not> locked s \<and> \<not> fault s"
proof -
  have I: "intern_inv u0 n s" by (rule intern_inv_reach[OF assms(2) intern_inv_start[OF assms(1)]])
  note D = intern_invD[OF I] and F = finished_counts[OF assms(3)]
  from D(2,6,7) F show ?thesis using D(3) by simp
qed


text \<open>Two threads intern a node that is not yet in the table, one after the other: the run ends with usage 2.\<close>

theorem intern_threads_exact_witness:
  "cstep\<^sup>*\<^sup>* (start 0 (replicate_mset 2 intern_program)) (\<lparr>cnt = Some 2, locked = False, fault = False, threads = {#([], 0), ([], 1)#}\<rparr>) \<and> finished_all (\<lparr>cnt = Some 2, locked = False, fault = False, threads = {#([], 0), ([], 1)#}\<rparr>) \<and>
   cnt (\<lparr>cnt = Some 2, locked = False, fault = False, threads = {#([], 0), ([], 1)#}\<rparr>) = Some 2 \<and> \<not> locked (\<lparr>cnt = Some 2, locked = False, fault = False, threads = {#([], 0), ([], 1)#}\<rparr>) \<and> \<not> fault (\<lparr>cnt = Some 2, locked = False, fault = False, threads = {#([], 0), ([], 1)#}\<rparr>)"
proof -
  have w0: "cstep (\<lparr>cnt = None, locked = False, fault = False, threads = {#([Lock, Lookup, Intern, Unlock], 0), ([Lock, Lookup, Intern, Unlock], 0)#}\<rparr>)
      (\<lparr>cnt = None, locked = True, fault = False, threads = {#([Lookup, Intern, Unlock], 0), ([Lock, Lookup, Intern, Unlock], 0)#}\<rparr>)"
    using cstep.lock[of "[Lookup, Intern, Unlock]" 0 "\<lparr>cnt = None, locked = False, fault = False, threads = {#([Lock, Lookup, Intern, Unlock], 0), ([Lock, Lookup, Intern, Unlock], 0)#}\<rparr>"] by (simp add: advance_def cval_def add_mset_commute)
  have w1: "cstep (\<lparr>cnt = None, locked = True, fault = False, threads = {#([Lookup, Intern, Unlock], 0), ([Lock, Lookup, Intern, Unlock], 0)#}\<rparr>)
      (\<lparr>cnt = None, locked = True, fault = False, threads = {#([Intern, Unlock], 0), ([Lock, Lookup, Intern, Unlock], 0)#}\<rparr>)"
    using cstep.lookup[of "[Intern, Unlock]" 0 "\<lparr>cnt = None, locked = True, fault = False, threads = {#([Lookup, Intern, Unlock], 0), ([Lock, Lookup, Intern, Unlock], 0)#}\<rparr>"] by (simp add: advance_def cval_def add_mset_commute)
  have w2: "cstep (\<lparr>cnt = None, locked = True, fault = False, threads = {#([Intern, Unlock], 0), ([Lock, Lookup, Intern, Unlock], 0)#}\<rparr>)
      (\<lparr>cnt = Some 1, locked = True, fault = False, threads = {#([Unlock], 0), ([Lock, Lookup, Intern, Unlock], 0)#}\<rparr>)"
    using cstep.intern[of "[Unlock]" 0 "\<lparr>cnt = None, locked = True, fault = False, threads = {#([Intern, Unlock], 0), ([Lock, Lookup, Intern, Unlock], 0)#}\<rparr>"] by (simp add: advance_def cval_def add_mset_commute)
  have w3: "cstep (\<lparr>cnt = Some 1, locked = True, fault = False, threads = {#([Unlock], 0), ([Lock, Lookup, Intern, Unlock], 0)#}\<rparr>)
      (\<lparr>cnt = Some 1, locked = False, fault = False, threads = {#([], 0), ([Lock, Lookup, Intern, Unlock], 0)#}\<rparr>)"
    using cstep.unlock[of "[]" 0 "\<lparr>cnt = Some 1, locked = True, fault = False, threads = {#([Unlock], 0), ([Lock, Lookup, Intern, Unlock], 0)#}\<rparr>"] by (simp add: advance_def cval_def add_mset_commute)
  have w4: "cstep (\<lparr>cnt = Some 1, locked = False, fault = False, threads = {#([], 0), ([Lock, Lookup, Intern, Unlock], 0)#}\<rparr>)
      (\<lparr>cnt = Some 1, locked = True, fault = False, threads = {#([], 0), ([Lookup, Intern, Unlock], 0)#}\<rparr>)"
    using cstep.lock[of "[Lookup, Intern, Unlock]" 0 "\<lparr>cnt = Some 1, locked = False, fault = False, threads = {#([], 0), ([Lock, Lookup, Intern, Unlock], 0)#}\<rparr>"] by (simp add: advance_def cval_def add_mset_commute)
  have w5: "cstep (\<lparr>cnt = Some 1, locked = True, fault = False, threads = {#([], 0), ([Lookup, Intern, Unlock], 0)#}\<rparr>)
      (\<lparr>cnt = Some 1, locked = True, fault = False, threads = {#([], 0), ([Intern, Unlock], 1)#}\<rparr>)"
    using cstep.lookup[of "[Intern, Unlock]" 0 "\<lparr>cnt = Some 1, locked = True, fault = False, threads = {#([], 0), ([Lookup, Intern, Unlock], 0)#}\<rparr>"] by (simp add: advance_def cval_def add_mset_commute)
  have w6: "cstep (\<lparr>cnt = Some 1, locked = True, fault = False, threads = {#([], 0), ([Intern, Unlock], 1)#}\<rparr>)
      (\<lparr>cnt = Some 2, locked = True, fault = False, threads = {#([], 0), ([Unlock], 1)#}\<rparr>)"
    using cstep.intern[of "[Unlock]" 1 "\<lparr>cnt = Some 1, locked = True, fault = False, threads = {#([], 0), ([Intern, Unlock], 1)#}\<rparr>"] by (simp add: advance_def cval_def add_mset_commute)
  have w7: "cstep (\<lparr>cnt = Some 2, locked = True, fault = False, threads = {#([], 0), ([Unlock], 1)#}\<rparr>)
      (\<lparr>cnt = Some 2, locked = False, fault = False, threads = {#([], 0), ([], 1)#}\<rparr>)"
    using cstep.unlock[of "[]" 1 "\<lparr>cnt = Some 2, locked = True, fault = False, threads = {#([], 0), ([Unlock], 1)#}\<rparr>"] by (simp add: advance_def cval_def add_mset_commute)
  have w_start: "start 0 (replicate_mset 2 intern_program) = \<lparr>cnt = None, locked = False, fault = False, threads = {#([Lock, Lookup, Intern, Unlock], 0), ([Lock, Lookup, Intern, Unlock], 0)#}\<rparr>"
    by (simp add: start_def cnt_of_def intern_program_def numeral_2_eq_2)
  have reach: "cstep\<^sup>*\<^sup>* (start 0 (replicate_mset 2 intern_program)) (\<lparr>cnt = Some 2, locked = False, fault = False, threads = {#([], 0), ([], 1)#}\<rparr>)"
    unfolding w_start by (rule cstep_chain[OF w0 cstep_chain[OF w1 cstep_chain[OF w2 cstep_chain[OF w3 cstep_chain[OF w4 cstep_chain[OF w5 cstep_chain[OF w6 cstep_chain[OF w7 rtranclp.rtrancl_refl]]]]]]]])
  have fin: "finished_all (\<lparr>cnt = Some 2, locked = False, fault = False, threads = {#([], 0), ([], 1)#}\<rparr>)" by (simp add: finished_all_def)
  from intern_threads_exact[OF _ reach fin] reach fin show ?thesis by (simp add: cnt_of_def)
qed


end
