(* ===== verification/Namespaces.thy ===== *)
theory Namespaces
  imports World
begin

text \<open>
  What the raptor parser integration records while a document is parsed
  (\<open>src/src/rdf_parser_raptor.c\<close>): the namespaces the document declares,
  kept in two parallel raptor sequences of prefixes and URIs by
  \<open>librdf_parser_raptor_namespace_handler\<close> and read back by
  \<open>librdf_parser_raptor_get_namespaces_seen_prefix/uri/count\<close>, and the
  error and warning counts of the raptor 1 error and warning handlers.
  \<open>pcontext_seen\<close> is that part of \<open>librdf_parser_raptor_context\<close>.  A raptor
  sequence is a list (\<open>None\<close> for a NULL sequence); raptor's
  \<open>raptor_sequence_push\<close> may fail (\<open>A_sequence\<close>), in which case the item is
  not added, and \<open>raptor_sequence_get_at\<close> returns NULL outside the
  sequence.  The handler gets one allocation environment for the URI push
  and one for the prefix copy and its push.
\<close>

section \<open>State\<close>

record raptor_namespace =
  ns_uri :: "uri option"
  ns_prefix :: "bytes option"
  ns_prefix_length :: nat

record pcontext_seen =
  nspace_prefixes :: "bytes option list option"
  nspace_uris :: "uri list option"
  errors :: int
  warnings :: int
  aborted :: bool

section \<open>Raptor sequences\<close>

text \<open>Pushing onto a NULL sequence fails (raptor's pointer assertion).\<close>

definition raptor_sequence_push :: "alloc_env \<Rightarrow> 'a \<Rightarrow> 'a list option \<Rightarrow> 'a list option" where
  "raptor_sequence_push e x seq =
     (case seq of None \<Rightarrow> None | Some xs \<Rightarrow> if fails e A_sequence then Some xs else Some (xs @ [x]))"

definition raptor_sequence_get_at :: "'a list \<Rightarrow> int \<Rightarrow> 'a option" where
  "raptor_sequence_get_at xs i = (if i < 0 \<or> int (length xs) \<le> i then None else Some (xs ! nat i))"

text \<open>\<open>raptor_sequence_size\<close>: -1 for a NULL sequence (raptor's pointer assertion).\<close>

definition raptor_sequence_size :: "'a list option \<Rightarrow> int" where
  "raptor_sequence_size seq = (case seq of None \<Rightarrow> -1 | Some xs \<Rightarrow> int (length xs))"

section \<open>The handlers\<close>

text \<open>
  The loop over \<open>nspace_uris\<close> looking for the URI, from index \<open>i\<close> on
  (\<open>librdf_uri_equals\<close> compares the URI strings).
\<close>

function uri_seen_from :: "uri \<Rightarrow> uri list option \<Rightarrow> int \<Rightarrow> bool" where
  "uri_seen_from u seq i =
     (if i < raptor_sequence_size seq then
        (case seq of
           Some us \<Rightarrow> us ! nat i = u \<or> uri_seen_from u seq (i + 1)
         | None \<Rightarrow> False)
      else False)"
  by pat_completeness auto
termination
  by (relation "measure (\<lambda>(_, seq, i). nat (raptor_sequence_size seq - i))") auto

declare uri_seen_from.simps [simp del]

text \<open>
  A namespace without a URI is ignored, and so is one whose URI was seen
  before; otherwise the URI is pushed, then a copy of the prefix (NULL when
  there is none or its allocation fails).  The results of both pushes are
  not checked.
\<close>

definition librdf_parser_raptor_namespace_handler ::
  "alloc_env \<Rightarrow> alloc_env \<Rightarrow> raptor_namespace \<Rightarrow> pcontext_seen \<Rightarrow> pcontext_seen" where
  "librdf_parser_raptor_namespace_handler e1 e2 nspace pc =
     (case ns_uri nspace of
        None \<Rightarrow> pc
      | Some u \<Rightarrow>
          if uri_seen_from u (nspace_uris pc) 0 then pc
          else
            (let pc1 = pc\<lparr>nspace_uris := raptor_sequence_push e1 u (nspace_uris pc)\<rparr>;
                 nprefix = (case ns_prefix nspace of
                              None \<Rightarrow> None
                            | Some p \<Rightarrow>
                                if fails e2 A_value then None
                                else Some (strncpy p (ns_prefix_length nspace + 1)))
             in pc1\<lparr>nspace_prefixes := raptor_sequence_push e2 nprefix (nspace_prefixes pc1)\<rparr>))"

text \<open>The raptor 1 error handler counts the error and aborts the parse; the warning handler counts.\<close>

definition librdf_parser_raptor_error_handler :: "pcontext_seen \<Rightarrow> pcontext_seen" where
  "librdf_parser_raptor_error_handler pc = pc\<lparr>errors := errors pc + 1, aborted := True\<rparr>"

definition librdf_parser_raptor_warning_handler :: "pcontext_seen \<Rightarrow> pcontext_seen" where
  "librdf_parser_raptor_warning_handler pc = pc\<lparr>warnings := warnings pc + 1\<rparr>"

text \<open>
  The set-up of a parse into a stream: the counts are reset and both
  sequences are made anew (each allocation may fail: \<open>None\<close>, the
  \<open>oom\<close> path).
\<close>

definition reset_seen :: "alloc_env \<Rightarrow> alloc_env \<Rightarrow> pcontext_seen \<Rightarrow> pcontext_seen option" where
  "reset_seen e1 e2 pc =
     (if fails e1 A_sequence \<or> fails e2 A_sequence then None
      else Some (pc\<lparr>errors := 0, warnings := 0, nspace_prefixes := Some [], nspace_uris := Some []\<rparr>))"

section \<open>Queries\<close>

text \<open>The guards let \<open>offset\<close> equal to the size through; \<open>raptor_sequence_get_at\<close> returns NULL there.\<close>

definition librdf_parser_raptor_get_namespaces_seen_prefix :: "pcontext_seen \<Rightarrow> int \<Rightarrow> bytes option" where
  "librdf_parser_raptor_get_namespaces_seen_prefix pc offset =
     (case nspace_prefixes pc of
        None \<Rightarrow> None
      | Some ps \<Rightarrow>
          if offset < 0 \<or> offset > raptor_sequence_size (Some ps) then None
          else (case raptor_sequence_get_at ps offset of None \<Rightarrow> None | Some p \<Rightarrow> p))"

definition librdf_parser_raptor_get_namespaces_seen_uri :: "pcontext_seen \<Rightarrow> int \<Rightarrow> uri option" where
  "librdf_parser_raptor_get_namespaces_seen_uri pc offset =
     (case nspace_uris pc of
        None \<Rightarrow> None
      | Some us \<Rightarrow>
          if offset < 0 \<or> offset > raptor_sequence_size (Some us) then None
          else raptor_sequence_get_at us offset)"

definition librdf_parser_raptor_get_namespaces_seen_count :: "pcontext_seen \<Rightarrow> int" where
  "librdf_parser_raptor_get_namespaces_seen_count pc =
     (case nspace_uris pc of None \<Rightarrow> 0 | Some us \<Rightarrow> raptor_sequence_size (Some us))"

text \<open>A document's namespace declarations, each with the environments of its handler call.\<close>

definition see_namespaces ::
  "(alloc_env \<times> alloc_env \<times> raptor_namespace) list \<Rightarrow> pcontext_seen \<Rightarrow> pcontext_seen" where
  "see_namespaces evs pc =
     fold (\<lambda>(e1, e2, n). librdf_parser_raptor_namespace_handler e1 e2 n) evs pc"

section \<open>The table the sequences implement\<close>

text \<open>
  The abstract state: the namespaces seen, each URI once, in the order
  first seen, with the prefix copy recorded for it.  Adding a namespace
  whose URI is in the table changes nothing.
\<close>

type_synonym ns_table = "(uri \<times> bytes option) list"

definition ns_table_add :: "uri \<times> bytes option \<Rightarrow> ns_table \<Rightarrow> ns_table" where
  "ns_table_add x t = (if fst x \<in> fst ` set t then t else t @ [x])"

definition prefix_copy :: "alloc_env \<Rightarrow> raptor_namespace \<Rightarrow> bytes option" where
  "prefix_copy e nspace =
     (case ns_prefix nspace of
        None \<Rightarrow> None
      | Some p \<Rightarrow> if fails e A_value then None else Some (strncpy p (ns_prefix_length nspace + 1)))"

definition seen_table :: "pcontext_seen \<Rightarrow> ns_table option" where
  "seen_table pc =
     (case (nspace_uris pc, nspace_prefixes pc) of
        (Some us, Some ps) \<Rightarrow> Some (zip us ps)
      | _ \<Rightarrow> None)"

text \<open>The table a document's declarations give.\<close>

definition ns_table_of :: "(alloc_env \<times> alloc_env \<times> raptor_namespace) list \<Rightarrow> ns_table \<Rightarrow> ns_table" where
  "ns_table_of evs t =
     fold (\<lambda>(e1, e2, n) t. case ns_uri n of None \<Rightarrow> t | Some u \<Rightarrow> ns_table_add (u, prefix_copy e2 n) t)
       evs t"

text \<open>The two sequences are in step: each URI once, one prefix per URI.\<close>

definition seen_ok :: "pcontext_seen \<Rightarrow> bool" where
  "seen_ok pc \<longleftrightarrow>
     (case (nspace_uris pc, nspace_prefixes pc) of
        (Some us, Some ps) \<Rightarrow> distinct us \<and> length ps = length us
      | _ \<Rightarrow> False)"

section \<open>Lemmas\<close>

lemma uri_seen_from_set:
  "0 \<le> i \<Longrightarrow> uri_seen_from u (Some us) i \<longleftrightarrow> u \<in> set (drop (nat i) us)"
proof (induction "length us - nat i" arbitrary: i)
  case 0
  then have "\<not> i < int (length us)" by linarith
  with 0 show ?case by (subst uri_seen_from.simps) (simp add: raptor_sequence_size_def)
next
  case (Suc n)
  then have lt: "i < int (length us)" by linarith
  then have "drop (nat i) us = us ! nat i # drop (nat (i + 1)) us"
    using Suc.prems by (simp add: Cons_nth_drop_Suc nat_add_distrib)
  moreover have "uri_seen_from u (Some us) (i + 1) \<longleftrightarrow> u \<in> set (drop (nat (i + 1)) us)"
    using Suc.hyps(1)[of "i + 1"] Suc.hyps(2) Suc.prems by (simp add: nat_add_distrib)
  ultimately show ?case
    using lt by (subst uri_seen_from.simps) (auto simp: raptor_sequence_size_def)
qed

lemma uri_seen_from_None: "uri_seen_from u None i = False"
  by (subst uri_seen_from.simps) (simp add: raptor_sequence_size_def)

lemma seen_okE:
  assumes "seen_ok pc"
  obtains us ps where "nspace_uris pc = Some us" "nspace_prefixes pc = Some ps" "distinct us"
    "length ps = length us"
  using assms by (auto simp: seen_ok_def split: option.splits)

lemma handler_prefix: "librdf_parser_raptor_namespace_handler e1 e2 nspace pc =
     (case ns_uri nspace of
        None \<Rightarrow> pc
      | Some u \<Rightarrow>
          if uri_seen_from u (nspace_uris pc) 0 then pc
          else pc\<lparr>nspace_uris := raptor_sequence_push e1 u (nspace_uris pc),
                  nspace_prefixes := raptor_sequence_push e2 (prefix_copy e2 nspace) (nspace_prefixes pc)\<rparr>)"
  by (simp add: librdf_parser_raptor_namespace_handler_def prefix_copy_def Let_def
      split: option.split)

lemma handler_refines:
  assumes ok: "seen_ok pc" and e: "\<not> fails e1 A_sequence" "\<not> fails e2 A_sequence"
  shows "seen_ok (librdf_parser_raptor_namespace_handler e1 e2 nspace pc) \<and>
         seen_table (librdf_parser_raptor_namespace_handler e1 e2 nspace pc) =
           map_option (case ns_uri nspace of
                         None \<Rightarrow> id
                       | Some u \<Rightarrow> ns_table_add (u, prefix_copy e2 nspace)) (seen_table pc)"
proof -
  obtain us ps where pc: "nspace_uris pc = Some us" "nspace_prefixes pc = Some ps" "distinct us"
      "length ps = length us"
    using ok by (rule seen_okE)
  have fz: "fst ` set (zip us ps) = set us"
    using pc(4) by (metis map_fst_zip set_map)
  show ?thesis
    using pc e fz
    by (auto simp: handler_prefix seen_ok_def seen_table_def ns_table_add_def raptor_sequence_push_def
        uri_seen_from_set split: option.split)
qed

lemma see_namespaces_refines:
  assumes "seen_ok pc" "\<forall>(e1, e2, n) \<in> set evs. \<not> fails e1 A_sequence \<and> \<not> fails e2 A_sequence"
  shows "seen_ok (see_namespaces evs pc) \<and>
         seen_table (see_namespaces evs pc) = map_option (ns_table_of evs) (seen_table pc)"
  using assms
proof (induction evs arbitrary: pc)
  case Nil
  then show ?case by (simp add: see_namespaces_def ns_table_of_def option.map_ident)
next
  case (Cons ev evs)
  obtain e1 e2 n where ev: "ev = (e1, e2, n)" by (cases ev)
  with Cons.prems have e: "\<not> fails e1 A_sequence" "\<not> fails e2 A_sequence" by auto
  note h = handler_refines[OF Cons.prems(1) e, of n]
  have "seen_ok (see_namespaces evs (librdf_parser_raptor_namespace_handler e1 e2 n pc)) \<and>
        seen_table (see_namespaces evs (librdf_parser_raptor_namespace_handler e1 e2 n pc)) =
          map_option (ns_table_of evs) (seen_table (librdf_parser_raptor_namespace_handler e1 e2 n pc))"
    using Cons.IH[OF conjunct1[OF h]] Cons.prems(2) by simp
  with h ev show ?case
    by (cases "seen_table pc") (auto simp: see_namespaces_def ns_table_of_def split: option.splits)
qed

lemma reset_seen_ok:
  "reset_seen e1 e2 pc0 = Some pc \<Longrightarrow> seen_ok pc \<and> seen_table pc = Some []"
  by (auto simp: reset_seen_def seen_ok_def seen_table_def split: if_splits)

text \<open>
  C32.  The namespace handler implements the table of namespaces seen:
  after the set-up of a parse and any sequence of namespace declarations
  whose sequence pushes succeed, the URI and prefix sequences stay in step
  (each URI once, one prefix per URI) and together hold exactly the
  namespaces declared, each URI with the prefix it was first declared
  with, in the order first declared.
\<close>

theorem namespaces_seen_refines:
  assumes "reset_seen e1 e2 pc0 = Some pc"
    and "\<forall>(e1, e2, n) \<in> set evs. \<not> fails e1 A_sequence \<and> \<not> fails e2 A_sequence"
  shows "seen_ok (see_namespaces evs pc) \<and> seen_table (see_namespaces evs pc) = Some (ns_table_of evs [])"
  using see_namespaces_refines[OF conjunct1[OF reset_seen_ok[OF assms(1)]] assms(2)]
    reset_seen_ok[OF assms(1)] by simp

text \<open>
  C33.  The namespace queries read the table: while the sequences are in
  step, \<open>get_namespaces_seen_count\<close> is the number of namespaces seen,
  and \<open>get_namespaces_seen_uri\<close> and \<open>get_namespaces_seen_prefix\<close> at an
  offset give the URI and prefix of that entry, NULL outside
  \<open>0 .. count - 1\<close>.  At \<open>offset = count\<close> their guards
  (\<open>offset > size\<close>) let the call through and only the bound check of
  \<open>raptor_sequence_get_at\<close> gives NULL.
\<close>

theorem namespaces_seen_queries:
  assumes "seen_ok pc" "seen_table pc = Some t"
  shows "librdf_parser_raptor_get_namespaces_seen_count pc = int (length t) \<and>
         librdf_parser_raptor_get_namespaces_seen_uri pc i =
           (if 0 \<le> i \<and> i < int (length t) then Some (fst (t ! nat i)) else None) \<and>
         librdf_parser_raptor_get_namespaces_seen_prefix pc i =
           (if 0 \<le> i \<and> i < int (length t) then snd (t ! nat i) else None)"
proof -
  obtain us ps where pc: "nspace_uris pc = Some us" "nspace_prefixes pc = Some ps"
      "length ps = length us"
    using assms(1) by (rule seen_okE)
  with assms(2) have t: "t = zip us ps" by (simp add: seen_table_def)
  show ?thesis
    using pc t
    by (auto simp: librdf_parser_raptor_get_namespaces_seen_count_def raptor_sequence_size_def
        librdf_parser_raptor_get_namespaces_seen_uri_def raptor_sequence_get_at_def
        librdf_parser_raptor_get_namespaces_seen_prefix_def)
qed

text \<open>
  C34.  The handler ignores the results of its two pushes.  When the
  prefix push of a new namespace fails after its URI push succeeded, the
  sequences fall out of step: the next namespace's prefix is stored at
  the offset of the earlier URI, so the queries pair that URI with the
  later prefix, and the later URI with no prefix at all.
\<close>

theorem namespace_push_failure_misaligns:
  assumes ok: "seen_ok pc" "nspace_uris pc = Some us"
    and n1: "ns_uri n1 = Some u1" "u1 \<notin> set us" "\<not> fails e1 A_sequence" "fails e2 A_sequence"
    and n2: "ns_uri n2 = Some u2" "u2 \<notin> set us" "u2 \<noteq> u1" "\<not> fails e1' A_sequence"
      "\<not> fails e2' A_sequence"
  shows "librdf_parser_raptor_get_namespaces_seen_uri
           (see_namespaces [(e1, e2, n1), (e1', e2', n2)] pc) (int (length us)) = Some u1 \<and>
         librdf_parser_raptor_get_namespaces_seen_prefix
           (see_namespaces [(e1, e2, n1), (e1', e2', n2)] pc) (int (length us)) = prefix_copy e2' n2 \<and>
         librdf_parser_raptor_get_namespaces_seen_uri
           (see_namespaces [(e1, e2, n1), (e1', e2', n2)] pc) (int (length us) + 1) = Some u2 \<and>
         librdf_parser_raptor_get_namespaces_seen_prefix
           (see_namespaces [(e1, e2, n1), (e1', e2', n2)] pc) (int (length us) + 1) = None"
proof -
  obtain ps where ps: "nspace_prefixes pc = Some ps" "length ps = length us"
    using ok by (auto elim: seen_okE)
  have "u2 \<notin> set (us @ [u1])" using n2 by simp
  moreover have "nat (int (length us) + 1) = Suc (length us)" by simp
  ultimately show ?thesis using ok(2) ps n1 n2
    by (simp add: see_namespaces_def handler_prefix uri_seen_from_set raptor_sequence_push_def
        librdf_parser_raptor_get_namespaces_seen_uri_def librdf_parser_raptor_get_namespaces_seen_prefix_def
        raptor_sequence_size_def raptor_sequence_get_at_def nth_append)
qed

lemma ns_fixture:
  "reset_seen (no_faults (\<lambda>_. 0)) (no_faults (\<lambda>_. 0)) \<lparr>nspace_prefixes = None, nspace_uris = None, errors = 3, warnings = 1, aborted = False\<rparr> =
     Some (\<lparr>nspace_prefixes = None, nspace_uris = None, errors = 3, warnings = 1, aborted = False\<rparr>\<lparr>errors := 0, warnings := 0, nspace_prefixes := Some [], nspace_uris := Some []\<rparr>)"
  "ns_table_of [(no_faults (\<lambda>_. 0), no_faults (\<lambda>_. 0), \<lparr>ns_uri = Some (bstr ''http://www.w3.org/1999/02/22-rdf-syntax-ns#''), ns_prefix = Some (bstr ''rdf''), ns_prefix_length = 3\<rparr>),
                (no_faults (\<lambda>_. 0), no_faults (\<lambda>_. 0), \<lparr>ns_uri = Some (bstr ''http://purl.org/dc/elements/1.1/''), ns_prefix = Some (bstr ''dc''), ns_prefix_length = 2\<rparr>),
                (no_faults (\<lambda>_. 0), no_faults (\<lambda>_. 0), \<lparr>ns_uri = Some (bstr ''http://www.w3.org/1999/02/22-rdf-syntax-ns#''), ns_prefix = Some (bstr ''r''), ns_prefix_length = 1\<rparr>)] [] =
     [(bstr ''http://www.w3.org/1999/02/22-rdf-syntax-ns#'', Some (bstr ''rdf'' @ [0])),
      (bstr ''http://purl.org/dc/elements/1.1/'', Some (bstr ''dc'' @ [0]))]"
  by (simp_all add: reset_seen_def no_faults_def ns_table_of_def ns_table_add_def prefix_copy_def
      strncpy_def bstr_def cstr_def)

text \<open>
  A document declaring \<open>rdf\<close>, \<open>dc\<close> and the RDF namespace again under
  the prefix \<open>r\<close>: the table keeps \<open>rdf\<close> and \<open>dc\<close>.
\<close>

theorem namespaces_seen_refines_witness:
  "seen_ok (see_namespaces [(no_faults (\<lambda>_. 0), no_faults (\<lambda>_. 0), \<lparr>ns_uri = Some (bstr ''http://www.w3.org/1999/02/22-rdf-syntax-ns#''), ns_prefix = Some (bstr ''rdf''), ns_prefix_length = 3\<rparr>),
                (no_faults (\<lambda>_. 0), no_faults (\<lambda>_. 0), \<lparr>ns_uri = Some (bstr ''http://purl.org/dc/elements/1.1/''), ns_prefix = Some (bstr ''dc''), ns_prefix_length = 2\<rparr>),
                (no_faults (\<lambda>_. 0), no_faults (\<lambda>_. 0), \<lparr>ns_uri = Some (bstr ''http://www.w3.org/1999/02/22-rdf-syntax-ns#''), ns_prefix = Some (bstr ''r''), ns_prefix_length = 1\<rparr>)]
       (\<lparr>nspace_prefixes = None, nspace_uris = None, errors = 3, warnings = 1, aborted = False\<rparr>\<lparr>errors := 0, warnings := 0, nspace_prefixes := Some [], nspace_uris := Some []\<rparr>)) \<and>
   seen_table (see_namespaces [(no_faults (\<lambda>_. 0), no_faults (\<lambda>_. 0), \<lparr>ns_uri = Some (bstr ''http://www.w3.org/1999/02/22-rdf-syntax-ns#''), ns_prefix = Some (bstr ''rdf''), ns_prefix_length = 3\<rparr>),
                (no_faults (\<lambda>_. 0), no_faults (\<lambda>_. 0), \<lparr>ns_uri = Some (bstr ''http://purl.org/dc/elements/1.1/''), ns_prefix = Some (bstr ''dc''), ns_prefix_length = 2\<rparr>),
                (no_faults (\<lambda>_. 0), no_faults (\<lambda>_. 0), \<lparr>ns_uri = Some (bstr ''http://www.w3.org/1999/02/22-rdf-syntax-ns#''), ns_prefix = Some (bstr ''r''), ns_prefix_length = 1\<rparr>)]
       (\<lparr>nspace_prefixes = None, nspace_uris = None, errors = 3, warnings = 1, aborted = False\<rparr>\<lparr>errors := 0, warnings := 0, nspace_prefixes := Some [], nspace_uris := Some []\<rparr>)) =
   Some [(bstr ''http://www.w3.org/1999/02/22-rdf-syntax-ns#'', Some (bstr ''rdf'' @ [0])),
      (bstr ''http://purl.org/dc/elements/1.1/'', Some (bstr ''dc'' @ [0]))]"
  using namespaces_seen_refines[OF ns_fixture(1)] ns_fixture(2) by (simp add: no_faults_def)

text \<open>The same document: offset 1 is \<open>dc\<close>, offset 2 is past the end.\<close>

theorem namespaces_seen_queries_witness:
  "librdf_parser_raptor_get_namespaces_seen_count
     (\<lparr>nspace_prefixes = None, nspace_uris = None, errors = 3, warnings = 1, aborted = False\<rparr>\<lparr>nspace_prefixes := Some [Some (bstr ''rdf'' @ [0]), Some (bstr ''dc'' @ [0])],
        nspace_uris := Some [bstr ''http://www.w3.org/1999/02/22-rdf-syntax-ns#'',
                             bstr ''http://purl.org/dc/elements/1.1/'']\<rparr>) = 2 \<and>
   librdf_parser_raptor_get_namespaces_seen_prefix
     (\<lparr>nspace_prefixes = None, nspace_uris = None, errors = 3, warnings = 1, aborted = False\<rparr>\<lparr>nspace_prefixes := Some [Some (bstr ''rdf'' @ [0]), Some (bstr ''dc'' @ [0])],
        nspace_uris := Some [bstr ''http://www.w3.org/1999/02/22-rdf-syntax-ns#'',
                             bstr ''http://purl.org/dc/elements/1.1/'']\<rparr>) 1 = Some (bstr ''dc'' @ [0]) \<and>
   librdf_parser_raptor_get_namespaces_seen_uri
     (\<lparr>nspace_prefixes = None, nspace_uris = None, errors = 3, warnings = 1, aborted = False\<rparr>\<lparr>nspace_prefixes := Some [Some (bstr ''rdf'' @ [0]), Some (bstr ''dc'' @ [0])],
        nspace_uris := Some [bstr ''http://www.w3.org/1999/02/22-rdf-syntax-ns#'',
                             bstr ''http://purl.org/dc/elements/1.1/'']\<rparr>) 2 = None"
proof -
  let ?pc = "\<lparr>nspace_prefixes = None, nspace_uris = None, errors = 3, warnings = 1, aborted = False\<rparr>\<lparr>nspace_prefixes := Some [Some (bstr ''rdf'' @ [0]), Some (bstr ''dc'' @ [0])],
        nspace_uris := Some [bstr ''http://www.w3.org/1999/02/22-rdf-syntax-ns#'',
                             bstr ''http://purl.org/dc/elements/1.1/'']\<rparr>"
  have ok: "seen_ok ?pc" by (simp add: seen_ok_def bstr_def)
  have t: "seen_table ?pc = Some [(bstr ''http://www.w3.org/1999/02/22-rdf-syntax-ns#'', Some (bstr ''rdf'' @ [0])),
      (bstr ''http://purl.org/dc/elements/1.1/'', Some (bstr ''dc'' @ [0]))]"
    by (simp add: seen_table_def)
  show ?thesis
    using namespaces_seen_queries[OF ok t, of 1] namespaces_seen_queries[OF ok t, of 2] by simp
qed

text \<open>
  The RDF namespace whose prefix push fails, then Dublin Core: offset 0
  pairs the RDF namespace URI with the prefix \<open>dc\<close>.
\<close>

theorem namespace_push_failure_misaligns_witness:
  "librdf_parser_raptor_get_namespaces_seen_uri
     (see_namespaces [(no_faults (\<lambda>_. 0), \<lparr>fails = (\<lambda>s. s = A_sequence), junk = \<lambda>_. 0\<rparr>,
          \<lparr>ns_uri = Some (bstr ''http://www.w3.org/1999/02/22-rdf-syntax-ns#''), ns_prefix = Some (bstr ''rdf''), ns_prefix_length = 3\<rparr>),
        (no_faults (\<lambda>_. 0), no_faults (\<lambda>_. 0),
          \<lparr>ns_uri = Some (bstr ''http://purl.org/dc/elements/1.1/''), ns_prefix = Some (bstr ''dc''), ns_prefix_length = 2\<rparr>)]
       \<lparr>nspace_prefixes = Some [], nspace_uris = Some [], errors = 0, warnings = 0, aborted = False\<rparr>) 0
     = Some (bstr ''http://www.w3.org/1999/02/22-rdf-syntax-ns#'') \<and>
   librdf_parser_raptor_get_namespaces_seen_prefix
     (see_namespaces [(no_faults (\<lambda>_. 0), \<lparr>fails = (\<lambda>s. s = A_sequence), junk = \<lambda>_. 0\<rparr>,
          \<lparr>ns_uri = Some (bstr ''http://www.w3.org/1999/02/22-rdf-syntax-ns#''), ns_prefix = Some (bstr ''rdf''), ns_prefix_length = 3\<rparr>),
        (no_faults (\<lambda>_. 0), no_faults (\<lambda>_. 0),
          \<lparr>ns_uri = Some (bstr ''http://purl.org/dc/elements/1.1/''), ns_prefix = Some (bstr ''dc''), ns_prefix_length = 2\<rparr>)]
       \<lparr>nspace_prefixes = Some [], nspace_uris = Some [], errors = 0, warnings = 0, aborted = False\<rparr>) 0
     = Some (bstr ''dc'' @ [0])"
proof -
  have "bstr ''http://purl.org/dc/elements/1.1/'' \<noteq> bstr ''http://www.w3.org/1999/02/22-rdf-syntax-ns#''"
    by (simp add: bstr_def)
  moreover have "strncpy (bstr ''dc'') 3 = bstr ''dc'' @ [0]"
    by (simp add: strncpy_def bstr_def cstr_def)
  ultimately show ?thesis
    using namespace_push_failure_misaligns[of "\<lparr>nspace_prefixes = Some [], nspace_uris = Some [], errors = 0,
        warnings = 0, aborted = False\<rparr>" "[]"
        "\<lparr>ns_uri = Some (bstr ''http://www.w3.org/1999/02/22-rdf-syntax-ns#''), ns_prefix = Some (bstr ''rdf''), ns_prefix_length = 3\<rparr>"
        "bstr ''http://www.w3.org/1999/02/22-rdf-syntax-ns#''" "no_faults (\<lambda>_. 0)"
        "\<lparr>fails = (\<lambda>s. s = A_sequence), junk = \<lambda>_. 0\<rparr>"
        "\<lparr>ns_uri = Some (bstr ''http://purl.org/dc/elements/1.1/''), ns_prefix = Some (bstr ''dc''), ns_prefix_length = 2\<rparr>"
        "bstr ''http://purl.org/dc/elements/1.1/''" "no_faults (\<lambda>_. 0)" "no_faults (\<lambda>_. 0)"]
    by (simp add: seen_ok_def no_faults_def prefix_copy_def)
qed

end
