(* ===== verification/SelfTest.thy ===== *)
theory SelfTest
  imports Decode NodeOutput
begin

text \<open>
  The self-test program of \<open>src/src/rdf_node.c\<close> (\<open>main\<close> under
  \<open>STANDALONE\<close>, lines 1824--2102).  It builds a resource, literals and
  blank nodes in a fresh world, checks the encoder against byte strings
  fixed in the source, decodes two encodings back, checks that a literal
  with both a language and a datatype (or an XML literal with a language)
  is refused, and frees every node.  Its messages to \<open>stdout\<close> and
  \<open>stderr\<close> are not modelled; an early \<open>return(1)\<close> is \<open>Inl 1\<close>.  One
  allocation environment serves every call; the program's own
  \<open>LIBRDF_MALLOC\<close> buffers use the site \<open>A_value\<close> and are written without
  a NULL check.  \<open>latin1\<close> is the external UTF-8 to Latin-1 converter.
\<close>

section \<open>The fixtures\<close>

definition hp_string1 :: bytes where
  "hp_string1 = bstr ''http://purl.org/net/dajobe/''"

definition lit_string_test :: bytes where
  "lit_string_test = bstr ''Dave Beckett''"

definition genid_string :: bytes where
  "genid_string = bstr ''genid42''"

definition datatype_lit_string :: bytes where
  "datatype_lit_string = bstr ''Datatyped literal value''"

definition datatype_uri_string :: bytes where
  "datatype_uri_string = bstr ''http://example.org/datatypeURI''"

definition hp_uri_encoded :: bytes where
  "hp_uri_encoded = [0x52, 0x00, 0x1b, 0x68, 0x74, 0x74, 0x70, 0x3a, 0x2f, 0x2f, 0x70, 0x75, 0x72,
     0x6c, 0x2e, 0x6f, 0x72, 0x67, 0x2f, 0x6e, 0x65, 0x74, 0x2f, 0x64, 0x61, 0x6a, 0x6f, 0x62, 0x65,
     0x2f, 0x00]"

definition datatyped_literal_M_encoded :: bytes where
  "datatyped_literal_M_encoded = [0x4d, 0x00, 0x17, 0x00, 0x1e, 0x00, 0x44, 0x61, 0x74, 0x61, 0x74,
     0x79, 0x70, 0x65, 0x64, 0x20, 0x6c, 0x69, 0x74, 0x65, 0x72, 0x61, 0x6c, 0x20, 0x76, 0x61, 0x6c,
     0x75, 0x65, 0x00, 0x68, 0x74, 0x74, 0x70, 0x3a, 0x2f, 0x2f, 0x65, 0x78, 0x61, 0x6d, 0x70, 0x6c,
     0x65, 0x2e, 0x6f, 0x72, 0x67, 0x2f, 0x64, 0x61, 0x74, 0x61, 0x74, 0x79, 0x70, 0x65, 0x55, 0x52,
     0x49, 0x00]"

definition big_literal_N_encoded :: bytes where
  "big_literal_N_encoded = [0x4e, 0x00, 0x01, 0x86, 0xa0, 0x00, 0x00, 0x00] @ replicate 24 0x58"

section \<open>Helpers of the program\<close>

text \<open>\<open>check_node\<close>: the first byte from \<open>i\<close> on that differs from the expected one fails the test.\<close>

function check_node_from :: "bytes \<Rightarrow> bytes \<Rightarrow> nat \<Rightarrow> nat \<Rightarrow> int" where
  "check_node_from expected buffer len i =
     (if i < len then
        (if byte_at buffer i \<noteq> byte_at expected i then 1
         else check_node_from expected buffer len (Suc i))
      else 0)"
  by pat_completeness auto
termination
  by (relation "measure (\<lambda>(_, _, len, i). len - i)") auto

declare check_node_from.simps [simp del]

definition check_node :: "bytes \<Rightarrow> bytes \<Rightarrow> nat \<Rightarrow> int" where
  "check_node expected buffer len = check_node_from expected buffer len 0"

text \<open>The node a handle names; a dead handle is a use after free.\<close>

definition deref :: "librdf_world \<Rightarrow> ptr \<Rightarrow> librdf_node option" where
  "deref w p = nodes w p"

text \<open>
  The encode-and-check block used three times: size query, a
  \<open>LIBRDF_MALLOC\<close>ed buffer, the fill, the size comparison and the byte
  check of the first \<open>n\<close> bytes (\<open>None\<close>: all of them).  The filled buffer
  is returned for decoding.  A NULL node makes both encoder calls return 0
  (its pointer assertion); a NULL buffer makes the fill a size query and
  the check then reads through NULL.
\<close>

definition encode_and_check ::
  "alloc_env \<Rightarrow> librdf_node option \<Rightarrow> bytes \<Rightarrow> nat option \<Rightarrow> (int + bytes \<times> nat, unit) outcome" where
  "encode_and_check e n expected n_check =
     (let enc = (\<lambda>b l. case n of None \<Rightarrow> (0, b) | Some m \<Rightarrow> librdf_node_encode (node_data m) b l);
          len = fst (enc None 0);
          nc = (case n_check of None \<Rightarrow> len | Some k \<Rightarrow> k)
      in
      if fails e A_value then (if nc = 0 \<and> len = 0 then Ret (Inr ([], len)) () else Undef)
      else
        (case enc (Some (malloc_bytes e len)) len of
           (len2, Some buffer) \<Rightarrow>
             if len2 \<noteq> len then Ret (Inl 1) ()
             else if check_node expected buffer nc \<noteq> 0 then Ret (Inl 1) ()
             else Ret (Inr (buffer, len)) ()
         | (_, None) \<Rightarrow> Undef))"

text \<open>Sequencing of the program's blocks: an early return skips the rest.\<close>

definition then_test ::
  "(int + 'a, 's) outcome \<Rightarrow> ('a \<Rightarrow> 's \<Rightarrow> (int + 'b, 's) outcome) \<Rightarrow> (int + 'b, 's) outcome" where
  "then_test m f = obind m (\<lambda>r s. case r of Inl rc \<Rightarrow> Ret (Inl rc) s | Inr a \<Rightarrow> f a s)"

definition on_unit :: "(int + 'a, unit) outcome \<Rightarrow> 's \<Rightarrow> (int + 'a, 's) outcome" where
  "on_unit m s = (case m of Ret r _ \<Rightarrow> Ret r s | Blocked \<Rightarrow> Blocked | Undef \<Rightarrow> Undef)"

text \<open>A constructor whose NULL result ends the test with 1.\<close>

definition need_node :: "(ptr option, librdf_world) outcome \<Rightarrow> (int + ptr, librdf_world) outcome" where
  "need_node m = obind m (\<lambda>r w. case r of None \<Rightarrow> Ret (Inl 1) w | Some p \<Rightarrow> Ret (Inr p) w)"

text \<open>
  \<open>librdf_node_decode(world, NULL, buffer, size)\<close>: the node, the size
  pointer being NULL.
\<close>

definition decode_node :: "alloc_env \<Rightarrow> bytes \<Rightarrow> nat \<Rightarrow> librdf_world \<Rightarrow> (ptr option, librdf_world) outcome" where
  "decode_node e buffer len w = obind (librdf_node_decode e buffer len w) (\<lambda>r w'. Ret (fst r) w')"

text \<open>Reading a blank identifier for printing: NULL ends the test.\<close>

definition need_blank_id :: "ptr \<Rightarrow> librdf_world \<Rightarrow> (int + unit, librdf_world) outcome" where
  "need_blank_id p w =
     (case deref w p of
        None \<Rightarrow> Undef
      | Some n \<Rightarrow> (case librdf_node_get_blank_identifier n of None \<Rightarrow> Ret (Inl 1) w | Some _ \<Rightarrow> Ret (Inr ()) w))"

text \<open>A constructor call that must fail; a node from it ends the test with 1.\<close>

definition must_fail :: "(ptr option, librdf_world) outcome \<Rightarrow> (int + unit, librdf_world) outcome" where
  "must_fail m = obind m (\<lambda>r w. case r of None \<Rightarrow> Ret (Inr ()) w | Some _ \<Rightarrow> Ret (Inl 1) w)"

primrec free_nodes :: "ptr list \<Rightarrow> librdf_world \<Rightarrow> (unit, librdf_world) outcome" where
  "free_nodes [] w = Ret () w"
| "free_nodes (p # ps) w = obind (librdf_free_node (Some p) w) (\<lambda>_ w'. free_nodes ps w')"

section \<open>The program\<close>

text \<open>
  Lines 1898--1966: the home page resource, its encoding checked against
  \<open>hp_uri_encoded\<close> and decoded again, and the literal \<open>Dave Beckett\<close>
  with its Latin-1 value.
\<close>

definition node_test_resource ::
  "alloc_env \<Rightarrow> (bytes \<Rightarrow> nat \<Rightarrow> bytes option) \<Rightarrow> librdf_world
   \<Rightarrow> (int + ptr \<times> ptr \<times> ptr, librdf_world) outcome" where
  "node_test_resource e latin1 w0 =
     then_test (need_node (librdf_new_node_from_uri_string e hp_string1 w0)) (\<lambda>node w1.
       then_test (on_unit (encode_and_check e (deref w1 node) hp_uri_encoded None) w1) (\<lambda>(buffer, len) w2.
         then_test (need_node (decode_node e buffer len w2)) (\<lambda>node2 w3.
           then_test (need_node (librdf_new_node_from_literal e lit_string_test None False w3)) (\<lambda>node3 w4.
             (case deref w4 node3 of
                None \<Rightarrow> Undef
              | Some n3 \<Rightarrow>
                  (case librdf_node_get_literal_value_as_latin1 latin1 n3 of
                     None \<Rightarrow> Ret (Inl 1) w4
                   | Some _ \<Rightarrow> Ret (Inr (node, node2, node3)) w4))))))"

text \<open>
  Lines 1968--2050: the blank node \<open>genid42\<close>, a copy of it, a blank node
  with a generated identifier, the typed literal (not checked for NULL)
  encoded against \<open>datatyped_literal_M_encoded\<close> and decoded, and the two
  constructions that must be refused.  \<open>uri2\<close> is freed at line 2013 and
  passed again at line 2040; the constructor only compares it with NULL
  before refusing, so the model passes the same URI value.
\<close>

definition node_test_blank_typed ::
  "alloc_env \<Rightarrow> librdf_world \<Rightarrow> (int + ptr list, librdf_world) outcome" where
  "node_test_blank_typed e w0 =
     then_test (need_node (librdf_new_node_from_blank_identifier e (Some genid_string) w0)) (\<lambda>node4 w1.
       then_test (need_blank_id node4 w1) (\<lambda>_ w2.
         then_test (need_node (librdf_new_node_from_node (Some node4) w2)) (\<lambda>node5 w3.
           then_test (need_blank_id node5 w3) (\<lambda>_ w4.
             then_test (need_node (librdf_new_node e w4)) (\<lambda>node6 w5.
               then_test (need_blank_id node6 w5) (\<lambda>_ w6.
                 (let uri2 = librdf_new_uri e datatype_uri_string in
                  obind (librdf_new_node_from_typed_literal e datatype_lit_string None uri2 w6) (\<lambda>node7 w7.
                    then_test (on_unit (encode_and_check e (Option.bind node7 (deref w7))
                                 datatyped_literal_M_encoded None) w7) (\<lambda>(buffer, len) w8.
                      then_test (need_node (decode_node e buffer len w8)) (\<lambda>node8 w9.
                        then_test (must_fail (librdf_new_node_from_typed_literal e datatype_lit_string
                                     (Some (bstr ''en-GB'')) uri2 w9)) (\<lambda>_ w10.
                          then_test (must_fail (librdf_new_node_from_literal e (bstr ''XML literal value'')
                                       (Some (bstr ''en-GB'')) True w10)) (\<lambda>_ w11.
                            Ret (Inr ([node4, node5, node6] @ (case node7 of None \<Rightarrow> [] | Some p \<Rightarrow> [p])
                                      @ [node8])) w11))))))))))))"

text \<open>
  Lines 2052--2094: the literal of 100000 \<open>X\<close> bytes in a
  \<open>LIBRDF_MALLOC\<close>ed buffer of 100001 (the last byte never written),
  its encoding checked on its first 32 bytes against
  \<open>big_literal_N_encoded\<close>, then every node freed, the last made first.
\<close>

definition node_test_big_literal ::
  "alloc_env \<Rightarrow> ptr list \<Rightarrow> librdf_world \<Rightarrow> (int + unit, librdf_world) outcome" where
  "node_test_big_literal e made w0 =
     (if fails e A_value then Undef
      else
        (let big_literal = replicate 100000 0x58 @ [junk e 100000] in
         then_test (need_node (librdf_new_node_from_typed_counted_literal e big_literal 100000 None 0 None w0))
           (\<lambda>node9 w1.
              then_test (on_unit (encode_and_check e (deref w1 node9) big_literal_N_encoded (Some 32)) w1)
                (\<lambda>_ w2. obind (free_nodes (rev (made @ [node9])) w2) (\<lambda>_ w3. Ret (Inr ()) w3)))))"

text \<open>\<open>main\<close>: a new world, the three blocks, exit code 0 when none returned early.\<close>

definition node_test_main ::
  "alloc_env \<Rightarrow> (bytes \<Rightarrow> nat \<Rightarrow> bytes option) \<Rightarrow> (nat \<Rightarrow> bytes) \<Rightarrow> (int, librdf_world) outcome" where
  "node_test_main e latin1 g =
     obind (then_test (node_test_resource e latin1 (new_world g)) (\<lambda>(node, node2, node3) w1.
              then_test (node_test_blank_typed e w1) (\<lambda>made w2.
                node_test_big_literal e ([node, node2, node3] @ made) w2)))
       (\<lambda>r w. Ret (case r of Inl rc \<Rightarrow> rc | Inr () \<Rightarrow> 0) w)"

section \<open>The worlds of a passing run\<close>

text \<open>
  The worlds the program goes through when no allocation fails: after the
  home page resource (\<open>W1\<close>), the literal \<open>Dave Beckett\<close> (\<open>W3\<close>), the
  blank node \<open>genid42\<close> (\<open>W4\<close>), the generated blank node (\<open>W6\<close>), the
  typed literal (\<open>W7\<close>) and the big literal (\<open>W9\<close>).
\<close>

abbreviation W1 :: "(nat \<Rightarrow> bytes) \<Rightarrow> librdf_world" where
  "W1 g \<equiv> \<lparr>nodes = [1 \<mapsto> \<lparr>usage = 1, node_data = Resource hp_string1\<rparr>],
      hash_resource = [hp_string1 \<mapsto> 1], hash_literal = Map.empty, hash_blank = Map.empty,
      next_ptr = 2, nodes_mutex = False, genid_counter = 0, genid = g\<rparr>"

abbreviation LD :: literal_value where
  "LD \<equiv> literal_of lit_string_test 12 None 0 None"

abbreviation W3 :: "(nat \<Rightarrow> bytes) \<Rightarrow> librdf_world" where
  "W3 g \<equiv> (node_incr 1 (W1 g))\<lparr>nodes := (nodes (node_incr 1 (W1 g)))(2 \<mapsto>
       \<lparr>usage = 1, node_data = Literal (LD\<lparr>lit_key := Some (node_encoding (Literal LD)),
          lit_size := length (node_encoding (Literal LD))\<rparr>)\<rparr>),
       next_ptr := 3, hash_literal := [node_encoding (Literal LD) \<mapsto> 2]\<rparr>"

abbreviation W4 :: "(nat \<Rightarrow> bytes) \<Rightarrow> librdf_world" where
  "W4 g \<equiv> (W3 g)\<lparr>nodes := (nodes (W3 g))(3 \<mapsto> \<lparr>usage = 1, node_data = Blank genid_string\<rparr>),
       next_ptr := 4, hash_blank := [genid_string \<mapsto> 3]\<rparr>"

abbreviation W6 :: "(nat \<Rightarrow> bytes) \<Rightarrow> librdf_world" where
  "W6 g \<equiv> (node_incr 3 (W4 g))\<lparr>nodes := (nodes (node_incr 3 (W4 g)))(4 \<mapsto> \<lparr>usage = 1, node_data = Blank (cstr (g 0))\<rparr>),
       next_ptr := 5, genid_counter := 1, hash_blank := [genid_string \<mapsto> 3, cstr (g 0) \<mapsto> 4]\<rparr>"

abbreviation LT :: literal_value where
  "LT \<equiv> literal_of datatype_lit_string 23 None 0 (Some datatype_uri_string)"

abbreviation W7 :: "(nat \<Rightarrow> bytes) \<Rightarrow> librdf_world" where
  "W7 g \<equiv> (W6 g)\<lparr>nodes := (nodes (W6 g))(5 \<mapsto>
       \<lparr>usage = 1, node_data = Literal (LT\<lparr>lit_key := Some datatyped_literal_M_encoded, lit_size := 61\<rparr>)\<rparr>),
       next_ptr := 6, hash_literal := [node_encoding (Literal LD) \<mapsto> 2, datatyped_literal_M_encoded \<mapsto> 5]\<rparr>"

abbreviation N5 :: librdf_node where
  "N5 \<equiv> \<lparr>usage = 1, node_data = Literal (LT\<lparr>lit_key := Some datatyped_literal_M_encoded, lit_size := 61\<rparr>)\<rparr>"

abbreviation BIG :: "(nat \<Rightarrow> byte) \<Rightarrow> bytes" where
  "BIG j \<equiv> replicate 100000 0x58 @ [j 100000]"

abbreviation LB :: "(nat \<Rightarrow> byte) \<Rightarrow> literal_value" where
  "LB j \<equiv> literal_of (BIG j) 100000 None 0 None"

abbreviation N6 :: "(nat \<Rightarrow> byte) \<Rightarrow> librdf_node" where
  "N6 j \<equiv> \<lparr>usage = 1, node_data = Literal ((LB j)\<lparr>lit_key := Some (node_encoding (Literal (LB j))),
      lit_size := 100009\<rparr>)\<rparr>"

abbreviation W9 :: "(nat \<Rightarrow> bytes) \<Rightarrow> (nat \<Rightarrow> byte) \<Rightarrow> librdf_world" where
  "W9 g j \<equiv> (node_incr 5 (W7 g))\<lparr>nodes := (nodes (node_incr 5 (W7 g)))(6 \<mapsto> N6 j),
       next_ptr := 7, hash_literal := [node_encoding (Literal LD) \<mapsto> 2, datatyped_literal_M_encoded \<mapsto> 5,
          node_encoding (Literal (LB j)) \<mapsto> 6]\<rparr>"

section \<open>Lemmas\<close>

lemma then_test_simps [simp]:
  "then_test (Ret (Inr a) s) f = f a s"
  "then_test (Ret (Inl r) s) f = Ret (Inl r) s"
  by (simp_all add: then_test_def)

lemma need_node_simps [simp]:
  "need_node (Ret (Some p) w) = Ret (Inr p) w"
  "need_node (Ret None w) = Ret (Inl 1) w"
  by (simp_all add: need_node_def)

lemma must_fail_None [simp]: "must_fail (Ret None w) = Ret (Inr ()) w"
  by (simp add: must_fail_def)

lemma on_unit_Ret [simp]: "on_unit (Ret r u) s = Ret r s"
  by (simp add: on_unit_def)

lemma take_mem_read [simp]: "take n (mem_read s m) = mem_read s (min n m)"
  by (simp add: mem_read_def take_map take_upt min_def)

lemma take_strlen [simp]: "take (strlen s) s = cstr s"
  by (simp add: strlen_def cstr_def takeWhile_eq_take[symmetric])

lemma free_node_live:
  assumes "\<not> nodes_mutex w" "nodes w p = Some n"
  shows "librdf_free_node (Some p) w =
           Ret () (if usage n - 1 \<noteq> 0
                   then w\<lparr>nodes := (nodes w)(p \<mapsto> n\<lparr>usage := usage n - 1\<rparr>)\<rparr>
                   else (unregister n w)\<lparr>nodes := (nodes w)(p := None), nodes_mutex := False\<rparr>)"
  using assms
  by (simp add: librdf_free_node_def unlock_def Let_def unregister_def split: node_value.splits option.splits)

lemma free_nodes_returns:
  assumes "\<not> nodes_mutex w"
    and "\<forall>p\<in>set ps. \<exists>n. nodes w p = Some n \<and> int (count_list ps p) \<le> usage n"
  shows "\<exists>w'. free_nodes ps w = Ret () w'"
  using assms
proof (induction ps arbitrary: w)
  case Nil
  then show ?case by simp
next
  case (Cons p ps)
  obtain n where pn: "nodes w p = Some n" and cn: "int (count_list (p # ps) p) \<le> usage n"
    using Cons.prems(2) by auto
  define w1 where "w1 = (if usage n - 1 \<noteq> 0
                   then w\<lparr>nodes := (nodes w)(p \<mapsto> n\<lparr>usage := usage n - 1\<rparr>)\<rparr>
                   else (unregister n w)\<lparr>nodes := (nodes w)(p := None), nodes_mutex := False\<rparr>)"
  have fr: "librdf_free_node (Some p) w = Ret () w1"
    unfolding w1_def by (rule free_node_live[OF Cons.prems(1) pn])
  have "\<not> nodes_mutex w1" using Cons.prems(1) by (simp add: w1_def)
  moreover have "\<forall>q\<in>set ps. \<exists>m. nodes w1 q = Some m \<and> int (count_list ps q) \<le> usage m"
  proof
    fix q assume q: "q \<in> set ps"
    show "\<exists>m. nodes w1 q = Some m \<and> int (count_list ps q) \<le> usage m"
    proof (cases "q = p")
      case True
      with q have "count_list ps p \<noteq> 0" by (simp add: count_list_0_iff)
      then have "1 \<le> count_list ps p" by simp
      with True cn show ?thesis by (auto simp: w1_def)
    next
      case False
      with q Cons.prems(2) show ?thesis by (auto simp: w1_def)
    qed
  qed
  ultimately obtain w' where "free_nodes ps w1 = Ret () w'" using Cons.IH by blast
  with fr show ?case by simp
qed

lemma check_node_from_eq:
  assumes "\<forall>k. i \<le> k \<and> k < len \<longrightarrow> byte_at buffer k = byte_at expected k"
  shows "check_node_from expected buffer len i = 0"
  using assms
proof (induction "len - i" arbitrary: i)
  case 0
  then show ?case by (subst check_node_from.simps) simp
next
  case (Suc d)
  then have "i < len" by simp
  moreover have "check_node_from expected buffer len (Suc i) = 0"
    using Suc.hyps(2) Suc.prems by (intro Suc.hyps(1)) auto
  ultimately show ?case
    using Suc.prems by (subst check_node_from.simps) simp
qed

lemma check_node_take:
  assumes "take len buffer = take len expected" "len \<le> length buffer" "len \<le> length expected"
  shows "check_node expected buffer len = 0"
  unfolding check_node_def
proof (rule check_node_from_eq, intro allI impI)
  fix k assume "0 \<le> k \<and> k < len"
  then have "take len buffer ! k = buffer ! k" "take len expected ! k = expected ! k" by simp_all
  with assms \<open>0 \<le> k \<and> k < len\<close> show "byte_at buffer k = byte_at expected k"
    by (simp add: byte_at_def)
qed

lemma encode_and_check_ok:
  assumes e: "\<not> fails e A_value" and v: "value_wf (node_data n)" "c_strings (node_data n)"
      "encodable (node_data n)"
    and nc: "nc = (case n_check of None \<Rightarrow> length (node_encoding (node_data n)) | Some k \<Rightarrow> k)"
    and chk: "take nc (node_encoding (node_data n)) = take nc expected"
      "nc \<le> length (node_encoding (node_data n))" "nc \<le> length expected"
  shows "encode_and_check e (Some n) expected n_check =
           Ret (Inr (node_encoding (node_data n), length (node_encoding (node_data n)))) ()"
proof -
  have sz: "librdf_node_encode (node_data n) None 0 = (length (node_encoding (node_data n)), None)"
    by (rule encode_size_layout[OF v(1,3)])
  have fill: "librdf_node_encode (node_data n) (Some (malloc_bytes e (length (node_encoding (node_data n)))))
      (length (node_encoding (node_data n))) =
      (length (node_encoding (node_data n)), Some (node_encoding (node_data n)))"
    using encode_fill_layout[OF v, of "malloc_bytes e (length (node_encoding (node_data n)))"]
    by (simp add: malloc_bytes_def)
  have "check_node expected (node_encoding (node_data n)) nc = 0"
    by (rule check_node_take[OF chk])
  with e sz fill nc show ?thesis
    by (cases n_check) (simp_all add: encode_and_check_def Let_def)
qed

lemma fixture_strings [simp]:
  "nul_free hp_string1" "length hp_string1 = 27"
  "nul_free lit_string_test" "length lit_string_test = 12"
  "nul_free genid_string" "length genid_string = 7"
  "nul_free datatype_lit_string" "length datatype_lit_string = 23"
  "nul_free datatype_uri_string" "length datatype_uri_string = 30"
  by (simp_all add: hp_string1_def lit_string_test_def genid_string_def datatype_lit_string_def
      datatype_uri_string_def bstr_def nul_free_def)

lemma hp_encoding: "node_encoding (Resource hp_string1) = hp_uri_encoded"
  by (simp add: node_encoding_def tags be16_def hp_string1_def hp_uri_encoded_def bstr_def)

lemma fixture_lengths [simp]:
  "length hp_uri_encoded = 31" "length datatyped_literal_M_encoded = 61"
  "length big_literal_N_encoded = 32"
  by (simp_all add: hp_uri_encoded_def datatyped_literal_M_encoded_def big_literal_N_encoded_def)

lemma st_step1: "librdf_new_node_from_uri_string (no_faults j) hp_string1 (new_world g) = Ret (Some 1) (W1 g)"
  by (simp add: librdf_new_node_from_uri_string_def librdf_new_node_from_uri_string_or_uri_def
      librdf_new_uri_def no_faults_def new_world_def librdf_init_node_def node_alloc_def unlock_def
      nul_free_cstr)

lemma st_step2: "encode_and_check (no_faults j) (deref (W1 g) 1) hp_uri_encoded None =
   Ret (Inr (hp_uri_encoded, 31)) ()"
  using encode_and_check_ok[of "no_faults j" "\<lparr>usage = 1, node_data = Resource hp_string1\<rparr>"
      "length hp_uri_encoded" None hp_uri_encoded]
  by (simp add: deref_def no_faults_def value_wf_def c_strings_def encodable_def hp_encoding)

lemma st_step3: "decode_node (no_faults j) hp_uri_encoded 31 (W1 g) = Ret (Some 1) (node_incr 1 (W1 g))"
  using decode_resource[of "W1 g" hp_string1 1 "no_faults j"] hp_encoding
  by (simp add: decode_node_def no_faults_def)

lemma LD_facts:
  "c_strings (Literal LD)" "encodable (Literal LD)" "lit_string LD = lit_string_test" "string_len LD = 12"
  by (simp_all add: literal_of_def c_strings_def encodable_def lit_datatype_string_def
      lit_language_string_def lit_language_length_def strncpy_nul_free[of lit_string_test, simplified])

lemma st_step4_tc:
  "librdf_new_node_from_typed_counted_literal (no_faults j) lit_string_test 12 None 0 None (node_incr 1 (W1 g)) =
     Ret (Some 2) (W3 g)"
  using typed_counted_fresh[of "node_incr 1 (W1 g)" "no_faults j" None None 12 0 lit_string_test] LD_facts
  by (simp add: no_faults_def norm_lang_def SIZE_MAX_def node_incr_def)

lemma st_step4: "librdf_new_node_from_literal (no_faults j) lit_string_test None False (node_incr 1 (W1 g)) =
   Ret (Some 2) (W3 g)"
  using st_step4_tc by (simp add: librdf_new_node_from_literal_def norm_lang_def nul_free_strlen)

lemma st_part1:
  assumes "conv lit_string_test 12 \<noteq> None"
  shows "node_test_resource (no_faults j) conv (new_world g) = Ret (Inr (1, 1, 2)) (W3 g)"
  using assms st_step1 st_step2 st_step3 st_step4
  by (auto simp: node_test_resource_def deref_def librdf_node_get_literal_value_as_latin1_def LD_facts
      node_incr_def)

lemma st_step5: "librdf_new_node_from_blank_identifier (no_faults j) (Some genid_string) (W3 g) =
   Ret (Some 3) (W4 g)"
  by (simp add: librdf_new_node_from_blank_identifier_def librdf_new_node_from_counted_blank_identifier_def
      no_faults_def nul_free_strlen node_alloc_def unlock_def mem_read_all[of genid_string, simplified])

lemma st_step6: "librdf_new_node_from_node (Some 3) (W4 g) = Ret (Some 3) (node_incr 3 (W4 g))"
  by (simp add: librdf_new_node_from_node_def)

lemma st_step7:
  assumes "cstr (g 0) \<noteq> genid_string"
  shows "librdf_new_node (no_faults j) (node_incr 3 (W4 g)) = Ret (Some 4) (W6 g)"
  using assms
  by (simp add: librdf_new_node_def librdf_new_node_from_blank_identifier_def
      librdf_new_node_from_counted_blank_identifier_def librdf_world_get_genid_def
      no_faults_def node_alloc_def unlock_def node_incr_def Let_def)

lemma st_blank_ids:
  "need_blank_id 3 (W4 g) = Ret (Inr ()) (W4 g)"
  "need_blank_id 3 (node_incr 3 (W4 g)) = Ret (Inr ()) (node_incr 3 (W4 g))"
  "need_blank_id 4 (W6 g) = Ret (Inr ()) (W6 g)"
  by (simp_all add: need_blank_id_def deref_def librdf_node_get_blank_identifier_def node_incr_def)

lemma LT_fields:
  "lit_string LT = datatype_lit_string" "string_len LT = 23"
  "lit_datatype_string LT = datatype_uri_string" "lit_language_length LT = 0"
  "lit_language_string LT = []"
  by (simp_all add: literal_of_def lit_datatype_string_def lit_language_string_def lit_language_length_def
      strncpy_nul_free[of datatype_lit_string, simplified])

lemma LT_facts:
  "c_strings (Literal LT)" "encodable (Literal LT)"
  "node_encoding (Literal LT) = datatyped_literal_M_encoded"
    apply (simp_all only: c_strings_def encodable_def node_encoding_def node_value.case LT_fields Let_def)
    apply simp_all
  by (simp add: tags be16_def opt_field_def datatype_lit_string_def datatype_uri_string_def
      datatyped_literal_M_encoded_def bstr_def)

lemma LD_length: "length (node_encoding (Literal LD)) = 19"
  by (simp add: node_encoding_def LD_facts literal_of_def lit_datatype_string_def
      lit_language_string_def lit_language_length_def opt_field_def be16_def Let_def)

lemma st_step8_tc:
  "librdf_new_node_from_typed_counted_literal (no_faults j) datatype_lit_string 23 None 0
      (Some datatype_uri_string) (W6 g) = Ret (Some 5) (W7 g)"
proof -
  have ne: "node_encoding (Literal LD) \<noteq> datatyped_literal_M_encoded"
    using LD_length fixture_lengths(2) by auto
  show ?thesis
    using typed_counted_fresh[of "W6 g" "no_faults j" None "Some datatype_uri_string" 23 0 datatype_lit_string]
      LT_facts ne
    by (simp add: no_faults_def norm_lang_def SIZE_MAX_def node_incr_def)
qed

lemma st_step8:
  "librdf_new_node_from_typed_literal (no_faults j) datatype_lit_string None
      (librdf_new_uri (no_faults j) datatype_uri_string) (W6 g) = Ret (Some 5) (W7 g)"
  using st_step8_tc
  by (simp add: librdf_new_node_from_typed_literal_def librdf_new_uri_def no_faults_def nul_free_strlen
      nul_free_cstr)

lemma st_inv_W7:
  assumes "cstr (g 0) \<noteq> genid_string"
  shows "world_inv (W7 g)"
proof -
  have "world_inv (W1 g)"
    using world_inv_run_op[OF world_inv_new_world, of "no_faults j" "Op_uri (Some hp_string1) None"] st_step1
    by (simp add: run_op_def librdf_new_node_from_uri_string_def)
  then have "world_inv (node_incr 1 (W1 g))" by (rule world_inv_node_incr) simp
  then have "world_inv (W3 g)"
    using world_inv_run_op[of _ "no_faults j" "Op_literal lit_string_test 12 None 0 None"] st_step4_tc
    by (simp add: run_op_def)
  then have "world_inv (W4 g)"
    using world_inv_run_op[of _ "no_faults j" "Op_blank (Some genid_string) 7"] st_step5
    by (simp add: run_op_def librdf_new_node_from_blank_identifier_def nul_free_strlen)
  then have "world_inv (node_incr 3 (W4 g))" by (rule world_inv_node_incr) simp
  then have "world_inv (W6 g)"
    using world_inv_run_op[of _ "no_faults j" "Op_blank None 0"] st_step7 assms
    by (simp add: run_op_def librdf_new_node_def librdf_new_node_from_blank_identifier_def)
  then show ?thesis
    using world_inv_run_op[of _ "no_faults j" "Op_literal datatype_lit_string 23 None 0 (Some datatype_uri_string)"]
      st_step8_tc
    by (simp add: run_op_def)
qed

lemma N5_facts: "value_wf (node_data N5)" "c_strings (node_data N5)" "encodable (node_data N5)"
  "node_encoding (node_data N5) = datatyped_literal_M_encoded"
  subgoal by (simp add: value_wf_def literal_of_wf)
  subgoal using LT_facts(1) by simp
  subgoal by (simp add: encodable_def lit_datatype_string_def lit_language_length_def literal_of_def)
  subgoal using LT_facts(3) by simp
  done

lemma st_step9: "encode_and_check (no_faults j) (Option.bind (Some 5) (deref (W7 g))) datatyped_literal_M_encoded None =
   Ret (Inr (datatyped_literal_M_encoded, 61)) ()"
  using encode_and_check_ok[of "no_faults j" N5 61 None datatyped_literal_M_encoded] N5_facts
  by (simp add: deref_def no_faults_def)

lemma st_step10:
  assumes "cstr (g 0) \<noteq> genid_string"
  shows "decode_node (no_faults j) datatyped_literal_M_encoded 61 (W7 g) = Ret (Some 5) (node_incr 5 (W7 g))"
proof -
  have inv: "world_inv (W7 g)" using assms by (rule st_inv_W7)
  show ?thesis
    using decode_node_encoding[OF inv, of "no_faults j" 5 N5] N5_facts
    by (simp add: decode_node_def no_faults_def LT_fields)
qed

lemma st_refusals:
  "librdf_new_node_from_typed_literal e datatype_lit_string (Some (bstr ''en-GB''))
      (librdf_new_uri (no_faults j) datatype_uri_string) w = Ret None w"
  "librdf_new_node_from_literal e (bstr ''XML literal value'') (Some (bstr ''en-GB'')) True w = Ret None w"
  by (simp_all add: librdf_new_node_from_typed_literal_def librdf_new_node_from_typed_counted_literal_def
      librdf_new_node_from_literal_def librdf_new_uri_def no_faults_def norm_lang_def c_empty_def bstr_def)

lemma st_part2:
  assumes "cstr (g 0) \<noteq> genid_string"
  shows "node_test_blank_typed (no_faults j) (W3 g) = Ret (Inr [3, 3, 4, 5, 5]) (node_incr 5 (W7 g))"
  using assms st_step5 st_step6 st_step7 st_blank_ids st_step8 st_step9 st_step10 st_refusals
  by (simp add: node_test_blank_typed_def del: Option.bind.simps)

lemma LB_fields:
  "lit_string (LB j) = replicate 100000 0x58" "string_len (LB j) = 100000"
  "lit_datatype_string (LB j) = []" "lit_language_length (LB j) = 0" "lit_language_string (LB j) = []"
  by (simp_all add: literal_of_def lit_datatype_string_def lit_language_string_def lit_language_length_def
      strncpy_def cstr_def takeWhile_append)

lemma LB_encoding:
  "node_encoding (Literal (LB j)) =
     tag_N # be32 100000 @ be16 0 @ 0 # replicate 100000 0x58 @ [0]"
  by (simp only: node_encoding_def node_value.case LB_fields Let_def) (simp add: opt_field_def)

lemma LB_facts:
  "c_strings (Literal (LB j))" "encodable (Literal (LB j))"
  "length (node_encoding (Literal (LB j))) = 100009"
  "take 32 (node_encoding (Literal (LB j))) = big_literal_N_encoded"
  subgoal by (simp add: c_strings_def LB_fields)
  subgoal by (simp add: encodable_def LB_fields)
  subgoal by (simp add: LB_encoding be16_def be32_def)
  subgoal by (simp add: LB_encoding be16_def be32_def tags big_literal_N_encoded_def)
  done

lemma LB_key_fresh:
  "node_encoding (Literal (LB j)) \<noteq> node_encoding (Literal LD)"
  "node_encoding (Literal (LB j)) \<noteq> datatyped_literal_M_encoded"
proof -
  have "length (node_encoding (Literal (LB j))) \<noteq> length (node_encoding (Literal LD))"
    "length (node_encoding (Literal (LB j))) \<noteq> length datatyped_literal_M_encoded"
    by (simp_all only: LB_facts(3) LD_length fixture_lengths)
  then show "node_encoding (Literal (LB j)) \<noteq> node_encoding (Literal LD)"
    "node_encoding (Literal (LB j)) \<noteq> datatyped_literal_M_encoded" by auto
qed

lemma st_step11:
  "librdf_new_node_from_typed_counted_literal (no_faults j) (BIG j) 100000 None 0 None (node_incr 5 (W7 g)) =
     Ret (Some 6) (W9 g j)"
proof -
  have fr: "hash_literal (node_incr 5 (W7 g)) (node_encoding (Literal (LB j))) = None"
    using LB_key_fresh[of j] by simp
  have m: "\<not> nodes_mutex (node_incr 5 (W7 g))" by simp
  have nf: "fails (no_faults j) = (\<lambda>_. False)" by (simp add: no_faults_def)
  have "librdf_new_node_from_typed_counted_literal (no_faults j) (BIG j) 100000 None 0 None (node_incr 5 (W7 g)) =
     Ret (Some (next_ptr (node_incr 5 (W7 g)))) ((node_incr 5 (W7 g))\<lparr>nodes := (nodes (node_incr 5 (W7 g)))
        (next_ptr (node_incr 5 (W7 g)) \<mapsto> N6 j), next_ptr := Suc (next_ptr (node_incr 5 (W7 g))),
        hash_literal := (hash_literal (node_incr 5 (W7 g)))(node_encoding (Literal (LB j)) \<mapsto>
           next_ptr (node_incr 5 (W7 g)))\<rparr>)"
    using typed_counted_fresh[OF m nf, of None None 100000 0 "BIG j"] LB_facts(1,2,3) fr
    by (simp only: norm_lang_def option.case SIZE_MAX_def) simp
  then show ?thesis by simp
qed

lemma st_step12: "encode_and_check (no_faults j) (deref (W9 g j) 6) big_literal_N_encoded (Some 32) =
   Ret (Inr (node_encoding (Literal (LB j)), 100009)) ()"
proof -
  have "value_wf (node_data (N6 j))" by (simp add: value_wf_def literal_of_wf)
  moreover have "encodable (node_data (N6 j))"
    using LB_facts(2) by (simp add: encodable_def lit_datatype_string_def lit_language_length_def literal_of_def)
  moreover have "c_strings (node_data (N6 j))" using LB_facts(1) by simp
  moreover have "\<not> fails (no_faults j) A_value" by (simp add: no_faults_def)
  ultimately have "encode_and_check (no_faults j) (Some (N6 j)) big_literal_N_encoded (Some 32) =
      Ret (Inr (node_encoding (Literal (LB j)), 100009)) ()"
    using encode_and_check_ok[of "no_faults j" "N6 j" 32 "Some 32" big_literal_N_encoded] LB_facts(3,4)
    by (simp only: librdf_node.simps literal_key_fields fixture_lengths option.case) simp
  then show ?thesis by (simp add: deref_def)
qed

lemma st_step13: "\<exists>w. free_nodes [6, 5, 5, 4, 3, 3, 2, 1, 1] (W9 g j) = Ret () w"
  by (rule free_nodes_returns) (simp_all add: node_incr_def)

lemma st_part3:
  "\<exists>w. node_test_big_literal (no_faults j) [1, 1, 2, 3, 3, 4, 5, 5] (node_incr 5 (W7 g)) = Ret (Inr ()) w"
proof -
  obtain w where "free_nodes [6, 5, 5, 4, 3, 3, 2, 1, 1] (W9 g j) = Ret () w" using st_step13 by blast
  moreover have "junk (no_faults j) = j" "\<not> fails (no_faults j) A_value" by (simp_all add: no_faults_def)
  ultimately show ?thesis
    using st_step11[of j g] st_step12[of j g]
    by (simp add: node_test_big_literal_def Let_def del: fun_upd_apply)
qed

text \<open>
  C35.  The node self-test passes: with no allocation failure, a Latin-1
  converter that accepts \<open>Dave Beckett\<close> and a world whose first
  generated blank identifier is not \<open>genid42\<close>, \<open>main\<close> returns 0.  Every
  encoding equals the byte string fixed in the source, both decodings find
  the interned node, the two refused constructions are refused, and every
  node is freed without a use after free.
\<close>

theorem node_test_main_passes:
  assumes "latin1 lit_string_test 12 \<noteq> None" "cstr (g 0) \<noteq> genid_string"
  shows "\<exists>w. node_test_main (no_faults j) latin1 g = Ret 0 w"
proof -
  obtain w where w: "node_test_big_literal (no_faults j) [1, 1, 2, 3, 3, 4, 5, 5] (node_incr 5 (W7 g)) = Ret (Inr ()) w"
    using st_part3 by blast
  have "then_test (node_test_resource (no_faults j) latin1 (new_world g)) (\<lambda>(node, node2, node3) w1.
          then_test (node_test_blank_typed (no_faults j) w1) (\<lambda>made w2.
            node_test_big_literal (no_faults j) ([node, node2, node3] @ made) w2)) = Ret (Inr ()) w"
    using st_part1[where conv = latin1 and j = j and g = g, OF assms(1)] st_part2[where j = j and g = g, OF assms(2)] w
    by (simp only: then_test_simps prod.case append.simps)
  then have "node_test_main (no_faults j) latin1 g = Ret 0 w"
    unfolding node_test_main_def by (simp only: obind_simps sum.case unit.case)
  then show ?thesis by blast
qed


theorem node_test_main_passes_witness:
  "(\<lambda>s (n :: nat). Some s) lit_string_test 12 \<noteq> None \<and> cstr (bstr ''r1'') \<noteq> genid_string \<and>
   (\<exists>w. node_test_main (no_faults (\<lambda>_. 0)) (\<lambda>s n. Some s) (\<lambda>_. bstr ''r1'') = Ret 0 w)"
proof -
  have h: "cstr (bstr ''r1'') \<noteq> genid_string"
    by (simp add: genid_string_def bstr_def cstr_def)
  show ?thesis
    using node_test_main_passes[of "\<lambda>s n. Some s" "\<lambda>_. bstr ''r1''" "\<lambda>_. 0"] h by simp
qed

end
