(* ===== verification/ParserDrivers.thy ===== *)
theory ParserDrivers
  imports Stream Namespaces
begin

text \<open>
  The rest of the raptor parser module (\<open>src/src/rdf_parser_raptor.c\<close>):
  the parser's life (\<open>librdf_parser_raptor_init\<close>, \<open>_terminate\<close>), its
  features and accept header, the module constructor that registers one
  factory per raptor syntax, and the parse drivers over a URI, a string
  and an iostream (\<open>librdf_parser_raptor_parse_as_stream_common\<close> and
  its wrappers).  The raptor library is external: its feature table, its
  parser constructor, its syntax enumeration, the web fetcher and the
  iostream are parameters or explicit states; the raptor 1 branches are
  modelled.
\<close>

section \<open>Features\<close>

text \<open>
  The raptor 1 feature interface: \<open>raptor_feature_from_uri\<close> (-1 for an
  unknown feature), \<open>raptor_get_feature\<close> and
  \<open>raptor_parser_set_feature_string\<close> (its result code and the parser it
  leaves).
\<close>

record 'p raptor_features =
  raptor_feature_from_uri :: "uri \<Rightarrow> int"
  raptor_get_feature :: "'p \<Rightarrow> int \<Rightarrow> int"
  raptor_parser_set_feature_string :: "'p \<Rightarrow> int \<Rightarrow> bytes \<Rightarrow> int \<times> 'p"

text \<open>The two features librdf answers itself (\<open>rdf_parser.h\<close>, not under \<open>src/\<close>).\<close>

definition LIBRDF_PARSER_FEATURE_ERROR_COUNT :: bytes where
  "LIBRDF_PARSER_FEATURE_ERROR_COUNT = bstr ''http://feature.librdf.org/parser-error-count''"

definition LIBRDF_PARSER_FEATURE_WARNING_COUNT :: bytes where
  "LIBRDF_PARSER_FEATURE_WARNING_COUNT = bstr ''http://feature.librdf.org/parser-warning-count''"

text \<open>
  \<open>sprintf((char*)intbuffer, "%d", v)\<close> into \<open>unsigned char intbuffer[20]\<close>:
  the digits and their NUL must fit, \<open>None\<close> is a write past the buffer.
\<close>

definition sprintf_intbuffer :: "int \<Rightarrow> bytes option" where
  "sprintf_intbuffer v = (if length (c_int_decimal v) + 1 \<le> 20 then Some (c_int_decimal v) else None)"

text \<open>The typed literal of a number printed into \<open>intbuffer\<close>, no language, no datatype.\<close>

definition count_literal :: "alloc_env \<Rightarrow> int \<Rightarrow> librdf_world \<Rightarrow> (ptr option, librdf_world) outcome" where
  "count_literal e v w =
     (case sprintf_intbuffer v of
        None \<Rightarrow> Undef
      | Some s \<Rightarrow> librdf_new_node_from_typed_literal e s None None w)"

text \<open>
  \<open>librdf_parser_raptor_get_feature\<close>: the error and warning counts of the
  parser context, else the raptor feature of that URI; NULL for a NULL or
  unknown feature.  \<open>librdf_uri_as_string\<close> is the URI's C string.
\<close>

definition librdf_parser_raptor_get_feature ::
  "alloc_env \<Rightarrow> 'p raptor_features \<Rightarrow> 'p \<Rightarrow> pcontext_seen \<Rightarrow> uri option \<Rightarrow> librdf_world
   \<Rightarrow> (ptr option, librdf_world) outcome" where
  "librdf_parser_raptor_get_feature e rf p pc feature w =
     (case feature of
        None \<Rightarrow> Ret None w
      | Some f \<Rightarrow>
          (let uri_string = cstr f in
           if uri_string = LIBRDF_PARSER_FEATURE_ERROR_COUNT then count_literal e (errors pc) w
           else if uri_string = LIBRDF_PARSER_FEATURE_WARNING_COUNT then count_literal e (warnings pc) w
           else
             (let feature_i = raptor_feature_from_uri rf f in
              if 0 \<le> feature_i then count_literal e (raptor_get_feature rf p feature_i) w
              else Ret None w)))"

text \<open>
  \<open>librdf_parser_raptor_set_feature\<close>: 1 for a NULL or unknown feature and
  for a value that is not a literal (\<open>librdf_node_is_literal(NULL)\<close> is 0
  at its pointer assertion); else raptor's result for the literal's string.
\<close>

definition librdf_parser_raptor_set_feature ::
  "'p raptor_features \<Rightarrow> 'p \<Rightarrow> uri option \<Rightarrow> librdf_node option \<Rightarrow> int \<times> 'p" where
  "librdf_parser_raptor_set_feature rf p feature value =
     (case feature of
        None \<Rightarrow> (1, p)
      | Some f \<Rightarrow>
          (let feature_i = raptor_feature_from_uri rf f in
           if feature_i < 0 then (1, p)
           else
             (case value of
                None \<Rightarrow> (1, p)
              | Some n \<Rightarrow>
                  if \<not> librdf_node_is_literal n then (1, p)
                  else
                    (case librdf_node_get_literal_value n of
                       Some value_s \<Rightarrow> raptor_parser_set_feature_string rf p feature_i value_s
                     | None \<Rightarrow> (1, p)))))"

section \<open>Accept header\<close>

text \<open>
  \<open>librdf_parser_raptor_get_accept_header\<close>: raptor's header (external,
  freed after the copy) copied into a \<open>LIBRDF_MALLOC\<close>ed buffer of
  \<open>length + 1\<close> bytes; the buffer is not checked, so a failed allocation
  is a \<open>strncpy\<close> to NULL.
\<close>

definition librdf_parser_raptor_get_accept_header ::
  "alloc_env \<Rightarrow> bytes option \<Rightarrow> (bytes option, unit) outcome" where
  "librdf_parser_raptor_get_accept_header e accept =
     (case accept of
        None \<Rightarrow> Ret None ()
      | Some a \<Rightarrow>
          (let length = strlen a in
           if fails e A_value then Undef
           else Ret (Some (strncpy a (length + 1))) ()))"

section \<open>Parser set-up and teardown\<close>

text \<open>
  The parser context as \<open>librdf_parser_raptor_init\<close> leaves it: the
  syntax name, the blank node map (\<open>librdf_new_hash\<close>, site \<open>A_hash\<close>)
  and the raptor parser (\<open>raptor_new_parser\<close>, external, may fail).
\<close>

record 'p raptor_pcontext =
  parser_name :: bytes
  bnode_hash_made :: bool
  rdf_parser_made :: "'p option"

definition librdf_parser_raptor_init ::
  "alloc_env \<Rightarrow> (bytes \<Rightarrow> 'p option) \<Rightarrow> bytes \<Rightarrow> int \<times> 'p raptor_pcontext" where
  "librdf_parser_raptor_init e raptor_new_parser factory_name =
     (let name = (if cstr factory_name = bstr ''raptor'' then bstr ''rdfxml'' else factory_name);
          pc = \<lparr>parser_name = name, bnode_hash_made = False, rdf_parser_made = None\<rparr>
      in
      if fails e A_hash then (1, pc)
      else
        (let pc1 = pc\<lparr>bnode_hash_made := True\<rparr> in
         case raptor_new_parser name of
           None \<Rightarrow> (1, pc1)
         | Some p \<Rightarrow> (0, pc1\<lparr>rdf_parser_made := Some p\<rparr>)))"

text \<open>
  \<open>librdf_parser_raptor_terminate\<close>: a stream still open is finished
  (its statements freed, its file closed if it owns it); the web fetcher,
  raptor parser, map and sequences are freed and are not part of the model.
\<close>

definition librdf_parser_raptor_terminate ::
  "'p stream_context option \<Rightarrow> parser_state \<Rightarrow> (unit, parser_state) outcome" where
  "librdf_parser_raptor_terminate stream_context ps =
     (case stream_context of
        None \<Rightarrow> Ret () ps
      | Some sc \<Rightarrow> obind (librdf_parser_raptor_serialise_finished (sc\<lparr>sc_ps := ps\<rparr>)) (\<lambda>_ ps'. Ret () ps'))"

section \<open>The module constructor\<close>

text \<open>
  A raptor syntax as \<open>raptor_syntaxes_enumerate\<close> describes it, and a
  parser factory as \<open>librdf_parser_register_factory\<close> (in \<open>rdf_parser.c\<close>,
  not under \<open>src/\<close>) records it: appended to the world's factories.
\<close>

record raptor_syntax =
  syntax_name :: bytes
  syntax_label :: bytes
  mime_type :: "bytes option"
  uri_string :: "bytes option"

record parser_factory =
  factory_name :: bytes
  factory_label :: "bytes option"
  factory_mime_type :: "bytes option"
  factory_uri_string :: "bytes option"

definition raptor_syntaxes_enumerate :: "raptor_syntax list \<Rightarrow> nat \<Rightarrow> raptor_syntax option" where
  "raptor_syntaxes_enumerate syntaxes i = (if i < length syntaxes then Some (syntaxes ! i) else None)"

definition librdf_parser_register_factory ::
  "bytes \<Rightarrow> bytes option \<Rightarrow> bytes option \<Rightarrow> bytes option \<Rightarrow> parser_factory list \<Rightarrow> parser_factory list" where
  "librdf_parser_register_factory name label mime uri fs =
     fs @ [\<lparr>factory_name = name, factory_label = label, factory_mime_type = mime, factory_uri_string = uri\<rparr>]"

text \<open>
  The \<open>for(i = 1; 1; i++)\<close> loop of \<open>librdf_parser_raptor_constructor\<close>:
  past the last syntax it registers syntax 0 and stops.  \<open>rdfxml\<close> is
  registered a second time under the legacy name \<open>raptor\<close>, first.  With
  no syntax at all \<open>syntax_name\<close> stays NULL and \<open>strcmp\<close> reads it.
\<close>

function constructor_loop :: "raptor_syntax list \<Rightarrow> nat \<Rightarrow> parser_factory list \<Rightarrow> (unit, parser_factory list) outcome" where
  "constructor_loop syntaxes i fs =
     (let (i', desc) = (case raptor_syntaxes_enumerate syntaxes i of
                          Some d \<Rightarrow> (i, Some d)
                        | None \<Rightarrow> (0, raptor_syntaxes_enumerate syntaxes 0))
      in
      case desc of
        None \<Rightarrow> Undef
      | Some d \<Rightarrow>
          (let fs1 = (if cstr (syntax_name d) = bstr ''rdfxml''
                      then librdf_parser_register_factory (bstr ''raptor'') None (mime_type d) (uri_string d) fs
                      else fs);
               fs2 = librdf_parser_register_factory (syntax_name d) (Some (syntax_label d)) (mime_type d)
                       (uri_string d) fs1
           in
           if i' = 0 then Ret () fs2 else constructor_loop syntaxes (Suc i') fs2))"
  by pat_completeness auto
termination
  by (relation "measure (\<lambda>(syntaxes, i, fs). Suc (length syntaxes) - i)")
     (auto simp: raptor_syntaxes_enumerate_def split: if_splits)

declare constructor_loop.simps [simp del]

definition librdf_parser_raptor_constructor ::
  "raptor_syntax list \<Rightarrow> parser_factory list \<Rightarrow> (unit, parser_factory list) outcome" where
  "librdf_parser_raptor_constructor syntaxes fs = constructor_loop syntaxes 1 fs"

section \<open>Parsing a URI, a string or an iostream\<close>

text \<open>
  The services the drivers call outside the module: whether a URI is a
  \<open>file:\<close> URI and its file name (URI module, the name may fail to be
  made), \<open>fopen\<close>, and the content raptor's web fetcher delivers for a URI,
  chunk by chunk, to the write-bytes handler.
\<close>

record raptor_io =
  uri_is_file :: "uri \<Rightarrow> bool"
  uri_to_filename :: "uri \<Rightarrow> bytes option"
  c_fopen :: "bytes \<Rightarrow> c_file option"
  www_fetch :: "uri \<Rightarrow> bytes list"

text \<open>
  A raptor 1 iostream read from: its unread bytes, then either its end or
  a read error.  \<open>raptor_iostream_read_bytes(iostream, buffer, 1, n)\<close>
  returns the count read, or -1 once only the error is left.
\<close>

record raptor_iostream =
  io_rest :: bytes
  io_error :: bool

definition raptor_iostream_read_bytes :: "nat \<Rightarrow> raptor_iostream \<Rightarrow> int \<times> bytes \<times> raptor_iostream" where
  "raptor_iostream_read_bytes n ios =
     (if io_rest ios = [] \<and> io_error ios then (-1, [], ios)
      else (int (length (take n (io_rest ios))), take n (io_rest ios), ios\<lparr>io_rest := drop n (io_rest ios)\<rparr>))"

definition BUFLEN :: nat where
  "BUFLEN = 4096"

text \<open>The \<open>int\<close> result stored in the \<open>size_t nread\<close>: -1 becomes \<open>SIZE_MAX\<close>.\<close>

definition size_t_of_int :: "int \<Rightarrow> nat" where
  "size_t_of_int r = nat (r mod 2 ^ 64)"

text \<open>
  \<open>raptor_parse_chunk\<close> on one chunk: the statement handler calls it makes
  are delivered in order; the result is whether raptor failed.
\<close>

definition parse_chunk_deliver ::
  "'p chunk_parser \<Rightarrow> bytes \<Rightarrow> bool \<Rightarrow> 'p stream_context \<Rightarrow> (bool, 'p stream_context) outcome" where
  "parse_chunk_deliver parse chunk is_end sc =
     (let (p', calls, failed) = parse (rdf_parser sc) chunk is_end in
      obind (on_ps (deliver calls) sc) (\<lambda>_ sc1. Ret failed (sc1\<lparr>rdf_parser := p'\<rparr>)))"

text \<open>
  \<open>raptor_www_fetch\<close> with \<open>librdf_parser_raptor_parse_uri_as_stream_write_bytes_handler\<close>:
  each chunk fetched is parsed; a failed parse aborts the fetch.
\<close>

fun www_deliver :: "'p chunk_parser \<Rightarrow> bytes list \<Rightarrow> 'p stream_context \<Rightarrow> (unit, 'p stream_context) outcome" where
  "www_deliver parse [] sc = Ret () sc"
| "www_deliver parse (c # cs) sc =
     obind (parse_chunk_deliver parse c False sc) (\<lambda>rc sc1. if rc then Ret () sc1 else www_deliver parse cs sc1)"

text \<open>
  The raptor 1 \<open>do ... while(nread == BUFLEN)\<close> loop over an iostream.  The
  count is stored in a \<open>size_t\<close>, so the test \<open>nread < 0\<close> never holds: a
  read error (-1) becomes a chunk of \<open>SIZE_MAX\<close> bytes from the
  \<open>BUFLEN\<close>-byte buffer, a read past it.  \<open>False\<close>: clear up and return NULL.
\<close>

function iostream_loop ::
  "'p chunk_parser \<Rightarrow> raptor_iostream \<Rightarrow> 'p stream_context \<Rightarrow> (bool, 'p stream_context) outcome" where
  "iostream_loop parse ios sc =
     (let (r, buffer, ios') = raptor_iostream_read_bytes BUFLEN ios;
          nread = size_t_of_int r
      in
      if nread < 0 then Ret False sc
      else if BUFLEN < nread then Undef
      else
        obind (parse_chunk_deliver parse (take nread buffer) (nread < BUFLEN) sc) (\<lambda>rc sc1.
          if rc then Ret False sc1
          else if nread = BUFLEN then iostream_loop parse ios' sc1
          else Ret True sc1))"
  by pat_completeness auto
termination
  by (relation "measure (\<lambda>(parse, ios, sc). length (io_rest ios))")
     (auto simp: raptor_iostream_read_bytes_def BUFLEN_def size_t_of_int_def split: if_splits)

declare iostream_loop.simps [simp del]

text \<open>
  The three sources of \<open>librdf_parser_raptor_parse_as_stream_common\<close> once
  the stream context exists: a URI fetched through a new web fetcher
  (site \<open>A_www\<close>), a string (\<open>length\<close> 0: its \<open>strlen\<close>) parsed as one
  last chunk, an iostream; none of them is a bad call.  \<open>False\<close>: the
  context is finished and NULL returned.  A failed \<open>raptor_start_parse\<close>
  ends every branch.
\<close>

definition parse_source ::
  "alloc_env \<Rightarrow> raptor_io \<Rightarrow> 'p chunk_parser \<Rightarrow> ('p \<Rightarrow> uri option \<Rightarrow> 'p \<times> bool) \<Rightarrow> uri option
   \<Rightarrow> bytes option \<Rightarrow> nat \<Rightarrow> raptor_iostream option \<Rightarrow> uri option \<Rightarrow> 'p stream_context
   \<Rightarrow> (bool, 'p stream_context) outcome" where
  "parse_source e io parse start_parse uri string str_length iostream base_uri sc =
     (case uri of
        Some u \<Rightarrow>
          if fails e A_www then Ret False sc
          else
            (let (p1, status) = start_parse (rdf_parser sc) base_uri in
             if status then Ret False (sc\<lparr>rdf_parser := p1\<rparr>)
             else
               obind (www_deliver parse (www_fetch io u) (sc\<lparr>rdf_parser := p1\<rparr>)) (\<lambda>_ sc1.
                 obind (parse_chunk_deliver parse [] True sc1) (\<lambda>_ sc2. Ret True sc2)))
      | None \<Rightarrow>
          (case string of
             Some s \<Rightarrow>
               (let (p1, status) = start_parse (rdf_parser sc) base_uri in
                if status then Ret False (sc\<lparr>rdf_parser := p1\<rparr>)
                else
                  (let len = (if str_length = 0 then strlen s else str_length) in
                   obind (parse_chunk_deliver parse (mem_read s len) True (sc\<lparr>rdf_parser := p1\<rparr>))
                     (\<lambda>_ sc1. Ret True sc1)))
           | None \<Rightarrow>
               (case iostream of
                  Some ios \<Rightarrow>
                    (let (p1, status) = start_parse (rdf_parser sc) base_uri in
                     if status then Ret False (sc\<lparr>rdf_parser := p1\<rparr>)
                     else iostream_loop parse ios (sc\<lparr>rdf_parser := p1\<rparr>))
                | None \<Rightarrow> Ret False sc)))"

text \<open>
  \<open>librdf_parser_raptor_parse_as_stream_common\<close> (raptor 1): the base URI
  defaults to the URI; a parser that needs one gets NULL without it.  A
  \<open>file:\<close> URI is opened and handed to the file-handle driver, which
  closes it.  Otherwise the context (\<open>A_context\<close>), its list and the two
  namespace sequences are made, the source parsed, the first statement
  popped into \<open>current\<close> and the stream made (\<open>A_stream\<close>).  The
  resetting of the counts and sequences is \<open>reset_seen\<close> of \<open>Namespaces\<close>.
\<close>

definition parse_as_stream_body ::
  "alloc_env \<Rightarrow> raptor_io \<Rightarrow> 'p chunk_parser \<Rightarrow> ('p \<Rightarrow> uri option \<Rightarrow> 'p \<times> bool) \<Rightarrow> 'p
   \<Rightarrow> uri option \<Rightarrow> bytes option \<Rightarrow> nat \<Rightarrow> raptor_iostream option \<Rightarrow> uri option \<Rightarrow> parser_state
   \<Rightarrow> ('p stream_context option, parser_state) outcome" where
  "parse_as_stream_body e io parse start_parse p uri string str_length iostream base_uri ps =
     (if fails e A_context then Ret None ps
      else
        (let sc0 = \<lparr>sc_ps = ps\<lparr>statements := []\<rparr>, rdf_parser = p, finished = False, fh = None,
                    close_fh = False, current = None\<rparr>
         in
         if fails e A_list \<or> fails e A_sequence then parse_as_stream_oom sc0
         else
           (case parse_source e io parse start_parse uri string str_length iostream base_uri sc0 of
              Ret ok sc1 \<Rightarrow>
                if \<not> ok then parse_as_stream_oom sc1
                else
                  (let (c, rest) = librdf_list_pop (statements (sc_ps sc1));
                       sc2 = sc1\<lparr>sc_ps := (sc_ps sc1)\<lparr>statements := rest\<rparr>, current := c\<rparr>
                   in
                   if fails e A_stream then parse_as_stream_oom sc2 else Ret (Some sc2) (sc_ps sc2))
            | Blocked \<Rightarrow> Blocked
            | Undef \<Rightarrow> Undef)))"

definition librdf_parser_raptor_parse_as_stream_common ::
  "alloc_env \<Rightarrow> raptor_io \<Rightarrow> 'p chunk_parser \<Rightarrow> ('p \<Rightarrow> uri option \<Rightarrow> 'p \<times> bool) \<Rightarrow> bool \<Rightarrow> 'p
   \<Rightarrow> uri option \<Rightarrow> bytes option \<Rightarrow> nat \<Rightarrow> raptor_iostream option \<Rightarrow> uri option \<Rightarrow> parser_state
   \<Rightarrow> ('p stream_context option, parser_state) outcome" where
  "librdf_parser_raptor_parse_as_stream_common e io parse start_parse need_base_uri p uri string str_length
     iostream base_uri0 ps =
     (let base_uri = (if base_uri0 = None then uri else base_uri0) in
      if need_base_uri \<and> base_uri = None then Ret None ps
      else
        (case uri of
           Some u \<Rightarrow>
             if uri_is_file io u then
               (case uri_to_filename io u of
                  None \<Rightarrow> Ret None ps
                | Some filename \<Rightarrow>
                    (case c_fopen io filename of
                       None \<Rightarrow> Ret None ps
                     | Some f \<Rightarrow>
                         librdf_parser_raptor_parse_file_handle_as_stream e parse start_parse need_base_uri p f
                           True base_uri ps))
             else parse_as_stream_body e io parse start_parse p uri string str_length iostream base_uri ps
         | None \<Rightarrow> parse_as_stream_body e io parse start_parse p uri string str_length iostream base_uri ps))"

text \<open>The four wrappers: exactly one source, \<open>length\<close> 0 unless counted.\<close>

definition librdf_parser_raptor_parse_uri_as_stream where
  "librdf_parser_raptor_parse_uri_as_stream e io parse start_parse need_base_uri p uri base_uri ps =
     librdf_parser_raptor_parse_as_stream_common e io parse start_parse need_base_uri p (Some uri) None 0 None
       base_uri ps"

definition librdf_parser_raptor_parse_string_as_stream where
  "librdf_parser_raptor_parse_string_as_stream e io parse start_parse need_base_uri p string base_uri ps =
     librdf_parser_raptor_parse_as_stream_common e io parse start_parse need_base_uri p None (Some string) 0 None
       base_uri ps"

definition librdf_parser_raptor_parse_counted_string_as_stream where
  "librdf_parser_raptor_parse_counted_string_as_stream e io parse start_parse need_base_uri p string str_length
     base_uri ps =
     librdf_parser_raptor_parse_as_stream_common e io parse start_parse need_base_uri p None (Some string) str_length
       None base_uri ps"

definition librdf_parser_raptor_parse_iostream_as_stream where
  "librdf_parser_raptor_parse_iostream_as_stream e io parse start_parse need_base_uri p iostream base_uri ps =
     librdf_parser_raptor_parse_as_stream_common e io parse start_parse need_base_uri p None None 0 (Some iostream)
       base_uri ps"

text \<open>The factories registered for one syntax, in order: the legacy name first for \<open>rdfxml\<close>.\<close>

definition syntax_factories :: "raptor_syntax \<Rightarrow> parser_factory list" where
  "syntax_factories d =
     (if cstr (syntax_name d) = bstr ''rdfxml''
      then [\<lparr>factory_name = bstr ''raptor'', factory_label = None, factory_mime_type = mime_type d,
             factory_uri_string = uri_string d\<rparr>]
      else []) @
     [\<lparr>factory_name = syntax_name d, factory_label = Some (syntax_label d), factory_mime_type = mime_type d,
       factory_uri_string = uri_string d\<rparr>]"

section \<open>Lemmas\<close>

lemma length_dec_digits: "n < 10 ^ Suc k \<Longrightarrow> length (dec_digits n) \<le> Suc k"
proof (induction k arbitrary: n)
  case 0
  then show ?case by (subst dec_digits.simps) simp
next
  case (Suc k)
  show ?case
  proof (cases "n < 10")
    case True
    then show ?thesis by (subst dec_digits.simps) simp
  next
    case False
    have "n div 10 < 10 ^ Suc k" using Suc.prems by (simp add: less_mult_imp_div_less mult.commute)
    with Suc.IH have "length (dec_digits (n div 10)) \<le> Suc k" .
    with False show ?thesis by (subst dec_digits.simps) simp
  qed
qed

lemma c_int_decimal_int32:
  assumes "- (2 ^ 31) \<le> v" "v < 2 ^ 31"
  shows "length (c_int_decimal v) \<le> 11"
proof -
  have "nat \<bar>v\<bar> < 10 ^ Suc 9" using assms by simp
  then have "length (dec_digits (nat \<bar>v\<bar>)) \<le> 10" using length_dec_digits[of "nat \<bar>v\<bar>" 9] by simp
  then show ?thesis by (cases "v < 0") (simp_all add: c_int_decimal_def abs_if)
qed

lemma typed_literal_interned:
  assumes m: "\<not> nodes_mutex w" and e: "fails e = (\<lambda>_. False)" and s: "nul_free s" "length s < SIZE_MAX"
  shows "\<exists>q w'. librdf_new_node_from_typed_literal e s None None w = Ret (Some q) w' \<and>
           hash_literal w' (node_encoding (Literal (literal_of s (length s) None 0 None))) = Some q"
proof -
  let ?l = "literal_of s (length s) None 0 None"
  have cs: "c_strings (Literal ?l)" and enc: "encodable (Literal ?l)"
    using s by (simp_all add: c_strings_def encodable_def literal_of_def lit_datatype_string_def
      lit_language_string_def lit_language_length_def strncpy_nul_free)
  have n: "norm_lang None = None" by (simp add: norm_lang_def)
  have sz: "0 < SIZE_MAX" by (simp add: SIZE_MAX_def)
  have tl: "librdf_new_node_from_typed_literal e s None None w =
      librdf_new_node_from_typed_counted_literal e s (length s) None 0 None w"
    using s by (simp add: librdf_new_node_from_typed_literal_def nul_free_strlen)
  show ?thesis
  proof (cases "hash_literal w (node_encoding (Literal ?l))")
    case None
    with typed_counted_fresh[OF m e, of None None "length s" 0 s] cs enc s sz tl n show ?thesis by auto
  next
    case (Some q)
    with typed_counted_hit[OF m e, of None None "length s" 0 s] cs enc s sz tl n show ?thesis by auto
  qed
qed

lemma register_syntax:
  "librdf_parser_register_factory (syntax_name d) (Some (syntax_label d)) (mime_type d) (uri_string d)
     (if cstr (syntax_name d) = bstr ''rdfxml''
      then librdf_parser_register_factory (bstr ''raptor'') None (mime_type d) (uri_string d) fs else fs)
   = fs @ syntax_factories d"
  by (simp add: librdf_parser_register_factory_def syntax_factories_def)

lemma constructor_loop_registers:
  assumes "syntaxes \<noteq> []" "1 \<le> i" "i \<le> length syntaxes"
  shows "constructor_loop syntaxes i fs =
           Ret () (fs @ concat (map syntax_factories (drop i syntaxes @ [syntaxes ! 0])))"
  using assms
proof (induction "length syntaxes - i" arbitrary: i fs)
  case 0
  then have "i = length syntaxes" by simp
  with 0 show ?case
    by (subst constructor_loop.simps) (simp add: raptor_syntaxes_enumerate_def register_syntax)
next
  case (Suc k)
  then have i: "i < length syntaxes" "i \<noteq> 0" by simp_all
  have "drop i syntaxes = syntaxes ! i # drop (Suc i) syntaxes" using i(1) by (rule Cons_nth_drop_Suc[symmetric])
  moreover have "constructor_loop syntaxes (Suc i) (fs @ syntax_factories (syntaxes ! i)) =
      Ret () ((fs @ syntax_factories (syntaxes ! i)) @
        concat (map syntax_factories (drop (Suc i) syntaxes @ [syntaxes ! 0])))"
    using Suc by (intro Suc.hyps(1)) simp_all
  ultimately show ?case using i
    by (subst constructor_loop.simps) (simp add: raptor_syntaxes_enumerate_def register_syntax)
qed

lemma constructor_registers:
  "librdf_parser_raptor_constructor syntaxes fs =
     (if syntaxes = [] then Undef
      else Ret () (fs @ concat (map syntax_factories (tl syntaxes @ [hd syntaxes]))))"
proof (cases syntaxes)
  case Nil
  then show ?thesis
    by (simp add: librdf_parser_raptor_constructor_def constructor_loop.simps raptor_syntaxes_enumerate_def)
next
  case (Cons d ds)
  then show ?thesis
    using constructor_loop_registers[of syntaxes 1 fs]
    by (simp add: librdf_parser_raptor_constructor_def drop_Suc)
qed

text \<open>
  C11.  The 20-byte \<open>intbuffer\<close> of \<open>librdf_parser_raptor_get_feature\<close>
  holds the decimal form of every 32-bit \<open>int\<close>: at most 11 characters
  (sign and ten digits) and the NUL, so the \<open>FIXME\<close> buffer never
  overflows for a count or feature value of the C type.
\<close>

theorem sprintf_intbuffer_int32:
  "sprintf_intbuffer (sint (v :: 32 word)) = Some (c_int_decimal (sint v)) \<and>
   length (c_int_decimal (sint v)) \<le> 11"
proof -
  have "- (2 ^ 31) \<le> sint v" "sint v < 2 ^ 31"
    using sint_ge[of v] sint_lt[of v] by simp_all
  then have "length (c_int_decimal (sint v)) \<le> 11" by (rule c_int_decimal_int32)
  then show ?thesis by (simp add: sprintf_intbuffer_def)
qed

text \<open>
  C36.  Asking a parser for the error-count feature returns the interned
  literal node of the decimal form of its error count (found in the
  literal table or made and registered there), when no allocation fails
  and the count is a C \<open>int\<close>.
\<close>

theorem get_feature_error_count:
  assumes "\<not> nodes_mutex w" "fails e = (\<lambda>_. False)" "cstr f = LIBRDF_PARSER_FEATURE_ERROR_COUNT"
    "- (2 ^ 31) \<le> errors pc" "errors pc < 2 ^ 31"
  shows "\<exists>q w'. librdf_parser_raptor_get_feature e rf p pc (Some f) w = Ret (Some q) w' \<and>
           hash_literal w' (node_encoding (Literal (literal_of (c_int_decimal (errors pc))
              (length (c_int_decimal (errors pc))) None 0 None))) = Some q"
proof -
  have l: "length (c_int_decimal (errors pc)) \<le> 11" using assms(4,5) by (rule c_int_decimal_int32)
  then have "length (c_int_decimal (errors pc)) < SIZE_MAX" by (simp add: SIZE_MAX_def)
  with assms(1,2) c_int_decimal_nul_free
  obtain q w' where "librdf_new_node_from_typed_literal e (c_int_decimal (errors pc)) None None w = Ret (Some q) w'"
      "hash_literal w' (node_encoding (Literal (literal_of (c_int_decimal (errors pc))
          (length (c_int_decimal (errors pc))) None 0 None))) = Some q"
    using typed_literal_interned by blast
  with assms(3) l show ?thesis
    by (auto simp: librdf_parser_raptor_get_feature_def count_literal_def sprintf_intbuffer_def)
qed

theorem get_feature_error_count_witness:
  "\<not> nodes_mutex (new_world (\<lambda>_. [])) \<and> fails (no_faults (\<lambda>_. 0)) = (\<lambda>_. False) \<and>
   cstr LIBRDF_PARSER_FEATURE_ERROR_COUNT = LIBRDF_PARSER_FEATURE_ERROR_COUNT \<and>
   - (2 ^ 31) \<le> errors \<lparr>nspace_prefixes = None, nspace_uris = None, errors = 3, warnings = 0, aborted = False\<rparr> \<and>
   errors \<lparr>nspace_prefixes = None, nspace_uris = None, errors = 3, warnings = 0, aborted = False\<rparr> < 2 ^ 31 \<and>
   (\<exists>q w'. librdf_parser_raptor_get_feature (no_faults (\<lambda>_. 0))
      \<lparr>raptor_feature_from_uri = \<lambda>_. -1, raptor_get_feature = \<lambda>_ _. 0,
       raptor_parser_set_feature_string = \<lambda>_ _ _. (0, ())\<rparr> ()
      \<lparr>nspace_prefixes = None, nspace_uris = None, errors = 3, warnings = 0, aborted = False\<rparr>
      (Some LIBRDF_PARSER_FEATURE_ERROR_COUNT) (new_world (\<lambda>_. [])) = Ret (Some q) w' \<and>
      hash_literal w' (node_encoding (Literal (literal_of (c_int_decimal 3) (length (c_int_decimal 3)) None 0 None)))
        = Some q)"
proof -
  have c: "cstr LIBRDF_PARSER_FEATURE_ERROR_COUNT = LIBRDF_PARSER_FEATURE_ERROR_COUNT"
    by (simp add: LIBRDF_PARSER_FEATURE_ERROR_COUNT_def bstr_def cstr_def)
  show ?thesis
    using get_feature_error_count[where w = "new_world (\<lambda>_. [])" and e = "no_faults (\<lambda>_. 0)"
        and f = LIBRDF_PARSER_FEATURE_ERROR_COUNT
        and pc = "\<lparr>nspace_prefixes = None, nspace_uris = None, errors = 3, warnings = 0, aborted = False\<rparr>"
        and rf = "\<lparr>raptor_feature_from_uri = \<lambda>_. -1, raptor_get_feature = \<lambda>_ _. 0,
          raptor_parser_set_feature_string = \<lambda>_ _ _. (0, ())\<rparr>" and p = "()"] c
    by (simp add: new_world_def librdf_init_node_def no_faults_def)
qed

text \<open>
  C23.  The module constructor registers a factory for every raptor
  syntax from the second on, then the default syntax 0 last, each
  \<open>rdfxml\<close> syntax preceded by its legacy name \<open>raptor\<close>; with no syntax
  at all it reads a NULL name.
\<close>

theorem parser_raptor_constructor_order:
  "librdf_parser_raptor_constructor syntaxes fs =
     (if syntaxes = [] then Undef
      else Ret () (fs @ concat (map syntax_factories (tl syntaxes @ [hd syntaxes]))))"
  by (rule constructor_registers)

lemma syntax_factories_names:
  "f \<in> set (syntax_factories d) \<Longrightarrow>
     factory_name f = syntax_name d \<or> (factory_name f = bstr ''raptor'' \<and> cstr (syntax_name d) = bstr ''rdfxml'')"
  by (auto simp: syntax_factories_def split: if_splits)

lemma init_parser_name:
  "parser_name (snd (librdf_parser_raptor_init e np name)) =
     (if cstr name = bstr ''raptor'' then bstr ''rdfxml'' else name)"
  by (simp add: librdf_parser_raptor_init_def Let_def split: option.split)

text \<open>
  C37.  Every factory the module constructor registers can be set up:
  \<open>librdf_parser_raptor_init\<close> on its name asks raptor for a parser of a
  syntax raptor enumerated (the legacy name \<open>raptor\<close> is mapped back to
  \<open>rdfxml\<close>, which is registered only when that syntax exists), provided
  no raptor syntax is itself called \<open>raptor\<close>.
\<close>

theorem registered_factories_init:
  assumes "librdf_parser_raptor_constructor syntaxes [] = Ret () fs" "f \<in> set fs"
    "\<forall>d\<in>set syntaxes. cstr (syntax_name d) \<noteq> bstr ''raptor''"
  shows "\<exists>d\<in>set syntaxes.
           cstr (parser_name (snd (librdf_parser_raptor_init e np (factory_name f)))) = cstr (syntax_name d)"
proof -
  have ne: "syntaxes \<noteq> []" and fs: "fs = concat (map syntax_factories (tl syntaxes @ [hd syntaxes]))"
    using assms(1) constructor_registers[of syntaxes "[]"] by (auto split: if_splits)
  have sub: "set (tl syntaxes @ [hd syntaxes]) \<subseteq> set syntaxes"
    using ne by (auto dest: list.set_sel(2))
  obtain d where "d \<in> set (tl syntaxes @ [hd syntaxes])" "f \<in> set (syntax_factories d)"
    using assms(2) fs by (auto simp del: append.simps)
  with sub have d: "d \<in> set syntaxes" "f \<in> set (syntax_factories d)" by auto
  have c: "cstr (bstr ''rdfxml'') = bstr ''rdfxml''" "cstr (bstr ''raptor'') = bstr ''raptor''"
    by (simp_all add: bstr_def cstr_def)
  from syntax_factories_names[OF d(2)] show ?thesis
  proof
    assume "factory_name f = syntax_name d"
    with d(1) assms(3) show ?thesis by (auto simp: init_parser_name)
  next
    assume "factory_name f = bstr ''raptor'' \<and> cstr (syntax_name d) = bstr ''rdfxml''"
    with d(1) c show ?thesis by (simp add: init_parser_name) (metis)
  qed
qed


theorem registered_factories_init_witness:
  "\<exists>d\<in>set [\<lparr>syntax_name = bstr ''rdfxml'', syntax_label = bstr ''RDF/XML'', mime_type = Some (bstr ''application/rdf+xml''), uri_string = None\<rparr>, \<lparr>syntax_name = bstr ''ntriples'', syntax_label = bstr ''N-Triples'', mime_type = Some (bstr ''text/plain''), uri_string = None\<rparr>].
      cstr (parser_name (snd (librdf_parser_raptor_init (no_faults (\<lambda>_. 0)) (\<lambda>_. Some ())
        (factory_name \<lparr>factory_name = bstr ''raptor'', factory_label = None, factory_mime_type = Some (bstr ''application/rdf+xml''), factory_uri_string = None\<rparr>)))) = cstr (syntax_name d)"
proof -
  have c: "librdf_parser_raptor_constructor [\<lparr>syntax_name = bstr ''rdfxml'', syntax_label = bstr ''RDF/XML'', mime_type = Some (bstr ''application/rdf+xml''), uri_string = None\<rparr>, \<lparr>syntax_name = bstr ''ntriples'', syntax_label = bstr ''N-Triples'', mime_type = Some (bstr ''text/plain''), uri_string = None\<rparr>] [] = Ret () (concat (map syntax_factories [\<lparr>syntax_name = bstr ''ntriples'', syntax_label = bstr ''N-Triples'', mime_type = Some (bstr ''text/plain''), uri_string = None\<rparr>, \<lparr>syntax_name = bstr ''rdfxml'', syntax_label = bstr ''RDF/XML'', mime_type = Some (bstr ''application/rdf+xml''), uri_string = None\<rparr>]))"
    by (simp add: constructor_registers)
  have f: "\<lparr>factory_name = bstr ''raptor'', factory_label = None, factory_mime_type = Some (bstr ''application/rdf+xml''), factory_uri_string = None\<rparr> \<in> set (concat (map syntax_factories [\<lparr>syntax_name = bstr ''ntriples'', syntax_label = bstr ''N-Triples'', mime_type = Some (bstr ''text/plain''), uri_string = None\<rparr>, \<lparr>syntax_name = bstr ''rdfxml'', syntax_label = bstr ''RDF/XML'', mime_type = Some (bstr ''application/rdf+xml''), uri_string = None\<rparr>]))"
    by (simp add: syntax_factories_def bstr_def cstr_def)
  have r: "\<forall>d\<in>set [\<lparr>syntax_name = bstr ''rdfxml'', syntax_label = bstr ''RDF/XML'', mime_type = Some (bstr ''application/rdf+xml''), uri_string = None\<rparr>, \<lparr>syntax_name = bstr ''ntriples'', syntax_label = bstr ''N-Triples'', mime_type = Some (bstr ''text/plain''), uri_string = None\<rparr>]. cstr (syntax_name d) \<noteq> bstr ''raptor''"
    by (simp add: bstr_def cstr_def)
  show ?thesis
    using registered_factories_init[OF c f r, of "no_faults (\<lambda>_. 0)" "\<lambda>_. Some ()"] by blast
qed


lemma iostream_error_loop:
  assumes "BUFLEN dvd length (io_rest ios)" "io_error ios"
    and ok: "\<forall>c sc. length c = BUFLEN \<longrightarrow> (\<exists>sc'. parse_chunk_deliver parse c False sc = Ret False sc')"
  shows "iostream_loop parse ios sc = Undef"
  using assms(1,2)
proof (induction "length (io_rest ios) div BUFLEN" arbitrary: ios sc)
  case 0
  then have "io_rest ios = []" by (auto simp: BUFLEN_def elim!: dvdE)
  with 0 show ?case
    by (subst iostream_loop.simps) (simp add: raptor_iostream_read_bytes_def size_t_of_int_def BUFLEN_def)
next
  case (Suc k)
  let ?c = "take BUFLEN (io_rest ios)" and ?ios' = "ios\<lparr>io_rest := drop BUFLEN (io_rest ios)\<rparr>"
  have len: "BUFLEN \<le> length (io_rest ios)" using Suc.hyps(2) by (auto simp: BUFLEN_def elim!: dvdE)
  then have lc: "length ?c = BUFLEN" by simp
  obtain sc' where p: "parse_chunk_deliver parse ?c False sc = Ret False sc'" using ok lc by blast
  have ne: "io_rest ios \<noteq> []" using len by (auto simp: BUFLEN_def)
  have ih: "iostream_loop parse ?ios' sc' = Undef"
  proof (rule Suc.hyps(1))
    show "k = length (io_rest ?ios') div BUFLEN"
      using Suc.hyps(2) len le_div_geq[of BUFLEN "length (io_rest ios)"] by (simp add: BUFLEN_def)
    show "BUFLEN dvd length (io_rest ?ios')" using Suc.prems(1) len by (simp add: dvd_diff_nat)
    show "io_error ?ios'" using Suc.prems(2) by simp
  qed
  have n: "nat (int BUFLEN mod 2 ^ 64) = BUFLEN" by (simp add: BUFLEN_def)
  have r: "raptor_iostream_read_bytes BUFLEN ios = (int BUFLEN, ?c, ?ios')"
    using ne len by (simp add: raptor_iostream_read_bytes_def min_def)
  have t: "take BUFLEN ?c = ?c" by simp
  show ?case using p r t ih n
    by (subst iostream_loop.simps) (simp add: size_t_of_int_def Let_def)
qed

lemma fread_short: "length s < RAPTOR_IO_BUFFER_LEN \<Longrightarrow>
    fread RAPTOR_IO_BUFFER_LEN \<lparr>f_rest = s, f_eof = False\<rparr> = (s, \<lparr>f_rest = [], f_eof = True\<rparr>)"
  by (simp add: fread_def)

text \<open>
  C38.  An iostream that reports a read error, after any number of full
  chunks the parser accepts, makes the raptor 1 iostream driver pass
  \<open>SIZE_MAX\<close> as the length of its 4096-byte buffer to the parser:
  undefined behaviour, where the code means to clear up and return NULL
  (its \<open>nread < 0\<close> test is on a \<open>size_t\<close>).
\<close>

theorem iostream_read_error_undefined:
  assumes "\<not> fails e A_context" "\<not> fails e A_list" "\<not> fails e A_sequence"
    "\<not> need_base_uri \<or> base_uri \<noteq> None" "start_parse p base_uri = (p1, False)"
    "BUFLEN dvd length (io_rest ios)" "io_error ios"
    "\<forall>c sc. length c = BUFLEN \<longrightarrow> (\<exists>sc'. parse_chunk_deliver parse c False sc = Ret False sc')"
  shows "librdf_parser_raptor_parse_iostream_as_stream e io parse start_parse need_base_uri p ios base_uri ps = Undef"
  using assms iostream_error_loop[OF assms(6-8)]
  by (auto simp: librdf_parser_raptor_parse_iostream_as_stream_def librdf_parser_raptor_parse_as_stream_common_def
      parse_as_stream_body_def parse_source_def)

theorem iostream_read_error_undefined_witness:
  "librdf_parser_raptor_parse_iostream_as_stream (no_faults (\<lambda>_. 0))
     \<lparr>uri_is_file = \<lambda>_. False, uri_to_filename = \<lambda>_. None, c_fopen = \<lambda>_. None, www_fetch = \<lambda>_. []\<rparr>
     (\<lambda>q c b. ((), [], False)) (\<lambda>q u. ((), False)) False ()
     \<lparr>io_rest = replicate 4096 0x3c, io_error = True\<rparr> None
     \<lparr>pworld = new_world (\<lambda>_. []), statements = [], bnode_hash = Map.empty\<rparr> = Undef"
proof -
  have ok: "\<forall>c sc. length c = BUFLEN \<longrightarrow>
      (\<exists>sc'. parse_chunk_deliver (\<lambda>q c b. ((), [], False)) c False sc = Ret False sc')"
    by (auto simp: parse_chunk_deliver_def on_ps_def)
  have d: "BUFLEN dvd length (io_rest \<lparr>io_rest = replicate 4096 (0x3c :: byte), io_error = True\<rparr>)"
    by (simp add: BUFLEN_def)
  show ?thesis
    using iostream_read_error_undefined[of "no_faults (\<lambda>_. 0)" False None "\<lambda>q u. ((), False)" "()" "()"
        "\<lparr>io_rest = replicate 4096 0x3c, io_error = True\<rparr>" "\<lambda>q c b. ((), [], False)"
        "\<lparr>uri_is_file = \<lambda>_. False, uri_to_filename = \<lambda>_. None, c_fopen = \<lambda>_. None, www_fetch = \<lambda>_. []\<rparr>"
        "\<lparr>pworld = new_world (\<lambda>_. []), statements = [], bnode_hash = Map.empty\<rparr>"] ok d
    by (simp add: no_faults_def)
qed


text \<open>
  C39.  Parsing a C string of less than one buffer and parsing a file with
  the same bytes give the same result: the same statements queued, the
  same first statement and the same raptor parser state, whenever the
  parse succeeds.  The string driver hands raptor its \<open>strlen\<close> bytes as
  the last chunk, as the file driver's single short read does.
\<close>

theorem string_stream_eq_file_stream:
  assumes "nul_free s" "length s < RAPTOR_IO_BUFFER_LEN" "fails e = (\<lambda>_. False)"
    "\<not> need_base_uri \<or> base_uri \<noteq> None" "start_parse p base_uri = (p1, False)"
    "parse p1 s True = (p2, calls, False)" "deliver calls (ps\<lparr>statements := []\<rparr>) = Ret () ps1"
  shows "\<exists>sc1 sc2. librdf_parser_raptor_parse_string_as_stream e io parse start_parse need_base_uri p s base_uri ps
                    = Ret (Some sc1) (sc_ps sc1) \<and>
           librdf_parser_raptor_parse_file_handle_as_stream e parse start_parse need_base_uri p
             \<lparr>f_rest = s, f_eof = False\<rparr> close base_uri ps = Ret (Some sc2) (sc_ps sc2) \<and>
           sc_ps sc1 = sc_ps sc2 \<and> current sc1 = current sc2 \<and> rdf_parser sc1 = rdf_parser sc2"
proof -
  have m: "mem_read s (strlen s) = s" using assms(1) by (simp add: nul_free_strlen mem_read_all)
  have rd: "fread RAPTOR_IO_BUFFER_LEN \<lparr>f_rest = s, f_eof = False\<rparr> = (s, \<lparr>f_rest = [], f_eof = True\<rparr>)"
    using assms(2) by (rule fread_short)
  show ?thesis
    using assms m rd
    by (auto simp: librdf_parser_raptor_parse_string_as_stream_def librdf_parser_raptor_parse_as_stream_common_def
        parse_as_stream_body_def parse_source_def parse_chunk_deliver_def on_ps_def
        librdf_parser_raptor_parse_file_handle_as_stream_def librdf_parser_raptor_get_next_statement_def
        get_next_loop.simps get_next_chunk_def sc_feof_def Let_def librdf_list_pop_def
        split: prod.splits)
qed


theorem string_stream_eq_file_stream_witness:
  "\<exists>sc1 sc2. librdf_parser_raptor_parse_string_as_stream (no_faults (\<lambda>_. 0)) \<lparr>uri_is_file = \<lambda>_. False, uri_to_filename = \<lambda>_. None, c_fopen = \<lambda>_. None, www_fetch = \<lambda>_. []\<rparr>
       (\<lambda>q c b. ((), [], False)) (\<lambda>q u. ((), False)) False () (bstr ''<a/>'') None \<lparr>pworld = new_world (\<lambda>_. []), statements = [], bnode_hash = Map.empty\<rparr> = Ret (Some sc1) (sc_ps sc1) \<and>
     librdf_parser_raptor_parse_file_handle_as_stream (no_faults (\<lambda>_. 0)) (\<lambda>q c b. ((), [], False))
       (\<lambda>q u. ((), False)) False () \<lparr>f_rest = bstr ''<a/>'', f_eof = False\<rparr> True None \<lparr>pworld = new_world (\<lambda>_. []), statements = [], bnode_hash = Map.empty\<rparr> = Ret (Some sc2) (sc_ps sc2) \<and>
     sc_ps sc1 = sc_ps sc2 \<and> current sc1 = current sc2 \<and> rdf_parser sc1 = rdf_parser sc2"
proof -
  have h: "nul_free (bstr ''<a/>'')" "length (bstr ''<a/>'') < RAPTOR_IO_BUFFER_LEN"
    by (simp_all add: bstr_def nul_free_def RAPTOR_IO_BUFFER_LEN_def)
  have d: "deliver [] (\<lparr>pworld = new_world (\<lambda>_. []), statements = [], bnode_hash = Map.empty\<rparr>\<lparr>statements := []\<rparr>) = Ret () \<lparr>pworld = new_world (\<lambda>_. []), statements = [], bnode_hash = Map.empty\<rparr>" by simp
  show ?thesis
    using string_stream_eq_file_stream[OF h, of "no_faults (\<lambda>_. 0)" False None "\<lambda>q u. ((), False)" "()" "()"
        "\<lambda>q c b. ((), [], False)" "()" "[]" "\<lparr>pworld = new_world (\<lambda>_. []), statements = [], bnode_hash = Map.empty\<rparr>" "\<lparr>pworld = new_world (\<lambda>_. []), statements = [], bnode_hash = Map.empty\<rparr>" "\<lparr>uri_is_file = \<lambda>_. False, uri_to_filename = \<lambda>_. None, c_fopen = \<lambda>_. None, www_fetch = \<lambda>_. []\<rparr>" True] h d
    by (simp add: no_faults_def)
qed

end
