(* ===== verification/Spec2Isabelle.thy ===== *)
theory Spec2Isabelle
  imports Typing TstoreStorage NodeOutput Concurrency Namespaces SelfTest ParserDrivers
begin

text \<open>
  \<^bold>\<open>A verification development of the librdf node core and two of its clients.\<close>

  The program.  \<open>src/src/rdf_node.c\<close> implements RDF nodes (resources,
  literals, blank nodes) as reference-counted values interned per world in
  three hash tables guarded by one mutex, a binary codec
  (\<open>librdf_node_encode\<close>/\<open>librdf_node_decode\<close>) whose encoding of a literal
  is also its intern key, and text output.  Two clients build statements
  of nodes: the raptor parser integration \<open>src/src/rdf_parser_raptor.c\<close>
  (statement and identifier callbacks, a statement stream fed chunk by
  chunk from a file, the namespaces seen) and the tstore storage backend
  \<open>src/librdf/rdf_storage_tstore.c\<close> (conversions between statements and
  \<open>rs_triple\<close>s, and the storage methods over the external rdfsql library).

  \<^bold>\<open>Theories and what they model.\<close>
  \<^item> \<open>Prelude\<close>: bytes and C strings (\<open>strlen\<close>, \<open>strncpy\<close>, \<open>strcpy\<close>
    at an offset, \<open>strncmp\<close>), the header byte expressions of the codec on
    \<open>8 word\<close>/\<open>32 word\<close>, and \<open>outcome\<close> = \<open>Ret\<close> value state | \<open>Blocked\<close>
    (a lock that is never released) | \<open>Undef\<close> (undefined behaviour: NULL or
    freed pointer, overflowing shift).
  \<^item> \<open>Node\<close>: \<open>struct librdf_node_s\<close> as a record with the tagged union
    \<open>node_value\<close>, and every read-only accessor of \<open>rdf_node.c\<close>
    (\<open>librdf_node_get_*\<close>, \<open>librdf_node_is_*\<close>, \<open>librdf_node_equals\<close>,
    \<open>librdf_node_get_li_ordinal\<close> with its \<open>atoi\<close>, \<open>librdf_node_get_digest\<close>,
    \<open>librdf_node_write\<close>).
  \<^item> \<open>Codec\<close>: \<open>librdf_node_encode\<close> (size query and fill, every
    failure, the \<open>M\<close>/\<open>N\<close> choice) against the byte layout of the format.
  \<^item> \<open>World\<close>: the world state (node heap, three hashes, mutex, blank
    identifier counter), \<open>librdf_init_node\<close>/\<open>librdf_finish_node\<close>, every
    constructor (\<open>librdf_new_node_from_*\<close>), \<open>librdf_new_node_from_node\<close> and
    \<open>librdf_free_node\<close>.  Allocation failure is an \<open>alloc_env\<close> oracle naming
    the sites that fail in a call, so each \<open>malloc\<close> branch is a branch.
  \<^item> \<open>Lifecycle\<close>: the consistency invariant \<open>world_inv\<close> of tables and
    heap, \<open>ctor_result\<close> (what any returning constructor does to the
    tables), \<open>node_op\<close>/\<open>run_op\<close> and the reachable worlds.
  \<^item> \<open>Decode\<close>: \<open>librdf_node_decode\<close>, one definition per tag.
  \<^item> \<open>Tstore\<close>: \<open>statement_from_rs_triple\<close>/\<open>statement_as_rs_triple\<close>.
  \<^item> \<open>Parser\<close>: the raptor 1 statement handler and the blank identifier
    handler; \<open>Stream\<close>: the parser stream context over a file, the chunk
    loop \<open>get_next_statement\<close>, the four stream callbacks and the stream
    constructor from a file handle.
  \<^item> \<open>Refine\<close>: an abstract per-key reference account that the usage
    counts refine.  \<open>Typing\<close>: the kinds of the handles operations return
    and the immutability of node values.
  \<^item> \<open>TstoreStorage\<close>: the tstore context, every method of its factory
    table (a \<open>tstore_call\<close> dispatch), the serialise and find streams.
  \<^item> \<open>NodeOutput\<close>: type names, \<open>librdf_node_to_(counted_)string\<close>,
    \<open>librdf_node_print\<close>, the Latin-1 accessor.
  \<^item> \<open>Concurrency\<close>: the \<open>WITH_THREADS\<close> build: constructor, copy and
    free as sequences of atomic steps (mutex, lookup, usage read/write) run
    by a multiset of threads under an inductive step relation.
  \<^item> \<open>Namespaces\<close>: the namespace handler's two parallel raptor
    sequences, their reset, the three queries, error/warning counters.
  \<^item> \<open>ParserDrivers\<close>: the rest of the raptor module: the stream
    drivers over a URI (web fetch and abort), a string and an iostream
    (\<open>librdf_parser_raptor_parse_as_stream_common\<close> and its wrappers, a
    \<open>file:\<close> URI handed to the file-handle driver), feature get/set with
    the \<open>sprintf\<close> buffer, the accept header, init and terminate, and the
    module constructor's loop over raptor's syntaxes.
  \<^item> \<open>SelfTest\<close>: the self-test \<open>main\<close> of \<open>rdf_node.c\<close> (under
    \<open>STANDALONE\<close>): its fixtures, \<open>check_node\<close>, its three blocks of
    constructor, encoder, decoder and free calls, an early \<open>return(1)\<close>
    as a value; its printing is not modelled.

  \<^bold>\<open>What is proved.\<close>  Codec: fill writes exactly the layout, the size
  query its length, too-large fields give 0, the \<open>M\<close>/\<open>N\<close> threshold;
  decoding the encoding of a live node gives it back (usage + 1) with the bytes
  consumed; malformed buffers give NULL and leave the world unchanged.
  Lifecycle: \<open>world_inv\<close> holds in every reachable world; usage counts
  refine the abstract reference account and balance acquisitions with
  releases over any run; constructors return nodes of their kind; values
  never change; \<open>n\<close> threads interning the same node under the mutex end
  with usage \<open>u0 + n\<close> in every interleaving.  Streams: every
  \<open>next\<close> of the parser stream decreases a lexicographic measure (the
  stream terminates); the tstore stream delivers the stored triples in
  order and drains its result before freeing it; an added statement reads
  back as itself.  Namespaces: the sequences refine the table of
  namespaces seen and the queries read it within bounds.  Output: type
  names within the table's bounds.  Parser module: the feature buffer
  holds every 32-bit count, the error-count feature is the interned
  literal of the count, the constructor registers every syntax with the
  default last and every registered name can be set up, a short string
  and a file of the same bytes give the same stream.
  Self-test: \<open>main\<close> returns 0 when nothing fails, each fixture byte
  string being exactly the encoder's output; the frees of a handle list
  return whenever no handle is listed more often than its usage count.

  \<^bold>\<open>Defects shown\<close> (each a theorem): the literal constructor returns with
  the mutex held when the encoder rejects the literal, and the parser
  handler then deadlocks; the copy constructor's unlocked increment loses
  an update against a concurrent free; the tstore object marker \<open>":"\<close>, the
  blank subject lost on the rs_triple trip, the leaked statement copy of
  \<open>find_statements\<close>; the legacy \<open>L\<close> decoder's always-zero XML flag; a
  literal of \<open>2^32\<close> bytes or more encoded with its length wrapped, and
  one of \<open>2^31\<close> bytes or more encoded and then undecodable (the decoder's
  shift into the sign bit of an \<open>int\<close>, by the C shift rule
  \<open>c_int_shl\<close>); the iostream driver's \<open>size_t\<close> error test, which
  turns a read error into a read past its buffer; the namespace sequences
  falling out of step when a push fails; the self-test passing a freed URI to a
  constructor (harmless only because the constructor refuses first).

  \<^bold>\<open>Bounds and fuel.\<close>  No fuel is used.  Loops are \<open>function\<close>s with a
  measure: the iostream loop on the unread bytes (it recurses only after a
  full \<open>BUFLEN\<close> = 4096 read), the constructor loop on the syntaxes not
  yet enumerated, the chunk loop of \<open>get_next_statement\<close> on the unread file
  bytes (each \<open>fread\<close> of up to \<open>RAPTOR_IO_BUFFER_LEN\<close> = 1024 bytes
  consumes at least one or sets end of file), the stream on the pair
  (unread bytes, twice the queued statements plus the current one), the
  drains of statement lists and rdfsql results on their length, the
  namespace loop on the remaining indices.  Machine integers are words
  where the code's width matters (header bytes, the 32-bit length).
  A C \<open>int\<close> shift is an \<open>int\<close> product guarded by \<open>INT_MAX\<close>
  (\<open>c_int_shl\<close>), a \<open>size_t\<close> is the \<open>int\<close> modulo \<open>2^64\<close>.
  Concurrency runs are finite lists of steps of finite programs.  The
  self-test's run is evaluated symbolically: the 100000-byte literal
  stays a \<open>replicate\<close> term, and only its first 32 encoded bytes are
  compared, as in the source.

  \<^bold>\<open>Not modelled.\<close>  The raptor parser itself (a parameter that reports
  the handler calls a chunk causes), the raptor 2 branches; the
  \<open>*_into_model\<close> drivers and the model branch of the statement handler
  (they hand statements to the model module, which is not under \<open>src/\<close>);
  factory registration itself (\<open>rdf_parser.c\<close>, an append here);
  the URI, hash, statement, digest and www modules beyond their interfaces
  (URIs are their strings); the printing of the self-test and its
  \<open>dump_node_as_C\<close> helper (output only); the deprecated static node
  iterator; logging.  The rdfsql
  library is modelled from its interface only (stored triples, result
  lists, fetch-all protocol).
\<close>

end
